(* ===== verification/Prelude.thy ===== *)
theory Prelude
  imports Complex_Main "HOL-Library.AList" "HOL-Library.Sublist" "HOL-Library.List_Lexorder"
    "HOL-Library.Char_ord" "HOL-Library.Multiset" "HOL-Library.Code_Target_Nat"
begin

text \<open>
  What every component of the portal shares: Python text and its methods, dynamically typed
  values, exceptions, dictionaries, list slices and stable sorts, and the outside world
  (uuids and the clock).

  Text.  A Python \<open>str\<close> is the list of bytes of its UTF-8 encoding.  The character classes
  (\<open>is_space\<close>, \<open>is_alnum\<close>, \<open>is_word\<close>) and the case maps are those of Python on ASCII; every
  byte above 127 counts as a caseless letter, which is what Python says of Hangul, the only
  other script the program uses.  The order on byte lists is the order on code points.

  Numbers.  Python floats (scores and ratios) are rationals here: rounding of the last binary
  digit is not modelled.
\<close>

section \<open>Characters and text\<close>

type_synonym pystr = string

named_theorems text_defs
named_theorems world_simps

definition code :: "char \<Rightarrow> nat" where
  "code c = of_char c"

definition is_upper :: "char \<Rightarrow> bool" where
  "is_upper c \<longleftrightarrow> 65 \<le> code c \<and> code c \<le> 90"

definition is_lower :: "char \<Rightarrow> bool" where
  "is_lower c \<longleftrightarrow> 97 \<le> code c \<and> code c \<le> 122"

definition is_digit :: "char \<Rightarrow> bool" where
  "is_digit c \<longleftrightarrow> 48 \<le> code c \<and> code c \<le> 57"

definition is_space :: "char \<Rightarrow> bool" where
  "is_space c \<longleftrightarrow> (9 \<le> code c \<and> code c \<le> 13) \<or> (28 \<le> code c \<and> code c \<le> 32)"

definition is_alnum :: "char \<Rightarrow> bool" where
  "is_alnum c \<longleftrightarrow> is_upper c \<or> is_lower c \<or> is_digit c \<or> 128 \<le> code c"

definition is_word :: "char \<Rightarrow> bool" where
  "is_word c \<longleftrightarrow> is_alnum c \<or> c = CHR ''_''"

definition to_lower :: "char \<Rightarrow> char" where
  "to_lower c = (if is_upper c then char_of (code c + 32) else c)"

definition to_upper :: "char \<Rightarrow> char" where
  "to_upper c = (if is_lower c then char_of (code c - 32) else c)"

definition lower :: "pystr \<Rightarrow> pystr" where
  "lower s = map to_lower s"

definition upper :: "pystr \<Rightarrow> pystr" where
  "upper s = map to_upper s"

lemmas [text_defs] = is_upper_def is_lower_def is_digit_def is_space_def is_alnum_def is_word_def
  to_lower_def to_upper_def lower_def upper_def

text \<open>UTF-8 encoding of a list of code points, used to write the source's Korean literals.\<close>

definition utf8_char :: "nat \<Rightarrow> pystr" where
  "utf8_char n =
     (if n < 0x80 then [char_of n]
      else if n < 0x800 then [char_of (0xC0 + n div 64), char_of (0x80 + n mod 64)]
      else if n < 0x10000 then
        [char_of (0xE0 + n div 4096), char_of (0x80 + n div 64 mod 64), char_of (0x80 + n mod 64)]
      else [char_of (0xF0 + n div 262144), char_of (0x80 + n div 4096 mod 64),
            char_of (0x80 + n div 64 mod 64), char_of (0x80 + n mod 64)])"

definition utf8 :: "nat list \<Rightarrow> pystr" where
  "utf8 ns = concat (map utf8_char ns)"

text \<open>\<open>len(s)\<close> counts code points: the bytes that do not continue one.\<close>

definition py_len :: "pystr \<Rightarrow> nat" where
  "py_len s = length (filter (\<lambda>c. \<not> (128 \<le> code c \<and> code c < 192)) s)"

lemma code_less [simp]: "code c < 256"
  by (simp add: code_def)

lemma code_char_of [simp]: "n < 256 \<Longrightarrow> code (char_of n) = n"
  by (simp add: code_def)

lemma code_inject: "code c = code d \<longleftrightarrow> c = d"
  by (simp add: code_def)

lemma py_len_append [simp]: "py_len (s @ t) = py_len s + py_len t"
  by (simp add: py_len_def)

lemma py_len_utf8_char:
  assumes n: "n < 0x110000"
  shows "py_len (utf8_char n) = 1"
proof -
  have "n div 64 < 32" if "n < 0x800" using that by (simp add: less_mult_imp_div_less)
  moreover have "n div 4096 < 16" if "n < 0x10000" using that by (simp add: less_mult_imp_div_less)
  moreover have "n div 262144 < 8" using n by (simp add: less_mult_imp_div_less)
  moreover have low: "128 + k mod 64 < 192" for k :: nat
    using mod_less_divisor [of 64 k] by linarith
  have "code (char_of (128 + k mod 64)) = 128 + k mod 64" for k :: nat
    using low [of k] by simp
  ultimately show ?thesis
    using low by (auto simp: py_len_def utf8_char_def)
qed

lemma py_len_utf8: "\<forall>n \<in> set ns. n < 0x110000 \<Longrightarrow> py_len (utf8 ns) = length ns"
proof (induction ns)
  case Nil
  show ?case by (simp add: utf8_def py_len_def)
next
  case (Cons n ns)
  then show ?case
    using py_len_utf8_char [of n] by (simp add: utf8_def)
qed

lemma is_space_not_word: "is_space c \<Longrightarrow> \<not> is_word c"
  by (auto simp: text_defs code_def)

lemma to_lower_idem [simp]: "to_lower (to_lower c) = to_lower c"
  by (auto simp: to_lower_def is_upper_def)

lemma lower_idem [simp]: "lower (lower s) = lower s"
  by (simp add: lower_def)

lemma lower_append [simp]: "lower (s @ t) = lower s @ lower t"
  by (simp add: lower_def)

lemma lower_Nil [simp]: "lower [] = []"
  by (simp add: lower_def)

lemma length_lower [simp]: "length (lower s) = length s"
  by (simp add: lower_def)

lemma lower_eq_Nil [simp]: "lower s = [] \<longleftrightarrow> s = []"
  by (simp add: lower_def)

subsection \<open>Trimming, searching, splitting and joining\<close>

definition lstrip :: "pystr \<Rightarrow> pystr" where
  "lstrip s = dropWhile is_space s"

definition rstrip :: "pystr \<Rightarrow> pystr" where
  "rstrip s = rev (dropWhile is_space (rev s))"

definition strip :: "pystr \<Rightarrow> pystr" where
  "strip s = rstrip (lstrip s)"

text \<open>\<open>s.rstrip(c)\<close> and \<open>s.strip(c)\<close> with one character given.\<close>

definition rstrip_char :: "char \<Rightarrow> pystr \<Rightarrow> pystr" where
  "rstrip_char c s = rev (dropWhile (\<lambda>d. d = c) (rev s))"

definition strip_char :: "char \<Rightarrow> pystr \<Rightarrow> pystr" where
  "strip_char c s = rstrip_char c (dropWhile (\<lambda>d. d = c) s)"

definition replace_char :: "char \<Rightarrow> char \<Rightarrow> pystr \<Rightarrow> pystr" where
  "replace_char a b s = map (\<lambda>c. if c = a then b else c) s"

text \<open>\<open>needle in hay\<close>, \<open>s.startswith(p)\<close>.\<close>

definition contains :: "pystr \<Rightarrow> pystr \<Rightarrow> bool" where
  "contains needle hay = sublist needle hay"

definition startswith :: "pystr \<Rightarrow> pystr \<Rightarrow> bool" where
  "startswith s p = prefix p s"

text \<open>The maximal runs of characters with a property: \<open>s.split()\<close> is the runs of
  non-spaces, \<open>re.findall(r"\w+", s)\<close> those of word characters.\<close>

fun runs_acc :: "(char \<Rightarrow> bool) \<Rightarrow> pystr \<Rightarrow> pystr \<Rightarrow> pystr list" where
  "runs_acc p acc [] = (if acc = [] then [] else [rev acc])"
| "runs_acc p acc (c # cs) =
     (if p c then runs_acc p (c # acc) cs
      else (if acc = [] then runs_acc p [] cs else rev acc # runs_acc p [] cs))"

definition runs :: "(char \<Rightarrow> bool) \<Rightarrow> pystr \<Rightarrow> pystr list" where
  "runs p s = runs_acc p [] s"

definition split_ws :: "pystr \<Rightarrow> pystr list" where
  "split_ws s = runs (\<lambda>c. \<not> is_space c) s"

text \<open>\<open>s.split(sep)\<close> with a one-character separator.\<close>

fun split_char :: "char \<Rightarrow> pystr \<Rightarrow> pystr list" where
  "split_char c [] = [[]]"
| "split_char c (d # s) =
     (if d = c then [] # split_char c s
      else (case split_char c s of [] \<Rightarrow> [[d]] | w # ws \<Rightarrow> (d # w) # ws))"

text \<open>\<open>s.rsplit(sep, 1)[-1]\<close>: what follows the last separator.\<close>

definition after_last :: "char \<Rightarrow> pystr \<Rightarrow> pystr" where
  "after_last c s = rev (takeWhile (\<lambda>d. d \<noteq> c) (rev s))"

fun join :: "pystr \<Rightarrow> pystr list \<Rightarrow> pystr" where
  "join sep [] = []"
| "join sep [s] = s"
| "join sep (s # t # ss) = s @ sep @ join sep (t # ss)"

lemma split_char_not_Nil [simp]: "split_char c s \<noteq> []"
  by (induction s) (auto split: list.splits)

lemma join_split_char: "join [c] (split_char c s) = s"
proof (induction s)
  case Nil
  show ?case by simp
next
  case (Cons d s)
  obtain w ws where ws: "split_char c s = w # ws" by (cases "split_char c s") auto
  with Cons.IH show ?case by (cases ws) auto
qed

lemma split_char_no_sep: "c \<notin> set s \<Longrightarrow> split_char c s = [s]"
  by (induction s) auto

lemma split_char_append: "c \<notin> set s \<Longrightarrow> split_char c (s @ c # t) = s # split_char c t"
  by (induction s) auto

lemma after_last_no_sep: "c \<notin> set (after_last c s)"
  by (auto simp: after_last_def dest: set_takeWhileD)

lemma strip_char_not_in:
  "strip_char c s = [] \<or> (hd (strip_char c s) \<noteq> c \<and> last (strip_char c s) \<noteq> c)"
proof (cases "strip_char c s = []")
  case False
  let ?t = "dropWhile (\<lambda>d. d = c) s"
  have ne: "dropWhile (\<lambda>d. d = c) (rev ?t) \<noteq> []"
    using False by (simp add: strip_char_def rstrip_char_def)
  have l: "last (strip_char c s) \<noteq> c"
    using hd_dropWhile [OF ne] ne by (simp add: strip_char_def rstrip_char_def last_rev)
  have "suffix (dropWhile (\<lambda>d. d = c) (rev ?t)) (rev ?t)"
    by (rule suffix_dropWhile)
  then have "prefix (strip_char c s) ?t"
    by (simp add: strip_char_def rstrip_char_def suffix_to_prefix)
  moreover have t: "?t \<noteq> []"
    using ne by (metis dropWhile.simps(1) rev.simps(1))
  ultimately have "hd (strip_char c s) = hd ?t"
    using False by (metis hd_append2 prefix_def)
  then show ?thesis
    using l t hd_dropWhile [OF t] by simp
qed simp

lemma find_append: "find P (xs @ ys) = (case find P xs of None \<Rightarrow> find P ys | Some x \<Rightarrow> Some x)"
  by (induction xs) auto

lemma set_runs_acc: "w \<in> set (runs_acc p acc s) \<Longrightarrow> list_all p acc \<Longrightarrow> list_all p w"
proof (induction p acc s rule: runs_acc.induct)
  case (1 p acc)
  then show ?case by (simp split: if_splits)
next
  case (2 p acc c cs)
  then show ?case by (cases "p c"; cases "acc = []") auto
qed

lemma runs_all: "w \<in> set (runs p s) \<Longrightarrow> list_all p w"
  unfolding runs_def by (drule set_runs_acc) (simp_all add: list_all_iff)

lemma runs_acc_nonempty: "w \<in> set (runs_acc p acc s) \<Longrightarrow> w \<noteq> []"
  by (induction p acc s rule: runs_acc.induct) (auto split: if_splits)

lemma runs_nonempty: "w \<in> set (runs p s) \<Longrightarrow> w \<noteq> []"
  unfolding runs_def by (rule runs_acc_nonempty)

section \<open>Numbers as text\<close>

definition digit_char :: "nat \<Rightarrow> char" where
  "digit_char d = char_of (48 + d)"

fun show_nat :: "nat \<Rightarrow> pystr" where
  "show_nat n = (if n < 10 then [digit_char n] else show_nat (n div 10) @ [digit_char (n mod 10)])"

declare show_nat.simps [simp del]

definition show_int :: "int \<Rightarrow> pystr" where
  "show_int i = (if i < 0 then CHR ''-'' # show_nat (nat (- i)) else show_nat (nat i))"

text \<open>\<open>f"{n:03d}"\<close>.\<close>

definition show_pad3 :: "nat \<Rightarrow> pystr" where
  "show_pad3 n = replicate (3 - length (show_nat n)) (CHR ''0'') @ show_nat n"

text \<open>
  \<open>int(s)\<close>: surrounding white space, a sign, digits, and single underscores between digits;
  \<open>None\<close> is the \<open>ValueError\<close>.
\<close>

fun read_digits :: "nat \<Rightarrow> bool \<Rightarrow> pystr \<Rightarrow> nat option" where
  "read_digits n digit_before [] = (if digit_before then Some n else None)"
| "read_digits n digit_before (c # cs) =
     (if is_digit c then read_digits (10 * n + (code c - 48)) True cs
      else if c = CHR ''_'' \<and> digit_before then read_digits n False cs
      else None)"

definition read_int :: "pystr \<Rightarrow> int option" where
  "read_int s =
     (case strip s of
        [] \<Rightarrow> None
      | c # cs \<Rightarrow>
          (if c = CHR ''-'' then map_option (\<lambda>n. - int n) (read_digits 0 False cs)
           else if c = CHR ''+'' then map_option int (read_digits 0 False cs)
           else map_option int (read_digits 0 False (c # cs))))"

lemma is_digit_digit_char [simp]: "d < 10 \<Longrightarrow> is_digit (digit_char d)"
  by (simp add: is_digit_def digit_char_def)

lemma code_digit_char [simp]: "d < 10 \<Longrightarrow> code (digit_char d) - 48 = d"
  by (simp add: digit_char_def)

lemma show_nat_not_Nil [simp]: "show_nat n \<noteq> []"
  by (subst show_nat.simps) simp

lemma show_nat_digits: "list_all is_digit (show_nat n)"
proof (induction n rule: show_nat.induct)
  case (1 n)
  then show ?case
    by (subst show_nat.simps) (auto simp: list_all_iff)
qed

lemma read_digits_append:
  "list_all is_digit s \<Longrightarrow> s \<noteq> [] \<Longrightarrow>
   read_digits n b (s @ t) = read_digits (foldl (\<lambda>m c. 10 * m + (code c - 48)) n s) True t"
proof (induction s arbitrary: n b)
  case Nil
  then show ?case by simp
next
  case (Cons c s)
  then show ?case by (cases "s = []") (auto simp: list_all_iff)
qed

lemma foldl_show_nat: "foldl (\<lambda>m c. 10 * m + (code c - 48)) 0 (show_nat n) = n"
proof (induction n rule: show_nat.induct)
  case (1 n)
  then show ?case
    by (cases "n < 10") (simp_all add: show_nat.simps [of n])
qed

lemma read_digits_show_nat: "read_digits 0 b (show_nat n) = Some n"
  using read_digits_append [of "show_nat n" 0 b "[]"] show_nat_digits [of n]
  by (simp add: foldl_show_nat)

lemma is_digit_not_space: "is_digit c \<Longrightarrow> \<not> is_space c"
  by (auto simp: is_digit_def is_space_def)

lemma strip_no_space: "list_all (\<lambda>c. \<not> is_space c) s \<Longrightarrow> strip s = s"
proof -
  assume s: "list_all (\<lambda>c. \<not> is_space c) s"
  have d: "dropWhile is_space t = t" if "list_all (\<lambda>c. \<not> is_space c) t" for t
    using that by (cases t) (simp_all add: list_all_iff)
  then show ?thesis
    using s d [of s] d [of "rev s"] by (simp add: strip_def lstrip_def rstrip_def list_all_iff)
qed

lemma strip_show_int: "strip (show_int i) = show_int i"
proof (rule strip_no_space)
  have "\<not> is_space (CHR ''-'')" by code_simp
  then show "list_all (\<lambda>c. \<not> is_space c) (show_int i)"
    using show_nat_digits is_digit_not_space by (auto simp: show_int_def list_all_iff)
qed

lemma show_nat_head: "show_nat n = c # cs \<Longrightarrow> is_digit c"
  using show_nat_digits [of n] by (simp add: list_all_iff)

lemma read_int_show_int [simp]: "read_int (show_int i) = Some i"
proof (cases "i < 0")
  case True
  then show ?thesis
    using strip_show_int [of i] by (simp add: read_int_def show_int_def read_digits_show_nat)
next
  case False
  obtain c cs where c: "show_nat (nat i) = c # cs" by (cases "show_nat (nat i)") auto
  then have d: "is_digit c" by (rule show_nat_head)
  have "\<not> is_digit (CHR ''-'')" "\<not> is_digit (CHR ''+'')" by code_simp+
  with d have "c \<noteq> CHR ''-''" "c \<noteq> CHR ''+''" by auto
  then show ?thesis
    using False c strip_show_int [of i] read_digits_show_nat [of False "nat i"]
    by (simp add: read_int_def show_int_def)
qed

section \<open>Exceptions, results and dynamically typed values\<close>

text \<open>A field of type \<open>Any\<close>, a JSON document or a query row holds a \<open>pyval\<close>;
  \<open>VTime\<close> is a \<open>datetime\<close> in microseconds since the epoch, UTC.\<close>

datatype pyval =
    VNone
  | VBool bool
  | VInt int
  | VNum rat
  | VStr pystr
  | VTime int
  | VList "pyval list"
  | VDict "(pystr \<times> pyval) list"

text \<open>The exceptions the program raises or lets through; \<open>HTTPException\<close> carries the
  status code and the detail.\<close>

datatype py_exn =
    KeyError pystr
  | ValueError pystr
  | PermissionError pystr
  | TypeError pystr
  | AttributeError pystr
  | RuntimeError pystr
  | IndexError pystr
  | HTTPException int pyval

type_synonym 'a result = "py_exn + 'a"

definition truthy :: "pyval \<Rightarrow> bool" where
  "truthy v = (case v of VNone \<Rightarrow> False | VBool b \<Rightarrow> b | VInt i \<Rightarrow> i \<noteq> 0 | VNum r \<Rightarrow> r \<noteq> 0
     | VStr s \<Rightarrow> s \<noteq> [] | VTime _ \<Rightarrow> True | VList vs \<Rightarrow> vs \<noteq> [] | VDict d \<Rightarrow> d \<noteq> [])"

text \<open>A list comprehension whose element may raise: the first exception ends it.\<close>

fun collect_results :: "('a \<Rightarrow> 'b result) \<Rightarrow> 'a list \<Rightarrow> 'b list result" where
  "collect_results f [] = Inr []"
| "collect_results f (x # xs) =
     (case f x of Inl err \<Rightarrow> Inl err
      | Inr y \<Rightarrow> (case collect_results f xs of Inl err \<Rightarrow> Inl err | Inr ys \<Rightarrow> Inr (y # ys)))"

lemma collect_results_Inr:
  "collect_results f xs = Inr ys \<Longrightarrow> map f xs = map Inr ys"
  by (induction xs arbitrary: ys) (auto split: sum.splits)

lemma collect_results_cong:
  "(\<And>x. x \<in> set xs \<Longrightarrow> f x = g x) \<Longrightarrow> collect_results f xs = collect_results g xs"
  by (induction xs) (auto split: sum.split)

lemma collect_results_Inl: "collect_results f xs = Inl err \<Longrightarrow> \<exists>x \<in> set xs. f x = Inl err"
  by (induction xs) (auto split: sum.splits)

lemma collect_results_total:
  "(\<And>x. x \<in> set xs \<Longrightarrow> f x = Inr (g x)) \<Longrightarrow> collect_results f xs = Inr (map g xs)"
  by (induction xs) simp_all

definition opt_str :: "pystr option \<Rightarrow> pyval" where
  "opt_str o_s = (case o_s of None \<Rightarrow> VNone | Some s \<Rightarrow> VStr s)"

definition str_list :: "pystr list \<Rightarrow> pyval" where
  "str_list ss = VList (map VStr ss)"

section \<open>Dictionaries, slices, sorting\<close>

text \<open>
  A \<open>dict\<close> is an association list in insertion order.  Storing under a key already there
  keeps its place and replaces the value; a new key goes to the end.
\<close>

type_synonym 'v dict = "(pystr \<times> 'v) list"

definition dict_get :: "('k \<times> 'v) list \<Rightarrow> 'k \<Rightarrow> 'v option" where
  "dict_get d k = map_of d k"

definition dict_set :: "'k \<Rightarrow> 'v \<Rightarrow> ('k \<times> 'v) list \<Rightarrow> ('k \<times> 'v) list" where
  "dict_set k v d = AList.update k v d"

text \<open>\<open>d.update(e)\<close>, and the dictionary built from a list of pairs.\<close>

fun dict_update :: "('k \<times> 'v) list \<Rightarrow> ('k \<times> 'v) list \<Rightarrow> ('k \<times> 'v) list" where
  "dict_update d [] = d"
| "dict_update d ((k, v) # e) = dict_update (dict_set k v d) e"

definition dict_of :: "('k \<times> 'v) list \<Rightarrow> ('k \<times> 'v) list" where
  "dict_of kvs = dict_update [] kvs"

definition dict_keys :: "('k \<times> 'v) list \<Rightarrow> 'k list" where
  "dict_keys d = map fst d"

definition dict_values :: "('k \<times> 'v) list \<Rightarrow> 'v list" where
  "dict_values d = map snd d"

definition dict_ok :: "('k \<times> 'v) list \<Rightarrow> bool" where
  "dict_ok d \<longleftrightarrow> distinct (map fst d)"

lemma dict_get_set: "dict_get (dict_set k v d) j = (if j = k then Some v else dict_get d j)"
  by (simp add: dict_get_def dict_set_def update_conv')

lemma dict_get_Nil [simp]: "dict_get [] k = None"
  by (simp add: dict_get_def)

lemma dict_ok_Nil [simp]: "dict_ok []"
  by (simp add: dict_ok_def)

lemma dict_ok_set [simp]: "dict_ok d \<Longrightarrow> dict_ok (dict_set k v d)"
  by (simp add: dict_ok_def dict_set_def distinct_update)

lemma dict_ok_update: "dict_ok d \<Longrightarrow> dict_ok (dict_update d e)"
  by (induction d e rule: dict_update.induct) auto

lemma dict_ok_of [simp]: "dict_ok (dict_of kvs)"
  by (simp add: dict_of_def dict_ok_update)

lemma keys_dict_set: "set (dict_keys (dict_set k v d)) = insert k (set (dict_keys d))"
  by (simp add: dict_keys_def dict_set_def flip: dom_map_of_conv_image_fst)
     (simp add: dom_map_of_conv_image_fst image_iff update_conv' flip: dom_map_of_conv_image_fst)

lemma dict_get_None_iff: "dict_get d k = None \<longleftrightarrow> k \<notin> set (dict_keys d)"
  by (simp add: dict_get_def dict_keys_def map_of_eq_None_iff)

lemma dict_get_Some_in: "dict_get d k = Some v \<Longrightarrow> (k, v) \<in> set d"
  by (simp add: dict_get_def map_of_SomeD)

lemma dict_get_is_Some_in: "dict_ok d \<Longrightarrow> (k, v) \<in> set d \<Longrightarrow> dict_get d k = Some v"
  by (simp add: dict_get_def dict_ok_def)

lemma dict_set_same: "dict_get d k = Some v \<Longrightarrow> dict_set k v d = d"
  unfolding dict_get_def dict_set_def
  by (induction d) (auto split: if_splits)

lemma dict_set_new: "dict_get d k = None \<Longrightarrow> dict_set k v d = d @ [(k, v)]"
  unfolding dict_get_def dict_set_def
  by (induction d) (auto split: if_splits)

lemma dict_update_disjoint: "distinct (map fst (d @ e)) \<Longrightarrow> dict_update d e = d @ e"
proof (induction d e rule: dict_update.induct)
  case (2 d k v e)
  then have "dict_set k v d = d @ [(k, v)]" by (intro dict_set_new) (simp add: dict_get_None_iff dict_keys_def)
  then show ?case using 2 by simp
qed simp

lemma length_dict_set:
  "length (dict_set k v d) = (if dict_get d k = None then Suc (length d) else length d)"
  unfolding dict_get_def dict_set_def
  by (induction d) (auto split: if_splits)

text \<open>\<open>xs[:n]\<close> and \<open>xs[i : i + n]\<close> for \<open>i\<close> not negative.\<close>

definition take_int :: "int \<Rightarrow> 'a list \<Rightarrow> 'a list" where
  "take_int n xs = (if 0 \<le> n then take (nat n) xs else take (length xs - nat (- n)) xs)"

definition slice :: "nat \<Rightarrow> nat \<Rightarrow> 'a list \<Rightarrow> 'a list" where
  "slice i n xs = take n (drop i xs)"

lemma set_take_int: "set (take_int n xs) \<subseteq> set xs"
  by (auto simp: take_int_def dest: in_set_takeD)

lemma length_take_int: "0 \<le> n \<Longrightarrow> length (take_int n xs) \<le> nat n"
  by (simp add: take_int_def)

lemma length_slice: "length (slice i n xs) \<le> n"
  by (simp add: slice_def)

lemma set_slice: "set (slice i n xs) \<subseteq> set xs"
  unfolding slice_def by (meson set_drop_subset set_take_subset subset_trans)

text \<open>\<open>xs.sort(key=f, reverse=True)\<close>: descending, and stable all the same.
  \<open>sorted(set(xs))\<close>: ascending without repetitions.\<close>

definition sort_desc :: "('a \<Rightarrow> 'k::{linorder, ordered_ab_group_add}) \<Rightarrow> 'a list \<Rightarrow> 'a list" where
  "sort_desc f xs = sort_key (\<lambda>x. - f x) xs"

definition sorted_set :: "'a::linorder list \<Rightarrow> 'a list" where
  "sorted_set xs = sort (remdups xs)"

lemma mset_sort_desc [simp]: "mset (sort_desc f xs) = mset xs"
  by (simp add: sort_desc_def)

lemma set_sort_desc [simp]: "set (sort_desc f xs) = set xs"
  by (simp add: sort_desc_def)

lemma sort_desc_sorted: "sorted_wrt (\<lambda>x y. f y \<le> f x) (sort_desc f xs)"
proof -
  have "sorted_wrt (\<lambda>x y. - f x \<le> - f y) (sort_desc f xs)"
    using sorted_sort_key [of "\<lambda>x. - f x" xs] by (simp add: sort_desc_def sorted_map)
  then show ?thesis by simp
qed

lemma sort_desc_stable: "filter (\<lambda>x. f x = k) (sort_desc f xs) = filter (\<lambda>x. f x = k) xs"
proof -
  have "filter (\<lambda>x. - f x = - k) (sort_key (\<lambda>x. - f x) xs) = filter (\<lambda>x. - f x = - k) xs"
    by (rule sort_key_stable)
  then show ?thesis by (simp add: sort_desc_def)
qed

lemma sorted_wrt_take: "sorted_wrt P xs \<Longrightarrow> sorted_wrt P (take n xs)"
  by (metis append_take_drop_id sorted_wrt_append)

lemma take_sort_desc_top:
  assumes "x \<in> set (take n (sort_desc f xs))" and "y \<in> set (drop n (sort_desc f xs))"
  shows "f y \<le> f x"
  using sort_desc_sorted [of f xs] assms
  by (metis append_take_drop_id sorted_wrt_append)

lemma set_sorted_set [simp]: "set (sorted_set xs) = set xs"
  by (simp add: sorted_set_def)

lemma sorted_sorted_set [simp]: "sorted (sorted_set xs)" "distinct (sorted_set xs)"
  by (simp_all add: sorted_set_def)

text \<open>When the keys of a list increase strictly, the descending sort reverses it.\<close>

lemma sort_desc_rev:
  assumes "sorted_wrt (<) (map f xs)"
  shows "sort_desc f xs = rev xs"
  unfolding sort_desc_def
proof (rule sort_key_inj_key_eq)
  show "mset xs = mset (rev xs)" by simp
  have "distinct (map f xs)" using assms by (simp add: strict_sorted_iff)
  then show "inj_on (\<lambda>x. - f x) (set xs)" by (auto simp: distinct_map inj_on_def)
  have "sorted_wrt (\<lambda>x y. f x < f y) xs" using assms by (simp add: sorted_wrt_map)
  then have "sorted_wrt (\<lambda>x y. f x \<le> f y) xs" by (rule sorted_wrt_mono_rel [rotated]) simp
  then show "sorted (map (\<lambda>x. - f x) (rev xs))"
    by (simp add: sorted_map sorted_wrt_rev)
qed

lemma sorted_wrt_filter_map: "sorted_wrt P (map f xs) \<Longrightarrow> sorted_wrt P (map f (filter Q xs))"
  by (simp add: sorted_wrt_map sorted_wrt_filter)

section \<open>The outside world\<close>

text \<open>
  \<open>uuid4()\<close> and \<open>datetime.now(timezone.utc)\<close> are answered by two streams the program does not
  control; a call reads the stream at its counter and advances it.  \<open>iso_text\<close> and
  \<open>stamp_text\<close> are the platform's renderings of a time (\<open>isoformat()\<close> and
  \<open>str(timestamp())\<close>), and \<open>str_other\<close> is \<open>str(v)\<close> of a float, a \<open>datetime\<close> or a container.
  The state of every component extends this record.
\<close>

record world =
  uuid_source :: "nat \<Rightarrow> pystr"
  clock_source :: "nat \<Rightarrow> int"
  iso_text :: "int \<Rightarrow> pystr"
  stamp_text :: "int \<Rightarrow> pystr"
  str_other :: "pyval \<Rightarrow> pystr"
  uuid_tick :: nat
  clock_tick :: nat

definition uuid4 :: "'s world_scheme \<Rightarrow> pystr \<times> 's world_scheme" where
  "uuid4 w = (uuid_source w (uuid_tick w), w\<lparr>uuid_tick := Suc (uuid_tick w)\<rparr>)"

definition now :: "'s world_scheme \<Rightarrow> int \<times> 's world_scheme" where
  "now w = (clock_source w (clock_tick w), w\<lparr>clock_tick := Suc (clock_tick w)\<rparr>)"

definition py_str :: "'s world_scheme \<Rightarrow> pyval \<Rightarrow> pystr" where
  "py_str w v = (case v of VNone \<Rightarrow> ''None'' | VBool b \<Rightarrow> (if b then ''True'' else ''False'')
     | VInt i \<Rightarrow> show_int i | VStr s \<Rightarrow> s | _ \<Rightarrow> str_other w v)"

text \<open>Two states whose outside worlds are the same machine, possibly later.\<close>

definition same_sources :: "'s world_scheme \<Rightarrow> 't world_scheme \<Rightarrow> bool" where
  "same_sources w v \<longleftrightarrow> uuid_source v = uuid_source w \<and> clock_source v = clock_source w
     \<and> iso_text v = iso_text w \<and> stamp_text v = stamp_text w \<and> str_other v = str_other w
     \<and> uuid_tick w \<le> uuid_tick v \<and> clock_tick w \<le> clock_tick v"

lemma same_sources_refl [simp]: "same_sources w w"
  by (simp add: same_sources_def)

lemma same_sources_trans [trans]: "same_sources u v \<Longrightarrow> same_sources v w \<Longrightarrow> same_sources u w"
  by (simp add: same_sources_def)

text \<open>One machine to evaluate examples on: uuids \<open>"0"\<close>, \<open>"1"\<close>, ... and a clock of one
  microsecond a reading.\<close>

definition machine :: world where
  "machine = \<lparr>uuid_source = show_nat, clock_source = int, iso_text = show_int, stamp_text = show_int,
     str_other = (\<lambda>_. []), uuid_tick = 0, clock_tick = 0\<rparr>"

end
