(* ===== verification/Contracts.thy ===== *)
theory Contracts
  imports Prelude
begin

text \<open>
  The contracts of \<open>src/sdp_core/contracts.py\<close>: the pydantic models as records, their score
  computations and their field constraints.

  A model built from a dictionary remembers which fields were given (\<open>model_fields_set\<close>), and
  \<open>model_dump(exclude_unset=True)\<close> leaves the others out.  The schema history depends on it for
  the two defaulted fields of a column, so the record keeps a flag for each
  (\<open>col_quality_issues_set\<close>, \<open>col_pii_set\<close>); a mapping keeps the names that were given
  (\<open>map_fields_set\<close>), which the audit record of a patch shows.
\<close>

section \<open>Models\<close>

record column_metadata =
  col_name :: pystr
  col_datatype :: pystr
  col_nullable_ratio :: rat
  col_distinct_ratio :: rat
  col_quality_issues :: "pystr list"
  col_pii :: bool
  col_quality_issues_set :: bool
  col_pii_set :: bool

record dataset_distribution =
  dist_id :: pystr
  dist_format :: pystr
  dist_endpoint :: pystr

definition status_APPROVED :: pystr where
  "status_APPROVED = ''approved''"

definition status_PROPOSED :: pystr where
  "status_PROPOSED = ''proposed''"

definition status_DEPRECATED :: pystr where
  "status_DEPRECATED = ''deprecated''"

record business_mapping =
  map_concept :: pystr
  map_status :: pystr
  map_source :: "pystr option"
  map_steward :: "pystr option"
  map_approved_at :: "int option"
  map_fields_set :: "pystr list"

record dataset =
  ds_id :: pystr
  ds_tenant_id :: pystr
  ds_title :: pystr
  ds_description :: pystr
  ds_owner :: pystr
  ds_steward :: pystr
  ds_domain :: pystr
  ds_source_system :: pystr
  ds_sensitivity :: pystr
  ds_update_frequency :: pystr
  ds_quality_score :: rat
  ds_freshness_score :: rat
  ds_tags :: "pystr list"
  ds_terms :: "pystr list"
  ds_license :: pystr
  ds_related_datasets :: "pystr list"
  ds_schema :: "column_metadata list"
  ds_distributions :: "dataset_distribution list"
  ds_mappings :: "business_mapping list"
  ds_lineage_inputs :: "pystr list"
  ds_lineage_outputs :: "pystr list"
  ds_completeness_score :: rat
  ds_recommended_score :: rat
  ds_version :: pystr
  ds_schema_version :: pystr
  ds_status :: pystr
  ds_created_at :: int
  ds_updated_at :: int
  ds_profile :: "pyval dict"

record policy_decision =
  pd_subject :: pystr
  pd_resource :: pystr
  pd_action :: pystr
  pd_effect :: pystr
  pd_decision_id :: pystr
  pd_obligations :: "pyval dict"
  pd_reason :: pystr

record actor_context =
  ac_subject :: pystr
  ac_tenant_id :: pystr
  ac_roles :: "pystr list"

record ontology_patch =
  op_id :: pystr
  op_concept :: pystr
  op_requestor :: pystr
  op_suggestion :: pystr
  op_confidence :: rat
  op_status :: pystr
  op_created_at :: int
  op_reviewed_by :: "pystr option"
  op_reviewed_at :: "int option"
  op_review_comment :: "pystr option"

record query_draft_request =
  qd_question :: pystr
  qd_user :: pystr
  qd_purpose :: pystr
  qd_dataset_id :: pystr
  qd_group_by :: "pystr option"
  qd_date_window_days :: int
  qd_columns :: "pystr list option"
  qd_row_limit :: int
  qd_timeout_ms :: int

record query_execution_request =
  qe_language :: pystr
  qe_user :: pystr
  qe_purpose :: pystr
  qe_dataset_ids :: "pystr list"
  qe_query :: pystr
  qe_dry_run :: bool

record query_execution_response =
  qr_request_id :: pystr
  qr_dataset_id :: pystr
  qr_query_id :: pystr
  qr_policy_decision_id :: pystr
  qr_status :: pystr
  qr_row_count :: int
  qr_columns :: "pystr list"
  qr_rows :: "pyval dict list"
  qr_execution :: "pyval dict"
  qr_warnings :: "pystr list"

record audit_event =
  ev_id :: pystr
  ev_actor :: pystr
  ev_action :: pystr
  ev_resource :: pystr
  ev_result :: pystr
  ev_decision_id :: "pystr option"
  ev_reason :: pystr
  ev_details :: "pyval dict"
  ev_created_at :: int

record dataset_create_request =
  cr_id :: "pystr option"
  cr_tenant_id :: pystr
  cr_title :: pystr
  cr_description :: pystr
  cr_owner :: pystr
  cr_steward :: pystr
  cr_domain :: pystr
  cr_source_system :: pystr
  cr_sensitivity :: pystr
  cr_update_frequency :: pystr
  cr_quality_score :: rat
  cr_freshness_score :: rat
  cr_tags :: "pystr list"
  cr_terms :: "pystr list"
  cr_related_datasets :: "pystr list"
  cr_schema :: "column_metadata list"
  cr_distributions :: "dataset_distribution list"
  cr_mappings :: "business_mapping list"
  cr_profile :: "pyval dict"

text \<open>A patch field is unset (\<open>None\<close>), an explicit null (\<open>Some None\<close>) or a value.\<close>

type_synonym 'a patch_field = "'a option option"

record dataset_patch_request =
  pr_title :: "pystr patch_field"
  pr_description :: "pystr patch_field"
  pr_steward :: "pystr patch_field"
  pr_domain :: "pystr patch_field"
  pr_source_system :: "pystr patch_field"
  pr_sensitivity :: "pystr patch_field"
  pr_update_frequency :: "pystr patch_field"
  pr_quality_score :: "rat patch_field"
  pr_freshness_score :: "rat patch_field"
  pr_tags :: "pystr list patch_field"
  pr_terms :: "pystr list patch_field"
  pr_related_datasets :: "pystr list patch_field"
  pr_schema :: "column_metadata list patch_field"
  pr_lineage_inputs :: "pystr list patch_field"
  pr_lineage_outputs :: "pystr list patch_field"
  pr_mappings :: "business_mapping list patch_field"
  pr_profile :: "pyval dict patch_field"

section \<open>Scores\<close>

text \<open>\<open>round(x, n)\<close>: half goes to the even neighbour.\<close>

definition round_half_even :: "rat \<Rightarrow> int" where
  "round_half_even x =
     (let f = \<lfloor>x\<rfloor>; d = x - of_int f
      in if d < 1/2 then f else if 1/2 < d then f + 1 else if even f then f else f + 1)"

definition py_round :: "rat \<Rightarrow> nat \<Rightarrow> rat" where
  "py_round x n = of_int (round_half_even (x * 10 ^ n)) / 10 ^ n"

definition count_true :: "bool list \<Rightarrow> nat" where
  "count_true bs = length (filter (\<lambda>b. b) bs)"

definition metadata_completeness :: "dataset \<Rightarrow> rat" where
  "metadata_completeness ds =
     (let required_fields =
        [ds_owner ds \<noteq> [], ds_steward ds \<noteq> [], ds_title ds \<noteq> [], ds_description ds \<noteq> [],
         ds_sensitivity ds \<noteq> [], ds_update_frequency ds \<noteq> [], ds_source_system ds \<noteq> []]
      in of_nat (count_true required_fields) / of_nat (length required_fields))"

definition metadata_recommendation_score :: "dataset \<Rightarrow> rat" where
  "metadata_recommendation_score ds =
     (let recommended_fields =
        [ds_owner ds \<noteq> [], ds_steward ds \<noteq> [], ds_title ds \<noteq> [], ds_description ds \<noteq> [],
         ds_sensitivity ds \<noteq> [], ds_update_frequency ds \<noteq> [], ds_source_system ds \<noteq> [],
         ds_domain ds \<noteq> [], ds_license ds \<noteq> [], ds_tags ds \<noteq> [], ds_terms ds \<noteq> [],
         ds_schema ds \<noteq> [], ds_distributions ds \<noteq> [], ds_lineage_inputs ds \<noteq> [],
         ds_profile ds \<noteq> [], True, True]
      in of_nat (count_true recommended_fields) / of_nat (length recommended_fields))"

definition recompute_scores :: "dataset \<Rightarrow> dataset" where
  "recompute_scores ds =
     (let required_total = 11;
          scored = count_true
            [ds_owner ds \<noteq> [], ds_steward ds \<noteq> [], ds_title ds \<noteq> [], ds_description ds \<noteq> [],
             ds_sensitivity ds \<noteq> [], ds_source_system ds \<noteq> [], ds_update_frequency ds \<noteq> [],
             ds_domain ds \<noteq> [], ds_tags ds \<noteq> [], ds_schema ds \<noteq> [], ds_distributions ds \<noteq> []]
      in ds\<lparr>ds_completeness_score := py_round (of_nat scored / required_total) 3,
            ds_recommended_score := py_round (metadata_recommendation_score ds) 3\<rparr>)"

lemma round_half_even_bounds: "x - 1/2 \<le> of_int (round_half_even x)"
  "of_int (round_half_even x) \<le> x + 1/2"
  unfolding round_half_even_def Let_def
  by (auto simp: algebra_simps; linarith)+

lemma round_half_even_of_int [simp]: "round_half_even (of_int n) = n"
  by (simp add: round_half_even_def)

lemma round_half_even_unique: "\<bar>x - of_int n\<bar> < 1/2 \<Longrightarrow> round_half_even x = n"
  using round_half_even_bounds [of x] by linarith

lemma py_round_bounds: "\<bar>py_round x n - x\<bar> \<le> 1 / (2 * 10 ^ n)"
proof -
  have e: "py_round x n - x = (of_int (round_half_even (x * 10 ^ n)) - x * 10 ^ n) / 10 ^ n"
    by (simp add: py_round_def diff_divide_distrib)
  have "\<bar>of_int (round_half_even (x * 10 ^ n)) - x * 10 ^ n\<bar> \<le> (1/2 :: rat)"
    using round_half_even_bounds [of "x * 10 ^ n"] by linarith
  then have "\<bar>of_int (round_half_even (x * 10 ^ n)) - x * 10 ^ n\<bar> / 10 ^ n \<le> (1/2 :: rat) / 10 ^ n"
    by (rule divide_right_mono) simp
  then show ?thesis
    by (simp add: e abs_divide)
qed

lemma count_true_le: "count_true bs \<le> length bs"
  by (simp add: count_true_def)

lemma count_true_all: "count_true bs = length bs \<longleftrightarrow> list_all (\<lambda>b. b) bs"
  using filter_id_conv length_filter_less
  by (metis count_true_def length_filter_conv_card list_all_iff nat_neq_iff)

section \<open>Dumps and validation\<close>

text \<open>\<open>model_dump()\<close> of the nested models, and the dump of a column without the fields that
  were not given.\<close>

definition column_dump :: "column_metadata \<Rightarrow> pyval dict" where
  "column_dump c =
     [(''name'', VStr (col_name c)), (''datatype'', VStr (col_datatype c)),
      (''nullable_ratio'', VNum (col_nullable_ratio c)),
      (''distinct_ratio'', VNum (col_distinct_ratio c)),
      (''quality_issues'', str_list (col_quality_issues c)), (''pii'', VBool (col_pii c))]"

definition column_dump_exclude_unset :: "column_metadata \<Rightarrow> pyval dict" where
  "column_dump_exclude_unset c =
     [(''name'', VStr (col_name c)), (''datatype'', VStr (col_datatype c)),
      (''nullable_ratio'', VNum (col_nullable_ratio c)),
      (''distinct_ratio'', VNum (col_distinct_ratio c))]
     @ (if col_quality_issues_set c then [(''quality_issues'', str_list (col_quality_issues c))] else [])
     @ (if col_pii_set c then [(''pii'', VBool (col_pii c))] else [])"

definition mapping_dump :: "business_mapping \<Rightarrow> pyval dict" where
  "mapping_dump m =
     [(''concept'', VStr (map_concept m)), (''status'', VStr (map_status m)),
      (''source'', opt_str (map_source m)), (''steward'', opt_str (map_steward m)),
      (''approved_at'', (case map_approved_at m of None \<Rightarrow> VNone | Some t \<Rightarrow> VTime t))]"

definition mapping_dump_exclude_unset :: "business_mapping \<Rightarrow> pyval dict" where
  "mapping_dump_exclude_unset m = filter (\<lambda>(k, _). k \<in> set (map_fields_set m)) (mapping_dump m)"

definition distribution_dump :: "dataset_distribution \<Rightarrow> pyval dict" where
  "distribution_dump d =
     [(''id'', VStr (dist_id d)), (''format'', VStr (dist_format d)),
      (''endpoint'', VStr (dist_endpoint d))]"

definition dataset_dump :: "dataset \<Rightarrow> pyval dict" where
  "dataset_dump ds =
     [(''id'', VStr (ds_id ds)), (''tenant_id'', VStr (ds_tenant_id ds)),
      (''title'', VStr (ds_title ds)), (''description'', VStr (ds_description ds)),
      (''owner'', VStr (ds_owner ds)), (''steward'', VStr (ds_steward ds)),
      (''domain'', VStr (ds_domain ds)), (''source_system'', VStr (ds_source_system ds)),
      (''sensitivity'', VStr (ds_sensitivity ds)),
      (''update_frequency'', VStr (ds_update_frequency ds)),
      (''quality_score'', VNum (ds_quality_score ds)),
      (''freshness_score'', VNum (ds_freshness_score ds)),
      (''tags'', str_list (ds_tags ds)), (''terms'', str_list (ds_terms ds)),
      (''license'', VStr (ds_license ds)),
      (''related_datasets'', str_list (ds_related_datasets ds)),
      (''schema'', VList (map (\<lambda>c. VDict (column_dump c)) (ds_schema ds))),
      (''distributions'', VList (map (\<lambda>d. VDict (distribution_dump d)) (ds_distributions ds))),
      (''mappings'', VList (map (\<lambda>m. VDict (mapping_dump m)) (ds_mappings ds))),
      (''lineage_inputs'', str_list (ds_lineage_inputs ds)),
      (''lineage_outputs'', str_list (ds_lineage_outputs ds)),
      (''completeness_score'', VNum (ds_completeness_score ds)),
      (''recommended_score'', VNum (ds_recommended_score ds)),
      (''version'', VStr (ds_version ds)), (''schema_version'', VStr (ds_schema_version ds)),
      (''status'', VStr (ds_status ds)),
      (''created_at'', VTime (ds_created_at ds)), (''updated_at'', VTime (ds_updated_at ds)),
      (''profile'', VDict (ds_profile ds))]"

definition decision_dump :: "policy_decision \<Rightarrow> pyval dict" where
  "decision_dump d =
     [(''subject'', VStr (pd_subject d)), (''resource'', VStr (pd_resource d)),
      (''action'', VStr (pd_action d)), (''effect'', VStr (pd_effect d)),
      (''decision_id'', VStr (pd_decision_id d)), (''obligations'', VDict (pd_obligations d)),
      (''reason'', VStr (pd_reason d))]"

text \<open>
  The constraints the models declare with \<open>Field(ge=0, le=1)\<close>.  Pydantic checks them when a
  model is built from data and raises its \<open>ValidationError\<close>, a \<open>ValueError\<close>, whose text is not
  modelled.
\<close>

definition in_unit :: "rat \<Rightarrow> bool" where
  "in_unit r \<longleftrightarrow> 0 \<le> r \<and> r \<le> 1"

definition column_valid :: "column_metadata \<Rightarrow> bool" where
  "column_valid c \<longleftrightarrow> in_unit (col_nullable_ratio c) \<and> in_unit (col_distinct_ratio c)"

definition dataset_valid :: "dataset \<Rightarrow> bool" where
  "dataset_valid ds \<longleftrightarrow> in_unit (ds_quality_score ds) \<and> in_unit (ds_freshness_score ds)
     \<and> list_all column_valid (ds_schema ds)"

definition create_request_valid :: "dataset_create_request \<Rightarrow> bool" where
  "create_request_valid r \<longleftrightarrow> in_unit (cr_quality_score r) \<and> in_unit (cr_freshness_score r)
     \<and> list_all column_valid (cr_schema r)"

definition draft_request_valid :: "query_draft_request \<Rightarrow> bool" where
  "draft_request_valid r \<longleftrightarrow> 1 \<le> qd_row_limit r \<and> qd_row_limit r \<le> 5000
     \<and> 500 \<le> qd_timeout_ms r \<and> qd_timeout_ms r \<le> 120000"

definition execution_request_valid :: "query_execution_request \<Rightarrow> bool" where
  "execution_request_valid r \<longleftrightarrow> qe_language r \<noteq> [] \<and> qe_dataset_ids r \<noteq> [] \<and> qe_query r \<noteq> []"

definition validation_error :: py_exn where
  "validation_error = ValueError ''validation error''"

text \<open>
  \<open>Dataset.model_validate(data)\<close> for \<open>data\<close> a full dump: the nested columns are rebuilt from
  dictionaries with every field present.  A column that comes from a patch keeps the fields
  the patch gave, so the flags of the new schema are passed in.
\<close>

definition touch_column :: "column_metadata \<Rightarrow> column_metadata" where
  "touch_column c = c\<lparr>col_quality_issues_set := True, col_pii_set := True\<rparr>"

definition model_validate :: "dataset \<Rightarrow> dataset result" where
  "model_validate ds = (if dataset_valid ds then Inr ds else Inl validation_error)"

lemma model_validate_Inr [simp]: "model_validate ds = Inr x \<longleftrightarrow> dataset_valid ds \<and> x = ds"
  by (auto simp: model_validate_def)

lemma column_dump_touch: "column_dump_exclude_unset (touch_column c) = column_dump c"
  by (simp add: column_dump_exclude_unset_def column_dump_def touch_column_def)

lemma touch_column_simps [simp]:
  "col_name (touch_column c) = col_name c" "col_datatype (touch_column c) = col_datatype c"
  "col_pii (touch_column c) = col_pii c" "column_valid (touch_column c) = column_valid c"
  "touch_column (touch_column c) = touch_column c" "column_dump (touch_column c) = column_dump c"
  by (simp_all add: touch_column_def column_valid_def column_dump_def)

lemma metadata_completeness_unit: "in_unit (metadata_completeness ds)"
proof -
  define bs where "bs = [ds_owner ds \<noteq> [], ds_steward ds \<noteq> [], ds_title ds \<noteq> [],
    ds_description ds \<noteq> [], ds_sensitivity ds \<noteq> [], ds_update_frequency ds \<noteq> [],
    ds_source_system ds \<noteq> []]"
  have "count_true bs \<le> 7" using count_true_le [of bs] by (simp add: bs_def)
  then show ?thesis
    unfolding in_unit_def metadata_completeness_def bs_def [symmetric] Let_def
    by (simp add: bs_def)
qed

lemma recompute_scores_fields [simp]:
  "ds_id (recompute_scores ds) = ds_id ds"
  "ds_tenant_id (recompute_scores ds) = ds_tenant_id ds"
  "ds_version (recompute_scores ds) = ds_version ds"
  "ds_schema_version (recompute_scores ds) = ds_schema_version ds"
  "ds_status (recompute_scores ds) = ds_status ds"
  "ds_schema (recompute_scores ds) = ds_schema ds"
  "ds_sensitivity (recompute_scores ds) = ds_sensitivity ds"
  "dataset_valid (recompute_scores ds) = dataset_valid ds"
  by (simp_all add: recompute_scores_def Let_def dataset_valid_def)

lemma recompute_scores_idem: "recompute_scores (recompute_scores ds) = recompute_scores ds"
  by (simp add: recompute_scores_def Let_def metadata_recommendation_score_def)

end
