(* ===== verification/Evidence.thy ===== *)
theory Evidence
  imports Contracts
begin

text \<open>
  The evidence stores of \<open>src/sdp_core/stores.py\<close> and the module \<open>src/sdp/evidence.py\<close> that
  picks one of them or the in-process log.

  A table is the list of its rows.  SQLite's \<open>INSERT OR REPLACE\<close> deletes the row with the same
  primary key and adds the new one at the end; Postgres' \<open>ON CONFLICT DO UPDATE\<close> changes it in
  place.  \<open>SELECT ... ORDER BY t DESC LIMIT n\<close> sorts the rows and cuts; SQL leaves the order of
  rows with equal times open, here they keep the order of the table.  The JSON text of a payload
  is not modelled: a payload is the value itself.
\<close>

section \<open>Tables\<close>

definition insert_or_replace :: "('r \<Rightarrow> 'k) \<Rightarrow> 'r \<Rightarrow> 'r list \<Rightarrow> 'r list" where
  "insert_or_replace key row rows = filter (\<lambda>r. key r \<noteq> key row) rows @ [row]"

fun insert_on_conflict_update :: "('r \<Rightarrow> 'k) \<Rightarrow> 'r \<Rightarrow> 'r list \<Rightarrow> 'r list" where
  "insert_on_conflict_update key row [] = [row]"
| "insert_on_conflict_update key row (r # rows) =
     (if key r = key row then row # rows else r # insert_on_conflict_update key row rows)"

definition select_by_key :: "('r \<Rightarrow> 'k) \<Rightarrow> 'k \<Rightarrow> 'r list \<Rightarrow> 'r option" where
  "select_by_key key k rows = find (\<lambda>r. key r = k) rows"

definition select_latest ::
  "('r \<Rightarrow> pystr) \<Rightarrow> ('r \<Rightarrow> int) \<Rightarrow> pystr option \<Rightarrow> nat \<Rightarrow> 'r list \<Rightarrow> 'r list" where
  "select_latest resource_of time_of resource limit rows =
     take limit (sort_desc time_of
       (case resource of
          None \<Rightarrow> rows
        | Some res \<Rightarrow> if res = [] then rows else filter (\<lambda>r. resource_of r = res) rows))"

text \<open>
  What the stores rely on: putting a row makes it the row of its key and leaves the other rows
  alone, and a row with a new key goes to the end of the table.
\<close>

locale keyed_table =
  fixes key :: "'r \<Rightarrow> 'k"
    and put :: "'r \<Rightarrow> 'r list \<Rightarrow> 'r list"
  assumes select_put: "select_by_key key k (put row rows)
      = (if k = key row then Some row else select_by_key key k rows)"
    and put_distinct: "distinct (map key rows) \<Longrightarrow> distinct (map key (put row rows))"
    and put_new: "key row \<notin> key ` set rows \<Longrightarrow> put row rows = rows @ [row]"
begin

lemma put_twice_select:
  "select_by_key key k (put row (put row rows)) = select_by_key key k (put row rows)"
  by (simp add: select_put)

lemma put_keeps_other: "k \<noteq> key row \<Longrightarrow> select_by_key key k (put row rows) = select_by_key key k rows"
  by (simp add: select_put)

lemma put_all_new:
  "distinct (map key new) \<Longrightarrow> key ` set new \<inter> key ` set rows = {} \<Longrightarrow> fold put new rows = rows @ new"
proof (induction new arbitrary: rows)
  case Nil
  show ?case by simp
next
  case (Cons r new)
  then have "put r rows = rows @ [r]" by (intro put_new) auto
  moreover have "fold put new (rows @ [r]) = (rows @ [r]) @ new"
    using Cons.prems by (intro Cons.IH) auto
  ultimately show ?case by simp
qed

text \<open>A batch of rows with new keys and increasing times reads back newest first.\<close>

lemma select_latest_all_new:
  assumes "distinct (map key new)" and "sorted_wrt (<) (map time_of new)"
  shows "select_latest resource_of time_of resource limit (fold put new [])
    = take limit (rev (case resource of None \<Rightarrow> new
        | Some res \<Rightarrow> if res = [] then new else filter (\<lambda>r. resource_of r = res) new))"
proof -
  have "fold put new [] = new" using put_all_new [of new "[]"] assms(1) by simp
  then show ?thesis
    using assms(2)
    by (auto simp: select_latest_def sort_desc_rev sorted_wrt_filter_map rev_filter split: option.split)
qed

end

lemma find_filter_other: "\<not> Q k \<Longrightarrow> (\<And>r. key r = k \<Longrightarrow> P r) \<Longrightarrow>
   find (\<lambda>r. key r = k) (filter P xs) = find (\<lambda>r. key r = k) xs"
  by (induction xs) auto

lemma find_filter_same: "find (\<lambda>r. key r = k) (filter (\<lambda>r. key r \<noteq> k) xs) = None"
  by (induction xs) auto

lemma keyed_table_insert_or_replace: "keyed_table key (insert_or_replace key)"
proof
  show "select_by_key key k (insert_or_replace key row rows)
      = (if k = key row then Some row else select_by_key key k rows)" for k row rows
    by (auto simp: select_by_key_def insert_or_replace_def find_append find_filter_same
        find_filter_other [where Q = "\<lambda>_. False"] split: option.split)
  show "distinct (map key (insert_or_replace key row rows))" if "distinct (map key rows)" for rows row
    using that by (auto simp: insert_or_replace_def distinct_map_filter)
  show "insert_or_replace key row rows = rows @ [row]" if "key row \<notin> key ` set rows" for rows row
    using that by (auto simp: insert_or_replace_def filter_id_conv image_iff)
qed

lemma keys_insert_on_conflict_update:
  "set (map key (insert_on_conflict_update key row rows)) = insert (key row) (set (map key rows))"
  by (induction rows) auto

lemma keyed_table_insert_on_conflict_update: "keyed_table key (insert_on_conflict_update key)"
proof
  show "select_by_key key k (insert_on_conflict_update key row rows)
      = (if k = key row then Some row else select_by_key key k rows)" for k row rows
    unfolding select_by_key_def by (induction rows) auto
  show "distinct (map key (insert_on_conflict_update key row rows))" if "distinct (map key rows)" for rows row
    using that
  proof (induction rows)
    case (Cons r rows)
    then show ?case
      using keys_insert_on_conflict_update [of key row rows] by auto
  qed simp
  show "insert_on_conflict_update key row rows = rows @ [row]" if "key row \<notin> key ` set rows" for rows row
    using that by (induction rows) auto
qed

section \<open>The stores\<close>

record decision_row =
  dr_decision_id :: pystr
  dr_tenant_id :: "pystr option"
  dr_subject :: pystr
  dr_resource :: pystr
  dr_action :: pystr
  dr_effect :: pystr
  dr_payload :: policy_decision
  dr_recorded_at :: int

record event_row =
  er_id :: pystr
  er_tenant_id :: "pystr option"
  er_actor :: pystr
  er_action :: pystr
  er_resource :: pystr
  er_result :: pystr
  er_decision_id :: "pystr option"
  er_payload :: audit_event
  er_created_at :: int

datatype backend = SQLite | Postgres

record evidence_store =
  st_backend :: backend
  st_decisions :: "decision_row list"
  st_events :: "event_row list"

interpretation sqlite_decisions: keyed_table dr_decision_id "insert_or_replace dr_decision_id"
  by (rule keyed_table_insert_or_replace)

interpretation postgres_decisions: keyed_table dr_decision_id "insert_on_conflict_update dr_decision_id"
  by (rule keyed_table_insert_on_conflict_update)

interpretation sqlite_events: keyed_table er_id "insert_or_replace er_id"
  by (rule keyed_table_insert_or_replace)

interpretation postgres_events: keyed_table er_id "insert_on_conflict_update er_id"
  by (rule keyed_table_insert_on_conflict_update)

text \<open>\<open>str(d.get(a) or d.get(b) or "demo")\<close>.\<close>

definition get_truthy :: "pyval dict \<Rightarrow> pystr \<Rightarrow> pyval option" where
  "get_truthy d k = (case dict_get d k of None \<Rightarrow> None | Some v \<Rightarrow> if truthy v then Some v else None)"

definition policy_tenant_id :: "'s world_scheme \<Rightarrow> policy_decision \<Rightarrow> pystr" where
  "policy_tenant_id w d =
     (case get_truthy (pd_obligations d) ''tenant_id'' of None \<Rightarrow> ''demo'' | Some v \<Rightarrow> py_str w v)"

definition audit_tenant_id :: "'s world_scheme \<Rightarrow> audit_event \<Rightarrow> pystr" where
  "audit_tenant_id w e =
     (case get_truthy (ev_details e) ''tenant_id'' of
        Some v \<Rightarrow> py_str w v
      | None \<Rightarrow> (case get_truthy (ev_details e) ''tenant'' of None \<Rightarrow> ''demo'' | Some v \<Rightarrow> py_str w v))"

definition sqlite_record_decision ::
  "policy_decision \<Rightarrow> evidence_store \<Rightarrow> 's world_scheme \<Rightarrow> evidence_store \<times> 's world_scheme" where
  "sqlite_record_decision d st w =
     (let (t, w) = now w;
          row = \<lparr>dr_decision_id = pd_decision_id d, dr_tenant_id = None, dr_subject = pd_subject d,
                 dr_resource = pd_resource d, dr_action = pd_action d, dr_effect = pd_effect d,
                 dr_payload = d, dr_recorded_at = t\<rparr>
      in (st\<lparr>st_decisions := insert_or_replace dr_decision_id row (st_decisions st)\<rparr>, w))"

definition postgres_record_decision ::
  "policy_decision \<Rightarrow> evidence_store \<Rightarrow> 's world_scheme \<Rightarrow> evidence_store \<times> 's world_scheme" where
  "postgres_record_decision d st w =
     (let tenant = policy_tenant_id w d; (t, w) = now w;
          row = \<lparr>dr_decision_id = pd_decision_id d, dr_tenant_id = Some tenant,
                 dr_subject = pd_subject d, dr_resource = pd_resource d, dr_action = pd_action d,
                 dr_effect = pd_effect d, dr_payload = d, dr_recorded_at = t\<rparr>
      in (st\<lparr>st_decisions := insert_on_conflict_update dr_decision_id row (st_decisions st)\<rparr>, w))"

definition store_record_decision ::
  "policy_decision \<Rightarrow> evidence_store \<Rightarrow> 's world_scheme \<Rightarrow> evidence_store \<times> 's world_scheme" where
  "store_record_decision d st w = (case st_backend st of
     SQLite \<Rightarrow> sqlite_record_decision d st w | Postgres \<Rightarrow> postgres_record_decision d st w)"

definition store_get_decision :: "pystr \<Rightarrow> evidence_store \<Rightarrow> policy_decision option" where
  "store_get_decision k st = map_option dr_payload (select_by_key dr_decision_id k (st_decisions st))"

definition store_list_decisions :: "pystr option \<Rightarrow> nat \<Rightarrow> evidence_store \<Rightarrow> policy_decision list" where
  "store_list_decisions resource limit st =
     map dr_payload (select_latest dr_resource dr_recorded_at resource limit (st_decisions st))"

definition sqlite_append_event :: "audit_event \<Rightarrow> evidence_store \<Rightarrow> evidence_store" where
  "sqlite_append_event e st =
     (let row = \<lparr>er_id = ev_id e, er_tenant_id = None, er_actor = ev_actor e,
                 er_action = ev_action e, er_resource = ev_resource e, er_result = ev_result e,
                 er_decision_id = ev_decision_id e, er_payload = e, er_created_at = ev_created_at e\<rparr>
      in st\<lparr>st_events := insert_or_replace er_id row (st_events st)\<rparr>)"

definition postgres_append_event :: "audit_event \<Rightarrow> evidence_store \<Rightarrow> 's world_scheme \<Rightarrow> evidence_store" where
  "postgres_append_event e st w =
     (let row = \<lparr>er_id = ev_id e, er_tenant_id = Some (audit_tenant_id w e), er_actor = ev_actor e,
                 er_action = ev_action e, er_resource = ev_resource e, er_result = ev_result e,
                 er_decision_id = ev_decision_id e, er_payload = e, er_created_at = ev_created_at e\<rparr>
      in st\<lparr>st_events := insert_on_conflict_update er_id row (st_events st)\<rparr>)"

definition store_append_event :: "audit_event \<Rightarrow> evidence_store \<Rightarrow> 's world_scheme \<Rightarrow> evidence_store" where
  "store_append_event e st w = (case st_backend st of
     SQLite \<Rightarrow> sqlite_append_event e st | Postgres \<Rightarrow> postgres_append_event e st w)"

definition store_list_events :: "pystr option \<Rightarrow> nat \<Rightarrow> evidence_store \<Rightarrow> audit_event list" where
  "store_list_events resource limit st =
     map er_payload (select_latest er_resource er_created_at resource limit (st_events st))"

section \<open>The evidence module\<close>

record evidence_state = world +
  configured_store :: "evidence_store option"
  policy_decision_log :: "policy_decision list"

text \<open>\<open>open_store\<close> stands for the constructors of the stores: the tables found behind a path or a
  DSN (and an optional \<open>sslmode\<close>).\<close>

definition build_configured_evidence_store ::
  "(backend \<Rightarrow> pystr \<Rightarrow> pystr option \<Rightarrow> evidence_store) \<Rightarrow> pystr dict \<Rightarrow> evidence_store option" where
  "build_configured_evidence_store open_store environ =
     (case dict_get environ ''SDP_DATABASE_URL'' of
        Some url \<Rightarrow> if url \<noteq> [] then Some (open_store Postgres url (dict_get environ ''SDP_DATABASE_SSLMODE''))
          else (case dict_get environ ''SDP_SQLITE_PATH'' of
             Some path \<Rightarrow> if path \<noteq> [] then Some (open_store SQLite path None) else None
           | None \<Rightarrow> None)
      | None \<Rightarrow> (case dict_get environ ''SDP_SQLITE_PATH'' of
           Some path \<Rightarrow> if path \<noteq> [] then Some (open_store SQLite path None) else None
         | None \<Rightarrow> None))"

definition configure_evidence_store ::
  "evidence_store option \<Rightarrow> 's evidence_state_scheme \<Rightarrow> evidence_store option \<times> 's evidence_state_scheme" where
  "configure_evidence_store store s = (configured_store s, s\<lparr>configured_store := store\<rparr>)"

definition has_configured_evidence_store :: "'s evidence_state_scheme \<Rightarrow> bool" where
  "has_configured_evidence_store s \<longleftrightarrow> configured_store s \<noteq> None"

definition record_policy_decision ::
  "policy_decision \<Rightarrow> 's evidence_state_scheme \<Rightarrow> policy_decision \<times> 's evidence_state_scheme" where
  "record_policy_decision d s =
     (case configured_store s of
        Some st \<Rightarrow> (let (st', s') = store_record_decision d st s in (d, s'\<lparr>configured_store := Some st'\<rparr>))
      | None \<Rightarrow> (d, s\<lparr>policy_decision_log := policy_decision_log s @ [d]\<rparr>))"

definition append_audit_event ::
  "audit_event \<Rightarrow> 's evidence_state_scheme \<Rightarrow> audit_event \<times> 's evidence_state_scheme" where
  "append_audit_event e s =
     (case configured_store s of
        Some st \<Rightarrow> (e, s\<lparr>configured_store := Some (store_append_event e st s)\<rparr>)
      | None \<Rightarrow> (e, s))"

definition list_persisted_audit_events ::
  "pystr option \<Rightarrow> nat \<Rightarrow> 's evidence_state_scheme \<Rightarrow> audit_event list" where
  "list_persisted_audit_events resource limit s =
     (case configured_store s of None \<Rightarrow> [] | Some st \<Rightarrow> store_list_events resource limit st)"

definition list_policy_decisions ::
  "pystr option \<Rightarrow> nat \<Rightarrow> 's evidence_state_scheme \<Rightarrow> policy_decision list" where
  "list_policy_decisions resource limit s =
     (case configured_store s of
        Some st \<Rightarrow> store_list_decisions resource limit st
      | None \<Rightarrow> take limit (filter (\<lambda>d. resource = None \<or> resource = Some [] \<or> resource = Some (pd_resource d))
                  (rev (policy_decision_log s))))"

definition list_persisted_policy_decisions ::
  "pystr option \<Rightarrow> nat \<Rightarrow> 's evidence_state_scheme \<Rightarrow> policy_decision list" where
  "list_persisted_policy_decisions resource limit s =
     (case configured_store s of None \<Rightarrow> [] | Some st \<Rightarrow> store_list_decisions resource limit st)"

section \<open>The three places a decision can be kept behave alike\<close>

text \<open>Recording a list of decisions one after the other.\<close>

definition record_all :: "policy_decision list \<Rightarrow> 's evidence_state_scheme \<Rightarrow> 's evidence_state_scheme" where
  "record_all ds s = fold (\<lambda>d s. snd (record_policy_decision d s)) ds s"

lemma record_all_memory:
  "configured_store s = None \<Longrightarrow> configured_store (record_all ds s) = None
   \<and> policy_decision_log (record_all ds s) = policy_decision_log s @ ds"
  unfolding record_all_def
  by (induction ds arbitrary: s) (simp_all add: record_policy_decision_def)

text \<open>The rows a store holds for the decisions recorded so far, with the clock readings.\<close>

definition rows_for :: "policy_decision list \<Rightarrow> (nat \<Rightarrow> int) \<Rightarrow> nat \<Rightarrow> decision_row list \<Rightarrow> bool" where
  "rows_for ds clk k rows \<longleftrightarrow> map dr_payload rows = ds
     \<and> (\<forall>r \<in> set rows. dr_resource r = pd_resource (dr_payload r)
          \<and> dr_decision_id r = pd_decision_id (dr_payload r))
     \<and> map dr_recorded_at rows = map clk [k ..< k + length ds]"

lemma rows_for_put:
  assumes "keyed_table dr_decision_id put" and "rows_for ds clk k rows"
    and "pd_decision_id d \<notin> pd_decision_id ` set ds"
    and r: "dr_payload r = d" "dr_resource r = pd_resource d" "dr_decision_id r = pd_decision_id d"
      "dr_recorded_at r = clk (k + length ds)"
  shows "rows_for (ds @ [d]) clk k (put r rows)"
proof -
  have "dr_decision_id r \<notin> dr_decision_id ` set rows"
    using assms(2,3) r by (auto simp: rows_for_def)
  then have "put r rows = rows @ [r]"
    by (rule keyed_table.put_new [OF assms(1)])
  then show ?thesis
    using assms(2) r by (simp add: rows_for_def)
qed

lemma store_record_decision_rows:
  assumes "rows_for ds (clock_source s) k (st_decisions st)" and "clock_tick s = k + length ds"
    and "pd_decision_id d \<notin> pd_decision_id ` set ds"
  shows "\<exists>st' s'. store_record_decision d st s = (st', s')
    \<and> rows_for (ds @ [d]) (clock_source s) k (st_decisions st')
    \<and> clock_tick s' = Suc (k + length ds) \<and> clock_source s' = clock_source s"
  using assms
  by (cases "st_backend st")
     (auto simp: store_record_decision_def sqlite_record_decision_def postgres_record_decision_def
       now_def Let_def intro!: rows_for_put [OF keyed_table_insert_or_replace]
       rows_for_put [OF keyed_table_insert_on_conflict_update])

lemma record_all_store:
  assumes "configured_store s = Some st" and "rows_for ds0 (clock_source s) k (st_decisions st)"
    and "clock_tick s = k + length ds0" and "distinct (map pd_decision_id (ds0 @ ds))"
  shows "\<exists>st'. configured_store (record_all ds s) = Some st'
    \<and> rows_for (ds0 @ ds) (clock_source s) k (st_decisions st')"
  using assms
proof (induction ds arbitrary: s st ds0)
  case Nil
  then show ?case by (simp add: record_all_def)
next
  case (Cons d ds)
  have "pd_decision_id d \<notin> pd_decision_id ` set ds0" using Cons.prems(4) by auto
  from store_record_decision_rows [OF Cons.prems(2,3) this]
  obtain st' s' where rec: "store_record_decision d st s = (st', s')"
    and rows: "rows_for (ds0 @ [d]) (clock_source s) k (st_decisions st')"
    and tick: "clock_tick s' = Suc (k + length ds0)" and clk: "clock_source s' = clock_source s"
    by blast
  let ?s = "s'\<lparr>configured_store := Some st'\<rparr>"
  have "record_all (d # ds) s = record_all ds ?s"
    using Cons.prems(1) rec by (simp add: record_all_def record_policy_decision_def)
  moreover have "\<exists>st''. configured_store (record_all ds ?s) = Some st''
      \<and> rows_for ((ds0 @ [d]) @ ds) (clock_source ?s) k (st_decisions st'')"
    using rows tick clk Cons.prems(4) by (intro Cons.IH) simp_all
  ultimately show ?case using clk by simp
qed

lemma map_payload_filter:
  "\<forall>r \<in> set rows. dr_resource r = pd_resource (dr_payload r) \<Longrightarrow>
   map dr_payload (filter (\<lambda>r. dr_resource r = res) rows)
     = filter (\<lambda>d. res = pd_resource d) (map dr_payload rows)"
  by (induction rows) auto

lemma store_list_rows:
  assumes rows: "rows_for ds clk k (st_decisions st)" and clk: "strict_mono clk"
  shows "store_list_decisions resource limit st
    = take limit (rev (filter (\<lambda>d. resource = None \<or> resource = Some [] \<or> resource = Some (pd_resource d)) ds))"
proof -
  have "sorted_wrt (<) (map clk [k ..< k + length ds])"
    unfolding sorted_wrt_map
    by (rule sorted_wrt_mono_rel [OF _ sorted_wrt_upt]) (simp add: strict_monoD [OF clk])
  then have inc: "sorted_wrt (<) (map dr_recorded_at (st_decisions st))"
    using rows by (simp add: rows_for_def)
  have res: "\<forall>r \<in> set (st_decisions st). dr_resource r = pd_resource (dr_payload r)"
    and pay: "map dr_payload (st_decisions st) = ds"
    using rows by (simp_all add: rows_for_def)
  show ?thesis
    using inc pay map_payload_filter [OF res]
    by (auto simp: store_list_decisions_def select_latest_def sort_desc_rev sorted_wrt_filter_map
        rev_map [symmetric] take_map [symmetric] split: option.split)
qed


definition fresh_evidence :: "evidence_store option \<Rightarrow> evidence_state" where
  "fresh_evidence store = \<lparr>uuid_source = show_nat, clock_source = int, iso_text = show_int,
     stamp_text = show_int, str_other = (\<lambda>_. []), uuid_tick = 0, clock_tick = 0,
     configured_store = store, policy_decision_log = []\<rparr>"

definition sample_decision :: "pystr \<Rightarrow> policy_decision" where
  "sample_decision k = \<lparr>pd_subject = ''analyst'', pd_resource = ''crm'', pd_action = ''preview'',
     pd_effect = ''allow'', pd_decision_id = k, pd_obligations = [], pd_reason = []\<rparr>"


end
