(* ===== verification/Catalog.thy ===== *)
theory Catalog
  imports Evidence
begin

text \<open>
  \<open>src/sdp/catalog.py\<close>: the datasets, their schema history and the audit log, as a record that
  extends the evidence state; the catalog's reads, and its mutations \<open>register_dataset\<close>,
  \<open>patch_dataset\<close>, \<open>publish_dataset\<close> and \<open>deprecate_dataset\<close>, each a function from the state to
  a result and the next state.  A raised exception keeps the state of the moment it was raised.

  A regular expression built with \<open>re.escape\<close> and \<open>IGNORECASE\<close> finds a token as a substring
  whatever the letter case; \<open>list(set(xs))\<close> has no specified order, here it is the order of last
  occurrence in \<open>xs\<close>, and the changed columns of a diff are listed in the older schema's order.
\<close>

section \<open>State\<close>

record schema_snapshot =
  sn_version :: pystr
  sn_schema_version :: pystr
  sn_snapshot_at :: int
  sn_schema :: "pyval dict list"
  sn_lineage_inputs :: "pystr list"
  sn_lineage_outputs :: "pystr list"
  sn_mappings :: "pyval dict list"
  sn_tags :: "pystr list"
  sn_terms :: "pystr list"
  sn_status :: pystr
  sn_quality_score :: rat
  sn_freshness_score :: rat

record catalog_state = evidence_state +
  catalog_data :: "dataset dict"
  audit_log :: "audit_event list"
  schema_history :: "(schema_snapshot list) dict"

definition record_audit_event :: "audit_event \<Rightarrow> 's catalog_state_scheme \<Rightarrow> 's catalog_state_scheme" where
  "record_audit_event e s =
     (let (_, s) = append_audit_event e s
      in if has_configured_evidence_store s then s else s\<lparr>audit_log := audit_log s @ [e]\<rparr>)"

definition column_signature :: "column_metadata list \<Rightarrow> pyval dict list" where
  "column_signature columns = map column_dump_exclude_unset columns"

definition make_schema_snapshot ::
  "dataset \<Rightarrow> 's world_scheme \<Rightarrow> schema_snapshot \<times> 's world_scheme" where
  "make_schema_snapshot ds w =
     (let (t, w) = now w
      in (\<lparr>sn_version = ds_version ds, sn_schema_version = ds_schema_version ds, sn_snapshot_at = t,
           sn_schema = column_signature (ds_schema ds), sn_lineage_inputs = ds_lineage_inputs ds,
           sn_lineage_outputs = ds_lineage_outputs ds, sn_mappings = map mapping_dump (ds_mappings ds),
           sn_tags = ds_tags ds, sn_terms = ds_terms ds, sn_status = ds_status ds,
           sn_quality_score = ds_quality_score ds, sn_freshness_score = ds_freshness_score ds\<rparr>, w))"

definition history_of :: "'s catalog_state_scheme \<Rightarrow> pystr \<Rightarrow> schema_snapshot list" where
  "history_of s k = (case dict_get (schema_history s) k of None \<Rightarrow> [] | Some h \<Rightarrow> h)"

definition record_schema_snapshot :: "dataset \<Rightarrow> 's catalog_state_scheme \<Rightarrow> 's catalog_state_scheme" where
  "record_schema_snapshot ds s =
     (let history = history_of s (ds_id ds); (snapshot, s) = make_schema_snapshot ds s
      in s\<lparr>schema_history := dict_set (ds_id ds) (history @ [snapshot]) (schema_history s)\<rparr>)"

definition coerce_version_index :: "schema_snapshot list \<Rightarrow> schema_snapshot dict" where
  "coerce_version_index history = dict_of (map (\<lambda>e. (sn_schema_version e, e)) history)"

text \<open>The module's start: the seed datasets with their scores, an empty log, one snapshot each.\<close>

definition initialize_schema_history :: "'s catalog_state_scheme \<Rightarrow> 's catalog_state_scheme" where
  "initialize_schema_history s = fold record_schema_snapshot (dict_values (catalog_data s)) s"

definition load_catalog :: "dataset list \<Rightarrow> 's catalog_state_scheme \<Rightarrow> 's catalog_state_scheme" where
  "load_catalog seeds s =
     (let data = map (\<lambda>(k, ds). (k, recompute_scores ds)) (dict_of (map (\<lambda>ds. (ds_id ds, ds)) seeds))
      in initialize_schema_history (s\<lparr>catalog_data := data, audit_log := [], schema_history := []\<rparr>))"

section \<open>Reads\<close>

definition get_dataset :: "pystr \<Rightarrow> 's catalog_state_scheme \<Rightarrow> dataset option" where
  "get_dataset dataset_id s = dict_get (catalog_data s) dataset_id"

definition get_dataset_or_404 :: "pystr \<Rightarrow> 's catalog_state_scheme \<Rightarrow> dataset result" where
  "get_dataset_or_404 dataset_id s =
     (case get_dataset dataset_id s of
        None \<Rightarrow> Inl (KeyError ''dataset not found'') | Some ds \<Rightarrow> Inr ds)"

definition list_datasets :: "'s catalog_state_scheme \<Rightarrow> dataset list" where
  "list_datasets s = dict_values (catalog_data s)"

definition value_or :: "pyval dict \<Rightarrow> pystr \<Rightarrow> pyval \<Rightarrow> pyval" where
  "value_or d k v = (case dict_get d k of None \<Rightarrow> v | Some x \<Rightarrow> x)"

definition get_dataset_profile :: "pystr \<Rightarrow> 's catalog_state_scheme \<Rightarrow> pyval dict result" where
  "get_dataset_profile dataset_id s =
     (case get_dataset_or_404 dataset_id s of
        Inl e \<Rightarrow> Inl e
      | Inr ds \<Rightarrow> Inr
          [(''dataset_id'', VStr (ds_id ds)),
           (''row_count'', value_or (ds_profile ds) ''row_count'' VNone),
           (''profile_updated_at'', value_or (ds_profile ds) ''updated_at'' VNone),
           (''quality_issues'', value_or (ds_profile ds) ''quality_issues'' (VList [])),
           (''schema_profile'', VList (map (\<lambda>c. VDict
              [(''name'', VStr (col_name c)), (''datatype'', VStr (col_datatype c)),
               (''null_ratio'', VNum (col_nullable_ratio c)),
               (''distinct_ratio'', VNum (col_distinct_ratio c)),
               (''quality_issues'', str_list (col_quality_issues c))]) (ds_schema ds)))])"

record join_candidate =
  jc_dataset_id :: pystr
  jc_title :: pystr
  jc_status :: pystr
  jc_score :: int
  jc_overlap_terms :: "pystr list"
  jc_overlap_columns :: "pystr list"

definition overlap :: "pystr list \<Rightarrow> pystr list \<Rightarrow> pystr list" where
  "overlap xs ys = sorted_set (filter (\<lambda>x. x \<in> set ys) xs)"

definition join_candidate_of :: "dataset \<Rightarrow> dataset \<Rightarrow> join_candidate" where
  "join_candidate_of ds other =
     (let overlap_terms = overlap (ds_terms ds) (ds_terms other);
          overlap_columns = overlap (map col_name (ds_schema ds)) (map col_name (ds_schema other))
      in \<lparr>jc_dataset_id = ds_id other, jc_title = ds_title other, jc_status = ds_status other,
          jc_score = int (length overlap_terms) * 2 + int (length overlap_columns),
          jc_overlap_terms = overlap_terms, jc_overlap_columns = overlap_columns\<rparr>)"

definition get_join_candidates :: "pystr \<Rightarrow> int \<Rightarrow> 's catalog_state_scheme \<Rightarrow> join_candidate list result" where
  "get_join_candidates dataset_id limit s =
     (case get_dataset_or_404 dataset_id s of
        Inl e \<Rightarrow> Inl e
      | Inr ds \<Rightarrow>
          (let others = filter (\<lambda>other. ds_id other \<noteq> ds_id ds
                   \<and> ds_status other \<in> {''published'', ''registered''}) (list_datasets s);
               candidates = filter (\<lambda>c. jc_score c \<noteq> 0) (map (join_candidate_of ds) others)
           in Inr (take_int limit (sort_desc jc_score candidates))))"

definition required_metadata_fields :: "pystr list" where
  "required_metadata_fields =
     [''owner'', ''steward'', ''title'', ''description'', ''domain'', ''sensitivity'',
      ''update_frequency'', ''source_system'', ''schema'', ''distributions'']"

text \<open>\<open>_bump_version\<close>: \<open>int(part)\<close> may raise.\<close>

definition bump_version :: "pystr \<Rightarrow> pystr result" where
  "bump_version version =
     (case split_char (CHR ''.'') version of
        [a, b, c] \<Rightarrow>
          (case (read_int a, read_int b, read_int c) of
             (Some major, Some minor, Some patch) \<Rightarrow>
               Inr (show_int major @ ''.'' @ show_int minor @ ''.'' @ show_int (patch + 1))
           | _ \<Rightarrow> Inl (ValueError ''invalid literal for int()''))
      | _ \<Rightarrow> Inr ''1.0.1'')"

section \<open>Search\<close>

text \<open>The Korean words the search treats specially: "active", "active customer".\<close>

definition kr_active :: pystr where
  "kr_active = utf8 [0xD65C, 0xC131]"

definition kr_active_customer :: pystr where
  "kr_active_customer = utf8 [0xD65C, 0xC131, 0x20, 0xACE0, 0xAC1D]"

definition ci_search :: "pystr \<Rightarrow> pystr \<Rightarrow> bool" where
  "ci_search token s = contains (lower token) (lower s)"

definition bonus :: "bool \<Rightarrow> rat \<Rightarrow> rat" where
  "bonus b r = (if b then r else 0)"

definition token_score :: "dataset \<Rightarrow> pystr \<Rightarrow> rat" where
  "token_score ds token =
     (if token = [] then 0
      else bonus (ci_search token (ds_title ds)) 1
         + bonus (ci_search token (ds_description ds)) (8/10)
         + sum_list (map (\<lambda>tag. bonus (ci_search token tag) (5/10)) (ds_tags ds))
         + sum_list (map (\<lambda>term. bonus (ci_search token term) (7/10)) (ds_terms ds))
         + sum_list (map (\<lambda>m. bonus (ci_search token (map_concept m)) (6/10)) (ds_mappings ds)))"

definition term_score :: "dataset \<Rightarrow> pystr list \<Rightarrow> pystr \<Rightarrow> rat" where
  "term_score ds tokens query =
     sum_list (map (token_score ds) tokens)
     + bonus (ds_sensitivity ds = ''low'') (1/10)
     + (if query \<in> {kr_active, kr_active_customer, ''customer''}
        then sum_list (map (\<lambda>m. bonus (map_concept m = kr_active_customer) (4/10)) (ds_mappings ds))
        else 0)"

record search_result =
  sr_dataset :: dataset
  sr_score :: rat

record search_filters =
  sf_tags :: "pystr list option"
  sf_domain :: "pystr list option"
  sf_owner :: "pystr list option"
  sf_sensitivity :: "pystr list option"
  sf_status :: "pystr list option"
  sf_license :: "pystr list option"
  sf_min_quality :: "rat option"
  sf_min_freshness :: "rat option"
  sf_include_inactive :: bool

text \<open>A filter that is absent or empty lets everything through.\<close>

definition to_set :: "pystr list option \<Rightarrow> pystr set" where
  "to_set values = (case values of None \<Rightarrow> {} | Some vs \<Rightarrow> set vs)"

definition passes :: "pystr list option \<Rightarrow> pystr \<Rightarrow> bool" where
  "passes values v \<longleftrightarrow> to_set values = {} \<or> v \<in> to_set values"

definition passes_filters :: "search_filters \<Rightarrow> dataset \<Rightarrow> bool" where
  "passes_filters f ds \<longleftrightarrow>
     (to_set (sf_tags f) = {} \<or> to_set (sf_tags f) \<inter> set (ds_tags ds) \<noteq> {})
   \<and> passes (sf_domain f) (ds_domain ds) \<and> passes (sf_owner f) (ds_owner ds)
   \<and> passes (sf_sensitivity f) (ds_sensitivity ds) \<and> passes (sf_status f) (ds_status ds)
   \<and> passes (sf_license f) (ds_license ds)
   \<and> (case sf_min_quality f of None \<Rightarrow> True | Some q \<Rightarrow> q \<le> ds_quality_score ds)
   \<and> (case sf_min_freshness f of None \<Rightarrow> True | Some q \<Rightarrow> q \<le> ds_freshness_score ds)
   \<and> (sf_include_inactive f \<or> 8/10 \<le> metadata_completeness ds)"

definition search_tokens :: "pystr \<Rightarrow> pystr list" where
  "search_tokens query = filter (\<lambda>t. t \<noteq> []) (map strip (split_ws query))"

definition search_catalog ::
  "pystr \<Rightarrow> search_filters \<Rightarrow> int \<Rightarrow> 's catalog_state_scheme \<Rightarrow> search_result list" where
  "search_catalog query f limit s =
     (let tokens = search_tokens query
      in if tokens = [] then []
         else (let by_token = filter (\<lambda>r. 0 < sr_score r)
                 (map (\<lambda>ds. \<lparr>sr_dataset = ds, sr_score = term_score ds tokens query\<rparr>)
                   (filter (passes_filters f) (list_datasets s)))
               in take_int limit (sort_desc sr_score by_token)))"

definition facet_value :: "pystr \<Rightarrow> (dataset \<Rightarrow> pystr) option" where
  "facet_value field =
     (if field = ''domain'' then Some ds_domain
      else if field = ''owner'' then Some ds_owner
      else if field = ''sensitivity'' then Some ds_sensitivity
      else if field = ''update_frequency'' then Some ds_update_frequency
      else if field = ''license'' then Some ds_license
      else if field = ''status'' then Some ds_status
      else None)"

definition count_up :: "pystr \<Rightarrow> nat dict \<Rightarrow> nat dict" where
  "count_up v counts = dict_set v ((case dict_get counts v of None \<Rightarrow> 0 | Some n \<Rightarrow> n) + 1) counts"

definition list_facet_counts :: "pystr \<Rightarrow> pystr option \<Rightarrow> 's catalog_state_scheme \<Rightarrow> nat dict result" where
  "list_facet_counts field query s =
     (case facet_value field of
        None \<Rightarrow> Inl (ValueError ''unsupported facet field'')
      | Some value \<Rightarrow>
          (let q = (case query of None \<Rightarrow> [] | Some q \<Rightarrow> q); tokens = search_tokens q;
               rows = filter (\<lambda>ds. tokens = [] \<or> 0 < term_score ds tokens q) (list_datasets s)
           in Inr (fold (\<lambda>ds counts. count_up (value ds) counts) rows [])))"

section \<open>Schema history\<close>

definition get_dataset_schema_history ::
  "pystr \<Rightarrow> 's catalog_state_scheme \<Rightarrow> (pystr \<times> schema_snapshot list) result" where
  "get_dataset_schema_history dataset_id s =
     (case get_dataset_or_404 dataset_id s of
        Inl e \<Rightarrow> Inl e
      | Inr _ \<Rightarrow> (if history_of s dataset_id = [] then Inl (KeyError ''no schema history found'')
                 else Inr (dataset_id, history_of s dataset_id)))"

definition list_dataset_schema_versions :: "pystr \<Rightarrow> 's catalog_state_scheme \<Rightarrow> pystr list result" where
  "list_dataset_schema_versions dataset_id s =
     (case get_dataset_or_404 dataset_id s of
        Inl e \<Rightarrow> Inl e
      | Inr _ \<Rightarrow> Inr (map sn_schema_version (history_of s dataset_id)))"

record schema_diff =
  sd_from_version :: pystr
  sd_to_version :: pystr
  sd_added_columns :: "pystr list"
  sd_removed_columns :: "pystr list"
  sd_changed_columns :: "(pystr \<times> pyval dict \<times> pyval dict) list"
  sd_unchanged_columns :: "pystr list"

definition signature_name :: "pyval dict \<Rightarrow> pystr" where
  "signature_name c = (case dict_get c ''name'' of Some (VStr n) \<Rightarrow> n | _ \<Rightarrow> [])"

definition columns_by_name :: "pyval dict list \<Rightarrow> (pyval dict) dict" where
  "columns_by_name cs = dict_of (map (\<lambda>c. (signature_name c, c)) cs)"

definition diff_signatures :: "pystr \<Rightarrow> pystr \<Rightarrow> pyval dict list \<Rightarrow> pyval dict list \<Rightarrow> schema_diff" where
  "diff_signatures from_version to_version before after =
     (let before_names = columns_by_name before; after_names = columns_by_name after;
          common = filter (\<lambda>n. n \<in> set (dict_keys after_names)) (dict_keys before_names);
          same = (\<lambda>n. dict_get before_names n = dict_get after_names n)
      in \<lparr>sd_from_version = from_version, sd_to_version = to_version,
          sd_added_columns = sort (filter (\<lambda>n. n \<notin> set (dict_keys before_names)) (dict_keys after_names)),
          sd_removed_columns = sort (filter (\<lambda>n. n \<notin> set (dict_keys after_names)) (dict_keys before_names)),
          sd_changed_columns = map (\<lambda>n. (n, the (dict_get before_names n), the (dict_get after_names n)))
            (filter (\<lambda>n. \<not> same n) common),
          sd_unchanged_columns = sort (filter same common)\<rparr>)"

definition get_dataset_schema_diff ::
  "pystr \<Rightarrow> pystr \<Rightarrow> pystr \<Rightarrow> 's catalog_state_scheme \<Rightarrow> schema_diff result" where
  "get_dataset_schema_diff dataset_id from_version to_version s =
     (case get_dataset_or_404 dataset_id s of
        Inl e \<Rightarrow> Inl e
      | Inr _ \<Rightarrow>
          (let history = coerce_version_index (history_of s dataset_id)
           in case (dict_get history from_version, dict_get history to_version) of
                (Some from_snapshot, Some to_snapshot) \<Rightarrow>
                  Inr (diff_signatures from_version to_version (sn_schema from_snapshot) (sn_schema to_snapshot))
              | _ \<Rightarrow>
                  (let available = sort (dict_keys history)
                   in Inl (ValueError (''schema_version not found: requested ('' @ from_version @ '', ''
                        @ to_version @ ''), available='' @ py_str s (str_list available))))))"

section \<open>Mutations\<close>

definition build_dataset_payload ::
  "dataset \<Rightarrow> pystr \<Rightarrow> pystr \<Rightarrow> pystr option \<Rightarrow> pyval dict \<Rightarrow> 's world_scheme \<Rightarrow> audit_event \<times> 's world_scheme" where
  "build_dataset_payload ds actor action decision_id details w =
     (let (k, w) = uuid4 w; (t, w) = now w
      in (\<lparr>ev_id = k, ev_actor = actor, ev_action = action, ev_resource = ds_id ds,
           ev_result = ''success'', ev_decision_id = decision_id, ev_reason = ''ok'',
           ev_details = details, ev_created_at = t\<rparr>, w))"

definition audit_dataset ::
  "dataset \<Rightarrow> pystr \<Rightarrow> pystr \<Rightarrow> pystr option \<Rightarrow> pyval dict \<Rightarrow> 's catalog_state_scheme \<Rightarrow> 's catalog_state_scheme" where
  "audit_dataset ds actor action decision_id details s =
     (let (e, s) = build_dataset_payload ds actor action decision_id details s
      in record_audit_event e s)"

definition missing_metadata :: "dataset \<Rightarrow> pystr list" where
  "missing_metadata ds =
     map fst (filter (\<lambda>(_, present). \<not> present)
       [(''owner'', ds_owner ds \<noteq> []), (''steward'', ds_steward ds \<noteq> []), (''title'', ds_title ds \<noteq> []),
        (''description'', ds_description ds \<noteq> []), (''domain'', ds_domain ds \<noteq> []),
        (''sensitivity'', ds_sensitivity ds \<noteq> []), (''update_frequency'', ds_update_frequency ds \<noteq> []),
        (''source_system'', ds_source_system ds \<noteq> []), (''schema'', ds_schema ds \<noteq> []),
        (''distributions'', ds_distributions ds \<noteq> [])])"

record metadata_validation =
  mv_required_fields :: "pystr list"
  mv_missing :: "pystr list"
  mv_is_valid :: bool
  mv_critical :: bool
  mv_completeness_score :: rat

definition validate_metadata :: "dataset \<Rightarrow> metadata_validation" where
  "validate_metadata ds =
     (let missing = missing_metadata ds
      in \<lparr>mv_required_fields = required_metadata_fields, mv_missing = missing,
          mv_is_valid = (length missing = 0), mv_critical = (missing \<noteq> []),
          mv_completeness_score = ds_completeness_score ds\<rparr>)"

definition store_dataset :: "pystr \<Rightarrow> dataset \<Rightarrow> 's catalog_state_scheme \<Rightarrow> 's catalog_state_scheme" where
  "store_dataset k ds s = record_schema_snapshot ds (s\<lparr>catalog_data := dict_set k ds (catalog_data s)\<rparr>)"

definition new_dataset_id :: "dataset_create_request \<Rightarrow> 's catalog_state_scheme \<Rightarrow> pystr" where
  "new_dataset_id payload s =
     (case cr_id payload of
        Some (c # cs) \<Rightarrow> c # cs
      | _ \<Rightarrow> ''dataset-'' @ show_pad3 (length (catalog_data s) + 1))"

definition registered_dataset :: "dataset_create_request \<Rightarrow> pystr \<Rightarrow> int \<Rightarrow> dataset" where
  "registered_dataset payload dataset_id t =
     \<lparr>ds_id = dataset_id, ds_tenant_id = cr_tenant_id payload, ds_title = cr_title payload,
      ds_description = cr_description payload, ds_owner = cr_owner payload,
      ds_steward = cr_steward payload, ds_domain = cr_domain payload,
      ds_source_system = cr_source_system payload, ds_sensitivity = cr_sensitivity payload,
      ds_update_frequency = cr_update_frequency payload,
      ds_quality_score = cr_quality_score payload,
      ds_freshness_score = cr_freshness_score payload, ds_tags = cr_tags payload,
      ds_terms = cr_terms payload, ds_license = ''internal'',
      ds_related_datasets = cr_related_datasets payload, ds_schema = cr_schema payload,
      ds_distributions = cr_distributions payload, ds_mappings = cr_mappings payload,
      ds_lineage_inputs = [], ds_lineage_outputs = [], ds_completeness_score = 0,
      ds_recommended_score = 0, ds_version = ''1.0.0'', ds_schema_version = ''1.0.0'',
      ds_status = ''registered'', ds_created_at = t, ds_updated_at = t,
      ds_profile = cr_profile payload\<rparr>"

text \<open>What every mutation ends with: the new dataset is stored, its schema recorded, the action
  audited.\<close>

definition commit_dataset ::
  "pystr \<Rightarrow> dataset \<Rightarrow> pystr \<Rightarrow> pystr \<Rightarrow> pystr option \<Rightarrow> pyval dict \<Rightarrow> 's catalog_state_scheme
   \<Rightarrow> dataset result \<times> 's catalog_state_scheme" where
  "commit_dataset k ds actor action decision_id details s =
     (let s = store_dataset k ds s; s = audit_dataset ds actor action decision_id details s in (Inr ds, s))"

definition register_dataset ::
  "dataset_create_request \<Rightarrow> pystr \<Rightarrow> pystr option \<Rightarrow> 's catalog_state_scheme
   \<Rightarrow> dataset result \<times> 's catalog_state_scheme" where
  "register_dataset payload actor decision_id s =
     (let dataset_id = new_dataset_id payload s
      in if dict_get (catalog_data s) dataset_id \<noteq> None
         then (Inl (ValueError ''dataset already exists''), s)
         else (let (t, s) = now s in
           case model_validate (registered_dataset payload dataset_id t) of
             Inl e \<Rightarrow> (Inl e, s)
           | Inr ds \<Rightarrow>
               (let ds = recompute_scores ds
                in commit_dataset (ds_id ds) ds actor ''dataset.register'' decision_id [] s)))"

text \<open>\<open>patch.model_dump(exclude_unset=True)\<close>: the fields the request gave, nulls included.\<close>

definition dump_field :: "pystr \<Rightarrow> ('a \<Rightarrow> pyval) \<Rightarrow> 'a patch_field \<Rightarrow> pyval dict" where
  "dump_field k f v = (case v of None \<Rightarrow> [] | Some None \<Rightarrow> [(k, VNone)] | Some (Some x) \<Rightarrow> [(k, f x)])"

definition patch_updates :: "dataset_patch_request \<Rightarrow> pyval dict" where
  "patch_updates p =
     dump_field ''title'' VStr (pr_title p) @ dump_field ''description'' VStr (pr_description p)
   @ dump_field ''steward'' VStr (pr_steward p) @ dump_field ''domain'' VStr (pr_domain p)
   @ dump_field ''source_system'' VStr (pr_source_system p)
   @ dump_field ''sensitivity'' VStr (pr_sensitivity p)
   @ dump_field ''update_frequency'' VStr (pr_update_frequency p)
   @ dump_field ''quality_score'' VNum (pr_quality_score p)
   @ dump_field ''freshness_score'' VNum (pr_freshness_score p)
   @ dump_field ''tags'' str_list (pr_tags p) @ dump_field ''terms'' str_list (pr_terms p)
   @ dump_field ''related_datasets'' str_list (pr_related_datasets p)
   @ dump_field ''schema'' (\<lambda>cs. VList (map (\<lambda>c. VDict (column_dump_exclude_unset c)) cs)) (pr_schema p)
   @ dump_field ''lineage_inputs'' str_list (pr_lineage_inputs p)
   @ dump_field ''lineage_outputs'' str_list (pr_lineage_outputs p)
   @ dump_field ''mappings'' (\<lambda>ms. VList (map (\<lambda>m. VDict (mapping_dump_exclude_unset m)) ms)) (pr_mappings p)
   @ dump_field ''profile'' VDict (pr_profile p)"

definition new_value :: "'a patch_field \<Rightarrow> 'a \<Rightarrow> 'a" where
  "new_value v old = (case v of Some (Some x) \<Rightarrow> x | _ \<Rightarrow> old)"

text \<open>
  The data a patch validates: the dump of the old dataset with the given values.  A schema from
  the patch keeps the fields it gave; the old schema comes from a full dump.
\<close>

definition patched :: "dataset_patch_request \<Rightarrow> dataset \<Rightarrow> dataset" where
  "patched p ds = ds\<lparr>
     ds_title := new_value (pr_title p) (ds_title ds),
     ds_description := new_value (pr_description p) (ds_description ds),
     ds_steward := new_value (pr_steward p) (ds_steward ds),
     ds_domain := new_value (pr_domain p) (ds_domain ds),
     ds_source_system := new_value (pr_source_system p) (ds_source_system ds),
     ds_sensitivity := new_value (pr_sensitivity p) (ds_sensitivity ds),
     ds_update_frequency := new_value (pr_update_frequency p) (ds_update_frequency ds),
     ds_quality_score := new_value (pr_quality_score p) (ds_quality_score ds),
     ds_freshness_score := new_value (pr_freshness_score p) (ds_freshness_score ds),
     ds_tags := new_value (pr_tags p) (ds_tags ds),
     ds_terms := new_value (pr_terms p) (ds_terms ds),
     ds_related_datasets := new_value (pr_related_datasets p) (ds_related_datasets ds),
     ds_schema := new_value (pr_schema p) (map touch_column (ds_schema ds)),
     ds_lineage_inputs := new_value (pr_lineage_inputs p) (ds_lineage_inputs ds),
     ds_lineage_outputs := new_value (pr_lineage_outputs p) (ds_lineage_outputs ds),
     ds_mappings := new_value (pr_mappings p) (ds_mappings ds),
     ds_profile := new_value (pr_profile p) (ds_profile ds)\<rparr>"

definition patch_details :: "dataset_patch_request \<Rightarrow> dataset \<Rightarrow> pyval dict" where
  "patch_details p ds =
     (let updates = patch_updates p; before = dataset_dump ds; old = (\<lambda>k. value_or before k VNone)
      in [(''changes'', VDict updates),
          (''before'', VDict (map (\<lambda>(k, _). (k, old k)) updates)),
          (''after'', VDict (map (\<lambda>(k, v). (k, if v = VNone then old k else v)) updates))])"

definition patched_dataset :: "dataset_patch_request \<Rightarrow> dataset \<Rightarrow> int \<Rightarrow> dataset result" where
  "patched_dataset p ds t =
     (case (if pr_schema p \<noteq> None then bump_version (ds_schema_version ds)
            else Inr (ds_schema_version ds)) of
        Inl e \<Rightarrow> Inl e
      | Inr schema_version \<Rightarrow>
          (case bump_version (ds_version ds) of
             Inl e \<Rightarrow> Inl e
           | Inr version \<Rightarrow>
               (case model_validate ((patched p ds)\<lparr>ds_updated_at := t,
                   ds_schema_version := schema_version, ds_version := version\<rparr>) of
                  Inl e \<Rightarrow> Inl e
                | Inr updated \<Rightarrow> Inr (recompute_scores updated))))"

definition patch_dataset ::
  "pystr \<Rightarrow> dataset_patch_request \<Rightarrow> pystr \<Rightarrow> pystr option \<Rightarrow> 's catalog_state_scheme
   \<Rightarrow> dataset result \<times> 's catalog_state_scheme" where
  "patch_dataset dataset_id p actor decision_id s =
     (case get_dataset_or_404 dataset_id s of
        Inl e \<Rightarrow> (Inl e, s)
      | Inr ds \<Rightarrow>
          (let (t, s) = now s in
           case patched_dataset p ds t of
             Inl e \<Rightarrow> (Inl e, s)
           | Inr updated \<Rightarrow>
               commit_dataset dataset_id updated actor ''dataset.patch'' decision_id (patch_details p ds) s))"

text \<open>What \<open>publish\<close> and \<open>deprecate\<close> share: a new status on a fresh dump of the dataset.\<close>

definition with_status :: "pystr \<Rightarrow> dataset \<Rightarrow> int \<Rightarrow> dataset result" where
  "with_status status ds t =
     (case bump_version (ds_version ds) of
        Inl e \<Rightarrow> Inl e
      | Inr version \<Rightarrow>
          (case model_validate (ds\<lparr>ds_status := status, ds_updated_at := t, ds_version := version,
               ds_schema := map touch_column (ds_schema ds)\<rparr>) of
             Inl e \<Rightarrow> Inl e
           | Inr ds \<Rightarrow> Inr (recompute_scores ds)))"

definition publish_dataset ::
  "pystr \<Rightarrow> pystr \<Rightarrow> pystr option \<Rightarrow> 's catalog_state_scheme \<Rightarrow> dataset result \<times> 's catalog_state_scheme" where
  "publish_dataset dataset_id actor decision_id s =
     (case get_dataset_or_404 dataset_id s of
        Inl e \<Rightarrow> (Inl e, s)
      | Inr ds \<Rightarrow>
          if \<not> mv_is_valid (validate_metadata ds)
          then (Inl (ValueError ''cannot publish dataset: metadata validation failed''), s)
          else if ds_status ds = ''published''
          then (Inr ds, audit_dataset ds actor ''dataset.publish'' decision_id
                  [(''status'', VStr (ds_status ds)), (''noop'', VBool True)] s)
          else (let (t, s) = now s in
            case with_status ''published'' ds t of
              Inl e \<Rightarrow> (Inl e, s)
            | Inr published \<Rightarrow>
                commit_dataset dataset_id published actor ''dataset.publish'' decision_id
                  [(''previous_status'', VStr (ds_status ds))] s))"

text \<open>Here the version is bumped before the clock is read.\<close>

definition deprecate_dataset ::
  "pystr \<Rightarrow> pystr \<Rightarrow> pystr \<Rightarrow> pystr option \<Rightarrow> 's catalog_state_scheme \<Rightarrow> dataset result \<times> 's catalog_state_scheme" where
  "deprecate_dataset dataset_id actor reason decision_id s =
     (case get_dataset_or_404 dataset_id s of
        Inl e \<Rightarrow> (Inl e, s)
      | Inr ds \<Rightarrow>
          (case bump_version (ds_version ds) of
             Inl e \<Rightarrow> (Inl e, s)
           | Inr _ \<Rightarrow>
               (let (t, s) = now s in
                case with_status ''deprecated'' ds t of
                  Inl e \<Rightarrow> (Inl e, s)
                | Inr deprecated \<Rightarrow>
                    commit_dataset dataset_id deprecated actor ''dataset.deprecate'' decision_id
                      [(''reason'', VStr reason)] s)))"

section \<open>Audit log and other reads\<close>

definition ingest_event ::
  "pystr \<Rightarrow> pystr \<Rightarrow> pystr \<Rightarrow> pystr \<Rightarrow> pystr option \<Rightarrow> pystr \<Rightarrow> pyval dict \<Rightarrow> 's catalog_state_scheme
   \<Rightarrow> 's catalog_state_scheme" where
  "ingest_event event_type actor dataset_id decision decision_id reason details s =
     (let (k, s) = uuid4 s; (t, s) = now s
      in record_audit_event
        \<lparr>ev_id = k, ev_actor = actor, ev_action = event_type, ev_resource = dataset_id,
         ev_result = decision, ev_decision_id = decision_id, ev_reason = reason,
         ev_details = details, ev_created_at = t\<rparr> s)"

definition resource_matches :: "pystr option \<Rightarrow> pystr \<Rightarrow> bool" where
  "resource_matches resource r \<longleftrightarrow> resource = None \<or> resource = Some [] \<or> resource = Some r"

definition list_audit_events :: "nat \<Rightarrow> pystr option \<Rightarrow> 's catalog_state_scheme \<Rightarrow> audit_event list" where
  "list_audit_events limit resource s =
     (let events = filter (\<lambda>e. resource_matches resource (ev_resource e)) (audit_log s);
          events = (if has_configured_evidence_store s
            then dict_values (dict_update (dict_of (map (\<lambda>e. (ev_id e, e)) events))
                   (map (\<lambda>e. (ev_id e, e)) (list_persisted_audit_events resource limit s)))
            else events)
      in take limit (sort_desc ev_created_at events))"

definition get_dataset_audit_events :: "pystr \<Rightarrow> nat \<Rightarrow> 's catalog_state_scheme \<Rightarrow> audit_event list" where
  "get_dataset_audit_events dataset_id limit s = list_audit_events limit (Some dataset_id) s"

text \<open>"customer" and "buyer"; "churn" and "leave"; "active customer", "valid customer" and
  "active customer" in its loan word.\<close>

definition kr_customer :: pystr where "kr_customer = utf8 [0xACE0, 0xAC1D]"
definition kr_buyer :: pystr where "kr_buyer = utf8 [0xAD6C, 0xB9E4, 0xC790]"
definition kr_churn :: pystr where "kr_churn = utf8 [0xC774, 0xD0C8]"
definition kr_leave :: pystr where "kr_leave = utf8 [0xD0C8, 0xD1F4]"
definition kr_valid_customer :: pystr where
  "kr_valid_customer = utf8 [0xC720, 0xD6A8, 0x20, 0xACE0, 0xAC1D]"
definition kr_active_customer_loan :: pystr where
  "kr_active_customer_loan = utf8 [0xC561, 0xD2F0, 0xBE0C, 0x20, 0xACE0, 0xAC1D]"

definition mapping_aliases :: "(pystr list) dict" where
  "mapping_aliases =
     [(kr_customer, [kr_customer, kr_buyer]), (kr_churn, [kr_leave, kr_churn]),
      (kr_active_customer, [kr_valid_customer, kr_active_customer_loan])]"

definition mapping_candidates :: "dataset \<Rightarrow> pystr \<Rightarrow> pystr list" where
  "mapping_candidates ds concept =
     (let normalized = strip concept;
          extra = (case dict_get mapping_aliases normalized of None \<Rightarrow> [] | Some xs \<Rightarrow> xs)
      in filter (\<lambda>c. c = normalized \<or> c \<in> set extra) (ds_terms ds))"

definition get_related_datasets :: "pystr \<Rightarrow> 's catalog_state_scheme \<Rightarrow> pystr list result" where
  "get_related_datasets dataset_id s =
     (case get_dataset_or_404 dataset_id s of
        Inl e \<Rightarrow> Inl e | Inr ds \<Rightarrow> Inr (remdups (ds_related_datasets ds)))"

definition get_dataset_lineage ::
  "pystr \<Rightarrow> 's catalog_state_scheme \<Rightarrow> (pystr \<times> pystr list \<times> pystr list) result" where
  "get_dataset_lineage dataset_id s =
     (case get_dataset_or_404 dataset_id s of
        Inl e \<Rightarrow> Inl e | Inr ds \<Rightarrow> Inr (ds_id ds, ds_lineage_inputs ds, ds_lineage_outputs ds))"

end
