(* ===== verification/Catalog_Invariant.thy ===== *)
theory Catalog_Invariant
  imports Catalog
begin

text \<open>
  What the mutations of \<open>src/sdp/catalog.py\<close> keep: the catalog's well-formedness \<open>catalog_inv\<close>
  (keys are the ids, every dataset is valid and scored, and its schema history is a gapless
  sequence of versions whose last snapshot describes it), as an invariant of every state the
  mutations reach from a loaded catalog.
\<close>

section \<open>Versions\<close>

definition version_text :: "nat \<Rightarrow> pystr" where
  "version_text i = ''1.0.'' @ show_nat i"

lemma no_dot_show_nat: "CHR ''.'' \<notin> set (show_nat n)"
proof
  assume "CHR ''.'' \<in> set (show_nat n)"
  then have "is_digit (CHR ''.'')" using show_nat_digits [of n] by (simp add: list_all_iff)
  then show False by code_simp
qed

lemma read_int_show_nat [simp]: "read_int (show_nat n) = Some (int n)"
  using read_int_show_int [of "int n"] by (simp add: show_int_def)

lemma split_version_text:
  "split_char (CHR ''.'') (version_text i) = [''1'', ''0'', show_nat i]"
  by (simp add: version_text_def split_char_no_sep [OF no_dot_show_nat])

lemma bump_version_text [simp]: "bump_version (version_text i) = Inr (version_text (Suc i))"
proof -
  have "read_int ''1'' = Some 1" "read_int ''0'' = Some 0" "show_int 1 = ''1''" "show_int 0 = ''0''"
    by code_simp+
  moreover have "show_int (int i + 1) = show_nat (Suc i)"
    by (simp add: show_int_def nat_add_distrib)
  ultimately have "bump_version (version_text i) = Inr (''1'' @ ''.'' @ ''0'' @ ''.'' @ show_nat (Suc i))"
    unfolding bump_version_def split_version_text by simp
  then show ?thesis by (simp add: version_text_def)
qed

lemma inj_show_nat: "show_nat m = show_nat n \<longleftrightarrow> m = n"
  by (metis read_int_show_nat option.inject of_nat_eq_iff)

lemma version_text_inject [simp]: "version_text i = version_text j \<longleftrightarrow> i = j"
  by (simp add: version_text_def inj_show_nat)

lemma version_text_0: "version_text 0 = ''1.0.0''"
  by code_simp

section \<open>The invariant\<close>

text \<open>The four fields of a column that a snapshot always records: name, datatype and the two
  ratios.\<close>

definition column_core :: "pyval dict \<Rightarrow> pyval dict" where
  "column_core c = take 4 c"

definition snapshot_columns :: "schema_snapshot \<Rightarrow> pyval dict list" where
  "snapshot_columns n = map column_core (sn_schema n)"

definition follows :: "schema_snapshot \<Rightarrow> schema_snapshot \<Rightarrow> bool" where
  "follows a b \<longleftrightarrow> bump_version (sn_version a) = Inr (sn_version b)
     \<and> ((sn_schema_version b = sn_schema_version a \<and> snapshot_columns b = snapshot_columns a)
        \<or> bump_version (sn_schema_version a) = Inr (sn_schema_version b))"

definition history_ok :: "schema_snapshot list \<Rightarrow> bool" where
  "history_ok h \<longleftrightarrow> h \<noteq> [] \<and> sn_version (hd h) = ''1.0.0'' \<and> sn_schema_version (hd h) = ''1.0.0''
     \<and> successively follows h"

definition describes :: "schema_snapshot \<Rightarrow> dataset \<Rightarrow> bool" where
  "describes n ds \<longleftrightarrow> sn_version n = ds_version ds \<and> sn_schema_version n = ds_schema_version ds
     \<and> sn_status n = ds_status ds \<and> sn_schema n = column_signature (ds_schema ds)
     \<and> sn_quality_score n = ds_quality_score ds \<and> sn_freshness_score n = ds_freshness_score ds
     \<and> sn_lineage_inputs n = ds_lineage_inputs ds \<and> sn_lineage_outputs n = ds_lineage_outputs ds
     \<and> sn_tags n = ds_tags ds \<and> sn_terms n = ds_terms ds"

definition dataset_inv :: "schema_snapshot list \<Rightarrow> pystr \<Rightarrow> dataset \<Rightarrow> bool" where
  "dataset_inv h k ds \<longleftrightarrow> ds_id ds = k \<and> dataset_valid ds \<and> recompute_scores ds = ds
     \<and> history_ok h \<and> describes (last h) ds"

definition catalog_inv :: "'s catalog_state_scheme \<Rightarrow> bool" where
  "catalog_inv s \<longleftrightarrow> dict_ok (catalog_data s)
     \<and> (\<forall>k. case dict_get (catalog_data s) k of
            None \<Rightarrow> dict_get (schema_history s) k = None
          | Some ds \<Rightarrow> dataset_inv (history_of s k) k ds)"

lemma history_ok_snoc:
  "history_ok h \<Longrightarrow> follows (last h) n \<Longrightarrow> history_ok (h @ [n])"
  by (auto simp: history_ok_def successively_append_iff)

lemma history_ok_single:
  "sn_version n = ''1.0.0'' \<Longrightarrow> sn_schema_version n = ''1.0.0'' \<Longrightarrow> history_ok [n]"
  by (simp add: history_ok_def)

text \<open>What a good history means: the versions are \<open>1.0.0\<close>, \<open>1.0.1\<close>, ... without a gap, and the
  schema versions climb by at most one.\<close>

lemma history_versions:
  "history_ok h \<Longrightarrow> map sn_version h = map version_text [0..<length h]"
proof (induction h rule: rev_induct)
  case Nil
  show ?case by simp
next
  case (snoc n h)
  show ?case
  proof (cases "h = []")
    case True
    then show ?thesis using snoc.prems by (simp add: history_ok_def version_text_0)
  next
    case False
    then have h: "history_ok h" and f: "follows (last h) n"
      using snoc.prems by (auto simp: history_ok_def successively_append_iff)
    from False have "last (map sn_version h) = sn_version (last h)" by (simp add: last_map)
    moreover have "last (map sn_version h) = version_text (length h - 1)"
      using snoc.IH [OF h] False by (simp add: last_map)
    ultimately have "sn_version n = version_text (length h)"
      using f False by (cases h) (auto simp: follows_def)
    then show ?thesis using snoc.IH [OF h] by simp
  qed
qed

lemma history_schema_versions:
  "history_ok h \<Longrightarrow> \<exists>vs. map sn_schema_version h = map version_text vs \<and> sorted vs \<and> hd vs = 0
     \<and> (\<forall>i < length h. \<forall>j < length h. vs ! i = vs ! j \<longrightarrow> snapshot_columns (h ! i) = snapshot_columns (h ! j))"
proof (induction h rule: rev_induct)
  case Nil
  then show ?case by (simp add: history_ok_def)
next
  case (snoc n h)
  show ?case
  proof (cases "h = []")
    case True
    then show ?thesis using snoc.prems
      by (intro exI [of _ "[0]"]) (simp add: history_ok_def version_text_0)
  next
    case False
    then have h: "history_ok h" and f: "follows (last h) n"
      using snoc.prems by (auto simp: history_ok_def successively_append_iff)
    obtain vs where vs: "map sn_schema_version h = map version_text vs" "sorted vs" "hd vs = 0"
      and cols: "\<And>i j. i < length h \<Longrightarrow> j < length h \<Longrightarrow> vs ! i = vs ! j \<Longrightarrow>
        snapshot_columns (h ! i) = snapshot_columns (h ! j)"
      using snoc.IH [OF h] by blast
    have len: "length vs = length h" using arg_cong [OF vs(1), of length] by simp
    then have ne: "vs \<noteq> []" using False by auto
    have "sn_schema_version (last h) = version_text (last vs)"
      using arg_cong [OF vs(1), of last] False ne by (simp add: last_map)
    with f obtain v where v: "sn_schema_version n = version_text v"
      and step: "v = last vs \<and> snapshot_columns n = snapshot_columns (last h) \<or> v = Suc (last vs)"
      by (metis follows_def bump_version_text sum.inject(2))
    have le: "vs ! i \<le> last vs" if "i < length h" for i
      using vs(2) that len ne by (simp add: last_conv_nth sorted_nth_mono)
    have colsn: "snapshot_columns (h ! i) = snapshot_columns n" if "i < length h" "vs ! i = v" for i
    proof -
      have "v = last vs" "snapshot_columns n = snapshot_columns (last h)"
        using step le [OF that(1)] that(2) by auto
      then show ?thesis
        using cols [of i "length h - 1"] that len False ne by (simp add: last_conv_nth)
    qed
    have "sorted (vs @ [v])"
      using vs(2) le len step by (fastforce simp: sorted_append in_set_conv_nth)
    moreover have "snapshot_columns ((h @ [n]) ! i) = snapshot_columns ((h @ [n]) ! j)"
      if "i < length (h @ [n])" "j < length (h @ [n])" "(vs @ [v]) ! i = (vs @ [v]) ! j" for i j
    proof (cases "i < length h"; cases "j < length h")
      assume "i < length h" "j < length h"
      then show ?thesis using that len cols [of i j] by (simp add: nth_append)
    next
      assume "i < length h" "\<not> j < length h"
      then show ?thesis using that len colsn [of i] by (simp add: nth_append less_Suc_eq)
    next
      assume "\<not> i < length h" "j < length h"
      then show ?thesis using that len colsn [of j] by (simp add: nth_append less_Suc_eq)
    next
      assume "\<not> i < length h" "\<not> j < length h"
      then show ?thesis using that by (simp add: less_Suc_eq)
    qed
    moreover have "map sn_schema_version (h @ [n]) = map version_text (vs @ [v])" "hd (vs @ [v]) = 0"
      using vs v ne by (simp_all add: hd_append)
    ultimately show ?thesis by blast
  qed
qed

section \<open>What storing and auditing do\<close>

lemma now_simps [simp]:
  "catalog_data (snd (now s)) = catalog_data s" "schema_history (snd (now s)) = schema_history s"
  "audit_log (snd (now s)) = audit_log s" "configured_store (snd (now s)) = configured_store s"
  "policy_decision_log (snd (now s)) = policy_decision_log s"
  by (simp_all add: now_def)

lemma history_of_now [simp]: "history_of (snd (now s)) k = history_of s k"
  by (simp add: history_of_def)

lemma catalog_inv_now [simp]: "catalog_inv (snd (now s)) = catalog_inv s"
  by (simp add: catalog_inv_def cong: option.case_cong)

lemma describes_make_schema_snapshot: "describes (fst (make_schema_snapshot ds s)) ds"
  by (simp add: make_schema_snapshot_def describes_def Let_def split: prod.split)

lemma store_dataset_simps:
  "catalog_data (store_dataset k ds s) = dict_set k ds (catalog_data s)"
  "audit_log (store_dataset k ds s) = audit_log s"
  "configured_store (store_dataset k ds s) = configured_store s"
  "policy_decision_log (store_dataset k ds s) = policy_decision_log s"
  by (simp_all add: store_dataset_def record_schema_snapshot_def make_schema_snapshot_def now_def Let_def)

lemma history_of_store_dataset:
  "history_of (store_dataset k ds s) j = (if j = ds_id ds
     then history_of s j @ [fst (make_schema_snapshot ds s)] else history_of s j)"
  by (simp add: store_dataset_def record_schema_snapshot_def make_schema_snapshot_def now_def Let_def
      history_of_def dict_get_set)

lemma schema_history_store_dataset:
  "dict_get (schema_history (store_dataset k ds s)) j = None
     \<longleftrightarrow> j \<noteq> ds_id ds \<and> dict_get (schema_history s) j = None"
  by (simp add: store_dataset_def record_schema_snapshot_def make_schema_snapshot_def now_def Let_def
      dict_get_set)

lemma audit_dataset_simps [simp]:
  "catalog_data (audit_dataset ds actor action d details s) = catalog_data s"
  "schema_history (audit_dataset ds actor action d details s) = schema_history s"
  "policy_decision_log (audit_dataset ds actor action d details s) = policy_decision_log s"
  by (simp_all add: audit_dataset_def build_dataset_payload_def record_audit_event_def uuid4_def
      now_def append_audit_event_def Let_def split: option.split)

lemma history_of_audit_dataset [simp]:
  "history_of (audit_dataset ds actor action d details s) k = history_of s k"
  by (simp add: history_of_def)

lemma catalog_inv_audit_dataset [simp]:
  "catalog_inv (audit_dataset ds actor action d details s) = catalog_inv s"
  by (simp add: catalog_inv_def cong: option.case_cong)

text \<open>The general step: a dataset that follows the last snapshot of its history, or a new one.\<close>

lemma catalog_inv_store:
  assumes inv: "catalog_inv s" and k: "ds_id ds = k" and ok: "dataset_valid ds" "recompute_scores ds = ds"
    and h: "dict_get (catalog_data s) k = None \<Longrightarrow> ds_version ds = ''1.0.0'' \<and> ds_schema_version ds = ''1.0.0''"
    and f: "\<And>n. dict_get (catalog_data s) k \<noteq> None \<Longrightarrow> describes n ds \<Longrightarrow> follows (last (history_of s k)) n"
  shows "catalog_inv (store_dataset k ds s)"
proof -
  define n where "n = fst (make_schema_snapshot ds s)"
  have n: "describes n ds" by (simp add: n_def describes_make_schema_snapshot)
  have hist: "history_ok (history_of s k @ [n])"
  proof (cases "dict_get (catalog_data s) k")
    case None
    then have "history_of s k = []"
      using inv by (auto simp: catalog_inv_def history_of_def dest!: spec [of _ k])
    then show ?thesis using h [OF None] n by (simp add: history_ok_single describes_def)
  next
    case (Some old)
    then have "dataset_inv (history_of s k) k old"
      using inv by (auto simp: catalog_inv_def split: option.splits dest: spec [of _ k])
    then show ?thesis using f [OF _ n] Some by (simp add: history_ok_snoc dataset_inv_def)
  qed
  have "dataset_inv (history_of (store_dataset k ds s) k) k ds"
    using hist n k ok by (simp add: history_of_store_dataset dataset_inv_def flip: n_def)
  moreover have "dict_get (catalog_data s) j = None \<Longrightarrow> dict_get (schema_history s) j = None"
    "dict_get (catalog_data s) j = Some other \<Longrightarrow> dataset_inv (history_of s j) j other" for j other
    using inv by (auto simp: catalog_inv_def dest!: spec [of _ j])
  ultimately show ?thesis
    using inv k
    by (auto simp: catalog_inv_def store_dataset_simps dict_get_set schema_history_store_dataset
        history_of_store_dataset split: option.split)
qed

section \<open>Loading\<close>

lemma set_dict_set: "set (dict_set k v d) \<subseteq> insert (k, v) (set d)"
  unfolding dict_set_def by (induction d) auto

lemma set_dict_update: "set (dict_update d e) \<subseteq> set d \<union> set e"
proof (induction d e rule: dict_update.induct)
  case (2 d k v e)
  then show ?case using set_dict_set [of k v d] by auto
qed simp

lemma set_dict_of: "set (dict_of kvs) \<subseteq> set kvs"
  using set_dict_update [of "[]" kvs] by (simp add: dict_of_def)

lemma fold_record_schema_snapshot_data [simp]:
  "catalog_data (fold record_schema_snapshot dss s) = catalog_data s"
  by (induction dss arbitrary: s)
     (simp_all add: record_schema_snapshot_def make_schema_snapshot_def now_def Let_def)

lemma history_of_record_schema_snapshot:
  "history_of (record_schema_snapshot ds s) k = (if k = ds_id ds
     then history_of s k @ [fst (make_schema_snapshot ds s)] else history_of s k)"
  "dict_get (schema_history (record_schema_snapshot ds s)) k = None
     \<longleftrightarrow> k \<noteq> ds_id ds \<and> dict_get (schema_history s) k = None"
  by (simp_all add: record_schema_snapshot_def make_schema_snapshot_def now_def Let_def
      history_of_def dict_get_set)

lemma fold_record_schema_snapshot_none:
  "dict_get (schema_history (fold record_schema_snapshot dss s)) k = None
     \<longleftrightarrow> k \<notin> ds_id ` set dss \<and> dict_get (schema_history s) k = None"
  by (induction dss arbitrary: s) (auto simp: history_of_record_schema_snapshot)

lemma fold_record_schema_snapshot_other:
  "k \<notin> ds_id ` set dss \<Longrightarrow> history_of (fold record_schema_snapshot dss s) k = history_of s k"
  by (induction dss arbitrary: s) (auto simp: history_of_record_schema_snapshot)

lemma fold_record_schema_snapshot_history:
  "distinct (map ds_id dss) \<Longrightarrow> ds \<in> set dss \<Longrightarrow> history_of s (ds_id ds) = []
   \<Longrightarrow> \<exists>n. history_of (fold record_schema_snapshot dss s) (ds_id ds) = [n] \<and> describes n ds"
proof (induction dss arbitrary: s)
  case (Cons d dss)
  show ?case
  proof (cases "ds = d")
    case True
    then show ?thesis
      using Cons.prems describes_make_schema_snapshot [of d s]
      by (simp add: fold_record_schema_snapshot_other history_of_record_schema_snapshot)
  next
    case False
    then have "ds \<in> set dss" using Cons.prems by simp
    then have ds: "ds \<in> set dss" "ds_id ds \<noteq> ds_id d"
      using Cons.prems by (metis distinct.simps(2) imageI list.set_map list.simps(9))+
    show ?thesis
      using Cons.IH [of "record_schema_snapshot d s"] Cons.prems ds
      by (simp add: history_of_record_schema_snapshot)
  qed
qed simp

definition seed_ok :: "dataset \<Rightarrow> bool" where
  "seed_ok ds \<longleftrightarrow> dataset_valid ds \<and> ds_version ds = ''1.0.0'' \<and> ds_schema_version ds = ''1.0.0''"

lemma catalog_inv_load:
  assumes seeds: "list_all seed_ok seeds"
  shows "catalog_inv (load_catalog seeds s)"
proof -
  define data where
    "data = map (\<lambda>(k, ds). (k, recompute_scores ds)) (dict_of (map (\<lambda>ds. (ds_id ds, ds)) seeds))"
  define s0 where "s0 = s\<lparr>catalog_data := data, audit_log := [], schema_history := []\<rparr>"
  have load: "load_catalog seeds s = fold record_schema_snapshot (map snd data) s0"
    by (simp add: load_catalog_def initialize_schema_history_def data_def s0_def dict_values_def)
  have key: "ds_id ds = k \<and> seed_ok ds \<and> recompute_scores ds = ds" if "(k, ds) \<in> set data" for k ds
  proof -
    from that obtain d where "(k, d) \<in> set (dict_of (map (\<lambda>ds. (ds_id ds, ds)) seeds))"
      and ds: "ds = recompute_scores d"
      by (auto simp: data_def)
    then have d: "(k, d) \<in> set (map (\<lambda>ds. (ds_id ds, ds)) seeds)"
      using set_dict_of by blast
    with ds seeds show ?thesis
      by (auto simp: list_all_iff seed_ok_def recompute_scores_idem)
  qed
  have keys: "map fst data = map fst (dict_of (map (\<lambda>ds. (ds_id ds, ds)) seeds))"
    by (simp add: data_def case_prod_unfold o_def)
  have ok: "dict_ok data"
    using keys dict_ok_of [of "map (\<lambda>ds. (ds_id ds, ds)) seeds"] by (simp add: dict_ok_def)
  have ids: "map ds_id (map snd data) = map fst data"
    using key by auto
  have dist: "distinct (map ds_id (map snd data))"
    using ok ids unfolding dict_ok_def by argo
  have none: "dict_get (schema_history (load_catalog seeds s)) k = None" if "dict_get data k = None" for k
  proof -
    have "ds_id ` set (map snd data) = set (map fst data)" using ids by (metis list.set_map)
    then show ?thesis
      using that unfolding load fold_record_schema_snapshot_none by (simp add: dict_get_None_iff dict_keys_def s0_def)
  qed
  have some: "dataset_inv (history_of (load_catalog seeds s) k) k ds" if g: "dict_get data k = Some ds" for k ds
  proof -
    have mem: "(k, ds) \<in> set data" using g by (rule dict_get_Some_in)
    then have "ds \<in> set (map snd data)" by force
    then have "\<exists>n. history_of (load_catalog seeds s) (ds_id ds) = [n] \<and> describes n ds"
      unfolding load using dist
      by (intro fold_record_schema_snapshot_history) (simp_all add: s0_def history_of_def)
    then show ?thesis
      using key [OF mem] by (auto simp: dataset_inv_def seed_ok_def describes_def intro: history_ok_single)
  qed
  have "catalog_data (load_catalog seeds s) = data" by (simp add: load s0_def)
  then show ?thesis
    using ok none some by (simp add: catalog_inv_def split: option.split)
qed

section \<open>The mutations\<close>

datatype mutation =
    Register dataset_create_request pystr "pystr option"
  | Patch pystr dataset_patch_request pystr "pystr option"
  | Publish pystr pystr "pystr option"
  | Deprecate pystr pystr pystr "pystr option"

fun run_mutation :: "mutation \<Rightarrow> 's catalog_state_scheme \<Rightarrow> dataset result \<times> 's catalog_state_scheme" where
  "run_mutation (Register payload actor d) s = register_dataset payload actor d s"
| "run_mutation (Patch k p actor d) s = patch_dataset k p actor d s"
| "run_mutation (Publish k actor d) s = publish_dataset k actor d s"
| "run_mutation (Deprecate k actor reason d) s = deprecate_dataset k actor reason d s"

lemma column_core_touch [simp]:
  "column_core (column_dump_exclude_unset (touch_column c)) = column_core (column_dump_exclude_unset c)"
  by (simp add: column_core_def column_dump_exclude_unset_def touch_column_def eval_nat_numeral)

lemma snapshot_columns_describes:
  "describes n ds \<Longrightarrow> snapshot_columns n = map (column_core \<circ> column_dump_exclude_unset) (ds_schema ds)"
  by (simp add: describes_def snapshot_columns_def column_signature_def)

lemma catalog_inv_dataset:
  "catalog_inv s \<Longrightarrow> dict_get (catalog_data s) k = Some ds \<Longrightarrow>
   ds_id ds = k \<and> dataset_valid ds \<and> recompute_scores ds = ds \<and> history_ok (history_of s k)
     \<and> describes (last (history_of s k)) ds"
  by (auto simp: catalog_inv_def dataset_inv_def dest!: spec [of _ k])

text \<open>The step of an existing dataset: the next version, and either the same columns under the
  same schema version or the next schema version.\<close>

lemma catalog_inv_store_next:
  assumes inv: "catalog_inv s" and old: "dict_get (catalog_data s) k = Some old"
    and id: "ds_id ds = k" and ok: "dataset_valid ds" "recompute_scores ds = ds"
    and v: "bump_version (ds_version old) = Inr (ds_version ds)"
    and sv: "(ds_schema_version ds = ds_schema_version old \<and> ds_schema ds = map touch_column (ds_schema old))
      \<or> bump_version (ds_schema_version old) = Inr (ds_schema_version ds)"
  shows "catalog_inv (store_dataset k ds s)"
proof (rule catalog_inv_store [OF inv id ok])
  have d: "describes (last (history_of s k)) old"
    using catalog_inv_dataset [OF inv old] by simp
  show "follows (last (history_of s k)) n" if n: "describes n ds" for n
    using sv v d n snapshot_columns_describes [OF d] snapshot_columns_describes [OF n]
    by (auto simp: follows_def describes_def o_def)
qed (use old in auto)

lemma snd_commit_dataset:
  "snd (commit_dataset k ds actor action d details s) = audit_dataset ds actor action d details (store_dataset k ds s)"
  "fst (commit_dataset k ds actor action d details s) = Inr ds"
  by (simp_all add: commit_dataset_def)

lemma registered_dataset_fields:
  "ds_id (registered_dataset payload k t) = k" "ds_version (registered_dataset payload k t) = ''1.0.0''"
  "ds_schema_version (registered_dataset payload k t) = ''1.0.0''"
  by (simp_all add: registered_dataset_def)

lemma register_dataset_inv:
  assumes "catalog_inv s"
  shows "catalog_inv (snd (register_dataset payload actor d s))"
proof (cases "dict_get (catalog_data s) (new_dataset_id payload s)")
  case None
  obtain t w where n: "now s = (t, w)" by (cases "now s")
  then have "catalog_data w = catalog_data s" "catalog_inv w" using assms now_simps [of s] catalog_inv_now [of s] by auto
  then show ?thesis
    using n None
    by (auto simp: register_dataset_def Let_def snd_commit_dataset recompute_scores_idem
        registered_dataset_fields split: sum.split intro!: catalog_inv_store)
next
  case (Some ds)
  then show ?thesis using assms by (simp add: register_dataset_def)
qed

lemma patched_fields:
  "ds_id (patched p ds) = ds_id ds" "ds_schema_version (patched p ds) = ds_schema_version ds"
  "ds_status (patched p ds) = ds_status ds"
  "ds_schema (patched p ds) = new_value (pr_schema p) (map touch_column (ds_schema ds))"
  by (simp_all add: patched_def)

lemma patched_dataset_ok:
  assumes "patched_dataset p old t = Inr ds"
  shows "ds_id ds = ds_id old \<and> dataset_valid ds \<and> recompute_scores ds = ds
    \<and> bump_version (ds_version old) = Inr (ds_version ds)
    \<and> ds_schema ds = new_value (pr_schema p) (map touch_column (ds_schema old))
    \<and> (if pr_schema p = None then ds_schema_version ds = ds_schema_version old
       else bump_version (ds_schema_version old) = Inr (ds_schema_version ds))"
proof -
  from assms obtain v sv where b: "bump_version (ds_version old) = Inr v"
    "(if pr_schema p \<noteq> None then bump_version (ds_schema_version old) else Inr (ds_schema_version old)) = Inr sv"
    and v: "dataset_valid ((patched p old)\<lparr>ds_updated_at := t, ds_schema_version := sv, ds_version := v\<rparr>)"
    and ds: "ds = recompute_scores ((patched p old)\<lparr>ds_updated_at := t, ds_schema_version := sv, ds_version := v\<rparr>)"
    unfolding patched_dataset_def by (fastforce split: sum.splits)
  then show ?thesis by (auto simp: recompute_scores_idem patched_fields split: if_splits)
qed

lemma with_status_ok:
  assumes "with_status st old t = Inr ds"
  shows "ds_id ds = ds_id old \<and> dataset_valid ds \<and> recompute_scores ds = ds \<and> ds_status ds = st
    \<and> bump_version (ds_version old) = Inr (ds_version ds) \<and> ds_schema_version ds = ds_schema_version old
    \<and> ds_schema ds = map touch_column (ds_schema old)"
proof -
  from assms obtain v where b: "bump_version (ds_version old) = Inr v"
    and v: "dataset_valid (old\<lparr>ds_status := st, ds_updated_at := t, ds_version := v,
      ds_schema := map touch_column (ds_schema old)\<rparr>)"
    and ds: "ds = recompute_scores (old\<lparr>ds_status := st, ds_updated_at := t, ds_version := v,
      ds_schema := map touch_column (ds_schema old)\<rparr>)"
    unfolding with_status_def by (fastforce split: sum.splits)
  then show ?thesis by (auto simp: recompute_scores_idem)
qed

text \<open>An existing dataset is read, the clock too, and the result of a function of both committed:
  the shape of \<open>patch\<close>, \<open>publish\<close> and \<open>deprecate\<close>.\<close>

lemma now_pair:
  assumes "now s = (t, w)"
  shows "catalog_data w = catalog_data s" "catalog_inv w = catalog_inv s" "schema_history w = schema_history s"
    "audit_log w = audit_log s" "configured_store w = configured_store s"
    "policy_decision_log w = policy_decision_log s"
  using assms now_simps [of s] catalog_inv_now [of s] by auto

lemma patch_dataset_inv:
  assumes inv: "catalog_inv s"
  shows "catalog_inv (snd (patch_dataset k p actor d s))"
proof (cases "dict_get (catalog_data s) k")
  case None
  then show ?thesis using inv by (simp add: patch_dataset_def get_dataset_or_404_def get_dataset_def)
next
  case (Some old)
  obtain t w where n: "now s = (t, w)" by (cases "now s")
  have w: "catalog_inv w" "dict_get (catalog_data w) k = Some old"
    using inv Some now_pair [OF n] by simp_all
  have st: "catalog_inv (store_dataset k ds w)" if ok: "patched_dataset p old t = Inr ds" for ds
    using patched_dataset_ok [OF ok] catalog_inv_dataset [OF w]
    by (intro catalog_inv_store_next [OF w]) (auto simp: new_value_def split: if_splits)
  show ?thesis
    using w st Some n
    by (auto simp: patch_dataset_def get_dataset_or_404_def get_dataset_def snd_commit_dataset split: sum.split)
qed

lemma store_with_status_inv:
  assumes "catalog_inv s" "dict_get (catalog_data s) k = Some old" "with_status st old t = Inr ds"
  shows "catalog_inv (store_dataset k ds s)"
  using assms with_status_ok [OF assms(3)] catalog_inv_dataset [OF assms(1,2)]
  by (intro catalog_inv_store_next [where old = old]) auto

lemma publish_dataset_inv:
  assumes inv: "catalog_inv s"
  shows "catalog_inv (snd (publish_dataset k actor d s))"
proof (cases "dict_get (catalog_data s) k")
  case None
  then show ?thesis using inv by (simp add: publish_dataset_def get_dataset_or_404_def get_dataset_def)
next
  case (Some old)
  obtain t w where n: "now s = (t, w)" by (cases "now s")
  have w: "catalog_inv w" "dict_get (catalog_data w) k = Some old"
    using inv Some now_pair [OF n] by simp_all
  show ?thesis
    using inv w store_with_status_inv [OF w] Some n
    by (auto simp: publish_dataset_def get_dataset_or_404_def get_dataset_def snd_commit_dataset
        split: sum.split)
qed

lemma deprecate_dataset_inv:
  assumes inv: "catalog_inv s"
  shows "catalog_inv (snd (deprecate_dataset k actor reason d s))"
proof (cases "dict_get (catalog_data s) k")
  case None
  then show ?thesis using inv by (simp add: deprecate_dataset_def get_dataset_or_404_def get_dataset_def)
next
  case (Some old)
  obtain t w where n: "now s = (t, w)" by (cases "now s")
  have w: "catalog_inv w" "dict_get (catalog_data w) k = Some old"
    using inv Some now_pair [OF n] by simp_all
  show ?thesis
    using inv w store_with_status_inv [OF w] Some n
    by (auto simp: deprecate_dataset_def get_dataset_or_404_def get_dataset_def snd_commit_dataset
        split: sum.split)
qed

lemma run_mutation_inv: "catalog_inv s \<Longrightarrow> catalog_inv (snd (run_mutation m s))"
  by (cases m) (simp_all add: register_dataset_inv patch_dataset_inv publish_dataset_inv deprecate_dataset_inv)

text \<open>The states a loaded catalog reaches.\<close>

inductive catalog_reachable :: "dataset list \<Rightarrow> 's catalog_state_scheme \<Rightarrow> bool" for seeds where
  loaded: "catalog_reachable seeds (load_catalog seeds s)"
| mutated: "catalog_reachable seeds s \<Longrightarrow> catalog_reachable seeds (snd (run_mutation m s))"

inductive_cases catalog_reachableE: "catalog_reachable seeds s"

lemma catalog_reachable_inv:
  "catalog_reachable seeds s \<Longrightarrow> list_all seed_ok seeds \<Longrightarrow> catalog_inv s"
  by (induction rule: catalog_reachable.induct) (simp_all add: catalog_inv_load run_mutation_inv)

section \<open>Properties of the mutations\<close>

text \<open>
  C6.  In every state the mutations reach from a loaded catalog, a dataset's history is the
  gapless sequence of versions 1.0.0, 1.0.1, ...; its last snapshot describes the dataset as it
  is; schema versions never go back, and snapshots with the same schema version have the same
  columns (names, types, ratios, in order); and the dataset is valid and its next version exists.
\<close>

theorem schema_history_gapless:
  assumes r: "catalog_reachable seeds s" and seeds: "list_all seed_ok seeds"
    and ds: "get_dataset k s = Some ds"
  shows "ds_id ds = k \<and> dataset_valid ds \<and> recompute_scores ds = ds
    \<and> history_of s k \<noteq> [] \<and> describes (last (history_of s k)) ds
    \<and> map sn_version (history_of s k) = map version_text [0..<length (history_of s k)]
    \<and> bump_version (ds_version ds) = Inr (version_text (length (history_of s k)))
    \<and> (\<exists>vs. map sn_schema_version (history_of s k) = map version_text vs \<and> sorted vs)
    \<and> (\<forall>m \<in> set (history_of s k). \<forall>n \<in> set (history_of s k). sn_schema_version m = sn_schema_version n
        \<longrightarrow> snapshot_columns m = snapshot_columns n)"
proof -
  let ?h = "history_of s k"
  have inv: "ds_id ds = k" "dataset_valid ds" "recompute_scores ds = ds" "history_ok ?h" "describes (last ?h) ds"
    using catalog_inv_dataset [OF catalog_reachable_inv [OF r seeds]] ds by (auto simp: get_dataset_def)
  have ne: "?h \<noteq> []" using inv(4) by (simp add: history_ok_def)
  have vs: "map sn_version ?h = map version_text [0..<length ?h]"
    by (rule history_versions [OF inv(4)])
  have "last (map sn_version ?h) = version_text (length ?h - 1)"
    unfolding vs using ne by (simp add: last_map)
  moreover have "last (map sn_version ?h) = ds_version ds"
    using inv(5) last_map [OF ne, of sn_version] by (simp add: describes_def)
  ultimately have "bump_version (ds_version ds) = Inr (version_text (Suc (length ?h - 1)))"
    by (simp only: bump_version_text)
  then have bump: "bump_version (ds_version ds) = Inr (version_text (length ?h))"
    using ne by simp
  obtain us where us: "map sn_schema_version ?h = map version_text us" "sorted us"
    and cols: "\<And>i j. i < length ?h \<Longrightarrow> j < length ?h \<Longrightarrow> us ! i = us ! j \<Longrightarrow>
      snapshot_columns (?h ! i) = snapshot_columns (?h ! j)"
    using history_schema_versions [OF inv(4)] by blast
  have len: "length us = length ?h" using arg_cong [OF us(1), of length] by simp
  have "snapshot_columns m = snapshot_columns n"
    if mn: "m \<in> set ?h" "n \<in> set ?h" and e: "sn_schema_version m = sn_schema_version n" for m n
  proof -
    obtain i j where ij: "i < length ?h" "m = ?h ! i" "j < length ?h" "n = ?h ! j"
      using mn by (auto simp: in_set_conv_nth)
    have "sn_schema_version (?h ! i) = version_text (us ! i)" if "i < length ?h" for i
      using arg_cong [OF us(1), of "\<lambda>xs. xs ! i"] that len by simp
    then have "us ! i = us ! j" using ij e by simp
    then show ?thesis using cols ij by blast
  qed
  then show ?thesis using inv ne vs bump us by blast
qed

definition sample_dataset :: dataset where
  "sample_dataset =
     \<lparr>ds_id = ''d1'', ds_tenant_id = ''demo'', ds_title = ''Customer master'', ds_description = ''All customers'',
      ds_owner = ''crm'', ds_steward = ''steward-1'', ds_domain = ''customer'', ds_source_system = ''crm-db'',
      ds_sensitivity = ''low'', ds_update_frequency = ''daily'', ds_quality_score = 9/10,
      ds_freshness_score = 8/10, ds_tags = [''crm''], ds_terms = [''customer''], ds_license = ''internal'',
      ds_related_datasets = [],
      ds_schema = [\<lparr>col_name = ''customer_id'', col_datatype = ''varchar'', col_nullable_ratio = 0,
        col_distinct_ratio = 1, col_quality_issues = [], col_pii = False, col_quality_issues_set = False,
        col_pii_set = False\<rparr>],
      ds_distributions = [\<lparr>dist_id = ''p1'', dist_format = ''parquet'', dist_endpoint = ''s3://d1''\<rparr>],
      ds_mappings = [], ds_lineage_inputs = [], ds_lineage_outputs = [], ds_completeness_score = 0,
      ds_recommended_score = 0, ds_version = ''1.0.0'', ds_schema_version = ''1.0.0'',
      ds_status = ''registered'', ds_created_at = 0, ds_updated_at = 0, ds_profile = []\<rparr>"

text \<open>A process with no evidence store and nothing recorded.\<close>

definition empty_portal :: catalog_state where
  "empty_portal =
     \<lparr>uuid_source = show_nat, clock_source = int, iso_text = show_int, stamp_text = show_int,
      str_other = (\<lambda>_. []), uuid_tick = 0, clock_tick = 0, configured_store = None,
      policy_decision_log = [], catalog_data = [], audit_log = [], schema_history = []\<rparr>"

definition sample_catalog :: catalog_state where
  "sample_catalog = load_catalog [sample_dataset] empty_portal"

lemma sample_seed_ok: "list_all seed_ok [sample_dataset]"
  by code_simp

lemma sample_catalog_reachable: "catalog_reachable [sample_dataset] sample_catalog"
  unfolding sample_catalog_def by (rule catalog_reachable.loaded)

lemma sample_published_reachable:
  "catalog_reachable [sample_dataset] (snd (run_mutation (Publish ''d1'' ''ops'' None) sample_catalog))"
  by (rule catalog_reachable.mutated [OF sample_catalog_reachable])

theorem schema_history_gapless_witness:
  "map sn_version (history_of (snd (run_mutation (Publish ''d1'' ''ops'' None) sample_catalog)) ''d1'')
     = [''1.0.0'', ''1.0.1'']"
proof -
  let ?s = "snd (run_mutation (Publish ''d1'' ''ops'' None) sample_catalog)"
  have "map_option ds_status (get_dataset ''d1'' ?s) = Some ''published''" by code_simp
  then obtain ds where "get_dataset ''d1'' ?s = Some ds" by blast
  from schema_history_gapless [OF sample_published_reachable sample_seed_ok this]
  have "map sn_version (history_of ?s ''d1'') = map version_text [0..<length (history_of ?s ''d1'')]" by blast
  moreover have "length (history_of ?s ''d1'') = 2" by code_simp
  moreover have "map version_text [0..<2] = [''1.0.0'', ''1.0.1'']" by code_simp
  ultimately show ?thesis by simp
qed

subsection \<open>Audit\<close>

fun mutation_actor :: "mutation \<Rightarrow> pystr" where
  "mutation_actor (Register _ actor _) = actor"
| "mutation_actor (Patch _ _ actor _) = actor"
| "mutation_actor (Publish _ actor _) = actor"
| "mutation_actor (Deprecate _ actor _ _) = actor"

fun mutation_action :: "mutation \<Rightarrow> pystr" where
  "mutation_action (Register _ _ _) = ''dataset.register''"
| "mutation_action (Patch _ _ _ _) = ''dataset.patch''"
| "mutation_action (Publish _ _ _) = ''dataset.publish''"
| "mutation_action (Deprecate _ _ _ _) = ''dataset.deprecate''"

fun mutation_decision :: "mutation \<Rightarrow> pystr option" where
  "mutation_decision (Register _ _ d) = d"
| "mutation_decision (Patch _ _ _ d) = d"
| "mutation_decision (Publish _ _ d) = d"
| "mutation_decision (Deprecate _ _ _ d) = d"

definition same_records :: "'s catalog_state_scheme \<Rightarrow> 's catalog_state_scheme \<Rightarrow> bool" where
  "same_records s s' \<longleftrightarrow> catalog_data s' = catalog_data s \<and> schema_history s' = schema_history s
     \<and> audit_log s' = audit_log s \<and> configured_store s' = configured_store s
     \<and> policy_decision_log s' = policy_decision_log s"

definition audited :: "audit_event \<Rightarrow> 's catalog_state_scheme \<Rightarrow> 's catalog_state_scheme \<Rightarrow> bool" where
  "audited e s s' \<longleftrightarrow>
     (case configured_store s of
        None \<Rightarrow> configured_store s' = None \<and> audit_log s' = audit_log s @ [e]
      | Some st \<Rightarrow> configured_store s' = Some (store_append_event e st s) \<and> audit_log s' = audit_log s)"

lemma store_append_event_world:
  assumes "str_other w = str_other v"
  shows "store_append_event e st w = store_append_event e st v"
proof -
  have "py_str w = py_str v" using assms by (simp add: py_str_def fun_eq_iff split: pyval.split)
  then show ?thesis
    by (simp add: store_append_event_def postgres_append_event_def audit_tenant_id_def
        split: backend.split option.split)
qed

lemma audited_by_dataset:
  assumes "audit_log w = audit_log s" "configured_store w = configured_store s" "str_other w = str_other s"
  shows "\<exists>e. audited e s (audit_dataset ds actor action d details w) \<and> ev_resource e = ds_id ds
    \<and> ev_actor e = actor \<and> ev_action e = action \<and> ev_decision_id e = d \<and> ev_result e = ''success''
    \<and> ev_details e = details"
  using assms
  by (auto simp: audited_def audit_dataset_def build_dataset_payload_def record_audit_event_def uuid4_def
      now_def append_audit_event_def has_configured_evidence_store_def Let_def
      intro!: store_append_event_world exI [of _ "fst (build_dataset_payload ds actor action d details w)"]
      split: option.split)

lemma str_other_now [simp]: "str_other (snd (now s)) = str_other s"
  by (simp add: now_def)

lemma str_other_store_dataset [simp]: "str_other (store_dataset k ds s) = str_other s"
  by (simp add: store_dataset_def record_schema_snapshot_def make_schema_snapshot_def now_def Let_def)

lemma commit_audited:
  "\<exists>e. audited e s (snd (commit_dataset k ds actor action d details (snd (now s)))) \<and> ev_resource e = ds_id ds
    \<and> ev_actor e = actor \<and> ev_action e = action \<and> ev_decision_id e = d \<and> ev_result e = ''success''"
  using audited_by_dataset [of "store_dataset k ds (snd (now s))" s ds actor action d details]
  by (auto simp: snd_commit_dataset store_dataset_simps)

lemma same_records_now: "same_records s (snd (now s))" "same_records s s"
  by (simp_all add: same_records_def)

text \<open>The contract of a mutation: nothing but the clock moves when it raises; otherwise the
  returned dataset is the one stored, the others are untouched, and one event is written.\<close>

definition mutation_effect ::
  "pystr \<Rightarrow> pystr \<Rightarrow> pystr \<Rightarrow> pystr option \<Rightarrow> 's catalog_state_scheme
   \<Rightarrow> dataset result \<times> 's catalog_state_scheme \<Rightarrow> bool" where
  "mutation_effect k actor action d s out =
     (case out of
        (Inl err, s') \<Rightarrow> same_records s s'
      | (Inr ds, s') \<Rightarrow> get_dataset k s' = Some ds \<and> (\<forall>j. j \<noteq> k \<longrightarrow> get_dataset j s' = get_dataset j s)
          \<and> (\<exists>e. audited e s s' \<and> ev_resource e = ds_id ds \<and> ev_actor e = actor \<and> ev_action e = action
               \<and> ev_decision_id e = d \<and> ev_result e = ''success''))"

lemma mutation_effect_commit:
  "mutation_effect k actor action d s (commit_dataset k ds actor action d details (snd (now s)))"
  using commit_audited [of s k ds actor action d details]
  by (auto simp: mutation_effect_def commit_dataset_def get_dataset_def store_dataset_simps dict_get_set)

lemma mutation_effect_raise:
  "mutation_effect k actor action d s (Inl err, s)" "mutation_effect k actor action d s (Inl err, snd (now s))"
  by (simp_all add: mutation_effect_def same_records_now)

lemma mutation_effect_noop:
  "get_dataset k s = Some ds \<Longrightarrow>
   mutation_effect k actor action d s (Inr ds, audit_dataset ds actor action d details s)"
  using audited_by_dataset [of s s ds actor action d details]
  by (auto simp: mutation_effect_def get_dataset_def)

lemmas mutation_effects = mutation_effect_commit mutation_effect_raise mutation_effect_noop

fun mutation_target :: "mutation \<Rightarrow> 's catalog_state_scheme \<Rightarrow> pystr" where
  "mutation_target (Register payload _ _) s = new_dataset_id payload s"
| "mutation_target (Patch k _ _ _) s = k"
| "mutation_target (Publish k _ _) s = k"
| "mutation_target (Deprecate k _ _ _) s = k"

text \<open>
  C11.  A mutation that raises leaves the catalog, the schema history, the audit log, the store
  and the decision log as they were; one that returns a dataset has stored that dataset under
  its id, has left every other dataset alone, and has written exactly one audit event, for that
  dataset, with the actor, the action and the policy decision of the call.
\<close>

theorem mutation_audited_or_unchanged:
  "mutation_effect (mutation_target m s) (mutation_actor m) (mutation_action m) (mutation_decision m) s
     (run_mutation m s)"
proof (cases m)
  case (Register payload actor d)
  then show ?thesis
    by (auto simp: register_dataset_def Let_def case_prod_unfold registered_dataset_fields
        intro!: mutation_effects split: sum.split)
next
  case (Patch k p actor d)
  then show ?thesis
    by (auto simp: patch_dataset_def Let_def case_prod_unfold intro!: mutation_effects split: sum.split)
next
  case (Publish k actor d)
  then show ?thesis
    by (auto simp: publish_dataset_def Let_def case_prod_unfold get_dataset_or_404_def
        intro!: mutation_effects split: sum.splits option.splits)
next
  case (Deprecate k actor reason d)
  then show ?thesis
    by (auto simp: deprecate_dataset_def Let_def case_prod_unfold intro!: mutation_effects split: sum.split)
qed

subsection \<open>Publication\<close>

lemma missing_metadata_recompute [simp]: "missing_metadata (recompute_scores ds) = missing_metadata ds"
  by (simp add: missing_metadata_def recompute_scores_def Let_def)

lemma missing_metadata_update [simp]:
  "missing_metadata (ds\<lparr>ds_status := st, ds_updated_at := t, ds_version := v,
     ds_schema := map touch_column (ds_schema ds)\<rparr>) = missing_metadata ds"
  by (simp add: missing_metadata_def)

lemma missing_metadata_with_status:
  assumes "with_status st old t = Inr ds"
  shows "missing_metadata ds = missing_metadata old"
proof -
  from assms obtain v where "ds = recompute_scores (old\<lparr>ds_status := st, ds_updated_at := t, ds_version := v,
      ds_schema := map touch_column (ds_schema old)\<rparr>)"
    unfolding with_status_def by (fastforce split: sum.splits)
  then show ?thesis by simp
qed

lemma with_status_succeeds:
  assumes "catalog_inv s" "get_dataset k s = Some old"
  shows "\<exists>ds. with_status st old t = Inr ds"
proof -
  have inv: "dataset_valid old" "history_ok (history_of s k)" "describes (last (history_of s k)) old"
    using catalog_inv_dataset [OF assms(1)] assms(2) by (auto simp: get_dataset_def)
  have ne: "history_of s k \<noteq> []" using inv(2) by (simp add: history_ok_def)
  have "ds_version old = last (map sn_version (history_of s k))"
    using inv(3) ne by (simp add: last_map describes_def)
  then obtain i where "ds_version old = version_text i"
    unfolding history_versions [OF inv(2)] using ne by (simp add: last_map)
  then show ?thesis using inv(1) by (simp add: with_status_def model_validate_def dataset_valid_def list.pred_map o_def)
qed

text \<open>
  C13.  In a reachable state, publishing succeeds exactly when all ten required metadata fields
  are there; the result is then published with the same metadata, and otherwise the call raises
  \<open>ValueError\<close>.
\<close>

theorem publish_iff_metadata_complete:
  assumes r: "catalog_reachable seeds s" and seeds: "list_all seed_ok seeds"
    and old: "get_dataset k s = Some old"
  shows "case fst (publish_dataset k actor d s) of
      Inl err \<Rightarrow> missing_metadata old \<noteq> []
        \<and> err = ValueError ''cannot publish dataset: metadata validation failed''
    | Inr ds \<Rightarrow> missing_metadata old = [] \<and> missing_metadata ds = [] \<and> ds_status ds = ''published''
        \<and> get_dataset k (snd (publish_dataset k actor d s)) = Some ds"
proof -
  obtain t w where n: "now s = (t, w)" by (cases "now s")
  obtain ds where ds: "with_status ''published'' old t = Inr ds"
    using with_status_succeeds [OF catalog_reachable_inv [OF r seeds] old] by blast
  have "ds_status ds = ''published''" using with_status_ok [OF ds] by simp
  then show ?thesis
    using old n ds missing_metadata_with_status [OF ds]
    by (auto simp: publish_dataset_def get_dataset_or_404_def validate_metadata_def Let_def get_dataset_def
        commit_dataset_def store_dataset_simps dict_get_set)
qed

theorem publish_iff_metadata_complete_witness:
  "\<exists>ds. fst (publish_dataset ''d1'' ''ops'' None sample_catalog) = Inr ds \<and> ds_status ds = ''published''"
proof -
  have "map_option missing_metadata (get_dataset ''d1'' sample_catalog) = Some []" by code_simp
  then obtain old where "get_dataset ''d1'' sample_catalog = Some old" "missing_metadata old = []" by blast
  from publish_iff_metadata_complete [OF sample_catalog_reachable sample_seed_ok this(1), of "''ops''" None] this(2)
  show ?thesis by (auto split: sum.splits)
qed

end
