(* ===== verification/Demo_Seed.thy ===== *)
theory Demo_Seed
  imports Catalog_Invariant
begin

text \<open>
  The buyer demo that ships with the portal (\<open>src/sdp_core/demo_seed.py\<close>): its domain, its five
  datasets, their summaries, and the catalog a process starts with.  The datasets are built in the
  order of the source, so the clock readings (\<open>datetime.now\<close> in the approved mappings, the default
  factories of \<open>created_at\<close> and \<open>updated_at\<close>) are taken in that order too.
\<close>

section \<open>The domain\<close>

record buyer_demo_domain =
  dd_id :: pystr
  dd_label :: pystr
  dd_description :: pystr
  dd_default_connectors :: "pystr list"
  dd_analyst_questions :: "pystr list"
  dd_governance_questions :: "pystr list"
  dd_acceptance_questions :: "pystr list"
  dd_dataset_ids :: "pystr list"
  dd_glossary_terms :: "pystr list"

record buyer_demo_dataset_summary =
  sm_id :: pystr
  sm_title :: pystr
  sm_domain :: pystr
  sm_source_type :: pystr
  sm_source_system :: pystr
  sm_sensitivity :: pystr
  sm_steward :: pystr
  sm_acceptance_role :: pystr

definition customer_intelligence_domain :: buyer_demo_domain where
  "customer_intelligence_domain =
     \<lparr>dd_id = ''customer_intelligence'', dd_label = ''customer intelligence'',
      dd_description = (utf8 [0xACE0, 0xAC1D, 0x20, 0xB9C8, 0xC2A4, 0xD130, 0x2C, 0x20, 0xD589, 0xB3D9,
         0x20, 0xC774, 0xBCA4, 0xD2B8, 0x2C, 0x20, 0xC138, 0xC77C, 0xC988, 0x20, 0xC804, 0xD658,
         0x20, 0xB370, 0xC774, 0xD130, 0xB97C, 0x20, 0xC5F0, 0xACB0, 0xD574, 0x20, 0xACE0, 0xAC1D,
         0x20, 0xD0D0, 0xC0C9, 0xACFC, 0x20, 0xC774, 0xD0C8, 0x20, 0xBD84, 0xC11D, 0xC744, 0x20,
         0xC2DC, 0xC5F0, 0xD558, 0xB294] @ '' buyer demo domain.''),
      dd_default_connectors = [''sql_connector'', ''rdf_connector''],
      dd_analyst_questions = [utf8 [0xCD5C, 0xADFC, 0x20, 0x39, 0x30, 0xC77C, 0x20, 0xD65C, 0xC131, 0x20,
         0xACE0, 0xAC1D, 0xACFC, 0x20, 0xC774, 0xD0C8, 0x20, 0xC704, 0xD5D8, 0x20, 0xACE0, 0xAC1D,
         0xC744, 0x20, 0xCC3E, 0xACE0, 0x20, 0xADFC, 0xAC70, 0x20, 0xB370, 0xC774, 0xD130, 0xC14B,
         0xC744, 0x20, 0xCD94, 0xCC9C, 0xD55C, 0xB2E4, 0x2E], (utf8 [0xACE0, 0xAC1D, 0x20, 0xB9C8,
         0xC2A4, 0xD130, 0xC640, 0x20, 0xD589, 0xB3D9, 0x20, 0xC774, 0xBCA4, 0xD2B8, 0xB97C, 0x20,
         0xC870, 0xC778, 0xD560, 0x20, 0xB54C, 0x20, 0xC0AC, 0xC6A9, 0xD560] @ '' business key'' @
         utf8 [0xC640, 0x20, 0xD488, 0xC9C8, 0x20, 0xB9AC, 0xC2A4, 0xD06C, 0xB97C, 0x20, 0xD655,
         0xC778, 0xD55C, 0xB2E4, 0x2E])],
      dd_governance_questions = [(''PII '' @ utf8 [0xCEEC, 0xB7FC, 0xC774] @ '' preview/query'' @ utf8
         [0xC5D0, 0xC11C, 0x20, 0xB9C8, 0xC2A4, 0xD0B9, 0xB418, 0xACE0] @ '' policy decision id'' @
         utf8 [0xAC00, 0x20, 0xB0A8, 0xB294, 0xC9C0, 0x20, 0xD655, 0xC778, 0xD55C, 0xB2E4, 0x2E]),
         (utf8 [0xD575, 0xC2EC] @ '' glossary term'' @ utf8 [0xC774, 0x20, 0xC2B9, 0xC778, 0xB41C] @
         '' ontology concept '' @ utf8 [0xB610, 0xB294] @ '' steward patch'' @ utf8 [0xB85C, 0x20,
         0xCD94, 0xC801, 0xB418, 0xB294, 0xC9C0, 0x20, 0xD655, 0xC778, 0xD55C, 0xB2E4, 0x2E])],
      dd_acceptance_questions = [(utf8 [0xC790, 0xC5F0, 0xC5B4, 0x20, 0xC9C8, 0xBB38, 0xC774] @
         '' catalog search, ontology resolve, governed query path'' @ utf8 [0xB85C, 0x20, 0xC774,
         0xC5B4, 0xC9C4, 0xB2E4, 0x2E]), (utf8 [0xBAA8, 0xB4E0] @ '' preview/query '' @ utf8
         [0xC99D, 0xBE59, 0xC774] @ '' audit event'' @ utf8 [0xC640] @ '' policy decision'' @ utf8
         [0xC5D0, 0x20, 0xC5F0, 0xACB0, 0xB41C, 0xB2E4, 0x2E])],
      dd_dataset_ids = [''crm-customer-master'', ''crm-event'', ''sales-order'', ''semantic-glossary'',
         ''marketing-campaign''],
      dd_glossary_terms = [kr_customer, kr_active_customer, kr_churn, utf8 [0xACE0, 0xAC1D, 0x20, 0xD65C,
         0xB3D9], utf8 [0xC804, 0xD658], utf8 [0xCEA0, 0xD398, 0xC778], utf8 [0xBE44, 0xC988,
         0xB2C8, 0xC2A4, 0x20, 0xC6A9, 0xC5B4]]\<rparr>"

definition buyer_demo_domains :: "buyer_demo_domain list" where
  "buyer_demo_domains = [customer_intelligence_domain]"

definition space_to_underscore :: "pystr \<Rightarrow> pystr" where
  "space_to_underscore = replace_char (CHR '' '') (CHR ''_'')"

text \<open>The names a domain answers to, and the lookup by any of them or by a glossary term.\<close>

definition domain_answers :: "pystr \<Rightarrow> buyer_demo_domain \<Rightarrow> bool" where
  "domain_answers priority_domain domain =
     (let normalized = space_to_underscore (replace_char (CHR ''-'') (CHR ''_'') (lower (strip priority_domain)));
          labels = [dd_id domain, lower (dd_label domain), space_to_underscore (lower (dd_label domain))]
      in normalized \<in> set labels \<or> strip priority_domain \<in> set (dd_glossary_terms domain))"

definition get_buyer_demo_domain :: "pystr \<Rightarrow> buyer_demo_domain option" where
  "get_buyer_demo_domain priority_domain = find (domain_answers priority_domain) buyer_demo_domains"

section \<open>The datasets\<close>

definition approved_mapping ::
  "pystr \<Rightarrow> pystr \<Rightarrow> 's world_scheme \<Rightarrow> business_mapping \<times> 's world_scheme" where
  "approved_mapping concept steward s =
     (let (approved_at, s) = now s
      in (\<lparr>map_concept = concept, map_status = status_APPROVED, map_source = Some (''steward:'' @ steward),
           map_steward = Some steward, map_approved_at = Some approved_at,
           map_fields_set = [''concept'', ''status'', ''source'', ''steward'', ''approved_at'']\<rparr>, s))"

definition proposed_mapping :: "pystr \<Rightarrow> business_mapping" where
  "proposed_mapping concept =
     \<lparr>map_concept = concept, map_status = status_PROPOSED, map_source = Some ''llm:suggestion'',
      map_steward = None, map_approved_at = None, map_fields_set = [''concept'', ''status'', ''source'']\<rparr>"

text \<open>\<open>ColumnMetadata\<close> built from the five keywords every column of the demo gives.\<close>

definition demo_column :: "pystr \<Rightarrow> pystr \<Rightarrow> rat \<Rightarrow> rat \<Rightarrow> bool \<Rightarrow> column_metadata" where
  "demo_column name datatype nullable_ratio distinct_ratio pii =
     \<lparr>col_name = name, col_datatype = datatype, col_nullable_ratio = nullable_ratio,
      col_distinct_ratio = distinct_ratio, col_quality_issues = [], col_pii = pii,
      col_quality_issues_set = False, col_pii_set = True\<rparr>"

definition demo_customer_master :: "int \<Rightarrow> 's world_scheme \<Rightarrow> dataset \<times> 's world_scheme" where
  "demo_customer_master approved_at s =
     (let (m2, s) = approved_mapping kr_active_customer ''biz-admin'' s;
          (created, s) = now s; (updated, s) = now s
      in (\<lparr>ds_id = ''crm-customer-master'', ds_tenant_id = ''demo'',
           ds_title = utf8 [0xACE0, 0xAC1D, 0x20, 0xB9C8, 0xC2A4, 0xD130],
           ds_description = utf8 [0xACE0, 0xAC1D, 0xC758, 0x20, 0xC0C1, 0xD0DC, 0xC640, 0x20, 0xD575, 0xC2EC,
              0x20, 0xC0C1, 0xD0DC, 0x20, 0xC9C0, 0xD45C, 0xB97C, 0x20, 0xD1B5, 0xD569, 0x20,
              0xAD00, 0xB9AC, 0xD558, 0xB294, 0x20, 0xAE30, 0xBCF8, 0x20, 0xB370, 0xC774, 0xD130,
              0xC14B],
           ds_owner = ''data-platform'', ds_steward = ''biz-admin'', ds_domain = kr_customer,
           ds_source_system = ''postgresql://analytics.dw/customer'', ds_sensitivity = ''medium'',
           ds_update_frequency = ''daily'', ds_quality_score = 23/25, ds_freshness_score = 49/50,
           ds_tags = [kr_customer, utf8 [0xD504, 0xB85C, 0xD544], kr_churn],
           ds_terms = [kr_customer, kr_active_customer, kr_churn], ds_license = ''internal'',
           ds_related_datasets = [''crm-event'', ''sales-order''],
           ds_schema = [demo_column ''customer_id'' ''string'' 0 1 False, demo_column ''customer_email''
              ''string'' (1/100) (99/100) True, demo_column ''signup_at'' ''timestamp'' 0 (22/25)
              False],
           ds_distributions = [\<lparr>dist_id = ''dist-crm-customer'', dist_format = ''postgresql.table'',
              dist_endpoint = ''https://example.internal/api/table/crm_customer_master''\<rparr>],
           ds_mappings = [\<lparr>map_concept = kr_customer, map_status = status_APPROVED, map_source = Some
              ''steward:biz-admin'', map_steward = Some ''biz-admin'', map_approved_at = Some
              approved_at, map_fields_set = [''concept'', ''status'', ''source'', ''steward'',
              ''approved_at'']\<rparr>, m2],
           ds_lineage_inputs = [''crm-event''], ds_lineage_outputs = [''churn-report''],
           ds_completeness_score = 0, ds_recommended_score = 0, ds_version = ''1.0.0'',
           ds_schema_version = ''1.0.0'', ds_status = ''published'', ds_created_at = created,
           ds_updated_at = updated,
           ds_profile = [(''row_count'', VInt 1200000), (''updated_at'', VStr ''2026-06-29T00:00:00Z'')]\<rparr>, s))"

definition demo_crm_event :: "int \<Rightarrow> 's world_scheme \<Rightarrow> dataset \<times> 's world_scheme" where
  "demo_crm_event approved_at s =
     (let (m1, s) = approved_mapping kr_active_customer ''data-engineering'' s;
          (created, s) = now s; (updated, s) = now s
      in (\<lparr>ds_id = ''crm-event'', ds_tenant_id = ''demo'',
           ds_title = utf8 [0xD589, 0xB3D9, 0x20, 0xC774, 0xBCA4, 0xD2B8, 0x20, 0xB85C, 0xADF8],
           ds_description = utf8 [0xACE0, 0xAC1D, 0x20, 0xD589, 0xD0DC, 0x2C, 0x20, 0xC811, 0xC18D, 0x20,
              0xC774, 0xBCA4, 0xD2B8, 0x2C, 0x20, 0xC804, 0xD658, 0x20, 0xB85C, 0xADF8, 0xB97C,
              0x20, 0xC800, 0xC7A5, 0xD55C, 0x20, 0xC2DC, 0xACC4, 0xC5F4, 0x20, 0xB370, 0xC774,
              0xD130, 0xC14B],
           ds_owner = ''data-platform'', ds_steward = ''data-engineering'',
           ds_domain = utf8 [0xACE0, 0xAC1D, 0xD589, 0xB3D9],
           ds_source_system = ''s3://analytics/events/crm'', ds_sensitivity = ''high'',
           ds_update_frequency = ''hourly'', ds_quality_score = 22/25, ds_freshness_score = 19/20,
           ds_tags = [utf8 [0xC774, 0xBCA4, 0xD2B8], utf8 [0xD589, 0xB3D9], utf8 [0xB85C, 0xADF8]],
           ds_terms = [utf8 [0xACE0, 0xAC1D, 0x20, 0xD65C, 0xB3D9], utf8 [0xD589, 0xB3D9], utf8 [0xC774,
              0xBCA4, 0xD2B8]],
           ds_license = ''internal'',
           ds_related_datasets = [''crm-customer-master'', ''marketing-campaign''],
           ds_schema = [demo_column ''event_id'' ''string'' 0 1 False, demo_column ''customer_id'' ''string'' 0
              (49/50) False, demo_column ''event_timestamp'' ''timestamp'' 0 (97/100) False,
              demo_column ''device_id'' ''string'' (1/20) (17/20) False],
           ds_distributions = [\<lparr>dist_id = ''dist-crm-event'', dist_format = ''parquet'', dist_endpoint =
              ''https://example.internal/api/file/crm_event''\<rparr>],
           ds_mappings = [m1, proposed_mapping (utf8 [0xACE0, 0xAC1D, 0x20, 0xC774, 0xD0C8])],
           ds_lineage_inputs = [''app-event-raw'', ''auth-service''],
           ds_lineage_outputs = [''crm-customer-master''], ds_completeness_score = 0,
           ds_recommended_score = 0, ds_version = ''1.0.0'', ds_schema_version = ''1.0.0'',
           ds_status = ''published'', ds_created_at = created, ds_updated_at = updated,
           ds_profile = [(''row_count'', VInt 54000000), (''updated_at'', VStr ''2026-06-29T00:00:00Z'')]\<rparr>, s))"

definition demo_sales_order :: "int \<Rightarrow> 's world_scheme \<Rightarrow> dataset \<times> 's world_scheme" where
  "demo_sales_order approved_at s =
     (let (m1, s) = approved_mapping (utf8 [0xC804, 0xD658]) ''sales-ops'' s;
          (m2, s) = approved_mapping (utf8 [0xB9E4, 0xCD9C]) ''sales-ops'' s;
          (created, s) = now s; (updated, s) = now s
      in (\<lparr>ds_id = ''sales-order'', ds_tenant_id = ''demo'',
           ds_title = utf8 [0xC8FC, 0xBB38, 0x20, 0xC804, 0xD658, 0x20, 0xB0B4, 0xC5ED],
           ds_description = utf8 [0xACE0, 0xAC1D, 0xBCC4, 0x20, 0xC8FC, 0xBB38, 0x2C, 0x20, 0xB9E4, 0xCD9C,
              0x2C, 0x20, 0xC804, 0xD658, 0x20, 0xC0C1, 0xD0DC, 0xB97C, 0x20, 0xBD84, 0xC11D,
              0xD558, 0xB294, 0x20, 0xC138, 0xC77C, 0xC988, 0x20, 0xB370, 0xC774, 0xD130, 0xC14B],
           ds_owner = ''revenue-ops'', ds_steward = ''sales-ops'', ds_domain = utf8 [0xB9E4, 0xCD9C],
           ds_source_system = ''postgresql://analytics.dw/sales'', ds_sensitivity = ''medium'',
           ds_update_frequency = ''daily'', ds_quality_score = 9/10, ds_freshness_score = 24/25,
           ds_tags = [utf8 [0xC8FC, 0xBB38], utf8 [0xB9E4, 0xCD9C], utf8 [0xC804, 0xD658]],
           ds_terms = [utf8 [0xC804, 0xD658], kr_customer, utf8 [0xB9E4, 0xCD9C]],
           ds_license = ''internal'', ds_related_datasets = [''crm-customer-master''],
           ds_schema = [demo_column ''order_id'' ''string'' 0 1 False, demo_column ''customer_id'' ''string'' 0
              (91/100) False, demo_column ''order_amount'' ''decimal'' 0 (18/25) False],
           ds_distributions = [\<lparr>dist_id = ''dist-sales-order'', dist_format = ''postgresql.table'',
              dist_endpoint = ''https://example.internal/api/table/sales_order''\<rparr>],
           ds_mappings = [m1, m2], ds_lineage_inputs = [''commerce-order''],
           ds_lineage_outputs = [''revenue-dashboard''], ds_completeness_score = 0,
           ds_recommended_score = 0, ds_version = ''1.0.0'', ds_schema_version = ''1.0.0'',
           ds_status = ''published'', ds_created_at = created, ds_updated_at = updated,
           ds_profile = [(''row_count'', VInt 8700000), (''updated_at'', VStr ''2026-06-29T00:00:00Z'')]\<rparr>, s))"

definition demo_semantic_glossary :: "int \<Rightarrow> 's world_scheme \<Rightarrow> dataset \<times> 's world_scheme" where
  "demo_semantic_glossary approved_at s =
     (let (m1, s) = approved_mapping kr_customer ''ontology-admin'' s;
          (m2, s) = approved_mapping kr_active_customer ''ontology-admin'' s;
          (m3, s) = approved_mapping kr_churn ''ontology-admin'' s;
          (m4, s) = approved_mapping (utf8 [0xC804, 0xD658]) ''ontology-admin'' s;
          (created, s) = now s; (updated, s) = now s
      in (\<lparr>ds_id = ''semantic-glossary'', ds_tenant_id = ''demo'',
           ds_title = utf8 [0xACE0, 0xAC1D, 0x20, 0xC778, 0xD154, 0xB9AC, 0xC804, 0xC2A4, 0x20, 0xBE44, 0xC988,
              0xB2C8, 0xC2A4, 0x20, 0xC6A9, 0xC5B4, 0x20, 0xADF8, 0xB798, 0xD504],
           ds_description = (utf8 [0xACE0, 0xAC1D, 0x2C, 0x20, 0xD65C, 0xC131, 0x20, 0xACE0, 0xAC1D, 0x2C,
              0x20, 0xC774, 0xD0C8, 0x2C, 0x20, 0xC804, 0xD658, 0x20, 0xAC1C, 0xB150, 0xACFC, 0x20,
              0xB3D9, 0xC758, 0xC5B4, 0xB97C, 0x20, 0xAD00, 0xB9AC, 0xD558, 0xB294] @
              '' RDF/SPARQL semantic store dataset''),
           ds_owner = ''data-governance'', ds_steward = ''ontology-admin'',
           ds_domain = utf8 [0xC628, 0xD1A8, 0xB85C, 0xC9C0],
           ds_source_system = ''sparql://semantic.graph/customer-intelligence'',
           ds_sensitivity = ''low'', ds_update_frequency = ''daily'', ds_quality_score = 47/50,
           ds_freshness_score = 97/100,
           ds_tags = [utf8 [0xC628, 0xD1A8, 0xB85C, 0xC9C0], utf8 [0xBE44, 0xC988, 0xB2C8, 0xC2A4, 0x20,
              0xC6A9, 0xC5B4], ''RDF''],
           ds_terms = [kr_customer, kr_active_customer, kr_churn, utf8 [0xC804, 0xD658], utf8 [0xBE44, 0xC988,
              0xB2C8, 0xC2A4, 0x20, 0xC6A9, 0xC5B4]],
           ds_license = ''internal'',
           ds_related_datasets = [''crm-customer-master'', ''crm-event'', ''sales-order''],
           ds_schema = [demo_column ''concept_uri'' ''iri'' 0 1 False, demo_column ''preferred_label''
              ''string'' 0 (9/10) False, demo_column ''broader_concept'' ''iri'' (1/5) (7/10)
              False],
           ds_distributions = [\<lparr>dist_id = ''dist-semantic-glossary'', dist_format = ''sparql.graph'',
              dist_endpoint = ''https://example.internal/sparql/customer-intelligence''\<rparr>],
           ds_mappings = [m1, m2, m3, m4], ds_lineage_inputs = [''business-glossary''],
           ds_lineage_outputs = [''crm-customer-master'', ''crm-event'', ''sales-order''],
           ds_completeness_score = 0, ds_recommended_score = 0, ds_version = ''1.0.0'',
           ds_schema_version = ''1.0.0'', ds_status = ''published'', ds_created_at = created,
           ds_updated_at = updated,
           ds_profile = [(''triple_count'', VInt 4200), (''updated_at'', VStr ''2026-06-29T00:00:00Z'')]\<rparr>, s))"

definition demo_marketing_campaign :: "int \<Rightarrow> 's world_scheme \<Rightarrow> dataset \<times> 's world_scheme" where
  "demo_marketing_campaign approved_at s =
     (let (m1, s) = approved_mapping (utf8 [0xCEA0, 0xD398, 0xC778]) ''marketing-ops'' s;
          (m2, s) = approved_mapping (utf8 [0xC804, 0xD658]) ''marketing-ops'' s;
          (created, s) = now s; (updated, s) = now s
      in (\<lparr>ds_id = ''marketing-campaign'', ds_tenant_id = ''demo'',
           ds_title = (utf8 [0xB9C8, 0xCF00, 0xD305, 0x20, 0xCEA0, 0xD398, 0xC778] @ '' API''),
           ds_description = (utf8 [0xCEA0, 0xD398, 0xC778, 0x20, 0xB178, 0xCD9C, 0x2C, 0x20, 0xCC44, 0xB110,
              0x2C, 0x20, 0xD0C0, 0xAC9F, 0x20, 0xC138, 0xADF8, 0xBA3C, 0xD2B8, 0xB97C, 0x20,
              0xC81C, 0xACF5, 0xD558, 0xB294] @ '' governed REST API '' @ utf8 [0xB370, 0xC774,
              0xD130, 0xC14B]),
           ds_owner = ''growth-platform'', ds_steward = ''marketing-ops'',
           ds_domain = utf8 [0xB9C8, 0xCF00, 0xD305],
           ds_source_system = ''https://api.example.internal/marketing/campaigns'',
           ds_sensitivity = ''medium'', ds_update_frequency = ''daily'', ds_quality_score = 89/100,
           ds_freshness_score = 93/100,
           ds_tags = [utf8 [0xCEA0, 0xD398, 0xC778], utf8 [0xB9C8, 0xCF00, 0xD305], utf8 [0xC138, 0xADF8,
              0xBA3C, 0xD2B8]],
           ds_terms = [utf8 [0xCEA0, 0xD398, 0xC778], kr_customer, utf8 [0xC804, 0xD658]],
           ds_license = ''internal'',
           ds_related_datasets = [''crm-customer-master'', ''crm-event'', ''sales-order''],
           ds_schema = [demo_column ''campaign_id'' ''string'' 0 1 False, demo_column ''target_segment''
              ''string'' (3/100) (31/50) False, demo_column ''channel'' ''string'' 0 (3/20) False],
           ds_distributions = [\<lparr>dist_id = ''dist-marketing-campaign'', dist_format = ''rest.json'',
              dist_endpoint = ''https://api.example.internal/marketing/campaigns''\<rparr>],
           ds_mappings = [m1, m2], ds_lineage_inputs = [''campaign-manager''],
           ds_lineage_outputs = [''sales-order'', ''crm-event''], ds_completeness_score = 0,
           ds_recommended_score = 0, ds_version = ''1.0.0'', ds_schema_version = ''1.0.0'',
           ds_status = ''published'', ds_created_at = created, ds_updated_at = updated,
           ds_profile = [(''endpoint_count'', VInt 3), (''updated_at'', VStr ''2026-06-29T00:00:00Z'')]\<rparr>, s))"

definition customer_intelligence_datasets :: "'s world_scheme \<Rightarrow> dataset list \<times> 's world_scheme" where
  "customer_intelligence_datasets s =
     (let (approved_at, s) = now s;
          (a, s) = demo_customer_master approved_at s;
          (b, s) = demo_crm_event approved_at s;
          (c, s) = demo_sales_order approved_at s;
          (d, s) = demo_semantic_glossary approved_at s;
          (e, s) = demo_marketing_campaign approved_at s
      in ([a, b, c, d, e], s))"

definition buyer_demo_datasets :: "pystr \<Rightarrow> 's world_scheme \<Rightarrow> dataset list result \<times> 's world_scheme" where
  "buyer_demo_datasets domain_id s =
     (if domain_id \<noteq> ''customer_intelligence''
      then (Inl (ValueError (''unsupported buyer demo domain: '' @ domain_id)), s)
      else (let (ds, s) = customer_intelligence_datasets s in (Inr ds, s)))"

section \<open>Summaries and contexts\<close>

definition summary_source_type :: "dataset \<Rightarrow> pystr" where
  "summary_source_type ds =
     (if startswith (ds_source_system ds) ''postgresql://'' then ''sql''
      else if startswith (ds_source_system ds) ''sparql://'' then ''rdf''
      else if startswith (ds_source_system ds) ''https://'' \<or> startswith (ds_source_system ds) ''http://''
      then ''api'' else ''file_lake'')"

definition dataset_summary :: "dataset \<Rightarrow> buyer_demo_dataset_summary" where
  "dataset_summary ds =
     \<lparr>sm_id = ds_id ds, sm_title = ds_title ds, sm_domain = ds_domain ds,
      sm_source_type = summary_source_type ds, sm_source_system = ds_source_system ds,
      sm_sensitivity = ds_sensitivity ds, sm_steward = ds_steward ds,
      sm_acceptance_role = ''priority_dataset''\<rparr>"

definition buyer_demo_dataset_summaries ::
  "pystr \<Rightarrow> 's world_scheme \<Rightarrow> buyer_demo_dataset_summary list result \<times> 's world_scheme" where
  "buyer_demo_dataset_summaries domain_id s =
     (case buyer_demo_datasets domain_id s of
        (Inl err, s) \<Rightarrow> (Inl err, s) | (Inr ds, s) \<Rightarrow> (Inr (map dataset_summary ds), s))"

definition buyer_demo_context_for_dataset :: "pystr \<Rightarrow> pyval dict option" where
  "buyer_demo_context_for_dataset dataset_id =
     map_option (\<lambda>domain.
        [(''domain_id'', VStr (dd_id domain)), (''domain_label'', VStr (dd_label domain)),
         (''analyst_questions'', str_list (dd_analyst_questions domain)),
         (''governance_questions'', str_list (dd_governance_questions domain)),
         (''acceptance_questions'', str_list (dd_acceptance_questions domain))])
       (find (\<lambda>domain. dataset_id \<in> set (dd_dataset_ids domain)) buyer_demo_domains)"

section \<open>The catalog at start-up\<close>

text \<open>Importing \<open>catalog.py\<close>: \<open>_seed_datasets\<close>, the scores, and the first snapshots.\<close>

definition started_catalog :: "'s catalog_state_scheme \<Rightarrow> 's catalog_state_scheme" where
  "started_catalog s =
     (case buyer_demo_datasets ''customer_intelligence'' s of
        (Inl _, s) \<Rightarrow> s | (Inr seeds, s) \<Rightarrow> load_catalog seeds s)"

section \<open>What ships is sound\<close>

lemma utf8_Cons_not_Nil [simp]: "utf8 (c # cs) \<noteq> []"
  by (simp add: utf8_def utf8_char_def)

definition demo_dataset_ok :: "dataset \<Rightarrow> bool" where
  "demo_dataset_ok ds \<longleftrightarrow> seed_ok ds \<and> missing_metadata ds = [] \<and> ds_status ds = ''published''
     \<and> set (ds_related_datasets ds) \<subseteq> set (dd_dataset_ids customer_intelligence_domain)
     \<and> status_APPROVED \<in> map_status ` set (ds_mappings ds)"

lemmas demo_dataset_defs = approved_mapping_def proposed_mapping_def now_def Let_def demo_column_def
  demo_customer_master_def demo_crm_event_def demo_sales_order_def demo_semantic_glossary_def
  demo_marketing_campaign_def

lemmas demo_ok_defs = demo_dataset_ok_def seed_ok_def dataset_valid_def column_valid_def in_unit_def
  missing_metadata_def customer_intelligence_domain_def kr_customer_def

lemma demo_datasets_ok:
  "demo_dataset_ok (fst (demo_customer_master a s))" "demo_dataset_ok (fst (demo_crm_event a s))"
  "demo_dataset_ok (fst (demo_sales_order a s))" "demo_dataset_ok (fst (demo_semantic_glossary a s))"
  "demo_dataset_ok (fst (demo_marketing_campaign a s))"
  by (simp_all add: demo_dataset_defs demo_ok_defs)

lemma demo_dataset_ids:
  "ds_id (fst (demo_customer_master a s)) = ''crm-customer-master''"
  "ds_id (fst (demo_crm_event a s)) = ''crm-event''"
  "ds_id (fst (demo_sales_order a s)) = ''sales-order''"
  "ds_id (fst (demo_semantic_glossary a s)) = ''semantic-glossary''"
  "ds_id (fst (demo_marketing_campaign a s)) = ''marketing-campaign''"
  by (simp_all add: demo_dataset_defs)

lemma demo_dataset_sources:
  "summary_source_type (fst (demo_customer_master a s)) = ''sql''"
  "summary_source_type (fst (demo_crm_event a s)) = ''file_lake''"
  "summary_source_type (fst (demo_sales_order a s)) = ''sql''"
  "summary_source_type (fst (demo_semantic_glossary a s)) = ''rdf''"
  "summary_source_type (fst (demo_marketing_campaign a s)) = ''api''"
  by (simp_all add: demo_dataset_defs summary_source_type_def startswith_def)

definition glossary_covered :: "buyer_demo_domain \<Rightarrow> dataset list \<Rightarrow> bool" where
  "glossary_covered domain datasets \<longleftrightarrow>
     set (dd_glossary_terms domain) \<subseteq> (\<Union>ds \<in> set datasets. set (ds_terms ds))"

lemma demo_glossary_covered:
  "glossary_covered customer_intelligence_domain (fst (customer_intelligence_datasets s))"
  by (simp add: glossary_covered_def customer_intelligence_datasets_def case_prod_unfold
      customer_intelligence_domain_def demo_dataset_defs)

lemma customer_intelligence_ok: "list_all demo_dataset_ok (fst (customer_intelligence_datasets s))"
  by (simp add: customer_intelligence_datasets_def case_prod_unfold Let_def demo_datasets_ok)

lemma catalog_inv_started: "catalog_inv (started_catalog s)"
  using customer_intelligence_ok [of s]
  by (simp add: started_catalog_def buyer_demo_datasets_def case_prod_unfold Let_def catalog_inv_load
      list_all_iff demo_dataset_ok_def)

text \<open>
  C30.  The demo that ships with the portal is sound: only the customer intelligence domain is
  supported; its datasets are the five the domain names, in that order, each published, valid, with
  complete metadata, an approved business mapping and related datasets inside the demo; every
  glossary term of the domain is a term of one of them; and the catalog a process starts with
  satisfies the catalog invariant.
\<close>

theorem shipped_demo_sound:
  "case buyer_demo_datasets domain_id s of
     (Inl err, s') \<Rightarrow> domain_id \<noteq> ''customer_intelligence'' \<and> s' = s
       \<and> err = ValueError (''unsupported buyer demo domain: '' @ domain_id)
   | (Inr datasets, s') \<Rightarrow> domain_id = dd_id customer_intelligence_domain
       \<and> map ds_id datasets = dd_dataset_ids customer_intelligence_domain
       \<and> map summary_source_type datasets = [''sql'', ''file_lake'', ''sql'', ''rdf'', ''api'']
       \<and> list_all demo_dataset_ok datasets \<and> glossary_covered customer_intelligence_domain datasets
       \<and> catalog_inv (started_catalog s)"
proof -
  note ok = customer_intelligence_ok [of s]
  have inv: "catalog_inv (started_catalog s)" by (rule catalog_inv_started)
  have ids: "map ds_id (fst (customer_intelligence_datasets s)) = dd_dataset_ids customer_intelligence_domain"
    by (simp add: customer_intelligence_datasets_def case_prod_unfold Let_def demo_dataset_ids
        customer_intelligence_domain_def)
  have sources: "map summary_source_type (fst (customer_intelligence_datasets s))
      = [''sql'', ''file_lake'', ''sql'', ''rdf'', ''api'']"
    by (simp add: customer_intelligence_datasets_def case_prod_unfold Let_def demo_dataset_sources)
  have "dd_id customer_intelligence_domain = ''customer_intelligence''"
    by (simp add: customer_intelligence_domain_def)
  with ok inv ids sources demo_glossary_covered [of s] show ?thesis
    by (simp add: buyer_demo_datasets_def case_prod_unfold Let_def)
qed

end
