(* ===== verification/Authz.thy ===== *)
theory Authz
  imports Evidence
begin

text \<open>
  \<open>src/sdp/authz.py\<close>: the built-in subjects and their roles, the tenant check, and the mapping
  of OIDC claims and verified tokens to an actor.

  PyJWT (\<open>jwt\<close>), \<open>urlopen\<close>, \<open>json.loads\<close> and the environment are outside \<open>src\<close>: they are
  the parameters gathered in \<open>jwt_library\<close> and \<open>oidc_environment\<close>.
\<close>

section \<open>Subjects, roles and tenants\<close>

definition subjects :: "actor_context dict" where
  "subjects =
     [(''admin'', \<lparr>ac_subject = ''admin'', ac_tenant_id = ''demo'',
         ac_roles = [''admin'', ''data-analyst'', ''platform-admin'']\<rparr>),
      (''security'', \<lparr>ac_subject = ''security'', ac_tenant_id = ''demo'',
         ac_roles = [''security'', ''platform-admin'']\<rparr>),
      (''data-admin'', \<lparr>ac_subject = ''data-admin'', ac_tenant_id = ''demo'',
         ac_roles = [''admin'', ''data-analyst'']\<rparr>),
      (''analyst'', \<lparr>ac_subject = ''analyst'', ac_tenant_id = ''demo'', ac_roles = [''data-analyst'']\<rparr>),
      (''data-analyst'', \<lparr>ac_subject = ''data-analyst'', ac_tenant_id = ''demo'',
         ac_roles = [''data-analyst'']\<rparr>),
      (''external-analyst'', \<lparr>ac_subject = ''external-analyst'', ac_tenant_id = ''external'',
         ac_roles = [''data-analyst'']\<rparr>)]"

definition default_oidc_group_role_map :: "(pystr list) dict" where
  "default_oidc_group_role_map =
     [(''sdp-admins'', [''admin'', ''data-analyst'']),
      (''sdp-analysts'', [''data-analyst'']),
      (''sdp-platform-admins'', [''platform-admin'', ''admin'', ''data-analyst'']),
      (''sdp-security'', [''security''])]"

definition subject_claims :: "pystr list" where
  "subject_claims = [''preferred_username'', ''email'', ''sub'']"

definition allowed_jwt_algorithms :: "pystr list" where
  "allowed_jwt_algorithms = [''RS256'', ''RS384'', ''RS512'', ''ES256'', ''ES384'', ''ES512'']"

definition resolve_actor_context :: "pystr \<Rightarrow> actor_context" where
  "resolve_actor_context subject =
     (let key = lower (strip subject)
      in case dict_get subjects key of
           Some ctx \<Rightarrow> ctx
         | None \<Rightarrow> \<lparr>ac_subject = subject, ac_tenant_id = [], ac_roles = []\<rparr>)"

definition has_role :: "pystr \<Rightarrow> pystr list \<Rightarrow> bool" where
  "has_role subject roles \<longleftrightarrow> list_ex (\<lambda>r. r \<in> set (ac_roles (resolve_actor_context subject))) roles"

definition can_access_tenant :: "pystr \<Rightarrow> pystr \<Rightarrow> bool" where
  "can_access_tenant subject tenant_id =
     (let context = resolve_actor_context subject
      in ''platform-admin'' \<in> set (ac_roles context) \<or> ac_tenant_id context = tenant_id)"

text \<open>The subjects that resolve to a table entry, and what the entry says of them.\<close>

definition known_subject :: "pystr \<Rightarrow> bool" where
  "known_subject subject \<longleftrightarrow> dict_get subjects (lower (strip subject)) \<noteq> None"

lemma unknown_subject_context:
  "\<not> known_subject subject \<Longrightarrow>
   resolve_actor_context subject = \<lparr>ac_subject = subject, ac_tenant_id = [], ac_roles = []\<rparr>"
  by (simp add: known_subject_def resolve_actor_context_def)

lemma unknown_subject_no_role: "\<not> known_subject subject \<Longrightarrow> \<not> has_role subject roles"
  by (simp add: has_role_def unknown_subject_context list_ex_iff)

lemma resolve_actor_context_cases:
  "resolve_actor_context subject \<in> set (map snd subjects) \<or>
   resolve_actor_context subject = \<lparr>ac_subject = subject, ac_tenant_id = [], ac_roles = []\<rparr>"
  by (auto simp: resolve_actor_context_def Let_def dest: dict_get_Some_in split: option.split)
     (force dest: dict_get_Some_in)

text \<open>Surrounding white space and letter case do not change who a subject is.\<close>

lemma strip_lstrip_idem: "strip (strip s) = strip s"
proof -
  have r: "rstrip (rstrip t) = rstrip t" for t
    by (simp add: rstrip_def)
  have "lstrip (rstrip (lstrip s)) = rstrip (lstrip s)"
  proof (cases "rstrip (lstrip s)")
    case (Cons c t)
    have "prefix (rstrip (lstrip s)) (lstrip s)"
      using suffix_dropWhile [of is_space "rev (lstrip s)"]
      by (simp add: rstrip_def suffix_to_prefix)
    then obtain z where "lstrip s = c # t @ z" using Cons by (auto simp: prefix_def)
    then have "\<not> is_space c"
      using hd_dropWhile [of is_space s] by (simp add: lstrip_def)
    then show ?thesis using Cons by (simp add: lstrip_def)
  qed (simp add: lstrip_def)
  then show ?thesis by (simp add: strip_def r)
qed

lemma is_space_to_lower [simp]: "is_space (to_lower c) = is_space c"
  by (auto simp: to_lower_def is_upper_def is_space_def)

lemma strip_lower: "strip (lower s) = lower (strip s)"
proof -
  have d: "dropWhile is_space (lower t) = lower (dropWhile is_space t)" for t
    by (induction t) (simp_all add: lower_def)
  have r: "rev (lower t) = lower (rev t)" for t
    by (simp add: lower_def rev_map)
  show ?thesis by (simp add: strip_def lstrip_def rstrip_def d r)
qed

lemma has_role_normalised: "has_role (lower (strip subject)) roles = has_role subject roles"
proof -
  have k: "lower (strip (lower (strip subject))) = lower (strip subject)"
    by (simp add: strip_lower strip_lstrip_idem)
  show ?thesis
    by (cases "dict_get subjects (lower (strip subject))")
       (simp_all add: has_role_def resolve_actor_context_def k list_ex_iff)
qed

section \<open>OIDC claims\<close>

text \<open>What the module reads from its process: the environment variables, \<open>json.loads\<close>,
  \<open>float(s)\<close>, and the body \<open>urlopen(url, timeout)\<close> returns.\<close>

record oidc_environment =
  getenv :: "pystr \<Rightarrow> pystr option"
  json_loads :: "pystr \<Rightarrow> pyval result"
  parse_float :: "pystr \<Rightarrow> rat result"
  url_body :: "pystr \<Rightarrow> rat \<Rightarrow> pystr result"

definition get_or_none :: "pyval dict \<Rightarrow> pystr \<Rightarrow> pyval" where
  "get_or_none d k = (case dict_get d k of None \<Rightarrow> VNone | Some v \<Rightarrow> v)"

definition claim_values :: "'s world_scheme \<Rightarrow> pyval \<Rightarrow> pystr list" where
  "claim_values w v = (case v of
     VNone \<Rightarrow> [] | VStr s \<Rightarrow> [s] | VList items \<Rightarrow> map (py_str w) items | _ \<Rightarrow> [py_str w v])"

definition oidc_role_claims :: "'s world_scheme \<Rightarrow> pyval dict \<Rightarrow> pystr list" where
  "oidc_role_claims w claims = claim_values w (get_or_none claims ''roles'')"

definition load_oidc_role_map :: "oidc_environment \<Rightarrow> 's world_scheme \<Rightarrow> (pystr list) dict result" where
  "load_oidc_role_map env w =
     (case getenv env ''SDP_OIDC_GROUP_ROLE_MAP'' of
        None \<Rightarrow> Inr default_oidc_group_role_map
      | Some raw \<Rightarrow>
          if raw = [] then Inr default_oidc_group_role_map
          else (case json_loads env raw of
                  Inl e \<Rightarrow> Inl e
                | Inr (VDict parsed) \<Rightarrow>
                    Inr (dict_of (map (\<lambda>(group, roles). (group, claim_values w roles)) parsed))
                | Inr _ \<Rightarrow> Inl (ValueError ''SDP_OIDC_GROUP_ROLE_MAP must be a JSON object'')))"

text \<open>\<open>int(v)\<close>; \<open>None\<close> is its \<open>TypeError\<close> or \<open>ValueError\<close>.\<close>

definition int_of_value :: "pyval \<Rightarrow> int option" where
  "int_of_value v = (case v of
     VInt i \<Rightarrow> Some i | VBool b \<Rightarrow> Some (if b then 1 else 0)
   | VNum r \<Rightarrow> Some (if 0 \<le> r then \<lfloor>r\<rfloor> else \<lceil>r\<rceil>) | VStr s \<Rightarrow> read_int s | _ \<Rightarrow> None)"

definition first_truthy :: "pyval dict \<Rightarrow> pystr list \<Rightarrow> pyval option" where
  "first_truthy claims ks = map_option the (find (\<lambda>v. v \<noteq> None) (map (get_truthy claims) ks))"

definition tenant_claims :: "pystr list" where
  "tenant_claims = [''tenant_id'', ''tid'', ''organization'']"

definition validate_oidc_claim_shape :: "pyval dict \<Rightarrow> 's world_scheme \<Rightarrow> unit result \<times> 's world_scheme" where
  "validate_oidc_claim_shape claims w =
     (if first_truthy claims subject_claims = None then (Inl (ValueError ''missing subject claim''), w)
      else if first_truthy claims tenant_claims = None then (Inl (ValueError ''missing tenant claim''), w)
      else (case dict_get claims ''exp'' of
              None \<Rightarrow> (Inl (ValueError ''missing exp claim''), w)
            | Some v \<Rightarrow>
                (case int_of_value v of
                   None \<Rightarrow> (Inl (ValueError ''invalid exp claim''), w)
                 | Some expires_at \<Rightarrow>
                     (let (t, w) = now w
                      in if expires_at \<le> t div 1000000 then (Inl (ValueError ''expired token claims''), w)
                         else (Inr (), w)))))"

definition resolve_oidc_actor_context ::
  "oidc_environment \<Rightarrow> pyval dict \<Rightarrow> (pystr list) dict option \<Rightarrow> 's world_scheme
   \<Rightarrow> actor_context result \<times> 's world_scheme" where
  "resolve_oidc_actor_context env claims role_map w =
     (case validate_oidc_claim_shape claims w of
        (Inl e, w) \<Rightarrow> (Inl e, w)
      | (Inr _, w) \<Rightarrow>
          (case (case role_map of Some m \<Rightarrow> if m \<noteq> [] then Inr m else load_oidc_role_map env w
                 | None \<Rightarrow> load_oidc_role_map env w) of
             Inl e \<Rightarrow> (Inl e, w)
           | Inr mapping \<Rightarrow>
               (let subject = (case first_truthy claims subject_claims of
                      None \<Rightarrow> ''anonymous'' | Some v \<Rightarrow> py_str w v);
                    tenant_id = (case first_truthy claims tenant_claims of
                      None \<Rightarrow> [] | Some v \<Rightarrow> py_str w v);
                    groups = claim_values w (get_or_none claims ''groups'');
                    roles = concat (map (\<lambda>g. case dict_get mapping g of None \<Rightarrow> [] | Some rs \<Rightarrow> rs) groups)
                in (Inr \<lparr>ac_subject = subject, ac_tenant_id = tenant_id, ac_roles = sorted_set roles\<rparr>, w))))"

section \<open>Verified tokens\<close>

text \<open>
  \<open>urlsplit(url).scheme\<close>: control characters and blanks are dropped from the front, tabs and line
  breaks everywhere; what stands before the first colon is the scheme when it starts with a
  letter and has only letters, digits, \<open>+\<close>, \<open>-\<close> and \<open>.\<close>.
\<close>

definition url_scheme :: "pystr \<Rightarrow> pystr" where
  "url_scheme url =
     (let u = filter (\<lambda>c. code c \<notin> {9, 10, 13}) (dropWhile (\<lambda>c. code c \<le> 32) url);
          s = takeWhile (\<lambda>c. c \<noteq> CHR '':'') u
      in if s \<noteq> [] \<and> CHR '':'' \<in> set u \<and> (is_upper (hd s) \<or> is_lower (hd s))
            \<and> list_all (\<lambda>c. is_upper c \<or> is_lower c \<or> is_digit c \<or> c \<in> set ''+-.'') s
         then lower s else [])"

definition load_jwks_from_url :: "oidc_environment \<Rightarrow> pystr \<Rightarrow> pyval result" where
  "load_jwks_from_url env jwks_url =
     (if url_scheme jwks_url \<notin> {''https'', ''http''}
      then Inl (ValueError ''OIDC JWKS URL must use the http or https scheme'')
      else (case parse_float env (case getenv env ''SDP_OIDC_JWKS_TIMEOUT_SECONDS'' of
                   None \<Rightarrow> ''2'' | Some s \<Rightarrow> s) of
              Inl e \<Rightarrow> Inl e
            | Inr timeout \<Rightarrow>
                (case url_body env jwks_url timeout of
                   Inl e \<Rightarrow> Inl e
                 | Inr body \<Rightarrow> json_loads env body)))"

definition select_jwk :: "pyval \<Rightarrow> pyval \<Rightarrow> pyval dict result" where
  "select_jwk jwks kid =
     (if \<not> truthy kid then Inl (ValueError ''missing token kid'')
      else (case jwks of
              VDict d \<Rightarrow>
                (case get_or_none d ''keys'' of
                   VList keys \<Rightarrow>
                     (case find (\<lambda>key. case key of VDict j \<Rightarrow> get_or_none j ''kid'' = kid | _ \<Rightarrow> False) keys of
                        Some (VDict j) \<Rightarrow> Inr j
                      | _ \<Rightarrow> Inl (ValueError ''no matching jwks key''))
                 | _ \<Rightarrow> Inl (ValueError ''jwks must contain keys''))
            | _ \<Rightarrow> Inl (AttributeError ''get'')))"

text \<open>PyJWT: the unverified header, the key of a JWK, and the verified claims of a token for a
  key, an algorithm, an audience and an issuer.  Its \<open>InvalidTokenError\<close> is a \<open>ValueError\<close> here;
  the handler below treats the two alike.\<close>

record jwt_library =
  get_unverified_header :: "pystr \<Rightarrow> pyval dict result"
  pyjwk_key :: "pyval dict \<Rightarrow> pyval result"
  jwt_decode :: "pystr \<Rightarrow> pyval \<Rightarrow> pystr \<Rightarrow> pystr \<Rightarrow> pystr \<Rightarrow> pyval dict result"

definition decode_with_jwks ::
  "jwt_library \<Rightarrow> pystr \<Rightarrow> pystr \<Rightarrow> pystr \<Rightarrow> pyval \<Rightarrow> pyval dict result" where
  "decode_with_jwks lib token audience issuer jwks =
     (case get_unverified_header lib token of
        Inl e \<Rightarrow> Inl e
      | Inr header \<Rightarrow>
          (case get_or_none header ''alg'' of
             VStr alg \<Rightarrow>
               if alg \<notin> set allowed_jwt_algorithms then Inl (ValueError ''unsupported token algorithm'')
               else (case select_jwk jwks (get_or_none header ''kid'') of
                       Inl e \<Rightarrow> Inl e
                     | Inr jwk \<Rightarrow>
                         (case pyjwk_key lib jwk of
                            Inl e \<Rightarrow> Inl e
                          | Inr signing_key \<Rightarrow> jwt_decode lib token signing_key alg audience issuer))
           | VList _ \<Rightarrow> Inl (TypeError ''unhashable type'')
           | VDict _ \<Rightarrow> Inl (TypeError ''unhashable type'')
           | _ \<Rightarrow> Inl (ValueError ''unsupported token algorithm'')))"

definition or_env :: "pystr option \<Rightarrow> pystr option \<Rightarrow> pystr option" where
  "or_env given env_value = (case given of Some s \<Rightarrow> if s \<noteq> [] then Some s else env_value | None \<Rightarrow> env_value)"

definition present :: "pystr option \<Rightarrow> bool" where
  "present s \<longleftrightarrow> s \<noteq> None \<and> s \<noteq> Some []"

definition verify_oidc_jwks_token ::
  "oidc_environment \<Rightarrow> jwt_library \<Rightarrow> pystr \<Rightarrow> pystr option \<Rightarrow> pystr option \<Rightarrow> pyval option
   \<Rightarrow> (pystr list) dict option \<Rightarrow> 's world_scheme \<Rightarrow> (actor_context \<times> pyval dict) result \<times> 's world_scheme" where
  "verify_oidc_jwks_token env lib token issuer audience jwks role_map w =
     (let expected_issuer = or_env issuer (getenv env ''SDP_OIDC_ISSUER'');
          expected_audience = or_env audience (getenv env ''SDP_OIDC_AUDIENCE'');
          jwks_url = getenv env ''SDP_OIDC_JWKS_URL''
      in if \<not> present expected_issuer then (Inl (ValueError ''missing OIDC issuer''), w)
         else if \<not> present expected_audience then (Inl (ValueError ''missing OIDC audience''), w)
         else (case (case jwks of
                       Some j \<Rightarrow> Inr j
                     | None \<Rightarrow> if \<not> present jwks_url then Inl (ValueError ''missing OIDC JWKS'')
                              else load_jwks_from_url env (the jwks_url)) of
                 Inl e \<Rightarrow> (Inl e, w)
               | Inr keys \<Rightarrow>
                   (case decode_with_jwks lib token (the expected_audience) (the expected_issuer) keys of
                      Inl (ValueError m) \<Rightarrow> (Inl (ValueError (''invalid token: '' @ m)), w)
                    | Inl e \<Rightarrow> (Inl e, w)
                    | Inr claims \<Rightarrow>
                        (case resolve_oidc_actor_context env claims role_map w of
                           (Inl e, w) \<Rightarrow> (Inl e, w)
                         | (Inr context, w) \<Rightarrow> (Inr (context, claims), w)))))"

section \<open>What a verified token gives\<close>

lemma validate_oidc_claim_shape_ok:
  "validate_oidc_claim_shape claims w = (Inr u, w') \<Longrightarrow>
   \<exists>v e. dict_get claims ''exp'' = Some v \<and> int_of_value v = Some e
     \<and> clock_source w (clock_tick w) div 1000000 < e"
  by (auto simp: validate_oidc_claim_shape_def now_def Let_def split: if_splits option.splits)

lemma resolve_oidc_roles_from_groups:
  assumes "resolve_oidc_actor_context env claims (Some m) w = (Inr ctx, w')" and "m \<noteq> []"
    and "r \<in> set (ac_roles ctx)"
  shows "\<exists>g \<in> set (claim_values w (get_or_none claims ''groups'')).
    \<exists>rs. dict_get m g = Some rs \<and> r \<in> set rs"
proof -
  have cv: "claim_values v x = claim_values w x"
    if "validate_oidc_claim_shape claims w = (u, v)" for u v x
    using that by (auto simp: validate_oidc_claim_shape_def now_def Let_def claim_values_def
        py_str_def fun_eq_iff split: if_splits option.splits pyval.splits)
  from assms obtain u v where sh: "validate_oidc_claim_shape claims w = (Inr u, v)"
    by (auto simp: resolve_oidc_actor_context_def split: prod.splits sum.splits)
  with assms have "r \<in> set (concat (map (\<lambda>g. case dict_get m g of None \<Rightarrow> [] | Some rs \<Rightarrow> rs)
      (claim_values v (get_or_none claims ''groups''))))"
    by (auto simp: resolve_oidc_actor_context_def Let_def)
  then obtain g where g: "g \<in> set (claim_values w (get_or_none claims ''groups''))"
    and r: "r \<in> set (case dict_get m g of None \<Rightarrow> [] | Some rs \<Rightarrow> rs)"
    unfolding cv [OF sh] by (simp only: set_concat set_map UN_iff image_iff) blast
  from r obtain rs where "dict_get m g = Some rs" "r \<in> set rs"
    by (cases "dict_get m g") auto
  with g show ?thesis by blast
qed

lemma decode_with_jwks_ok:
  assumes "decode_with_jwks lib token audience issuer jwks = Inr claims"
  shows "\<exists>header alg jwk key. get_unverified_header lib token = Inr header
    \<and> get_or_none header ''alg'' = VStr alg \<and> alg \<in> set allowed_jwt_algorithms
    \<and> get_or_none jwk ''kid'' = get_or_none header ''kid'' \<and> truthy (get_or_none header ''kid'')
    \<and> pyjwk_key lib jwk = Inr key \<and> jwt_decode lib token key alg audience issuer = Inr claims"
proof -
  have jwk: "get_or_none j ''kid'' = kid \<and> truthy kid" if "select_jwk jwks kid = Inr j" for j kid
    using that
    by (auto simp: select_jwk_def find_Some_iff split: if_splits pyval.splits option.splits)
  show ?thesis
    using assms jwk
    by (fastforce simp: decode_with_jwks_def split: sum.splits pyval.splits if_splits)
qed


definition sample_claims :: "pyval dict" where
  "sample_claims = [(''sub'', VStr ''u1''), (''tid'', VStr ''demo''), (''exp'', VInt 10),
     (''groups'', VList [VStr ''sdp-analysts'']), (''roles'', VList [VStr ''platform-admin''])]"

definition sample_jwt :: jwt_library where
  "sample_jwt = \<lparr>get_unverified_header = (\<lambda>_. Inr [(''alg'', VStr ''RS256''), (''kid'', VStr ''k1'')]),
     pyjwk_key = (\<lambda>_. Inr VNone), jwt_decode = (\<lambda>_ _ _ _ _. Inr sample_claims)\<rparr>"

definition sample_oidc_env :: oidc_environment where
  "sample_oidc_env = \<lparr>getenv = (\<lambda>_. None), json_loads = (\<lambda>_. Inr VNone),
     parse_float = (\<lambda>_. Inr 2), url_body = (\<lambda>_ _. Inr [])\<rparr>"

lemma sample_token_verifies:
  "fst (verify_oidc_jwks_token sample_oidc_env sample_jwt ''t'' (Some ''iss'') (Some ''aud'')
     (Some (VDict [(''keys'', VList [VDict [(''kid'', VStr ''k1'')]])]))
     (Some default_oidc_group_role_map) machine)
   = Inr (\<lparr>ac_subject = ''u1'', ac_tenant_id = ''demo'', ac_roles = [''data-analyst'']\<rparr>, sample_claims)"
  by code_simp


text \<open>
  Role claims carried by the identity provider's token are ignored: whatever \<open>roles\<close> says,
  the actor, its tenant, its roles and the errors are the same.
\<close>

theorem oidc_role_claims_ignored:
  "resolve_oidc_actor_context env (dict_set ''roles'' v claims) role_map w
     = resolve_oidc_actor_context env claims role_map w"
proof -
  have truthy: "get_truthy (dict_set ''roles'' v claims) k = get_truthy claims k" if "k \<noteq> ''roles''" for k
    using that by (simp add: get_truthy_def dict_get_set)
  have first: "first_truthy (dict_set ''roles'' v claims) subject_claims = first_truthy claims subject_claims"
    "first_truthy (dict_set ''roles'' v claims) tenant_claims = first_truthy claims tenant_claims"
    by (simp_all add: first_truthy_def subject_claims_def tenant_claims_def truthy)
  show ?thesis
    by (simp add: resolve_oidc_actor_context_def validate_oidc_claim_shape_def first Let_def
        get_or_none_def dict_get_set cong del: option.case_cong_weak sum.case_cong_weak prod.case_cong_weak)
qed

end
