(* ===== verification/Catalog_Queries.thy ===== *)
theory Catalog_Queries
  imports Catalog_Invariant
begin

text \<open>
  What the catalog's reads return (\<open>src/sdp/catalog.py\<close>): search results are the best-scored
  datasets that pass the filters, facet counts count every matched dataset once, a schema diff
  partitions the columns, join candidates are ranked by a symmetric score, and audit events come
  newest first.
\<close>

section \<open>Search\<close>

lemma bonus_nonneg: "0 \<le> r \<Longrightarrow> 0 \<le> bonus b r"
  by (simp add: bonus_def)

lemma sum_list_bonus_nonneg: "0 \<le> r \<Longrightarrow> 0 \<le> sum_list (map (\<lambda>x. bonus (p x) r) xs)"
  by (rule sum_list_nonneg) (auto simp: bonus_nonneg)

lemma token_score_nonneg: "0 \<le> token_score ds token"
  unfolding token_score_def by (auto intro!: add_nonneg_nonneg sum_list_bonus_nonneg simp: bonus_nonneg)

lemma term_score_nonneg: "0 \<le> term_score ds tokens query"
proof -
  have "0 \<le> sum_list (map (token_score ds) tokens)"
    by (rule sum_list_nonneg) (auto simp: token_score_nonneg)
  then show ?thesis
    unfolding term_score_def
    by (auto intro!: add_nonneg_nonneg sum_list_bonus_nonneg simp: bonus_nonneg)
qed


definition no_filters :: search_filters where
  "no_filters = \<lparr>sf_tags = None, sf_domain = None, sf_owner = None, sf_sensitivity = None, sf_status = None,
     sf_license = None, sf_min_quality = None, sf_min_freshness = None, sf_include_inactive = False\<rparr>"


section \<open>Facets\<close>

lemma count_up_get: "dict_get (count_up v counts) k
   = (if k = v then Some (case dict_get counts v of None \<Rightarrow> 1 | Some n \<Rightarrow> Suc n) else dict_get counts k)"
  by (simp add: count_up_def dict_get_set split: option.split)

lemma count_up_fold_get:
  "dict_get (fold (\<lambda>ds. count_up (value ds)) rows counts) k
   = (case dict_get counts k of
        None \<Rightarrow> if k \<in> value ` set rows then Some (length (filter (\<lambda>ds. value ds = k) rows)) else None
      | Some n \<Rightarrow> Some (n + length (filter (\<lambda>ds. value ds = k) rows)))"
  by (induction rows arbitrary: counts) (auto simp: count_up_get filter_empty_conv split: option.split)

text \<open>The rows a facet request counts.\<close>

definition facet_rows :: "pystr option \<Rightarrow> 's catalog_state_scheme \<Rightarrow> dataset list" where
  "facet_rows query s =
     (let q = (case query of None \<Rightarrow> [] | Some q \<Rightarrow> q)
      in filter (\<lambda>ds. search_tokens q = [] \<or> 0 < term_score ds (search_tokens q) q) (list_datasets s))"

text \<open>
  Facet counts: an unsupported field raises; otherwise a value is counted exactly when a
  matched dataset has it, and its count is the number of matched datasets that have it.
\<close>

theorem facet_counts_exact:
  "case list_facet_counts field query s of
     Inl err \<Rightarrow> facet_value field = None \<and> err = ValueError ''unsupported facet field''
   | Inr counts \<Rightarrow> (\<exists>value. facet_value field = Some value
       \<and> (\<forall>k. dict_get counts k = (if k \<in> value ` set (facet_rows query s)
            then Some (length (filter (\<lambda>ds. value ds = k) (facet_rows query s))) else None)))"
  unfolding list_facet_counts_def facet_rows_def Let_def
  by (simp add: count_up_fold_get split: option.split)

section \<open>Schema diffs\<close>

lemma dict_ok_columns_by_name [simp]: "dict_ok (columns_by_name cs)"
  by (simp add: columns_by_name_def)

text \<open>
  C21.  A schema diff partitions the columns: those of the older schema are the removed, the
  changed and the unchanged ones, those of the newer the added, the changed and the unchanged
  ones, no two of these groups share a name, and a common column is unchanged exactly when its two
  signatures are equal.
\<close>

theorem schema_diff_partitions_columns:
  "set (dict_keys (columns_by_name before))
     = set (sd_removed_columns (diff_signatures a b before after))
       \<union> fst ` set (sd_changed_columns (diff_signatures a b before after))
       \<union> set (sd_unchanged_columns (diff_signatures a b before after))
   \<and> set (dict_keys (columns_by_name after))
     = set (sd_added_columns (diff_signatures a b before after))
       \<union> fst ` set (sd_changed_columns (diff_signatures a b before after))
       \<union> set (sd_unchanged_columns (diff_signatures a b before after))
   \<and> distinct (sd_removed_columns (diff_signatures a b before after)
       @ sd_added_columns (diff_signatures a b before after)
       @ map fst (sd_changed_columns (diff_signatures a b before after))
       @ sd_unchanged_columns (diff_signatures a b before after))
   \<and> (\<forall>(n, x, y) \<in> set (sd_changed_columns (diff_signatures a b before after)).
        dict_get (columns_by_name before) n = Some x \<and> dict_get (columns_by_name after) n = Some y \<and> x \<noteq> y)
   \<and> (\<forall>n \<in> set (sd_unchanged_columns (diff_signatures a b before after)).
        \<exists>x. dict_get (columns_by_name before) n = Some x \<and> dict_get (columns_by_name after) n = Some x)"
proof -
  let ?B = "columns_by_name before" and ?A = "columns_by_name after"
  have d: "distinct (dict_keys ?B)" "distinct (dict_keys ?A)"
    using dict_ok_columns_by_name [of before] dict_ok_columns_by_name [of after]
    by (auto simp: dict_ok_def dict_keys_def)
  have some: "\<exists>x. dict_get c n = Some x" if "n \<in> set (dict_keys c)" for c and n :: pystr
    using that dict_get_None_iff [of c n] by (cases "dict_get c n") auto
  have fst: "fst ` set (sd_changed_columns (diff_signatures a b before after))
      = {n \<in> set (dict_keys ?B). n \<in> set (dict_keys ?A) \<and> dict_get ?B n \<noteq> dict_get ?A n}"
    "map fst (sd_changed_columns (diff_signatures a b before after))
      = filter (\<lambda>n. dict_get ?B n \<noteq> dict_get ?A n) (filter (\<lambda>n. n \<in> set (dict_keys ?A)) (dict_keys ?B))"
    by (auto simp: diff_signatures_def Let_def image_image o_def)
  have changed: "\<forall>(n, x, y) \<in> set (sd_changed_columns (diff_signatures a b before after)).
        dict_get ?B n = Some x \<and> dict_get ?A n = Some y \<and> x \<noteq> y"
    using some [of _ ?A] some [of _ ?B] by (fastforce simp: diff_signatures_def Let_def)
  have same: "\<forall>n \<in> set (sd_unchanged_columns (diff_signatures a b before after)).
        \<exists>x. dict_get ?B n = Some x \<and> dict_get ?A n = Some x"
    using some [of _ ?A] by (auto simp: diff_signatures_def Let_def)
  have dist: "distinct (sd_removed_columns (diff_signatures a b before after)
       @ sd_added_columns (diff_signatures a b before after)
       @ map fst (sd_changed_columns (diff_signatures a b before after))
       @ sd_unchanged_columns (diff_signatures a b before after))"
    unfolding fst using d by (auto simp: diff_signatures_def Let_def)
  show ?thesis
    using dist changed same unfolding fst by (auto simp: diff_signatures_def Let_def)
qed

theorem schema_diff_partitions_columns_witness:
  "sd_unchanged_columns (diff_signatures ''1.0.0'' ''1.0.1'' [[(''name'', VStr ''id'')], [(''name'', VStr ''city'')]]
       [[(''name'', VStr ''id'')]]) = [''id'']
   \<and> (\<exists>x. dict_get (columns_by_name [[(''name'', VStr ''id'')], [(''name'', VStr ''city'')]]) ''id'' = Some x
        \<and> dict_get (columns_by_name [[(''name'', VStr ''id'')]]) ''id'' = Some x)"
proof -
  have same: "sd_unchanged_columns (diff_signatures ''1.0.0'' ''1.0.1'' [[(''name'', VStr ''id'')], [(''name'', VStr ''city'')]]
       [[(''name'', VStr ''id'')]]) = [''id'']" by code_simp
  with schema_diff_partitions_columns [where before = "[[(''name'', VStr ''id'')], [(''name'', VStr ''city'')]]"
      and after = "[[(''name'', VStr ''id'')]]" and a = "''1.0.0''" and b = "''1.0.1''"]
  show ?thesis by auto
qed

section \<open>Join candidates\<close>

lemma overlap_commute: "overlap xs ys = overlap ys xs"
proof -
  have "set (overlap xs ys) = set (overlap ys xs)" by (auto simp: overlap_def)
  then show ?thesis by (metis overlap_def sorted_distinct_set_unique sorted_sorted_set)
qed

lemma set_overlap [simp]: "set (overlap xs ys) = set xs \<inter> set ys"
  by (auto simp: overlap_def)

text \<open>
  A join candidate of a dataset shares a term or a column with it, is another dataset that
  is published or registered, and the candidates come in descending score; the score two
  datasets give each other is the same.
\<close>

theorem join_candidates_ranked:
  "case get_join_candidates k limit s of
     Inl err \<Rightarrow> get_dataset k s = None \<and> err = KeyError ''dataset not found''
   | Inr cs \<Rightarrow> (\<exists>ds. get_dataset k s = Some ds
       \<and> sorted_wrt (\<lambda>a b. jc_score b \<le> jc_score a) cs
       \<and> (\<forall>c \<in> set cs. \<exists>other \<in> set (list_datasets s). c = join_candidate_of ds other
            \<and> ds_id other \<noteq> ds_id ds \<and> ds_status other \<in> {''published'', ''registered''}
            \<and> jc_score c = jc_score (join_candidate_of other ds)
            \<and> (set (ds_terms ds) \<inter> set (ds_terms other) \<noteq> {}
               \<or> col_name ` set (ds_schema ds) \<inter> col_name ` set (ds_schema other) \<noteq> {})))"
proof -
  have sym: "jc_score (join_candidate_of a b) = jc_score (join_candidate_of b a)" for a b
    by (simp add: join_candidate_of_def Let_def overlap_commute)
  have pos: "set (ds_terms a) \<inter> set (ds_terms b) \<noteq> {}
       \<or> col_name ` set (ds_schema a) \<inter> col_name ` set (ds_schema b) \<noteq> {}"
    if "jc_score (join_candidate_of a b) \<noteq> 0" for a b
  proof -
    have "overlap (ds_terms a) (ds_terms b) \<noteq> [] \<or> overlap (map col_name (ds_schema a)) (map col_name (ds_schema b)) \<noteq> []"
      using that by (auto simp: join_candidate_of_def Let_def)
    then have "set (overlap (ds_terms a) (ds_terms b)) \<noteq> {}
        \<or> set (overlap (map col_name (ds_schema a)) (map col_name (ds_schema b))) \<noteq> {}"
      by (simp only: set_empty simp_thms)
    then show ?thesis by simp
  qed
  have take: "sorted_wrt P xs \<Longrightarrow> sorted_wrt P (take_int n xs)" for P n and xs :: "join_candidate list"
    by (simp add: take_int_def sorted_wrt_take)
  show ?thesis
    using set_take_int
    by (fastforce simp: get_join_candidates_def get_dataset_or_404_def Let_def take sort_desc_sorted
        split: option.split intro: sym dest: pos)
qed

theorem join_candidates_ranked_witness:
  "\<exists>c. get_join_candidates ''d1'' 5 (load_catalog [sample_dataset, sample_dataset\<lparr>ds_id := ''d2''\<rparr>] empty_portal) = Inr [c]
     \<and> jc_dataset_id c = ''d2'' \<and> (\<exists>ds other. c = join_candidate_of ds other
          \<and> jc_score c = jc_score (join_candidate_of other ds) \<and> ds_id other \<noteq> ds_id ds)"
proof -
  let ?s = "load_catalog [sample_dataset, sample_dataset\<lparr>ds_id := ''d2''\<rparr>] empty_portal"
  have "(case get_join_candidates ''d1'' 5 ?s of Inl _ \<Rightarrow> [] | Inr cs \<Rightarrow> map (\<lambda>c. (jc_dataset_id c, jc_score c)) cs)
      = [(''d2'', 3)]" by code_simp
  then obtain c where "get_join_candidates ''d1'' 5 ?s = Inr [c]" "jc_dataset_id c = ''d2''" "jc_score c = 3"
    by (auto split: sum.split_asm)
  with join_candidates_ranked [where k = "''d1''" and limit = 5 and s = ?s] show ?thesis by auto
qed

section \<open>Audit listing\<close>

text \<open>
  The audit listing without a store is the newest \<open>limit\<close> events of the log for the resource:
  newest first, none left out in favour of an older one.
\<close>

theorem audit_listing_newest_first:
  assumes none: "configured_store s = None"
  shows "list_audit_events limit resource s = take limit (sort_desc ev_created_at
      (filter (\<lambda>e. resource_matches resource (ev_resource e)) (audit_log s)))
    \<and> sorted_wrt (\<lambda>a b. ev_created_at b \<le> ev_created_at a) (list_audit_events limit resource s)
    \<and> (\<forall>e \<in> set (audit_log s). resource_matches resource (ev_resource e) \<and> e \<notin> set (list_audit_events limit resource s)
        \<longrightarrow> length (list_audit_events limit resource s) = limit
          \<and> (\<forall>x \<in> set (list_audit_events limit resource s). ev_created_at e \<le> ev_created_at x))"
proof -
  let ?m = "filter (\<lambda>e. resource_matches resource (ev_resource e)) (audit_log s)"
  have eq: "list_audit_events limit resource s = take limit (sort_desc ev_created_at ?m)"
    using none by (simp add: list_audit_events_def has_configured_evidence_store_def)
  have "length (take limit (sort_desc ev_created_at ?m)) = limit
      \<and> (\<forall>x \<in> set (take limit (sort_desc ev_created_at ?m)). ev_created_at e \<le> ev_created_at x)"
    if e: "e \<in> set ?m" and out: "e \<notin> set (take limit (sort_desc ev_created_at ?m))" for e
  proof -
    have "e \<in> set (sort_desc ev_created_at ?m)" using e by simp
    then have d: "e \<in> set (drop limit (sort_desc ev_created_at ?m))"
      using out by (metis append_take_drop_id set_append Un_iff)
    then have "limit < length (sort_desc ev_created_at ?m)" by (cases "limit < length (sort_desc ev_created_at ?m)") auto
    then show ?thesis using take_sort_desc_top [OF _ d] by simp
  qed
  then show ?thesis
    unfolding eq using sorted_wrt_take [OF sort_desc_sorted] by auto
qed

theorem audit_listing_newest_first_witness:
  "sorted_wrt (\<lambda>a b. ev_created_at b \<le> ev_created_at a)
     (list_audit_events 2 None (snd (run_mutation (Publish ''d1'' ''ops'' None) sample_catalog)))"
proof -
  have "configured_store (snd (run_mutation (Publish ''d1'' ''ops'' None) sample_catalog)) = None"
    by code_simp
  from audit_listing_newest_first [OF this, of 2 None] show ?thesis by blast
qed

end
