(* ===== verification/Policy.thy ===== *)
theory Policy
  imports Authz Catalog_Queries
begin

text \<open>
  \<open>src/sdp/policy.py\<close>: \<open>evaluate\<close>, the access decision of the portal, as a function from the
  state to a decision and the next state: it draws the decision's uuid first, decides in the
  source's order of guards, and records the decision in the store or in the process's log.

  The reasons are the source's Korean sentences: "catalog mutation right passed as an
  administrator", "create is for administrators only", "catalog discovery policy passed",
  "listing is for authenticated users only", "the dataset does not exist", "critical assets need
  a separate review", "export needs the approval of the data operator", "catalog mutation is for
  administrators only", "no right to read", "governance policy conditions met".
\<close>

section \<open>Reasons\<close>

definition reason_create_allowed :: pystr where
  "reason_create_allowed = utf8 [0xAD00, 0xB9AC, 0xC790, 0x20, 0xAD8C, 0xD55C, 0xC73C, 0xB85C,
     0x20, 0x63, 0x61, 0x74, 0x61, 0x6C, 0x6F, 0x67, 0x20, 0x6D, 0x75, 0x74, 0x61, 0x74, 0x69,
     0x6F, 0x6E, 0x20, 0xAD8C, 0xD55C, 0x20, 0xD1B5, 0xACFC]"

definition reason_create_denied :: pystr where
  "reason_create_denied = utf8 [0x63, 0x72, 0x65, 0x61, 0x74, 0x65, 0x20, 0xC791, 0xC5C5,
     0xC740, 0x20, 0x61, 0x64, 0x6D, 0x69, 0x6E, 0x20, 0xAD8C, 0xD55C, 0xB9CC, 0x20, 0xAC00,
     0xB2A5]"

definition reason_discover_allowed :: pystr where
  "reason_discover_allowed = utf8 [0xCE74, 0xD0C8, 0xB85C, 0xADF8, 0x20, 0xBC1C, 0xACAC, 0x20,
     0xC815, 0xCC45, 0x20, 0xD1B5, 0xACFC]"

definition reason_discover_denied :: pystr where
  "reason_discover_denied = utf8 [0xBAA9, 0xB85D, 0x20, 0xC870, 0xD68C, 0xB294, 0x20, 0xC778,
     0xC99D, 0xB41C, 0x20, 0xC0AC, 0xC6A9, 0xC790, 0xB9CC, 0x20, 0xAC00, 0xB2A5, 0xD569,
     0xB2C8, 0xB2E4, 0x2E]"

definition reason_no_dataset :: pystr where
  "reason_no_dataset = utf8 [0xC874, 0xC7AC, 0xD558, 0xC9C0, 0x20, 0xC54A, 0xB294, 0x20,
     0xB370, 0xC774, 0xD130, 0xC14B, 0xC785, 0xB2C8, 0xB2E4, 0x2E]"

definition reason_critical :: pystr where
  "reason_critical = utf8 [0x63, 0x72, 0x69, 0x74, 0x69, 0x63, 0x61, 0x6C, 0x20, 0xBBFC,
     0xAC10, 0xB3C4, 0x20, 0xC790, 0xC0B0, 0xC740, 0x20, 0xBCC4, 0xB3C4, 0x20, 0xC2EC, 0xC0AC,
     0x20, 0xD544, 0xC694]"

definition reason_export :: pystr where
  "reason_export = utf8 [0xC678, 0xBD80, 0x20, 0xBC18, 0xCD9C, 0x20, 0xBAA9, 0xC801, 0xC740,
     0x20, 0xB370, 0xC774, 0xD130, 0x20, 0xC6B4, 0xC601, 0xC790, 0x20, 0xC2B9, 0xC778, 0x20,
     0xD544, 0xC694]"

definition reason_mutation_denied :: pystr where
  "reason_mutation_denied = utf8 [0x63, 0x61, 0x74, 0x61, 0x6C, 0x6F, 0x67, 0x20, 0x6D, 0x75,
     0x74, 0x61, 0x74, 0x69, 0x6F, 0x6E, 0x20, 0xC791, 0xC5C5, 0xC740, 0x20, 0x61, 0x64, 0x6D,
     0x69, 0x6E, 0x20, 0xAD8C, 0xD55C, 0xB9CC, 0x20, 0xAC00, 0xB2A5]"

definition reason_no_reader :: pystr where
  "reason_no_reader = utf8 [0xC870, 0xD68C, 0x20, 0xAD8C, 0xD55C, 0xC774, 0x20, 0xC5C6, 0xC2B5,
     0xB2C8, 0xB2E4, 0x2E]"

definition reason_allowed :: pystr where
  "reason_allowed = utf8 [0xAC70, 0xBC84, 0xB10C, 0xC2A4, 0x20, 0xC815, 0xCC45, 0x20, 0xC870,
     0xAC74, 0x20, 0xCDA9, 0xC871]"

section \<open>The decision\<close>

definition is_admin :: "pystr \<Rightarrow> bool" where
  "is_admin subject = has_role subject [''admin'', ''platform-admin'']"

definition can_mutate :: "pystr \<Rightarrow> pystr \<Rightarrow> bool" where
  "can_mutate subject action \<longleftrightarrow> is_admin subject
     \<and> lower action \<in> {''create'', ''publish'', ''patch'', ''deprecate''}"

definition has_reader_role :: "pystr \<Rightarrow> bool" where
  "has_reader_role subject = has_role subject [''data-analyst'', ''admin'', ''platform-admin'', ''security'']"

definition make_decision ::
  "policy_decision \<Rightarrow> 's evidence_state_scheme \<Rightarrow> policy_decision \<times> 's evidence_state_scheme" where
  "make_decision d s = record_policy_decision d s"

definition row_filter_for :: "pystr \<Rightarrow> pystr \<Rightarrow> dataset \<Rightarrow> pystr list" where
  "row_filter_for action_key purpose ds =
     (if action_key \<in> {''query'', ''preview''} \<and> purpose = ''analysis'' \<and> ds_sensitivity ds = ''high''
      then [''business_unit = current_user_unit''] else [])"

definition masked_columns :: "dataset \<Rightarrow> pystr list" where
  "masked_columns ds = map col_name (filter col_pii (ds_schema ds))"

definition evaluate ::
  "pystr \<Rightarrow> pystr \<Rightarrow> pystr \<Rightarrow> pystr \<Rightarrow> 's catalog_state_scheme \<Rightarrow> policy_decision \<times> 's catalog_state_scheme" where
  "evaluate subject resource action purpose s =
     (let action_key = lower action;
          (decision_id, s) = uuid4 s;
          decide = (\<lambda>effect reason obligations.
            make_decision \<lparr>pd_subject = subject, pd_resource = resource, pd_action = action,
              pd_effect = effect, pd_decision_id = decision_id, pd_obligations = obligations,
              pd_reason = reason\<rparr> s)
      in if action_key = ''create'' then
           (if is_admin subject
            then decide ''allow'' reason_create_allowed [(''required_role'', VStr ''admin'')]
            else decide ''deny'' reason_create_denied [(''required_role'', VStr ''admin'')])
         else if action_key \<in> {''search'', ''search_catalog'', ''discover''} then
           (if has_reader_role subject
            then decide ''allow'' reason_discover_allowed [(''masking'', VList [])]
            else decide ''deny'' reason_discover_denied [(''required_role'', VStr ''data-analyst'')])
         else (case get_dataset resource s of
           None \<Rightarrow> decide ''deny'' reason_no_dataset []
         | Some ds \<Rightarrow>
             if \<not> can_access_tenant subject (ds_tenant_id ds)
             then decide ''deny'' ''tenant boundary denied''
               [(''tenant_id'', VStr (ds_tenant_id ds)),
                (''actor_tenant_id'', VStr (ac_tenant_id (resolve_actor_context subject)))]
             else if ds_sensitivity ds = ''critical'' \<and> \<not> is_admin subject
             then decide ''deny'' reason_critical [(''redact'', VBool True), (''masking'', VBool True)]
             else if lower purpose = ''external-export'' \<and> \<not> is_admin subject
             then decide ''deny'' reason_export [(''required_role'', VStr ''data-admin'')]
             else if action_key \<in> {''publish'', ''patch'', ''deprecate''} \<and> \<not> can_mutate subject action_key
             then decide ''deny'' reason_mutation_denied [(''required_role'', VStr ''admin'')]
             else if action_key \<in> {''query'', ''preview'', ''schema'', ''search'', ''list''} \<and> \<not> has_reader_role subject
             then decide ''deny'' reason_no_reader [(''required_role'', VStr ''data-analyst'')]
             else (let row_filter = row_filter_for action_key purpose ds in
               decide ''allow'' reason_allowed
                 ([(''tenant_id'', VStr (ds_tenant_id ds)), (''masking'', str_list (masked_columns ds))]
                  @ (if row_filter \<noteq> [] then [(''row_filter'', str_list row_filter)] else [])))))"

definition is_mutable :: "pystr \<Rightarrow> pystr \<Rightarrow> pystr \<Rightarrow> 's catalog_state_scheme \<Rightarrow> bool \<times> 's catalog_state_scheme" where
  "is_mutable subject action resource s =
     (let (decision, s) = evaluate subject resource action ''analysis'' s in (pd_effect decision = ''allow'', s))"

section \<open>What a decision is\<close>

lemma uuid4_simps [simp]:
  "catalog_data (snd (uuid4 s)) = catalog_data s" "schema_history (snd (uuid4 s)) = schema_history s"
  "audit_log (snd (uuid4 s)) = audit_log s" "configured_store (snd (uuid4 s)) = configured_store s"
  "policy_decision_log (snd (uuid4 s)) = policy_decision_log s" "str_other (snd (uuid4 s)) = str_other s"
  by (simp_all add: uuid4_def)

definition allowed_obligations :: "pystr \<Rightarrow> pystr \<Rightarrow> dataset \<Rightarrow> pyval dict" where
  "allowed_obligations action_key purpose ds =
     [(''tenant_id'', VStr (ds_tenant_id ds)), (''masking'', str_list (masked_columns ds))]
     @ (if row_filter_for action_key purpose ds \<noteq> []
        then [(''row_filter'', str_list (row_filter_for action_key purpose ds))] else [])"

text \<open>The pure part of a decision: its effect, reason and obligations for the dataset found.\<close>

definition decision_for ::
  "pystr \<Rightarrow> pystr \<Rightarrow> pystr \<Rightarrow> dataset option \<Rightarrow> pystr \<times> pystr \<times> pyval dict" where
  "decision_for subject action_key purpose found =
     (if action_key = ''create'' then
        (if is_admin subject then (''allow'', reason_create_allowed, [(''required_role'', VStr ''admin'')])
         else (''deny'', reason_create_denied, [(''required_role'', VStr ''admin'')]))
      else if action_key \<in> {''search'', ''search_catalog'', ''discover''} then
        (if has_reader_role subject then (''allow'', reason_discover_allowed, [(''masking'', VList [])])
         else (''deny'', reason_discover_denied, [(''required_role'', VStr ''data-analyst'')]))
      else (case found of
        None \<Rightarrow> (''deny'', reason_no_dataset, [])
      | Some ds \<Rightarrow>
          if \<not> can_access_tenant subject (ds_tenant_id ds)
          then (''deny'', ''tenant boundary denied'', [(''tenant_id'', VStr (ds_tenant_id ds)),
                (''actor_tenant_id'', VStr (ac_tenant_id (resolve_actor_context subject)))])
          else if ds_sensitivity ds = ''critical'' \<and> \<not> is_admin subject
          then (''deny'', reason_critical, [(''redact'', VBool True), (''masking'', VBool True)])
          else if lower purpose = ''external-export'' \<and> \<not> is_admin subject
          then (''deny'', reason_export, [(''required_role'', VStr ''data-admin'')])
          else if action_key \<in> {''publish'', ''patch'', ''deprecate''} \<and> \<not> is_admin subject
          then (''deny'', reason_mutation_denied, [(''required_role'', VStr ''admin'')])
          else if action_key \<in> {''query'', ''preview'', ''schema'', ''list''} \<and> \<not> has_reader_role subject
          then (''deny'', reason_no_reader, [(''required_role'', VStr ''data-analyst'')])
          else (''allow'', reason_allowed, allowed_obligations action_key purpose ds)))"

lemma evaluate_split:
  "evaluate subject resource action purpose s =
     (let (effect, reason, obligations) = decision_for subject (lower action) purpose (get_dataset resource s);
          (k, s') = uuid4 s
      in make_decision \<lparr>pd_subject = subject, pd_resource = resource, pd_action = action, pd_effect = effect,
           pd_decision_id = k, pd_obligations = obligations, pd_reason = reason\<rparr> s')"
proof -
  have mut: "can_mutate subject (lower action) = is_admin subject"
    if "lower action \<in> {''publish'', ''patch'', ''deprecate''}"
    using that by (auto simp: can_mutate_def)
  have get: "get_dataset resource (snd (uuid4 s)) = get_dataset resource s" by (simp add: get_dataset_def)
  show ?thesis
    using mut
    by (auto simp: evaluate_def decision_for_def allowed_obligations_def Let_def get case_prod_unfold
        cong del: option.case_cong_weak split: option.split)
qed

lemma evaluate_effect:
  "pd_effect (fst (evaluate subject resource action purpose s))
     = fst (decision_for subject (lower action) purpose (get_dataset resource s))"
  by (simp add: evaluate_split Let_def case_prod_unfold make_decision_def record_policy_decision_def
      split: option.split)

text \<open>
  C1.  The guards of \<open>evaluate\<close> come to this: creating needs an administrator, discovery a
  reader, and any other action an existing dataset of the subject's tenant (or a platform
  administrator), an administrator if the dataset is critical or the purpose is an export, an
  administrator for a mutation and a reader for a read.
\<close>

theorem evaluate_allows_iff:
  "(pd_effect (fst (evaluate subject resource action purpose s)) = ''allow'')
   = (if lower action = ''create'' then is_admin subject
      else if lower action \<in> {''search'', ''search_catalog'', ''discover''} then has_reader_role subject
      else \<exists>ds. get_dataset resource s = Some ds
        \<and> can_access_tenant subject (ds_tenant_id ds)
        \<and> (is_admin subject \<or> ds_sensitivity ds \<noteq> ''critical'' \<and> lower purpose \<noteq> ''external-export'')
        \<and> (is_admin subject \<or> lower action \<notin> {''publish'', ''patch'', ''deprecate''})
        \<and> (has_reader_role subject \<or> lower action \<notin> {''query'', ''preview'', ''schema'', ''list''}))"
  unfolding evaluate_effect by (auto simp: decision_for_def split: option.split)

text \<open>What recording a decision does to the two places decisions are kept.\<close>

lemma store_record_decision_get:
  "store_get_decision k (fst (store_record_decision d st w))
     = (if k = pd_decision_id d then Some d else store_get_decision k st)"
  by (cases "st_backend st")
     (simp_all add: store_record_decision_def sqlite_record_decision_def postgres_record_decision_def
        store_get_decision_def Let_def case_prod_unfold sqlite_decisions.select_put postgres_decisions.select_put)

lemma store_record_decision_events:
  "st_events (fst (store_record_decision d st w)) = st_events st"
  by (cases "st_backend st")
     (simp_all add: store_record_decision_def sqlite_record_decision_def postgres_record_decision_def
        Let_def case_prod_unfold)

lemma store_record_decision_world:
  "snd (store_record_decision d st w) = snd (now w)"
  by (cases "st_backend st")
     (simp_all add: store_record_decision_def sqlite_record_decision_def postgres_record_decision_def
        Let_def case_prod_unfold)

text \<open>
  C16.  Every evaluation, allowed or denied, records exactly the decision it returns, under a
  fresh uuid and for the subject, resource and action of the call: in the process's log, or in the
  configured store, where it can be read back under its id.  Nothing else of the catalog, the
  audit log or the other decisions changes.
\<close>

theorem evaluate_records_its_decision:
  "case evaluate subject resource action purpose s of (d, s') \<Rightarrow>
     pd_subject d = subject \<and> pd_resource d = resource \<and> pd_action d = action
   \<and> pd_decision_id d = uuid_source s (uuid_tick s) \<and> pd_effect d \<in> {''allow'', ''deny''}
   \<and> catalog_data s' = catalog_data s \<and> schema_history s' = schema_history s \<and> audit_log s' = audit_log s
   \<and> (case configured_store s of
        None \<Rightarrow> configured_store s' = None \<and> policy_decision_log s' = policy_decision_log s @ [d]
      | Some st \<Rightarrow> (\<exists>st'. configured_store s' = Some st' \<and> st_events st' = st_events st
          \<and> policy_decision_log s' = policy_decision_log s
          \<and> (\<forall>k. store_get_decision k st' = (if k = pd_decision_id d then Some d else store_get_decision k st))))"
proof -
  have eff: "fst (decision_for subject key purpose found) \<in> {''allow'', ''deny''}" for key found
    by (auto simp: decision_for_def split: option.split)
  show ?thesis
    using eff [of "lower action" "get_dataset resource s"]
    by (auto simp: evaluate_split Let_def case_prod_unfold make_decision_def record_policy_decision_def
        store_record_decision_get store_record_decision_events store_record_decision_world
        uuid4_def now_def split: option.split)
qed

theorem evaluate_allows_iff_witness:
  "pd_effect (fst (evaluate ''analyst'' ''d1'' ''preview'' ''analysis'' sample_catalog)) = ''allow''
   \<and> pd_effect (fst (evaluate ''analyst'' ''d1'' ''publish'' ''analysis'' sample_catalog)) \<noteq> ''allow''"
proof -
  have texts: "lower ''preview'' = ''preview''" "lower ''publish'' = ''publish''" "lower ''analysis'' = ''analysis''"
    by code_simp+
  have roles: "has_reader_role ''analyst''" "can_access_tenant ''analyst'' ''demo''" "\<not> is_admin ''analyst''"
    by code_simp+
  have "map_option (\<lambda>ds. (ds_tenant_id ds, ds_sensitivity ds)) (get_dataset ''d1'' sample_catalog)
      = Some (''demo'', ''low'')" by code_simp
  then show ?thesis
    using roles evaluate_allows_iff [of "''analyst''" "''d1''" "''preview''" "''analysis''" sample_catalog]
      evaluate_allows_iff [of "''analyst''" "''d1''" "''publish''" "''analysis''" sample_catalog]
    by (auto simp: texts)
qed

text \<open>
  A subject the portal does not know is denied everything on a dataset that belongs to a
  tenant, and may neither create nor discover: whatever the case and the spaces around its name.
\<close>

theorem unknown_subject_denied:
  assumes unknown: "\<not> known_subject subject"
    and tenants: "\<forall>ds. get_dataset resource s = Some ds \<longrightarrow> ds_tenant_id ds \<noteq> []"
  shows "pd_effect (fst (evaluate subject resource action purpose s)) = ''deny''"
proof -
  have no: "\<not> is_admin subject" "\<not> has_reader_role subject"
    using unknown by (simp_all add: is_admin_def has_reader_role_def unknown_subject_no_role)
  have "\<not> can_access_tenant subject (ds_tenant_id ds)" if "get_dataset resource s = Some ds" for ds
    using unknown tenants that by (auto simp: can_access_tenant_def unknown_subject_context)
  then have "fst (decision_for subject (lower action) purpose (get_dataset resource s)) = ''deny''"
    using no by (auto simp: decision_for_def split: option.split)
  then show ?thesis unfolding evaluate_effect .
qed

theorem unknown_subject_denied_witness:
  "pd_effect (fst (evaluate '' Mallory '' ''d1'' ''preview'' ''analysis'' sample_catalog)) = ''deny''"
proof -
  have "\<not> known_subject '' Mallory ''" by code_simp
  moreover have "map_option ds_tenant_id (get_dataset ''d1'' sample_catalog) = Some ''demo''" by code_simp
  then have "\<forall>ds. get_dataset ''d1'' sample_catalog = Some ds \<longrightarrow> ds_tenant_id ds \<noteq> []" by auto
  ultimately show ?thesis by (rule unknown_subject_denied)
qed

text \<open>The obligations of an allowed read of a dataset.\<close>

lemma evaluate_allowed_masking:
  assumes "evaluate subject resource action purpose s = (d, s')" and "pd_effect d = ''allow''"
    and "get_dataset resource s = Some ds"
    and "lower action \<notin> {''create'', ''search'', ''search_catalog'', ''discover''}"
  shows "dict_get (pd_obligations d) ''masking'' = Some (str_list (masked_columns ds))"
    "dict_get (pd_obligations d) ''tenant_id'' = Some (VStr (ds_tenant_id ds))"
    "dict_get (pd_obligations d) ''row_filter'' = (if row_filter_for (lower action) purpose ds = [] then None
      else Some (str_list (row_filter_for (lower action) purpose ds)))"
proof -
  let ?x = "decision_for subject (lower action) purpose (Some ds)"
  have "pd_effect d = fst ?x" "pd_obligations d = snd (snd ?x)"
    using assms(1,3) by (auto simp: evaluate_split Let_def case_prod_unfold make_decision_def
        record_policy_decision_def split: option.splits)
  moreover have "snd (snd ?x) = allowed_obligations (lower action) purpose ds" if "fst ?x = ''allow''"
    using that assms(4) unfolding decision_for_def by (auto split: if_split_asm)
  ultimately have "pd_obligations d = allowed_obligations (lower action) purpose ds"
    using assms(2) by simp
  then show "dict_get (pd_obligations d) ''masking'' = Some (str_list (masked_columns ds))"
    "dict_get (pd_obligations d) ''tenant_id'' = Some (VStr (ds_tenant_id ds))"
    "dict_get (pd_obligations d) ''row_filter'' = (if row_filter_for (lower action) purpose ds = [] then None
      else Some (str_list (row_filter_for (lower action) purpose ds)))"
    by (simp_all add: dict_get_def allowed_obligations_def)
qed

lemma evaluate_keeps [simp]:
  "catalog_data (snd (evaluate subject resource action purpose s)) = catalog_data s"
  "schema_history (snd (evaluate subject resource action purpose s)) = schema_history s"
  "audit_log (snd (evaluate subject resource action purpose s)) = audit_log s"
  "str_other (snd (evaluate subject resource action purpose s)) = str_other s"
  by (auto simp: evaluate_split Let_def case_prod_unfold make_decision_def record_policy_decision_def
      store_record_decision_world uuid4_def now_def split: option.split)

end
