(* ===== verification/Manifests.thy ===== *)
theory Manifests
  imports Policy
begin

text \<open>
  What the portal says of itself: the enterprise controls (\<open>src/sdp_core/enterprise.py\<close>), the
  production integrations (\<open>production.py\<close>), the saleability measures (\<open>kpis.py\<close>) and the role
  matrix (\<open>rbac.py\<close>), with the counts, blockers and gates computed from them.  Every entry is
  the source's; the properties compare the role matrix with the policy that decides.
\<close>

section \<open>Enterprise controls\<close>

record enterprise_control =
  ec_id :: pystr
  ec_label :: pystr
  ec_feature_gate :: pystr
  ec_status :: pystr
  ec_risk_reduced :: pystr
  ec_evidence :: "pystr list"
  ec_release_criteria :: "pystr list"

record enterprise_controls =
  em_feature_gate :: pystr
  em_status :: pystr
  em_implemented_controls :: int
  em_planned_controls :: int
  em_external_controls :: int
  em_controls :: "enterprise_control list"

text \<open>The \<open>pattern\<close> of every status field; a model with another status is not built.\<close>

definition status_valid :: "pystr \<Rightarrow> bool" where
  "status_valid status \<longleftrightarrow> status \<in> {''implemented'', ''planned'', ''external''}"

definition enterprise_control_registry :: "enterprise_control list" where
  "enterprise_control_registry =
     [\<lparr>ec_id = ''tenant_authorization'', ec_label = ''Tenant authorization boundary'',
       ec_feature_gate = ''sdp_enterprise'', ec_status = ''implemented'',
       ec_risk_reduced =
          ''Cross-tenant preview, query, and schema access is denied before source data is touched.'',
       ec_evidence = [''sdp.authz.resolve_actor_context'',
           ''sdp.policy.evaluate'',
           ''tests/test_api.py::test_tenant_boundary_denies_cross_tenant_preview''],
       ec_release_criteria = [''Every data-access path resolves ActorContext.'',
          ''Platform-admin bypass is explicit and test-covered.'']\<rparr>,
      \<lparr>ec_id = ''local_evidence_retention'', ec_label = ''Local evidence retention'',
       ec_feature_gate = ''sdp_enterprise'', ec_status = ''implemented'',
       ec_risk_reduced =
          ''Policy decisions and audit events survive process restart in demo or pilot environments.'',
       ec_evidence = [''SDP_SQLITE_PATH'',
           ''sdp_core.SQLiteEvidenceStore'',
           ''GET /policy/decisions'',
           ''tests/test_api.py::test_sqlite_evidence_store_persists_policy_and_audit_events''],
       ec_release_criteria = [''Preview/query/catalog mutation flows persist policy_decision_id and audit event payloads.'',
           ''Production backend can replace SQLite through the same evidence-store boundary.'']\<rparr>,
      \<lparr>ec_id = ''sso_oidc_adapter'', ec_label = ''SSO/OIDC adapter'',
       ec_feature_gate = ''sdp_enterprise'', ec_status = ''planned'',
       ec_risk_reduced =
          ''Enterprise users can map identity provider groups to SDP roles without local code changes.'',
       ec_evidence = [''sdp_core.ActorContext'',
           ''sdp.authz'',
           ''POST /enterprise/auth/oidc-preview'',
           ''docs/enterprise-readiness.md'',
           ''tests/test_api.py::test_oidc_preview_rejects_unverified_claim_shape'',
           ''tests/test_api.py::test_oidc_preview_ignores_direct_role_escalation_claims''],
       ec_release_criteria = [''OIDC issuer, audience, and JWKS are environment-configured.'',
           ''Group-to-role mapping is tenant scoped and auditable.'',
           ''Preview rejects missing or expired identity claims and ignores direct role escalation claims.'']\<rparr>,
      \<lparr>ec_id = ''rbac_matrix'', ec_label = ''RBAC matrix'', ec_feature_gate = ''sdp_enterprise'',
       ec_status = ''implemented'',
       ec_risk_reduced =
          ''Buyer security review can inspect who may discover, preview, query, mutate, and administer datasets.'',
       ec_evidence = [''GET /enterprise/rbac-matrix'', ''sdp.policy.evaluate'',
          ''GET /enterprise/controls'', ''docs/enterprise-readiness.md''],
       ec_release_criteria = [''Roles, actions, and denied cases are documented and test-covered.'',
           ''Admin actions require explicit role checks and audit events.'']\<rparr>,
      \<lparr>ec_id = ''deployment_template'', ec_label = ''Deployment template'',
       ec_feature_gate = ''sdp_enterprise'', ec_status = ''implemented'',
       ec_risk_reduced =
          ''Pilot setup can move from local demo to reproducible container deployment with predictable configuration.'',
       ec_evidence = [''Dockerfile'', ''docker-compose.yml'', ''README.md'',
          ''docs/enterprise-readiness.md'', ''PYTHONPATH=src python -m sdp.demo_smoke''],
       ec_release_criteria = [''Container, env var, healthcheck, evidence store path, and read-only connector config are documented.'',
           ''Local demo setup remains under 15 minutes.'']\<rparr>,
      \<lparr>ec_id = ''operational_observability'', ec_label = ''Operational observability'',
       ec_feature_gate = ''sdp_enterprise'', ec_status = ''implemented'',
       ec_risk_reduced =
          ''Pilot operators can inspect health, minimal metrics, evidence counts, request logs, and alert conditions before production integration.'',
       ec_evidence = [''SDP_LOG_SINK_URL'',
           ''SDP_REQUEST_ID_HEADER'',
           ''GET /health'',
           ''GET /metrics'',
           ''GET /enterprise/observability'',
           ''tests/test_api.py::test_enterprise_observability_and_metrics_endpoints'',
           ''tests/test_api.py::test_request_observability_export_writes_bodyless_jsonl''],
       ec_release_criteria = [''Health and metrics endpoints are exposed without source credentials.'',
           ''Audit, policy, catalog, request observation, and enterprise control counts are visible to operators.'',
           ''Request logs include id, tenant, actor, route, status, latency, and evidence ids without request bodies.'']\<rparr>,
      \<lparr>ec_id = ''central_workflow_due_diligence'', ec_label = ''Central workflow due diligence'',
       ec_feature_gate = ''sdp_enterprise'', ec_status = ''external'',
       ec_risk_reduced =
          ''Org-level coverage, security, PR queue, and review controls remain enforced outside this repo.'',
       ec_evidence = [''ContextualWisdomLab org ruleset'', ''PR #2'', ''PR #4''],
       ec_release_criteria = [''Required checks pass on current head.'',
          ''Open PR queue has no source-code blocker.'']\<rparr>]"

definition controls_with_status :: "pystr \<Rightarrow> enterprise_control list \<Rightarrow> int" where
  "controls_with_status status controls = int (length (filter (\<lambda>c. ec_status c = status) controls))"

definition controls_manifest_of :: "enterprise_control list \<Rightarrow> enterprise_controls" where
  "controls_manifest_of controls =
     \<lparr>em_feature_gate = ''sdp_enterprise'', em_status = ''pilot_ready_with_planned_controls'',
      em_implemented_controls = controls_with_status ''implemented'' controls,
      em_planned_controls = controls_with_status ''planned'' controls,
      em_external_controls = controls_with_status ''external'' controls, em_controls = controls\<rparr>"

definition enterprise_controls_manifest :: enterprise_controls where
  "enterprise_controls_manifest = controls_manifest_of enterprise_control_registry"

section \<open>Production integrations\<close>

record production_integration =
  pi_id :: pystr
  pi_label :: pystr
  pi_status :: pystr
  pi_buyer_risk :: pystr
  pi_current_evidence :: "pystr list"
  pi_required_environment :: "pystr list"
  pi_acceptance_criteria :: "pystr list"

record production_readiness =
  pm_product :: pystr
  pm_valuation_target_krw :: int
  pm_current_stage :: pystr
  pm_demo_release_ready :: bool
  pm_paid_pilot_ready :: bool
  pm_integrations :: "production_integration list"
  pm_demo_blockers :: "pystr list"
  pm_paid_pilot_blockers :: "pystr list"

definition production_integration_registry :: "production_integration list" where
  "production_integration_registry =
     [\<lparr>pi_id = ''postgres_evidence_store'', pi_label = ''Postgres evidence store'',
       pi_status = ''implemented'',
       pi_buyer_risk =
          ''SQLite remains available for local demo fallback; paid pilots can use managed, backed-up, tenant-indexed Postgres evidence retention.'',
       pi_current_evidence = [''SDP_DATABASE_URL'',
           ''SDP_DATABASE_SSLMODE'',
           ''SDP_SQLITE_PATH'',
           ''sdp_core.SQLiteEvidenceStore'',
           ''sdp_core.PostgresEvidenceStore'',
           ''GET /audit/events'',
           ''GET /policy/decisions'',
           ''tests/test_api.py::test_postgres_evidence_store_uses_tenant_columns_and_store_protocol'',
           ''tests/test_api.py::test_configured_evidence_store_prefers_postgres_over_sqlite'',
           ''tests/test_api.py::test_audit_events_endpoint_reads_configured_evidence_store_after_memory_clear''],
       pi_required_environment = [''SDP_DATABASE_URL'', ''SDP_DATABASE_SSLMODE'',
          ''SDP_EVIDENCE_RETENTION_DAYS''],
       pi_acceptance_criteria = [''policy decisions and audit events persist through the same store protocol under Postgres.'',
           ''Every stored row carries tenant, resource, decision id, created_at, and immutable payload snapshot.'',
           ''The application can run demo smoke checks without production credentials.'']\<rparr>,
      \<lparr>pi_id = ''oidc_jwks_verification'', pi_label = ''OIDC JWKS verification'',
       pi_status = ''implemented'',
       pi_buyer_risk =
          ''Claim-shape preview proves the role-mapping contract, but production login needs signed token verification.'',
       pi_current_evidence = [''POST /enterprise/auth/oidc-preview'',
           ''POST /enterprise/auth/oidc-verify'',
           ''SDP_OIDC_GROUP_ROLE_MAP'',
           ''SDP_OIDC_ISSUER'',
           ''SDP_OIDC_AUDIENCE'',
           ''SDP_OIDC_JWKS_URL'',
           ''sdp.authz.verify_oidc_jwks_token'',
           ''tests/test_api.py::test_oidc_jwks_verification_maps_verified_token_without_token_leak'',
           ''tests/test_api.py::test_oidc_jwks_verification_rejects_wrong_audience'',
           ''tests/test_api.py::test_oidc_preview_rejects_unverified_claim_shape'',
           ''tests/test_api.py::test_oidc_preview_ignores_direct_role_escalation_claims''],
       pi_required_environment = [''SDP_OIDC_ISSUER'', ''SDP_OIDC_AUDIENCE'', ''SDP_OIDC_JWKS_URL'',
          ''SDP_OIDC_GROUP_ROLE_MAP''],
       pi_acceptance_criteria = [''Signed tokens are verified against issuer, audience, expiry, and JWKS key id.'',
           ''Only group allow-list mappings produce SDP roles; direct role claims are ignored for privilege elevation.'',
           ''Rejected identity tokens emit audit evidence without logging raw tokens.'']\<rparr>,
      \<lparr>pi_id = ''connector_credential_vault'', pi_label = ''Connector credential vault'',
       pi_status = ''implemented'',
       pi_buyer_risk =
          ''Connector contracts are implemented for demo, but real source credentials must never live in catalog metadata or LLM prompts.'',
       pi_current_evidence = [''SDP_CONNECTOR_SECRET_REF_PREFIX'',
           ''SDP_CONNECTOR_VAULT_PROVIDER'',
           ''sdp.credentials.connector_secret_status'',
           ''GET /enterprise/connectors/{connector_id}/probe'',
           ''sdp_core.SourceConnector'',
           ''tests/test_api.py::test_enterprise_rest_connector_probe_uses_vault_reference_without_secret_leak''],
       pi_required_environment = [''SDP_CONNECTOR_SECRET_REF_PREFIX'', ''SDP_CONNECTOR_VAULT_PROVIDER'',
          ''SDP_CONNECTOR_TIMEOUT_MS''],
       pi_acceptance_criteria = [''raw connector credentials are never stored in dataset records, prompt context, audit payloads, or logs.'',
           ''Connector probes use secret references and fail closed when a secret reference is missing.'',
           ''SQL/RDF/REST/file connectors enforce read-only scope, row limits, and audit events.'']\<rparr>,
      \<lparr>pi_id = ''request_observability_export'', pi_label = ''Request observability export'',
       pi_status = ''implemented'',
       pi_buyer_risk =
          ''Local metrics are enough for pilot review, but paid operation needs tenant-scoped logs and external alert routing.'',
       pi_current_evidence = [''SDP_LOG_SINK_URL'',
           ''SDP_REQUEST_ID_HEADER'',
           ''sdp.observability.record_request_observation'',
           ''/enterprise/observability'',
           ''/metrics'',
           ''tests/test_api.py::test_enterprise_observability_and_metrics_endpoints'',
           ''tests/test_api.py::test_request_observability_export_writes_bodyless_jsonl''],
       pi_required_environment = [''SDP_LOG_SINK_URL'', ''SDP_ALERT_WEBHOOK_URL'',
          ''SDP_REQUEST_ID_HEADER''],
       pi_acceptance_criteria = [''Request logs include request id, tenant, actor, route, status, latency, and evidence ids without request bodies.'',
           ''Policy/audit gaps, failed connector probes, and queue drift emit alertable signals.'',
           ''Operators can correlate health, metrics, audit events, and policy decisions for a buyer pilot.'']\<rparr>]"

definition production_manifest_of :: "production_integration list \<Rightarrow> production_readiness" where
  "production_manifest_of integrations =
     (let paid_pilot_blockers = map pi_id (filter (\<lambda>i. pi_status i \<noteq> ''implemented'') integrations)
      in \<lparr>pm_product = ''Semantic Data Portal'', pm_valuation_target_krw = 2000000000,
          pm_current_stage = ''pilot_candidate'', pm_demo_release_ready = True,
          pm_paid_pilot_ready = (paid_pilot_blockers = []), pm_integrations = integrations,
          pm_demo_blockers = [], pm_paid_pilot_blockers = paid_pilot_blockers\<rparr>)"

definition enterprise_production_readiness_manifest :: production_readiness where
  "enterprise_production_readiness_manifest = production_manifest_of production_integration_registry"

section \<open>Saleability measures\<close>

record saleability_kpi =
  kp_id :: pystr
  kp_label :: pystr
  kp_decision_question :: pystr
  kp_definition :: pystr
  kp_target :: pystr
  kp_cadence :: pystr
  kp_source_endpoints :: "pystr list"
  kp_owner :: pystr
  kp_guardrails :: "pystr list"
  kp_status :: pystr

record kpi_framework =
  kf_product :: pystr
  kf_valuation_target_krw :: int
  kf_operating_cadence :: pystr
  kf_primary_kpis :: "saleability_kpi list"
  kf_guardrail_kpis :: "saleability_kpi list"

definition enterprise_kpi_framework :: "kpi_framework" where
  "enterprise_kpi_framework =
     \<lparr>kf_product = ''Semantic Data Portal'', kf_valuation_target_krw = 2000000000,
      kf_operating_cadence = ''Review every buyer demo and before every pilot handoff.'',
      kf_primary_kpis = [\<lparr>kp_id = ''discovery_time_reduction'', kp_label = ''Discovery time reduction'',
           kp_decision_question =
              ''Can a buyer find governed datasets materially faster than their current workflow?'',
           kp_definition =
              ''Median time from natural language intent to a qualified dataset shortlist compared with the buyer baseline.'',
           kp_target = ''>=50 percent reduction'', kp_cadence = ''buyer demo and pilot weekly review'',
           kp_source_endpoints = [''/catalog/search'', ''/llm/search'', ''/enterprise/demo-plan''],
           kp_owner = ''product'',
           kp_guardrails = [''No unauthorized dataset existence disclosure.'',
              ''Search result explanations must include source evidence.''],
           kp_status = ''planned''\<rparr>,
          \<lparr>kp_id = ''metadata_completeness'', kp_label = ''Metadata completeness'',
           kp_decision_question =
              ''Are buyer priority datasets complete enough for diligence and analyst use?'',
           kp_definition =
              ''Share of priority datasets with owner, steward, schema, lineage, quality, freshness, license, and sensitivity present.'',
           kp_target = ''>=90 percent display coverage'', kp_cadence = ''dataset onboarding review'',
           kp_source_endpoints = [''/catalog/datasets/{dataset_id}/validate'',
              ''/catalog/datasets/{dataset_id}/lineage''],
           kp_owner = ''data steward'',
           kp_guardrails = [''Completeness must not hide failed validation.'',
              ''Deprecated datasets stay visible with status.''],
           kp_status = ''implemented''\<rparr>,
          \<lparr>kp_id = ''policy_audit_coverage'', kp_label = ''Policy and audit coverage'',
           kp_decision_question = ''Can every governed data action be explained and audited?'',
           kp_definition =
              ''Share of preview, query, and catalog mutation requests with policy decision or audit evidence.'',
           kp_target = ''100 percent'', kp_cadence = ''release gate and buyer demo'',
           kp_source_endpoints = [''/browse/{dataset_id}/preview'', ''/browse/query'', ''/audit/events'',
              ''/policy/decision''],
           kp_owner = ''security'',
           kp_guardrails = [''No preview or query path may bypass policy.'',
              ''Audit payloads must not contain secrets.''],
           kp_status = ''implemented''\<rparr>,
          \<lparr>kp_id = ''demo_setup_minutes'', kp_label = ''Demo setup time'',
           kp_decision_question =
              ''Can a buyer evaluator run the core demo quickly enough for sales diligence?'',
           kp_definition =
              ''Elapsed time from clean checkout to health check, readiness manifest, demo plan, and one governed query proof.'',
           kp_target = ''<=15 minutes'', kp_cadence = ''release candidate'',
           kp_source_endpoints = [''/health'', ''/enterprise/readiness'', ''/enterprise/demo-plan'',
              ''/enterprise/connectors/{connector_id}/probe''],
           kp_owner = ''solution architect'',
           kp_guardrails = [''Demo setup must not require production credentials.'',
              ''Failure modes must be explicit.''],
           kp_status = ''planned''\<rparr>],
      kf_guardrail_kpis = [\<lparr>kp_id = ''nl_catalog_search_success'', kp_label = ''Natural language catalog success'',
           kp_decision_question =
              ''Does natural language intent reliably resolve to grounded catalog actions?'',
           kp_definition =
              ''Share of curated buyer questions that resolve to approved ontology terms and existing datasets without hallucinated assets.'',
           kp_target = ''>=80 percent'', kp_cadence = ''golden set review'',
           kp_source_endpoints = [''/ontology/resolve'', ''/ontology/search'', ''/llm/search''],
           kp_owner = ''ontology engineer'',
           kp_guardrails = [''Hallucinated table or column count must be zero in demo scripts.''],
           kp_status = ''implemented''\<rparr>,
          \<lparr>kp_id = ''ontology_mapping_coverage'', kp_label = ''Ontology mapping coverage'',
           kp_decision_question = ''Are enough critical buyer terms mapped for a credible pilot?'',
           kp_definition =
              ''Share of buyer critical glossary terms mapped to approved concepts or active steward patch proposals.'',
           kp_target = ''>=70 percent'', kp_cadence = ''domain onboarding review'',
           kp_source_endpoints = [''/ontology/search'', ''/ontology/resolve'', ''/ontology/patches''],
           kp_owner = ''ontology engineer'',
           kp_guardrails = [''Proposed mappings are not treated as approved mappings.''],
           kp_status = ''implemented''\<rparr>,
          \<lparr>kp_id = ''validation_pass_rate'', kp_label = ''Metadata validation pass rate'',
           kp_decision_question = ''Can priority datasets pass the required governance quality bar?'',
           kp_definition = ''Share of priority datasets passing metadata validation before pilot handoff.'',
           kp_target = ''>=95 percent'', kp_cadence = ''pilot handoff'',
           kp_source_endpoints = [''/catalog/datasets/{dataset_id}/validate'',
              ''/catalog/datasets/{dataset_id}/semantic-validation'',
              ''/enterprise/shacl-validation''],
           kp_owner = ''data steward'',
           kp_guardrails = [''Critical validation failures block publish.''],
           kp_status = ''implemented''\<rparr>,
          \<lparr>kp_id = ''clean_pr_queue'', kp_label = ''Clean PR queue'',
           kp_decision_question = ''Can the buyer trust engineering hygiene and release discipline?'',
           kp_definition =
              ''Open pull requests without current-head required workflow completion, unresolved review threads, or merge conflicts.'',
           kp_target = ''0 blocking PRs'', kp_cadence = ''release gate'',
           kp_source_endpoints = [''ContextualWisdomLab central required workflows'',
              ''GitHub PR status rollup''],
           kp_owner = ''engineering'',
           kp_guardrails = [''Review process itself is not a blocker; current-head failed checks are.''],
           kp_status = ''external''\<rparr>]\<rparr>"

section \<open>The role matrix\<close>

record role_permission =
  rp_role :: pystr
  rp_allowed_actions :: "pystr list"
  rp_denied_actions :: "pystr list"
  rp_tenant_scope :: pystr
  rp_evidence :: "pystr list"

record rbac_matrix =
  rm_feature_gate :: pystr
  rm_roles :: "role_permission list"
  rm_action_catalog :: "pystr list"
  rm_policy_source :: pystr

text \<open>The actions the matrix speaks of: a local of the function.\<close>

definition rbac_action_catalog :: "pystr list" where
  "rbac_action_catalog =
     [''discover_catalog'', ''view_schema'', ''preview_data'', ''run_governed_query'', ''register_dataset'', ''patch_dataset'', ''publish_dataset'', ''deprecate_dataset'', ''review_security_evidence'', ''administer_tenants'']"

definition enterprise_rbac_matrix :: "rbac_matrix" where
  "enterprise_rbac_matrix =
     \<lparr>rm_feature_gate = ''sdp_enterprise'',
      rm_roles = [\<lparr>rp_role = ''data-analyst'',
           rp_allowed_actions = [''discover_catalog'', ''view_schema'', ''preview_data'',
              ''run_governed_query''],
           rp_denied_actions = [''register_dataset'', ''patch_dataset'', ''publish_dataset'',
              ''deprecate_dataset'', ''administer_tenants''],
           rp_tenant_scope = ''own_tenant_only'',
           rp_evidence = [''sdp.authz.can_access_tenant'',
               ''tests/test_api.py::test_preview_denies_low_privilege_actor'']\<rparr>,
          \<lparr>rp_role = ''admin'',
           rp_allowed_actions = [''discover_catalog'', ''view_schema'', ''preview_data'',
              ''run_governed_query'', ''register_dataset'', ''patch_dataset'', ''publish_dataset'',
              ''deprecate_dataset''],
           rp_denied_actions = [''administer_tenants''], rp_tenant_scope = ''own_tenant_only'',
           rp_evidence = [''sdp.policy.evaluate'', ''tests/test_api.py::test_catalog_mutation_flow'']\<rparr>,
          \<lparr>rp_role = ''security'',
           rp_allowed_actions = [''discover_catalog'', ''view_schema'', ''review_security_evidence''],
           rp_denied_actions = [''preview_data'', ''run_governed_query'', ''register_dataset'',
              ''patch_dataset'', ''publish_dataset'', ''deprecate_dataset'',
              ''administer_tenants''],
           rp_tenant_scope = ''platform_evidence_only'',
           rp_evidence = [''GET /enterprise/controls'', ''GET /enterprise/evidence-pack'']\<rparr>,
          \<lparr>rp_role = ''platform-admin'', rp_allowed_actions = rbac_action_catalog,
           rp_denied_actions = [], rp_tenant_scope = ''all_tenants'',
           rp_evidence = [''sdp.authz.can_access_tenant'',
               ''tests/test_api.py::test_tenant_boundary_denies_cross_tenant_preview'']\<rparr>],
      rm_action_catalog = rbac_action_catalog, rm_policy_source = ''sdp.policy.evaluate''\<rparr>"

section \<open>The manifests agree with the entries and with the policy\<close>

text \<open>The policy actions behind the matrix's actions.\<close>

definition governed_actions :: "pystr dict" where
  "governed_actions =
     [(''discover_catalog'', ''search''), (''view_schema'', ''schema''), (''preview_data'', ''preview''),
      (''run_governed_query'', ''query''), (''register_dataset'', ''create''), (''patch_dataset'', ''patch''),
      (''publish_dataset'', ''publish''), (''deprecate_dataset'', ''deprecate'')]"

definition matrix_permits :: "pystr list \<Rightarrow> pystr \<Rightarrow> bool" where
  "matrix_permits roles action \<longleftrightarrow>
     list_ex (\<lambda>rp. rp_role rp \<in> set roles \<and> action \<in> set (rp_allowed_actions rp)) (rm_roles enterprise_rbac_matrix)"

lemma matrix_permits_roles:
  assumes "(label, action) \<in> set governed_actions"
  shows "matrix_permits roles label =
    (''platform-admin'' \<in> set roles \<or> ''admin'' \<in> set roles
     \<or> (''data-analyst'' \<in> set roles \<and> action \<in> {''search'', ''schema'', ''preview'', ''query''})
     \<or> (''security'' \<in> set roles \<and> action \<in> {''search'', ''schema''}))"
  using assms by (auto simp: governed_actions_def matrix_permits_def enterprise_rbac_matrix_def
      rbac_action_catalog_def)

text \<open>Nobody in the directory has the security role without being a platform administrator.\<close>

lemma security_is_platform_admin:
  "''security'' \<in> set (ac_roles (resolve_actor_context subject))
    \<Longrightarrow> ''platform-admin'' \<in> set (ac_roles (resolve_actor_context subject))"
  using resolve_actor_context_cases [of subject] by (auto simp: subjects_def)



text \<open>The counts of the controls manifest are those of its entries, and no entry is left out.\<close>

lemma controls_manifest_counts:
  assumes "list_all (status_valid \<circ> ec_status) controls"
  shows "em_implemented_controls (controls_manifest_of controls) + em_planned_controls (controls_manifest_of controls)
    + em_external_controls (controls_manifest_of controls) = int (length controls)"
  using assms
  by (induction controls) (auto simp: controls_manifest_of_def controls_with_status_def status_valid_def)

lemma enterprise_controls_counts:
  "em_implemented_controls enterprise_controls_manifest = 5"
  "em_planned_controls enterprise_controls_manifest = 1"
  "em_external_controls enterprise_controls_manifest = 1"
  by code_simp+

lemma production_ready: "pm_paid_pilot_ready enterprise_production_readiness_manifest"
  "pm_paid_pilot_blockers enterprise_production_readiness_manifest = []"
  by code_simp+

end
