(* ===== verification/Readiness.thy ===== *)
theory Readiness
  imports Demo_Seed Manifests
begin

text \<open>
  \<open>src/sdp_core/readiness.py\<close>: the capabilities of the portal's stores and connectors, the ten-day
  activation plan for a buyer's domain, and the readiness manifest.  The persistence protocols the
  file declares (\<open>CatalogStore\<close>, \<open>PolicyDecisionStore\<close>, \<open>AuditEventStore\<close>, \<open>SourceConnector\<close>) have
  no code; the locales of the stores and connectors state what their providers do.
\<close>

section \<open>Models\<close>

record package_boundary =
  pb_id :: pystr
  pb_kind :: pystr
  pb_owns :: "pystr list"
  pb_split_trigger :: pystr
  pb_release_rule :: pystr

record store_capability =
  sc_id :: pystr
  sc_responsibility :: pystr
  sc_durability_required :: bool
  sc_extraction_target :: pystr
  sc_minimum_backend :: pystr
  sc_scale_gate :: pystr

record connector_capability =
  cc_id :: pystr
  cc_source_type :: pystr
  cc_protocol :: pystr
  cc_required_controls :: "pystr list"
  cc_proof :: pystr

record enterprise_gate =
  eg_id :: pystr
  eg_label :: pystr
  eg_target :: pystr
  eg_evidence :: "pystr list"
  eg_status :: pystr

record demo_workflow_step =
  dw_id :: pystr
  dw_day_range :: pystr
  dw_owner :: pystr
  dw_outcome :: pystr
  dw_proof_endpoints :: "pystr list"

record activation_plan =
  bp_priority_domain :: pystr
  bp_domain_fixture_id :: "pystr option"
  bp_activation_days :: int
  bp_selected_connectors :: "connector_capability list"
  bp_demo_datasets :: "buyer_demo_dataset_summary list"
  bp_analyst_questions :: "pystr list"
  bp_governance_questions :: "pystr list"
  bp_data_requirements :: "pystr list"
  bp_control_requirements :: "pystr list"
  bp_workflow :: "demo_workflow_step list"
  bp_acceptance_criteria :: "pystr list"
  bp_handoff_artifacts :: "pystr list"

record enterprise_readiness =
  er_product :: pystr
  er_valuation_target_krw :: int
  er_completion_standard :: pystr
  er_package_boundary :: "package_boundary list"
  er_submodule_decision :: "pystr dict"
  er_storage_capabilities :: "store_capability list"
  er_connector_capabilities :: "connector_capability list"
  er_enterprise_gates :: "enterprise_gate list"
  er_design_artifacts :: "pystr dict list"
  er_immediate_next_splits :: "pystr dict list"

section \<open>Capabilities\<close>

definition catalog_store_capabilities :: "store_capability list" where
  "catalog_store_capabilities =
     [\<lparr>sc_id = ''catalog_metadata'',
       sc_responsibility =
          ''Versioned dataset metadata, schema history, lineage, DCAT/JSON-LD export, and business-term mappings.'',
       sc_durability_required = True, sc_extraction_target = ''sdp_core.catalog'',
       sc_minimum_backend =
          ''PostgreSQL or document store with optimistic versioning and full-text/search-index sync.'',
       sc_scale_gate = ''10,000 datasets, 1,000,000 searchable columns, p95 search API under 500 ms.''\<rparr>,
      \<lparr>sc_id = ''policy_decisions'',
       sc_responsibility =
          ''Explainable allow/deny decisions with obligations, purpose, subject, resource, and decision id traceability.'',
       sc_durability_required = True, sc_extraction_target = ''sdp_core.policy'',
       sc_minimum_backend =
          ''Append-friendly relational table keyed by decision_id with immutable payload snapshots.'',
       sc_scale_gate = ''100 percent of preview/query/catalog mutations linked to a policy_decision_id.''\<rparr>,
      \<lparr>sc_id = ''audit_events'',
       sc_responsibility =
          ''Append-only audit trail for catalog mutation, preview, query, ontology patch, and admin actions.'',
       sc_durability_required = True, sc_extraction_target = ''sdp_core.audit'',
       sc_minimum_backend =
          ''Write-once log sink plus queryable hot store; retention and export policy must be tenant configurable.'',
       sc_scale_gate =
          ''365-day searchable retention with tamper-evidence for enterprise buyer diligence.''\<rparr>,
      \<lparr>sc_id = ''ontology_registry'',
       sc_responsibility =
          ''Concept graph, synonyms, SKOS/SHACL compatibility, and steward-reviewed ontology patch lifecycle.'',
       sc_durability_required = True, sc_extraction_target = ''sdp_core.ontology'',
       sc_minimum_backend =
          ''RDF store or graph database with deterministic JSON export for CI validation.'',
       sc_scale_gate =
          ''70 percent or higher mapping coverage for buyer-selected critical business glossary terms.''\<rparr>]"

definition connector_registry_manifest :: "connector_capability list" where
  "connector_registry_manifest =
     [\<lparr>cc_id = ''sql_connector'', cc_source_type = ''warehouse_or_rdbms'',
       cc_protocol = ''SQL with read-only credentials and statement timeout'',
       cc_required_controls = [''policy_before_query'', ''row_limit'', ''timeout_ms'', ''audit_event'',
          ''pii_masking''],
       cc_proof = ''/browse/query and /llm/draft-query''\<rparr>,
      \<lparr>cc_id = ''rdf_connector'', cc_source_type = ''semantic_store'',
       cc_protocol = ''SPARQL/Graph query with named graph allow-list'',
       cc_required_controls = [''ontology_version_pin'', ''policy_before_query'', ''audit_event''],
       cc_proof = ''/ontology/search and /catalog/datasets/{dataset_id}/jsonld''\<rparr>,
      \<lparr>cc_id = ''rest_connector'', cc_source_type = ''governed_api'',
       cc_protocol = ''HTTP API with signed service account and schema inspection adapter'',
       cc_required_controls = [''credential_vault'', ''purpose_binding'', ''audit_event''],
       cc_proof = ''planned connector contract in sdp_core.SourceConnector''\<rparr>,
      \<lparr>cc_id = ''file_lake_connector'', cc_source_type = ''object_storage_or_lakehouse'',
       cc_protocol = ''Manifest-based file scan with partition and profile sampling'',
       cc_required_controls = [''sample_budget'', ''pii_profile'', ''lineage_capture'', ''audit_event''],
       cc_proof = ''planned connector contract in sdp_core.SourceConnector''\<rparr>]"

section \<open>The activation plan\<close>

definition plan_data_requirements :: "pystr list" where
  "plan_data_requirements =
     [''3 to 5 priority datasets with owner, steward, schema, sensitivity, freshness, and source system.'',
      ''20 to 50 buyer glossary terms with approved definitions and synonyms.'',
      ''Read-only service account or representative fixture for every selected connector.'',
      ''One analyst question and one governance question that must be demonstrated end to end.'']"

definition plan_control_requirements :: "pystr list" where
  "plan_control_requirements =
     [''Policy decision before preview or query.'',
      ''Audit event for catalog mutation, preview, query, and ontology patch workflow.'',
      ''PII masking or explicit denial for sensitive data.'',
      ''Central workflow, security scan, and coverage evidence before pilot handoff.'']"

definition plan_workflow :: "demo_workflow_step list" where
  "plan_workflow =
     [\<lparr>dw_id = ''domain_intake'', dw_day_range = ''D1-D2'', dw_owner = ''product + data steward'',
       dw_outcome = ''Buyer domain, glossary scope, datasets, and acceptance questions are locked.'',
       dw_proof_endpoints = [''/enterprise/readiness'']\<rparr>,
      \<lparr>dw_id = ''metadata_onboarding'', dw_day_range = ''D3-D4'',
       dw_owner = ''data platform engineer'',
       dw_outcome =
          ''Datasets expose searchable metadata, schema history, lineage, validation, and quality signals.'',
       dw_proof_endpoints = [''/catalog/datasets'', ''/catalog/datasets/{dataset_id}/validate'',
          ''/catalog/datasets/{dataset_id}/lineage'']\<rparr>,
      \<lparr>dw_id = ''semantic_mapping'', dw_day_range = ''D5-D6'', dw_owner = ''ontology engineer'',
       dw_outcome =
          ''Critical buyer terms resolve to approved concepts or steward-reviewed patch proposals.'',
       dw_proof_endpoints = [''/ontology/search'', ''/ontology/resolve'', ''/ontology/patches'']\<rparr>,
      \<lparr>dw_id = ''governed_browse_query'', dw_day_range = ''D7-D8'',
       dw_owner = ''backend engineer + security reviewer'',
       dw_outcome =
          ''Preview and query paths run through policy, audit, row limits, timeout, and connector controls.'',
       dw_proof_endpoints = [''/browse/{dataset_id}/preview'', ''/browse/query'', ''/audit/events'']\<rparr>,
      \<lparr>dw_id = ''buyer_readout'', dw_day_range = ''D9-D10'',
       dw_owner = ''product + solution architect'',
       dw_outcome =
          ''Buyer receives a reproducible demo script, evidence packet, risk register, and next integration backlog.'',
       dw_proof_endpoints = [''/enterprise/demo-plan'', ''docs/enterprise-readiness.md'']\<rparr>]"

definition plan_handoff_artifacts :: "pystr list" where
  "plan_handoff_artifacts =
     [''Figma/FigJam journey and IA board with Code Connect disabled.'',
      ''docs/enterprise-readiness.md'',
      ''GET /enterprise/readiness output'',
      ''GET /enterprise/demo-plan output'',
      ''GET /enterprise/console operator surface'',
      ''Local pytest and central workflow evidence'']"

definition plan_acceptance_criteria :: "pystr list" where
  "plan_acceptance_criteria =
     [''At least one buyer analyst question resolves from natural language to dataset recommendation and governed query path.'',
      ''All preview/query paths produce policy_decision_id and audit evidence.'',
      ''Critical glossary mapping coverage is at least 70 percent or every gap has a steward patch proposal.'',
      ''Metadata validation pass rate is at least 95 percent across priority datasets.'',
      ''Unsupported connector requests fail closed before any source credential is used.'']"

definition connectors_by_id :: "connector_capability dict" where
  "connectors_by_id = dict_of (map (\<lambda>c. (cc_id c, c)) connector_registry_manifest)"

text \<open>\<open>connector_ids or (...)\<close>: no ids, or an empty list, take the domain's.\<close>

definition selected_connector_ids :: "pystr list option \<Rightarrow> buyer_demo_domain option \<Rightarrow> pystr list" where
  "selected_connector_ids connector_ids fixture =
     (case connector_ids of Some (x # xs) \<Rightarrow> x # xs
      | _ \<Rightarrow> (case fixture of Some d \<Rightarrow> dd_default_connectors d | None \<Rightarrow> [''sql_connector'', ''rdf_connector'']))"

definition plan_of ::
  "pystr \<Rightarrow> buyer_demo_domain option \<Rightarrow> connector_capability list \<Rightarrow> buyer_demo_dataset_summary list
   \<Rightarrow> activation_plan" where
  "plan_of priority_domain fixture selected demo_datasets =
     \<lparr>bp_priority_domain = priority_domain, bp_domain_fixture_id = map_option dd_id fixture,
      bp_activation_days = 10, bp_selected_connectors = selected, bp_demo_datasets = demo_datasets,
      bp_analyst_questions = (case fixture of Some d \<Rightarrow> dd_analyst_questions d | None \<Rightarrow> []),
      bp_governance_questions = (case fixture of Some d \<Rightarrow> dd_governance_questions d | None \<Rightarrow> []),
      bp_data_requirements = plan_data_requirements, bp_control_requirements = plan_control_requirements,
      bp_workflow = plan_workflow,
      bp_acceptance_criteria = (case fixture of Some d \<Rightarrow> dd_acceptance_questions d | None \<Rightarrow> [])
        @ plan_acceptance_criteria,
      bp_handoff_artifacts = plan_handoff_artifacts\<rparr>"

definition buyer_demo_activation_plan ::
  "pystr \<Rightarrow> pystr list option \<Rightarrow> 's world_scheme \<Rightarrow> activation_plan result \<times> 's world_scheme" where
  "buyer_demo_activation_plan priority_domain connector_ids s =
     (let fixture = get_buyer_demo_domain priority_domain;
          selected_ids = selected_connector_ids connector_ids fixture;
          unknown = sorted_set (filter (\<lambda>c. c \<notin> set (dict_keys connectors_by_id)) selected_ids)
      in if unknown \<noteq> [] then (Inl (ValueError (''unsupported connector ids: '' @ join '', '' unknown)), s)
         else (let selected = map (\<lambda>c. the (dict_get connectors_by_id c)) selected_ids
           in case fixture of
             None \<Rightarrow> (Inr (plan_of priority_domain None selected []), s)
           | Some domain \<Rightarrow>
               (case buyer_demo_dataset_summaries (dd_id domain) s of
                  (Inl err, s) \<Rightarrow> (Inl err, s)
                | (Inr summaries, s) \<Rightarrow> (Inr (plan_of priority_domain (Some domain) selected summaries), s))))"

section \<open>The readiness manifest\<close>

definition package_boundaries :: "package_boundary list" where
  "package_boundaries =
     [\<lparr>pb_id = ''sdp_core'', pb_kind = ''library'',
       pb_owns = [''domain contracts'', ''store protocols'', ''connector protocols'',
          ''readiness manifest''],
       pb_split_trigger =
          ''When a second application or external connector package consumes the same contracts.'',
       pb_release_rule =
          ''Semantic versioning, no FastAPI dependency, and backward-compatible schema changes only in minor releases.''\<rparr>,
      \<lparr>pb_id = ''sdp_app'', pb_kind = ''application'',
       pb_owns = [''FastAPI routes'', ''local demo data'', ''policy orchestration'',
          ''buyer demo endpoints''],
       pb_split_trigger =
          ''Remains in this repository unless deployment/runtime ownership diverges from core contracts.'',
       pb_release_rule =
          ''Application releases may move faster than sdp_core but must pass core contract tests.''\<rparr>,
      \<lparr>pb_id = ''sdp_design_system'', pb_kind = ''design_artifact'',
       pb_owns = [''Figma/FigJam flows'', ''information architecture'', ''component states'',
          ''manual token handoff''],
       pb_split_trigger =
          ''Extract only after UI implementation starts and token governance has at least one consumer.'',
       pb_release_rule =
          ''No Figma Code Connect; design tokens are reviewed manually before implementation.''\<rparr>]"

definition submodule_decision :: "pystr dict" where
  "submodule_decision =
     [(''decision'', ''monorepo_package_split_first''),
      (''reason'',
         ''No independently versioned external dependency exists yet; submodules would add release friction before connector ownership is real.''),
      (''promotion_rule'',
         ''Promote a connector to a submodule or separate repository only after it has its own CI, release cadence, secrets policy, and buyer-specific integration backlog.'')]"

definition enterprise_gates :: "enterprise_gate list" where
  "enterprise_gates =
     [\<lparr>eg_id = ''policy_audit_coverage'', eg_label = ''Policy and audit coverage'',
       eg_target =
          ''100 percent of preview, query, and catalog mutation requests expose policy_decision_id or audit evidence.'',
       eg_evidence = [''/browse/{dataset_id}/preview'',
           ''/browse/query'',
           ''/audit/events'',
           ''tests/test_api.py'',
           ''tests/test_api.py::test_browse_query_rejects_literal_tautology_injection''],
       eg_status = ''implemented''\<rparr>,
      \<lparr>eg_id = ''metadata_completeness'', eg_label = ''Metadata quality'',
       eg_target =
          ''95 percent validation pass rate on buyer-selected priority datasets; each dataset exposes owner, steward, lineage, quality, freshness, schema, and license.'',
       eg_evidence = [''/catalog/datasets/{dataset_id}/validate'',
          ''/catalog/datasets/{dataset_id}/lineage'',
          ''/catalog/datasets/{dataset_id}/schema-history''],
       eg_status = ''implemented''\<rparr>,
      \<lparr>eg_id = ''ontology_mapping_coverage'', eg_label = ''Semantic coverage'',
       eg_target =
          ''70 percent or higher mapping coverage for critical business glossary terms before paid pilot conversion.'',
       eg_evidence = [''/ontology/search'', ''/ontology/resolve'', ''/ontology/patches''],
       eg_status = ''implemented''\<rparr>,
      \<lparr>eg_id = ''buyer_demo_activation'', eg_label = ''Buyer demo activation'',
       eg_target =
          ''A buyer priority domain can be onboarded in two weeks with SQL, RDF, REST, or file connector path selected.'',
       eg_evidence = [''connector_capabilities'', ''docs/enterprise-readiness.md''],
       eg_status = ''planned''\<rparr>,
      \<lparr>eg_id = ''tenant_authz_model'', eg_label = ''Tenant authorization model'',
       eg_target =
          ''Dataset access is scoped by actor tenant context before preview, query, or schema access.'',
       eg_evidence = [''sdp_core.ActorContext'',
           ''sdp.authz'',
           ''/enterprise/controls'',
           ''tests/test_api.py::test_tenant_boundary_denies_cross_tenant_preview'',
           ''tests/test_api.py::test_oidc_preview_rejects_unverified_claim_shape''],
       eg_status = ''implemented''\<rparr>,
      \<lparr>eg_id = ''operational_due_diligence'', eg_label = ''Operational diligence'',
       eg_target =
          ''Central required workflows, security scan, coverage evidence, and OSSF baseline pass before production pilot.'',
       eg_evidence = [''ContextualWisdomLab central required workflows'', ''PR #2'', ''PR #4''],
       eg_status = ''external''\<rparr>]"

definition design_artifacts :: "pystr dict list" where
  "design_artifacts =
     [[(''id'', ''figjam_product_map''),
       (''type'', ''figjam''),
       (''url'', ''https://www.figma.com/board/UptVQaUlwbLVYv20ot4ZDm''),
       (''code_connect'', ''disabled'')],
      [(''id'', ''operator_console_design_capture''),
       (''type'', ''figma_design''),
       (''url'', ''https://www.figma.com/design/JjYSqr6nWxpARUjaVKhG16?node-id=3-2''),
       (''code_connect'', ''disabled'')],
      [(''id'', ''product_design_review''),
       (''type'', ''information_architecture''),
       (''url'', ''docs/enterprise-readiness.md''),
       (''code_connect'', ''disabled'')]]"

definition immediate_next_splits :: "pystr dict list" where
  "immediate_next_splits =
     [[(''package'', ''sdp_core''),
       (''action'',
          ''Keep stable contracts and SQLite evidence-store fallback in the internal package until a second consumer needs a versioned library.'')],
      [(''package'', ''sdp_connectors''),
       (''action'',
          ''Create optional connector package after a second real SQL/RDF/file adapter is added with separate CI and secrets policy.'')],
      [(''package'', ''sdp_enterprise''),
       (''action'',
          ''Expose SSO, RBAC, retention, deployment, and org workflow controls behind the /enterprise/controls feature-gate manifest.'')]]"

definition enterprise_readiness_manifest :: "enterprise_readiness" where
  "enterprise_readiness_manifest =
     \<lparr>er_product = ''Semantic Data Portal'', er_valuation_target_krw = 2000000000,
      er_completion_standard =
         ''A buyer can run a governed catalog, ontology, policy, audit, and query demonstration against their own priority domain without code changes, with measurable governance evidence.'',
      er_package_boundary = package_boundaries, er_submodule_decision = submodule_decision,
      er_storage_capabilities = catalog_store_capabilities,
      er_connector_capabilities = connector_registry_manifest,
      er_enterprise_gates = enterprise_gates, er_design_artifacts = design_artifacts,
      er_immediate_next_splits = immediate_next_splits\<rparr>"

section \<open>What a plan promises\<close>

lemma find_Some_in: "find P xs = Some x \<Longrightarrow> x \<in> set xs \<and> P x"
  by (induction xs) (auto split: if_split_asm)

lemma connectors_by_id_ids: "dict_get connectors_by_id c = Some x \<Longrightarrow> cc_id x = c"
  using dict_get_Some_in [of connectors_by_id c x]
    set_dict_of [of "map (\<lambda>c. (cc_id c, c)) connector_registry_manifest"]
  by (auto simp: connectors_by_id_def)

text \<open>
  An activation plan is made exactly for the known connectors: an unknown connector id raises
  before anything is read, naming the unknown ids in order; otherwise the plan selects the
  connectors asked for (or the domain's when none is), in that order, and carries the summaries
  of the domain's five datasets when the domain is the demo's.
\<close>

theorem activation_plan_fails_closed:
  "case buyer_demo_activation_plan priority_domain connector_ids s of
     (Inl err, s') \<Rightarrow> s' = s
       \<and> (\<exists>unknown. unknown \<noteq> [] \<and> sorted_wrt (<) unknown
            \<and> set unknown = set (selected_connector_ids connector_ids (get_buyer_demo_domain priority_domain))
                 - cc_id ` set connector_registry_manifest
            \<and> err = ValueError (''unsupported connector ids: '' @ join '', '' unknown))
   | (Inr plan, s') \<Rightarrow>
       map cc_id (bp_selected_connectors plan)
         = selected_connector_ids connector_ids (get_buyer_demo_domain priority_domain)
       \<and> set (bp_selected_connectors plan) \<subseteq> set connector_registry_manifest
       \<and> map sm_id (bp_demo_datasets plan) = (case get_buyer_demo_domain priority_domain of
            None \<Rightarrow> [] | Some d \<Rightarrow> dd_dataset_ids customer_intelligence_domain)
       \<and> bp_priority_domain plan = priority_domain"
proof -
  let ?fixture = "get_buyer_demo_domain priority_domain"
  let ?ids = "selected_connector_ids connector_ids ?fixture"
  let ?unknown = "sorted_set (filter (\<lambda>c. c \<notin> set (dict_keys connectors_by_id)) ?ids)"
  have keys: "set (dict_keys connectors_by_id) = cc_id ` set connector_registry_manifest" by code_simp
  have unknown: "set ?unknown = set ?ids - cc_id ` set connector_registry_manifest" "sorted_wrt (<) ?unknown"
    using keys by (auto simp: sorted_set_def strict_sorted_iff)
  have ids: "map ds_id (fst (customer_intelligence_datasets s)) = dd_dataset_ids customer_intelligence_domain"
    by (simp add: customer_intelligence_datasets_def case_prod_unfold Let_def demo_dataset_ids
        customer_intelligence_domain_def)
  have fixture: "dd_id d = ''customer_intelligence''" if "?fixture = Some d" for d
    using that find_Some_in [of "domain_answers priority_domain" buyer_demo_domains d]
    by (simp add: get_buyer_demo_domain_def buyer_demo_domains_def customer_intelligence_domain_def)
  have chosen: "map cc_id (map (\<lambda>c. the (dict_get connectors_by_id c)) ?ids) = ?ids
      \<and> set (map (\<lambda>c. the (dict_get connectors_by_id c)) ?ids) \<subseteq> set connector_registry_manifest"
    if "?unknown = []"
  proof -
    have "set ?ids - cc_id ` set connector_registry_manifest = {}" unfolding unknown(1) [symmetric] that by simp
    then have "set ?ids \<subseteq> set (dict_keys connectors_by_id)" using keys by auto
    then have "dict_get connectors_by_id c \<noteq> None" if "c \<in> set ?ids" for c
      using that dict_get_None_iff [of connectors_by_id c] by auto
    moreover have "x \<in> set connector_registry_manifest" if "dict_get connectors_by_id c = Some x" for c x
      using dict_get_Some_in [OF that] set_dict_of [of "map (\<lambda>c. (cc_id c, c)) connector_registry_manifest"]
      by (auto simp: connectors_by_id_def)
    ultimately show ?thesis using connectors_by_id_ids by (fastforce intro!: map_idI)
  qed
  show ?thesis
  proof (cases "?unknown = []")
    case False
    then show ?thesis using unknown by (auto simp: buyer_demo_activation_plan_def Let_def)
  next
    case True
    then show ?thesis
      using chosen ids fixture
      by (auto simp: buyer_demo_activation_plan_def Let_def plan_of_def buyer_demo_dataset_summaries_def
          buyer_demo_datasets_def dataset_summary_def case_prod_unfold o_def split: option.split)
  qed
qed

end
