(* ===== verification/Browse.thy ===== *)
theory Browse
  imports Policy
begin

text \<open>
  \<open>src/sdp/browse.py\<close>: the preview of a dataset's rows and the view of its schema.  Both decide
  through \<open>evaluate\<close> and write an audit event on every path that gets as far as a dataset lookup;
  the preview masks the columns the decision names.
\<close>

section \<open>Preview\<close>

record preview_result =
  pv_dataset_id :: pystr
  pv_policy_decision :: policy_decision
  pv_columns :: "pystr list"
  pv_rows :: "pyval dict list"
  pv_row_count :: int
  pv_offset :: int
  pv_masked_columns :: pyval
  pv_has_more :: bool
  pv_sampling_note :: pystr
  pv_policy_decision_id :: pystr
  pv_applied_row_filter :: pyval

text \<open>"A sample; it does not claim to represent the whole data."\<close>

definition sampling_note :: pystr where
  "sampling_note = utf8 [0xC0D8, 0xD50C, 0x20, 0xACB0, 0xACFC, 0xC774, 0xBA70, 0x20, 0xC804,
     0xCCB4, 0x20, 0xB370, 0xC774, 0xD130, 0x20, 0xB300, 0xD45C, 0xC131, 0xC744, 0x20, 0xBCF4,
     0xC7A5, 0xD558, 0xC9C0, 0x20, 0xC54A, 0xC2B5, 0xB2C8, 0xB2E4, 0x2E]"

definition preview_rows :: "pyval dict list" where
  "preview_rows =
     [[(''customer_id'', VStr ''C-1001''), (''customer_email'', VStr ''alice@example.com''),
       (''signup_at'', VStr ''2026-01-15T00:00:00Z''), (''event_timestamp'', VStr ''2026-06-20T12:10:00Z''),
       (''device_id'', VStr ''dev-88'')],
      [(''customer_id'', VStr ''C-1002''), (''customer_email'', VStr ''bob@example.com''),
       (''signup_at'', VStr ''2026-01-20T00:00:00Z''), (''event_timestamp'', VStr ''2026-06-21T09:11:00Z''),
       (''device_id'', VStr ''dev-01'')]]"

definition masked_value :: pyval where
  "masked_value = VStr ''***''"

text \<open>The names in a \<open>masking\<close> obligation.\<close>

definition text_items :: "pyval \<Rightarrow> pystr list" where
  "text_items v = (case v of
     VList vs \<Rightarrow> concat (map (\<lambda>x. case x of VStr s \<Rightarrow> [s] | _ \<Rightarrow> []) vs) | _ \<Rightarrow> [])"

definition mask_column :: "pystr \<Rightarrow> pyval dict \<Rightarrow> pyval dict" where
  "mask_column col row = (if dict_get row col \<noteq> None then dict_set col masked_value row else row)"

definition apply_mask :: "pyval dict \<Rightarrow> pystr list \<Rightarrow> pyval dict" where
  "apply_mask row masked = (if masked = [] then row else fold mask_column masked row)"

definition preview ::
  "pystr \<Rightarrow> pystr \<Rightarrow> pystr \<Rightarrow> int \<Rightarrow> int \<Rightarrow> 's catalog_state_scheme
   \<Rightarrow> preview_result result \<times> 's catalog_state_scheme" where
  "preview dataset_id user purpose limit offset s =
     (if limit < 1 then (Inl (ValueError ''limit must be at least 1''), s)
      else if 100 < limit then (Inl (ValueError ''preview limit cannot exceed 100''), s)
      else if offset < 0 then (Inl (ValueError ''offset must be greater than or equal to 0''), s)
      else (case get_dataset dataset_id s of
        None \<Rightarrow>
          (Inl (KeyError ''dataset not found''),
           ingest_event ''browse.preview'' user dataset_id ''denied'' None ''dataset_not_found''
             [(''policy_decision_id'', VNone)] s)
      | Some ds \<Rightarrow>
          (let (decision, s) = evaluate user dataset_id ''preview'' purpose s in
           if pd_effect decision \<noteq> ''allow''
           then (Inl (PermissionError (pd_reason decision)),
             ingest_event ''browse.preview'' user dataset_id ''denied'' (Some (pd_decision_id decision))
               (pd_reason decision)
               [(''purpose'', VStr purpose), (''policy_decision_id'', VStr (pd_decision_id decision))] s)
           else
             (let masking = value_or (pd_obligations decision) ''masking'' (VList []);
                  row_filter = value_or (pd_obligations decision) ''row_filter'' VNone;
                  selected = slice (nat offset) (nat limit) preview_rows;
                  masked = map (\<lambda>row. apply_mask row (text_items masking)) selected;
                  s = ingest_event ''browse.preview'' user dataset_id ''allowed''
                    (Some (pd_decision_id decision)) ''ok''
                    [(''purpose'', VStr purpose), (''requested_offset'', VInt offset),
                     (''requested_limit'', VInt limit), (''returned_rows'', VInt (int (length masked))),
                     (''row_filter'', row_filter), (''policy_decision_id'', VStr (pd_decision_id decision))] s
              in (Inr \<lparr>pv_dataset_id = ds_id ds, pv_policy_decision = decision,
                    pv_columns = map col_name (ds_schema ds), pv_rows = masked,
                    pv_row_count = min limit (int (length masked)), pv_offset = offset,
                    pv_masked_columns = masking,
                    pv_has_more = (offset + int (length masked) < int (length preview_rows)),
                    pv_sampling_note = sampling_note,
                    pv_policy_decision_id = pd_decision_id decision,
                    pv_applied_row_filter = row_filter\<rparr>, s)))))"

section \<open>Schema\<close>

record schema_result =
  sv_dataset_id :: pystr
  sv_policy_decision_id :: pystr
  sv_schema :: "pyval dict list"
  sv_mappings :: "pyval dict list"
  sv_masked_columns :: pyval
  sv_quality_score :: rat
  sv_freshness_score :: rat

definition browse_schema ::
  "pystr \<Rightarrow> pystr \<Rightarrow> pystr \<Rightarrow> 's catalog_state_scheme \<Rightarrow> schema_result result \<times> 's catalog_state_scheme" where
  "browse_schema dataset_id user purpose s =
     (case get_dataset dataset_id s of
        None \<Rightarrow> (Inl (KeyError ''dataset not found''), s)
      | Some ds \<Rightarrow>
          (let (decision, s) = evaluate user dataset_id ''schema'' purpose s;
               details = [(''purpose'', VStr purpose), (''policy_decision_id'', VStr (pd_decision_id decision))] in
           if pd_effect decision \<noteq> ''allow''
           then (Inl (PermissionError (pd_reason decision)),
             ingest_event ''browse.schema'' user dataset_id ''denied'' (Some (pd_decision_id decision))
               (pd_reason decision) details s)
           else
             (let s = ingest_event ''browse.schema'' user dataset_id ''allowed'' (Some (pd_decision_id decision))
                    (pd_reason decision) details s
              in (Inr \<lparr>sv_dataset_id = ds_id ds, sv_policy_decision_id = pd_decision_id decision,
                    sv_schema = map column_dump (ds_schema ds), sv_mappings = map mapping_dump (ds_mappings ds),
                    sv_masked_columns = value_or (pd_obligations decision) ''masking'' (VList []),
                    sv_quality_score = ds_quality_score ds, sv_freshness_score = ds_freshness_score ds\<rparr>, s))))"

section \<open>Masking\<close>

lemma dict_get_mask_column:
  "dict_get (mask_column c row) k
     = (if k = c \<and> dict_get row k \<noteq> None then Some masked_value else dict_get row k)"
  by (simp add: mask_column_def dict_get_set)

lemma keys_dict_set_existing: "dict_get d k \<noteq> None \<Longrightarrow> dict_keys (dict_set k v d) = dict_keys d"
  unfolding dict_keys_def dict_get_def dict_set_def by (induction d) (auto split: if_splits)

lemma keys_mask_column [simp]: "dict_keys (mask_column c row) = dict_keys row"
  by (simp add: mask_column_def keys_dict_set_existing)

lemma apply_mask_fold: "apply_mask row masked = fold mask_column masked row"
  by (simp add: apply_mask_def)

text \<open>A masked row has the same columns; a masked column reads \<open>***\<close>, the others are unchanged.\<close>

lemma dict_get_apply_mask:
  "dict_get (apply_mask row masked) k
     = (if k \<in> set masked \<and> dict_get row k \<noteq> None then Some masked_value else dict_get row k)"
  unfolding apply_mask_fold by (induction masked arbitrary: row) (auto simp: dict_get_mask_column)

lemma keys_apply_mask [simp]: "dict_keys (apply_mask row masked) = dict_keys row"
  unfolding apply_mask_fold by (induction masked arbitrary: row) simp_all

lemma apply_mask_masked:
  "\<forall>k \<in> set masked. dict_get row k \<in> {None, Some masked_value} \<Longrightarrow> apply_mask row masked = row"
  unfolding apply_mask_fold by (induction masked arbitrary: row) (auto simp: mask_column_def dict_set_same)

lemma apply_mask_idem: "apply_mask (apply_mask row masked) masked = apply_mask row masked"
  by (rule apply_mask_masked) (simp add: dict_get_apply_mask)

lemma text_items_str_list [simp]: "text_items (str_list ss) = ss"
  by (simp add: text_items_def str_list_def o_def)

lemma preview_rows_keys_ok: "list_all dict_ok preview_rows"
  by code_simp

section \<open>Events\<close>

lemma ingest_event_keeps [simp]:
  "catalog_data (ingest_event a b c d e f g s) = catalog_data s"
  "schema_history (ingest_event a b c d e f g s) = schema_history s"
  "policy_decision_log (ingest_event a b c d e f g s) = policy_decision_log s"
  by (simp_all add: ingest_event_def record_audit_event_def uuid4_def now_def append_audit_event_def
      Let_def split: option.split)

text \<open>One event, as the call describes it, goes to the log or to the store.\<close>

lemma ingest_event_audited:
  "\<exists>e. audited e s (ingest_event action actor resource outcome d reason details s)
    \<and> ev_actor e = actor \<and> ev_action e = action \<and> ev_resource e = resource \<and> ev_result e = outcome
    \<and> ev_decision_id e = d \<and> ev_reason e = reason \<and> ev_details e = details"
  by (auto simp: audited_def ingest_event_def record_audit_event_def uuid4_def now_def
      append_audit_event_def has_configured_evidence_store_def Let_def
      intro!: store_append_event_world exI [of _ "\<lparr>ev_id = uuid_source s (uuid_tick s), ev_actor = actor,
        ev_action = action, ev_resource = resource, ev_result = outcome, ev_decision_id = d,
        ev_reason = reason, ev_details = details, ev_created_at = clock_source s (clock_tick s)\<rparr>"]
      split: option.split)

section \<open>Properties\<close>

text \<open>
  C4.  A preview that returns rows shows no value of a column the dataset marks as personal
  data: in every returned row such a column reads \<open>***\<close>.  The rows are at most \<open>limit\<close>, keep
  the columns of the source rows, and the result carries the allowing decision.
\<close>

theorem preview_never_shows_pii:
  assumes ok: "preview dataset_id user purpose limit offset s = (Inr p, s')"
    and ds: "get_dataset dataset_id s = Some ds"
  shows "(\<forall>row \<in> set (pv_rows p). \<forall>c \<in> set (ds_schema ds).
        col_pii c \<longrightarrow> dict_get row (col_name c) \<in> {None, Some (VStr ''***'')})
    \<and> int (length (pv_rows p)) \<le> limit \<and> 1 \<le> limit \<and> limit \<le> 100
    \<and> map dict_keys (pv_rows p) = map dict_keys (slice (nat offset) (nat limit) preview_rows)
    \<and> pd_effect (pv_policy_decision p) = ''allow''
    \<and> pv_policy_decision p = fst (evaluate user dataset_id ''preview'' purpose s)"
proof -
  obtain d w where ev: "evaluate user dataset_id ''preview'' purpose s = (d, w)"
    by (cases "evaluate user dataset_id ''preview'' purpose s")
  have lim: "1 \<le> limit" "limit \<le> 100" "0 \<le> offset"
    using ok by (auto simp: preview_def split: if_splits)
  have allow: "pd_effect d = ''allow''"
    using ok ds ev lim by (auto simp: preview_def Let_def split: if_splits)
  have "lower ''preview'' = ''preview''" by code_simp
  then have m: "value_or (pd_obligations d) ''masking'' (VList []) = str_list (masked_columns ds)"
    using evaluate_allowed_masking(1) [OF ev allow ds] by (simp add: value_or_def)
  have p: "pv_rows p = map (\<lambda>row. apply_mask row (masked_columns ds)) (slice (nat offset) (nat limit) preview_rows)"
    "pv_policy_decision p = d"
    using ok ds ev lim allow by (auto simp: preview_def Let_def m)
  have "dict_get row (col_name c) \<in> {None, Some (VStr ''***'')}"
    if "row \<in> set (pv_rows p)" "c \<in> set (ds_schema ds)" "col_pii c" for row c
    using that by (auto simp: p dict_get_apply_mask masked_columns_def masked_value_def split: if_split_asm)
  moreover have "int (length (pv_rows p)) \<le> limit"
    using length_slice [of "nat offset" "nat limit" preview_rows] lim by (simp add: p)
  ultimately show ?thesis
    using lim allow ev by (simp add: p o_def)
qed

definition pii_dataset :: dataset where
  "pii_dataset = sample_dataset\<lparr>ds_schema := [\<lparr>col_name = ''customer_email'', col_datatype = ''varchar'',
     col_nullable_ratio = 0, col_distinct_ratio = 1, col_quality_issues = [], col_pii = True,
     col_quality_issues_set = False, col_pii_set = True\<rparr>]\<rparr>"

definition pii_catalog :: catalog_state where
  "pii_catalog = load_catalog [pii_dataset] empty_portal"

theorem preview_never_shows_pii_witness:
  "\<exists>p s'. preview ''d1'' ''analyst'' ''analysis'' 10 0 pii_catalog = (Inr p, s')
     \<and> length (pv_rows p) = 2 \<and> (\<forall>row \<in> set (pv_rows p). dict_get row ''customer_email'' \<in> {None, Some (VStr ''***'')})"
proof -
  have ran: "(case fst (preview ''d1'' ''analyst'' ''analysis'' 10 0 pii_catalog) of Inl _ \<Rightarrow> 0 | Inr p \<Rightarrow> length (pv_rows p)) = 2"
    by code_simp
  have cols: "map_option (\<lambda>ds. map (\<lambda>c. (col_name c, col_pii c)) (ds_schema ds)) (get_dataset ''d1'' pii_catalog)
      = Some [(''customer_email'', True)]"
    by code_simp
  then obtain ds where ds: "get_dataset ''d1'' pii_catalog = Some ds"
    and c: "\<exists>c \<in> set (ds_schema ds). col_name c = ''customer_email'' \<and> col_pii c"
    by (auto simp: map_eq_Cons_conv)
  obtain p s' where p: "preview ''d1'' ''analyst'' ''analysis'' 10 0 pii_catalog = (Inr p, s')" "length (pv_rows p) = 2"
    using ran by (cases "preview ''d1'' ''analyst'' ''analysis'' 10 0 pii_catalog") (auto split: sum.splits)
  from preview_never_shows_pii [OF p(1) ds] c p show ?thesis by metis
qed

definition preview_outcome :: "preview_result result \<Rightarrow> pystr" where
  "preview_outcome r = (case r of Inl _ \<Rightarrow> ''denied'' | Inr _ \<Rightarrow> ''allowed'')"

text \<open>
  C19.  Every preview with admissible arguments writes exactly one audit event, in the state after
  the decision if there was one: \<open>allowed\<close> exactly when rows are returned, and with the id of the
  decision; no dataset changes.  Inadmissible arguments raise \<open>ValueError\<close> and change nothing.
\<close>

theorem preview_always_audited:
  "case preview dataset_id user purpose limit offset s of (r, s') \<Rightarrow>
     if 1 \<le> limit \<and> limit \<le> 100 \<and> 0 \<le> offset
     then catalog_data s' = catalog_data s \<and> schema_history s' = schema_history s
       \<and> (\<exists>e. audited e (if get_dataset dataset_id s = None then s
              else snd (evaluate user dataset_id ''preview'' purpose s)) s'
          \<and> ev_actor e = user \<and> ev_action e = ''browse.preview'' \<and> ev_resource e = dataset_id
          \<and> ev_result e = preview_outcome r
          \<and> ev_decision_id e = (if get_dataset dataset_id s = None then None
              else Some (pd_decision_id (fst (evaluate user dataset_id ''preview'' purpose s)))))
     else s' = s \<and> (\<exists>m. r = Inl (ValueError m))"
proof (cases "1 \<le> limit \<and> limit \<le> 100 \<and> 0 \<le> offset")
  case args: True
  then have a: "\<not> limit < 1" "\<not> 100 < limit" "\<not> offset < 0" by auto
  obtain d w where ev: "evaluate user dataset_id ''preview'' purpose s = (d, w)"
    by (cases "evaluate user dataset_id ''preview'' purpose s")
  have w: "catalog_data w = catalog_data s" "schema_history w = schema_history s"
    using evaluate_keeps [of user dataset_id "''preview''" purpose s] ev by simp_all
  show ?thesis
  proof (cases "get_dataset dataset_id s")
    case None
    then show ?thesis
      using args a ingest_event_audited [of s "''browse.preview''" user dataset_id "''denied''" None
        "''dataset_not_found''" "[(''policy_decision_id'', VNone)]"]
      by (fastforce simp: preview_def preview_outcome_def)
  next
    case (Some ds)
    note ingest = ingest_event_audited [of w "''browse.preview''" user dataset_id _ "Some (pd_decision_id d)"]
    show ?thesis
    proof (cases "pd_effect d = ''allow''")
      case True
      then show ?thesis
        using args a Some ev w by (simp add: preview_def preview_outcome_def Let_def) (metis ingest)
    next
      case False
      then show ?thesis
        using args a Some ev w by (simp add: preview_def preview_outcome_def Let_def) (metis ingest)
    qed
  qed
next
  case False
  then show ?thesis by (auto simp: preview_def)
qed

end
