(* ===== verification/Orchestrator.thy ===== *)
theory Orchestrator
  imports Browse
begin

text \<open>
  \<open>src/sdp/orchestrator.py\<close>: the SQL guard \<open>validate_sql_query\<close>, the SQL drafts and the mock
  execution of a query.

  The regular expressions are read as scanners over the text: \<open>\b\<close> holds where a word character
  meets another character or an end, and \<open>findall\<close> continues after each match.
\<close>

section \<open>The SQL guard\<close>

definition forbidden_keywords :: "pystr list" where
  "forbidden_keywords = [''drop'', ''delete'', ''truncate'', ''alter'', ''insert'', ''update'', ''merge'',
     ''exec'', ''union'']"

definition safe_identifier :: "pystr \<Rightarrow> pystr" where
  "safe_identifier value = map (\<lambda>ch. if is_alnum ch \<or> ch = CHR ''_'' then ch else CHR ''_'') value"

definition safe_request_id :: "'s world_scheme \<Rightarrow> pystr \<times> 's world_scheme" where
  "safe_request_id w =
     (let (t, w) = now w in (''req-'' @ filter (\<lambda>c. c \<noteq> CHR ''.'') (stamp_text w t), w))"

definition source_table_name :: "pystr \<Rightarrow> pystr" where
  "source_table_name source_system = safe_identifier (after_last (CHR ''/'') (rstrip_char (CHR ''/'') source_system))"

text \<open>\<open>re.search(r"\btoken\b", s)\<close> for a token of word characters; the flag says whether the
  character before \<open>s\<close> is one.\<close>

fun find_word :: "bool \<Rightarrow> pystr \<Rightarrow> pystr \<Rightarrow> bool" where
  "find_word after_word token [] = False"
| "find_word after_word token (c # cs) =
     ((\<not> after_word \<and> prefix token (c # cs)
        \<and> (case drop (length token) (c # cs) of [] \<Rightarrow> True | d # _ \<Rightarrow> \<not> is_word d))
      \<or> find_word (is_word c) token cs)"

definition has_word :: "pystr \<Rightarrow> pystr \<Rightarrow> bool" where
  "has_word token s = find_word False token s"

text \<open>\<open>keyword\s+([A-Za-z_][\w.]*)\<close> at the start of a text: the name and what follows it.\<close>

definition table_after :: "pystr \<Rightarrow> pystr \<Rightarrow> (pystr \<times> pystr) option" where
  "table_after keyword s =
     (if prefix keyword (lower s) then
        (let r = drop (length keyword) s; t = dropWhile is_space r in
         if length t < length r
         then (case t of
                 c # _ \<Rightarrow> (if is_upper c \<or> is_lower c \<or> c = CHR ''_''
                   then Some (takeWhile (\<lambda>c. is_word c \<or> c = CHR ''.'') t,
                              dropWhile (\<lambda>c. is_word c \<or> c = CHR ''.'') t)
                   else None)
               | [] \<Rightarrow> None)
         else None)
      else None)"

definition table_at :: "pystr \<Rightarrow> (pystr \<times> pystr) option" where
  "table_at s = (case table_after ''from'' s of Some m \<Rightarrow> Some m | None \<Rightarrow> table_after ''join'' s)"

lemma table_after_shorter: "table_after keyword s = Some (name, rest) \<Longrightarrow> length rest < length s"
proof -
  assume m: "table_after keyword s = Some (name, rest)"
  define r where "r = drop (length keyword) s"
  define t where "t = dropWhile is_space r"
  have "rest = dropWhile (\<lambda>c. is_word c \<or> c = CHR ''.'') t \<and> length t < length r"
    using m unfolding table_after_def Let_def r_def [symmetric] t_def [symmetric]
    by (cases t) (simp_all del: dropWhile.simps split: if_split_asm)
  moreover have "length r \<le> length s" by (simp add: r_def)
  ultimately show ?thesis
    using length_dropWhile_le [of "\<lambda>c. is_word c \<or> c = CHR ''.''" t] by auto
qed

lemma table_at_shorter: "table_at s = Some (name, rest) \<Longrightarrow> length rest < length s"
  by (auto simp: table_at_def table_after_shorter split: option.splits)

text \<open>\<open>re.findall\<close> of the two table patterns, from and join.\<close>

function scan_tables :: "bool \<Rightarrow> pystr \<Rightarrow> pystr list" where
  "scan_tables after_word [] = []"
| "scan_tables after_word (c # cs) =
     (case (if after_word then None else table_at (c # cs)) of
        Some (name, rest) \<Rightarrow> name # scan_tables (is_word (last name)) rest
      | None \<Rightarrow> scan_tables (is_word c) cs)"
  by pat_completeness auto
termination
proof (relation "measure (\<lambda>(_, s). length s)")
  fix after_word c cs x name rest
  assume "(if after_word then None else table_at (c # cs)) = Some x" "(name, rest) = x"
  then have "table_at (c # cs) = Some (name, rest)" by (simp split: if_splits)
  then show "((is_word (last name), rest), after_word, c # cs) \<in> measure (\<lambda>(_, s). length s)"
    using table_at_shorter by fastforce
qed simp_all

definition referenced_tables :: "pystr \<Rightarrow> pystr list" where
  "referenced_tables sql = scan_tables False sql"

definition warn :: "bool \<Rightarrow> pystr \<Rightarrow> pystr list" where
  "warn b w = (if b then [w] else [])"

definition validate_sql_query :: "pystr \<Rightarrow> pystr \<Rightarrow> pystr list" where
  "validate_sql_query sql source_system =
     (let stripped = strip sql; lowered = lower stripped;
          warnings =
            warn (\<not> startswith lowered ''select '') ''only_select_allowed''
          @ warn (contains '';'' stripped) ''single_statement_required''
          @ warn (contains ''--'' stripped \<or> contains ''/*'' stripped \<or> contains ''*/'' stripped)
              ''sql_comments_not_allowed''
          @ warn (contains [CHR 0x27] stripped \<or> contains [CHR 0x22] stripped) ''literal_values_not_allowed''
          @ warn (has_word ''and'' lowered \<or> has_word ''or'' lowered) ''boolean_operator_not_allowed''
          @ warn (list_ex (\<lambda>token. has_word token lowered) forbidden_keywords) ''forbidden_keyword_detected'';
          referenced = referenced_tables stripped
      in if referenced = [] then warnings @ [''missing_source_table'']
         else warnings
           @ warn (set (map (\<lambda>table. lower (safe_identifier (after_last (CHR ''.'') table))) referenced)
                \<noteq> {lower (source_table_name source_system)})
              ''unauthorized_table_reference'')"

section \<open>Drafting SQL\<close>

text \<open>"The question holds a keyword that is not allowed", "requested columns are not in the
  dataset: ", "the requested grouping column is not in the dataset", and the assumptions: "only
  tables and columns verified by the catalog", "read-only SELECT only", "PII fields are masked
  or aggregated by purpose", "dates are aggregated by period only", "PII columns (...) need
  separate aggregation or masking", "row-level filter: ", "the default aggregate is a count".\<close>

definition reason_keyword :: pystr where
  "reason_keyword = utf8 [0xD5C8, 0xC6A9, 0xB418, 0xC9C0, 0x20, 0xC54A, 0xC740, 0x20, 0xD0A4,
     0xC6CC, 0xB4DC, 0xAC00, 0x20, 0xC9C8, 0xC758, 0xC5D0, 0x20, 0xD3EC, 0xD568, 0xB418,
     0xC5C8, 0xC2B5, 0xB2C8, 0xB2E4, 0x2E]"

definition reason_unknown_columns :: pystr where
  "reason_unknown_columns = utf8 [0xC694, 0xCCAD, 0xD55C, 0x20, 0xCEEC, 0xB7FC, 0xC774, 0x20,
     0xB370, 0xC774, 0xD130, 0xC14B, 0xC5D0, 0x20, 0xC5C6, 0xC2B5, 0xB2C8, 0xB2E4, 0x3A, 0x20]"

definition reason_unknown_group :: pystr where
  "reason_unknown_group = utf8 [0xC694, 0xCCAD, 0xD55C, 0x20, 0xADF8, 0xB8F9, 0xD654, 0x20,
     0xCEEC, 0xB7FC, 0xC774, 0x20, 0xB370, 0xC774, 0xD130, 0xC14B, 0xC5D0, 0x20, 0xC5C6,
     0xC2B5, 0xB2C8, 0xB2E4, 0x2E]"

definition assume_catalog :: pystr where
  "assume_catalog = utf8 [0xCE74, 0xD0C8, 0xB85C, 0xADF8, 0xC5D0, 0xC11C, 0x20, 0xAC80, 0xC99D,
     0xB41C, 0x20, 0xD14C, 0xC774, 0xBE14, 0x2F, 0xCEEC, 0xB7FC, 0xB9CC, 0x20, 0xC0AC, 0xC6A9]"

definition assume_read_only :: pystr where
  "assume_read_only = utf8 [0x72, 0x65, 0x61, 0x64, 0x2D, 0x6F, 0x6E, 0x6C, 0x79, 0x20, 0x53,
     0x45, 0x4C, 0x45, 0x43, 0x54, 0xB9CC, 0x20, 0xD5C8, 0xC6A9]"

definition assume_pii :: pystr where
  "assume_pii = utf8 [0xBAA9, 0xC801, 0xBCC4, 0x20, 0xC815, 0xCC45, 0xC73C, 0xB85C, 0x20, 0x50,
     0x49, 0x49, 0x20, 0xD544, 0xB4DC, 0xB294, 0x20, 0x6D, 0x61, 0x73, 0x6B, 0x69, 0x6E, 0x67,
     0x20, 0xB610, 0xB294, 0x20, 0xC9D1, 0xACC4, 0x20, 0xC81C, 0xD55C]"

definition assume_dates :: pystr where
  "assume_dates = utf8 [0xB0A0, 0xC9DC, 0x20, 0xC9D1, 0xACC4, 0xB294, 0x20, 0xAE30, 0xAC04,
     0x20, 0xAE30, 0xBC18, 0x20, 0xC9D1, 0xACC4, 0xB85C, 0xB9CC, 0x20, 0xC81C, 0xD55C]"

definition assume_masked_head :: pystr where
  "assume_masked_head = utf8 [0x50, 0x49, 0x49, 0x20, 0xCEEC, 0xB7FC, 0x28]"

definition assume_masked_tail :: pystr where
  "assume_masked_tail = utf8 [0x29, 0xC740, 0x20, 0xBCC4, 0xB3C4, 0x20, 0xC9D1, 0xACC4, 0x2F,
     0xB9C8, 0xC2A4, 0xD0B9, 0x20, 0xD544, 0xC694]"

definition assume_row_filter :: pystr where
  "assume_row_filter = utf8 [0xD589, 0x20, 0xB808, 0xBCA8, 0x20, 0xD544, 0xD130, 0x20, 0xC801,
     0xC6A9, 0x3A, 0x20]"

definition assume_count :: pystr where
  "assume_count = utf8 [0xAE30, 0xBCF8, 0x20, 0xC9D1, 0xACC4, 0xB294, 0x20, 0xAC74, 0xC218,
     0x20, 0xCE74, 0xC6B4, 0xD2B8, 0x20, 0xAE30, 0xBC18, 0xC73C, 0xB85C, 0x20, 0xBC18, 0xD658]"

datatype draft_error = Draft_error pystr "pystr option"

record draft =
  df_dataset_id :: pystr
  df_query :: pystr
  df_policy_decision_id :: pystr
  df_assumptions :: "pystr list"
  df_policy_decision :: policy_decision
  df_preview_required :: bool
  df_dialect :: pystr
  df_row_limit :: int
  df_requested_columns :: "pystr list"
  df_timeout_ms :: int
  df_estimated_cost :: int

definition nonempty :: "'a list option \<Rightarrow> 'a list" where
  "nonempty v = (case v of None \<Rightarrow> [] | Some xs \<Rightarrow> xs)"

definition allowed_columns :: "dataset \<Rightarrow> pystr list" where
  "allowed_columns ds = map col_name (filter (\<lambda>c. col_datatype c \<noteq> []) (ds_schema ds))"

definition select_fields :: "pystr list \<Rightarrow> pystr \<Rightarrow> pystr" where
  "select_fields requested group_by =
     (if group_by \<noteq> [] then safe_identifier group_by @ '', count(*) AS active_customer_count''
      else if ''*'' \<in> set requested then ''count(*) AS active_customer_count''
      else join '', '' (map safe_identifier requested) @ '', count(*) AS active_customer_count'')"

definition draft_query_text :: "query_draft_request \<Rightarrow> dataset \<Rightarrow> pystr list \<Rightarrow> pystr \<Rightarrow> int \<Rightarrow> pystr" where
  "draft_query_text req ds requested group_by max_rows =
     ''SELECT '' @ select_fields requested group_by @ '' FROM '' @ source_table_name (ds_source_system ds)
     @ '' WHERE created_at >= current_date - interval '' @ [CHR 0x27] @ show_int (qd_date_window_days req)
     @ '' day'' @ [CHR 0x27] @ '' ''
     @ (if group_by \<noteq> [] then ''GROUP BY '' @ safe_identifier group_by else [])
     @ '' LIMIT '' @ show_int max_rows"

definition draft_assumptions :: "query_draft_request \<Rightarrow> dataset \<Rightarrow> pystr \<Rightarrow> policy_decision \<Rightarrow> pystr list" where
  "draft_assumptions req ds group_by decision =
     (let masked = masked_columns ds;
          row_filter = text_items (value_or (pd_obligations decision) ''row_filter'' (VList []))
      in [assume_catalog, assume_read_only, assume_pii]
       @ warn (group_by \<in> {''signup_at'', ''event_timestamp'', ''created_at''}) assume_dates
       @ warn (masked \<noteq> [] \<and> qd_purpose req = ''analysis'')
           (assume_masked_head @ join '', '' masked @ assume_masked_tail)
       @ warn (row_filter \<noteq> []) (assume_row_filter @ join '', '' row_filter)
       @ warn (group_by = []) assume_count)"

definition unknown_columns :: "query_draft_request \<Rightarrow> dataset \<Rightarrow> pystr list" where
  "unknown_columns req ds =
     sorted_set (filter (\<lambda>c. c \<notin> set (allowed_columns ds)) (nonempty (qd_columns req)))"

definition requested_columns :: "query_draft_request \<Rightarrow> pystr list" where
  "requested_columns req = (if nonempty (qd_columns req) \<noteq> [] then nonempty (qd_columns req) else [''*''])"

definition compose_draft :: "query_draft_request \<Rightarrow> dataset \<Rightarrow> policy_decision \<Rightarrow> draft" where
  "compose_draft req ds decision =
     (let requested = requested_columns req;
          group_by = nonempty (qd_group_by req);
          row_limit = min (qd_row_limit req) 2000;
          max_rows = min row_limit 2000;
          final = (if ''*'' \<in> set requested \<and> 1 < length requested then [''*''] else requested)
      in \<lparr>df_dataset_id = qd_dataset_id req,
          df_query = draft_query_text req ds requested group_by max_rows,
          df_policy_decision_id = pd_decision_id decision,
          df_assumptions = draft_assumptions req ds group_by decision,
          df_policy_decision = decision,
          df_preview_required = (qd_purpose req = ''analysis''),
          df_dialect = ''postgresql'', df_row_limit = max_rows,
          df_requested_columns = final, df_timeout_ms = qd_timeout_ms req,
          df_estimated_cost = max 1 (int (length final) * row_limit div 200 + 1)\<rparr>)"

text \<open>The checks between the decision and the draft.\<close>

definition check_draft :: "query_draft_request \<Rightarrow> dataset \<Rightarrow> policy_decision \<Rightarrow> draft_error + draft" where
  "check_draft req ds decision =
     (let question = lower (strip (qd_question req)); group_by = nonempty (qd_group_by req) in
      if pd_effect decision \<noteq> ''allow''
      then Inl (Draft_error ''policy_denied'' (Some (pd_reason decision)))
      else if list_ex (\<lambda>token. contains token question) forbidden_keywords
      then Inl (Draft_error ''policy_denied'' (Some reason_keyword))
      else if unknown_columns req ds \<noteq> []
      then Inl (Draft_error ''invalid_columns'' (Some (reason_unknown_columns @ join '', '' (unknown_columns req ds))))
      else if group_by \<noteq> [] \<and> group_by \<notin> set (allowed_columns ds)
      then Inl (Draft_error ''invalid_group_by'' (Some reason_unknown_group))
      else if min (qd_row_limit req) 2000 \<le> 0
      then Inl (Draft_error ''invalid_row_limit'' (Some ''row_limit must be a positive integer''))
      else if qd_timeout_ms req < 500 \<or> 120000 < qd_timeout_ms req
      then Inl (Draft_error ''invalid_timeout'' (Some ''timeout_ms must be between 500 and 120000''))
      else Inr (compose_draft req ds decision))"

definition draft_sql ::
  "query_draft_request \<Rightarrow> 's catalog_state_scheme \<Rightarrow> (draft_error + draft) \<times> 's catalog_state_scheme" where
  "draft_sql req s =
     (if qd_date_window_days req < 1 \<or> 365 < qd_date_window_days req
      then (Inl (Draft_error ''invalid_date_window'' (Some ''date_window_days must be between 1 and 365'')), s)
      else (case get_dataset (qd_dataset_id req) s of
        None \<Rightarrow> (Inl (Draft_error ''dataset_not_found'' None), s)
      | Some ds \<Rightarrow>
          if ds_status ds \<noteq> ''published''
          then (Inl (Draft_error ''policy_denied'' (Some ''dataset is not published'')), s)
          else if ds_schema ds = []
          then (Inl (Draft_error ''missing_schema'' (Some ''dataset schema must be present to draft query'')), s)
          else (let (decision, s) = evaluate (qd_user req) (qd_dataset_id req) ''query'' (qd_purpose req) s
                in (check_draft req ds decision, s))))"

section \<open>Executing a query\<close>

definition no_execution :: "pystr \<Rightarrow> pyval dict" where
  "no_execution source = [(''elapsedMs'', VInt 0), (''source'', VStr source), (''bytesScanned'', VInt 0)]"

definition query_audit ::
  "query_execution_request \<Rightarrow> pystr \<Rightarrow> pystr \<Rightarrow> pystr \<Rightarrow> pystr \<Rightarrow> pystr option \<Rightarrow> pyval dict
   \<Rightarrow> 's catalog_state_scheme \<Rightarrow> 's catalog_state_scheme" where
  "query_audit req request_id dataset_id outcome reason decision_id details s =
     ingest_event ''browse.query'' (qe_user req) dataset_id outcome decision_id reason
       (dict_update [(''purpose'', VStr (qe_purpose req)), (''request_id'', VStr request_id),
                     (''dry_run'', VBool (qe_dry_run req))] details) s"

definition rejected_response ::
  "pystr \<Rightarrow> pystr \<Rightarrow> pystr \<Rightarrow> pystr \<Rightarrow> pyval dict \<Rightarrow> pystr list \<Rightarrow> query_execution_response" where
  "rejected_response request_id dataset_id decision_id status execution warnings =
     \<lparr>qr_request_id = request_id, qr_dataset_id = dataset_id, qr_query_id = [],
      qr_policy_decision_id = decision_id, qr_status = status, qr_row_count = 0, qr_columns = [],
      qr_rows = [], qr_execution = execution, qr_warnings = warnings\<rparr>"

text \<open>\<open>min(2000, v)\<close> for the profile's row count, and what the response model makes of it as an
  \<open>int\<close>: a float with a fraction fails the model's validation.\<close>

definition capped_row_count :: "pyval \<Rightarrow> pyval result" where
  "capped_row_count v = (case v of
     VInt i \<Rightarrow> Inr (if i < 2000 then v else VInt 2000)
   | VNum r \<Rightarrow> Inr (if r < 2000 then v else VInt 2000)
   | VBool b \<Rightarrow> Inr v
   | _ \<Rightarrow> Inl (TypeError ''not supported between instances''))"

definition as_int :: "pyval \<Rightarrow> int result" where
  "as_int v = (case v of
     VInt i \<Rightarrow> Inr i
   | VBool b \<Rightarrow> Inr (if b then 1 else 0)
   | VNum r \<Rightarrow> (if r = of_int \<lfloor>r\<rfloor> then Inr \<lfloor>r\<rfloor> else Inl validation_error)
   | _ \<Rightarrow> Inl validation_error)"

text \<open>The mock run of a query that was accepted.\<close>

definition run_accepted_query ::
  "query_execution_request \<Rightarrow> pystr \<Rightarrow> dataset \<Rightarrow> pystr \<Rightarrow> 's catalog_state_scheme
   \<Rightarrow> query_execution_response result \<times> 's catalog_state_scheme" where
  "run_accepted_query req request_id ds decision_id s =
     (case (if qe_dry_run req then Inr (VInt 0)
            else capped_row_count (value_or (ds_profile ds) ''row_count'' (VInt 1000))) of
        Inl e \<Rightarrow> (Inl e, s)
      | Inr row_count \<Rightarrow>
          (let (t, s) = now s;
               stamp = iso_text s t;
               query_id = ''qry-'' @ filter (\<lambda>c. c \<noteq> CHR '':'') stamp;
               grouped = contains ''group by'' (lower (qe_query req));
               s = query_audit req request_id (ds_id ds) ''allowed'' ''ok'' (Some decision_id)
                 [(''policy_decision_id'', VStr decision_id), (''query_id'', VStr query_id),
                  (''row_count'', row_count), (''bytes_scanned'', VInt 1024)] s
           in case as_int row_count of
                Inl e \<Rightarrow> (Inl e, s)
              | Inr n \<Rightarrow>
                  (Inr \<lparr>qr_request_id = request_id, qr_dataset_id = ds_id ds, qr_query_id = query_id,
                     qr_policy_decision_id = decision_id, qr_status = ''SUCCEEDED'', qr_row_count = n,
                     qr_columns = (if grouped then [''week'', ''active_count''] else [''result'']),
                     qr_rows = (if grouped
                       then [[(''week'', VStr (take 10 stamp)), (''active_count'', VInt 1)]]
                       else [[(''result'', row_count)]]),
                     qr_execution = [(''elapsedMs'', VInt 100), (''source'', VStr ''mock-trino''),
                       (''bytesScanned'', VInt 1024)],
                     qr_warnings = [''mock_execution_no_real_data'']\<rparr>, s)))"

text \<open>The policy decision and the SQL guard, for the dataset found.\<close>

definition decide_query ::
  "query_execution_request \<Rightarrow> pystr \<Rightarrow> pystr \<Rightarrow> dataset \<Rightarrow> 's catalog_state_scheme
   \<Rightarrow> query_execution_response result \<times> 's catalog_state_scheme" where
  "decide_query req request_id dataset_id ds s =
     (let (decision, s) = evaluate (qe_user req) dataset_id ''query'' (qe_purpose req) s;
          decision_id = pd_decision_id decision;
          detail = [(''policy_decision_id'', VStr decision_id)];
          warnings = validate_sql_query (qe_query req) (ds_source_system ds)
      in if pd_effect decision \<noteq> ''allow''
         then (Inr (rejected_response request_id (ds_id ds) decision_id ''DENIED''
                 (no_execution ''policy'') [pd_reason decision]),
               query_audit req request_id (ds_id ds) ''denied'' (pd_reason decision)
                 (Some decision_id) detail s)
         else if warnings \<noteq> []
         then (Inr (rejected_response request_id (ds_id ds) decision_id ''REJECTED''
                 (no_execution ''query_safety'') warnings),
               query_audit req request_id (ds_id ds) ''rejected'' ''query_safety_validation_failed''
                 (Some decision_id) (detail @ [(''warnings'', str_list warnings)]) s)
         else run_accepted_query req request_id ds decision_id s)"

definition execute_query ::
  "query_execution_request \<Rightarrow> 's catalog_state_scheme
   \<Rightarrow> query_execution_response result \<times> 's catalog_state_scheme" where
  "execute_query req s =
     (let (request_id, s) = safe_request_id s;
          lowered = lower (qe_query req);
          reject = (\<lambda>dataset_id reason.
            (Inr (rejected_response request_id dataset_id [] ''REJECTED'' (no_execution ''validation'') [reason]),
             query_audit req request_id dataset_id ''rejected'' reason None [] s))
      in case qe_dataset_ids req of
        [] \<Rightarrow> (Inl (IndexError ''list index out of range''), s)
      | dataset_id # others \<Rightarrow>
          if upper (strip (qe_language req)) \<noteq> ''SQL'' then reject dataset_id ''unsupported_language''
          else if list_ex (\<lambda>token. contains token lowered) forbidden_keywords
          then reject dataset_id ''forbidden_keyword_detected''
          else if others \<noteq> [] then reject dataset_id ''cross_source_join_not_supported''
          else (case get_dataset dataset_id s of
            None \<Rightarrow> reject dataset_id ''dataset_not_found''
          | Some ds \<Rightarrow> decide_query req request_id dataset_id ds s))"

section \<open>Drafts\<close>

lemma set_dropWhile_keep: "c \<in> set s \<Longrightarrow> \<not> P c \<Longrightarrow> c \<in> set (dropWhile P s)"
  by (metis set_takeWhileD takeWhile_dropWhile_id Un_iff set_append)

lemma strip_keeps: "c \<in> set s \<Longrightarrow> \<not> is_space c \<Longrightarrow> c \<in> set (strip s)"
  by (simp add: strip_def lstrip_def rstrip_def set_dropWhile_keep)

lemma contains_char: "contains [c] s \<longleftrightarrow> c \<in> set s"
  by (auto simp: contains_def sublist_def in_set_conv_decomp)

lemma quote_rejected:
  assumes "CHR 0x27 \<in> set sql"
  shows "''literal_values_not_allowed'' \<in> set (validate_sql_query sql source_system)"
proof -
  have "\<not> is_space (CHR 0x27)" by code_simp
  then have "contains [CHR 0x27] (strip sql)" using assms by (simp add: contains_char strip_keeps)
  then show ?thesis by (simp add: validate_sql_query_def Let_def warn_def)
qed

lemma check_draft_ok:
  assumes "check_draft req ds dec = Inr d"
  shows "pd_effect dec = ''allow'' \<and> unknown_columns req ds = [] \<and> 1 \<le> qd_row_limit req
    \<and> 500 \<le> qd_timeout_ms req \<and> qd_timeout_ms req \<le> 120000 \<and> d = compose_draft req ds dec"
  using assms unfolding check_draft_def Let_def by (simp split: if_split_asm)

lemma unknown_columns_none:
  "unknown_columns req ds = [] \<longleftrightarrow> set (nonempty (qd_columns req)) \<subseteq> set (allowed_columns ds)"
proof -
  have "unknown_columns req ds = [] \<longleftrightarrow> set (unknown_columns req ds) = {}" by simp
  then show ?thesis by (auto simp: unknown_columns_def)
qed

lemma draft_sql_ok:
  assumes "draft_sql req s = (Inr d, s')"
  shows "\<exists>ds dec. get_dataset (qd_dataset_id req) s = Some ds \<and> ds_status ds = ''published''
    \<and> 1 \<le> qd_date_window_days req \<and> qd_date_window_days req \<le> 365
    \<and> evaluate (qd_user req) (qd_dataset_id req) ''query'' (qd_purpose req) s = (dec, s')
    \<and> check_draft req ds dec = Inr d"
  using assms unfolding draft_sql_def
  by (auto simp: Let_def split: if_split_asm option.splits prod.splits)

text \<open>
  No drafted query can be executed: every draft carries the quoted interval literal, so
  the SQL guard rejects it whatever the source system.
\<close>

theorem draft_never_passes_the_guard:
  "case fst (draft_sql req s) of
     Inl _ \<Rightarrow> True
   | Inr d \<Rightarrow> ''literal_values_not_allowed'' \<in> set (validate_sql_query (df_query d) source_system)"
proof (cases "draft_sql req s")
  case (Pair r s')
  show ?thesis
  proof (cases r)
    case (Inr d)
    then obtain ds dec where "d = compose_draft req ds dec"
      using draft_sql_ok [of req s d s'] check_draft_ok Pair by blast
    then have "CHR 0x27 \<in> set (df_query d)" by (simp add: compose_draft_def draft_query_text_def Let_def)
    then show ?thesis using Pair Inr quote_rejected by simp
  qed (simp add: Pair)
qed

text \<open>
  C17.  A draft exists only for a published dataset that the policy lets the user query, over a
  window of 1 to 365 days, with known columns, a row limit of at most 2000, a positive cost
  estimate and a timeout within bounds; drafting changes no dataset and writes no audit event.
\<close>

theorem draft_within_policy_and_bounds:
  assumes ok: "draft_sql req s = (Inr d, s')"
  shows "(\<exists>ds. get_dataset (qd_dataset_id req) s = Some ds \<and> ds_status ds = ''published''
        \<and> set (nonempty (qd_columns req)) \<subseteq> set (allowed_columns ds))
    \<and> pd_effect (df_policy_decision d) = ''allow''
    \<and> df_policy_decision d = fst (evaluate (qd_user req) (qd_dataset_id req) ''query'' (qd_purpose req) s)
    \<and> 1 \<le> qd_date_window_days req \<and> qd_date_window_days req \<le> 365
    \<and> 1 \<le> df_row_limit d \<and> df_row_limit d \<le> 2000 \<and> 1 \<le> df_estimated_cost d
    \<and> 500 \<le> qd_timeout_ms req \<and> qd_timeout_ms req \<le> 120000
    \<and> catalog_data s' = catalog_data s \<and> audit_log s' = audit_log s"
proof -
  obtain ds dec where d: "get_dataset (qd_dataset_id req) s = Some ds" "ds_status ds = ''published''"
    "1 \<le> qd_date_window_days req" "qd_date_window_days req \<le> 365"
    and ev: "evaluate (qd_user req) (qd_dataset_id req) ''query'' (qd_purpose req) s = (dec, s')"
    and c: "check_draft req ds dec = Inr d"
    using draft_sql_ok [OF ok] by blast
  have "df_policy_decision d = dec \<and> 1 \<le> df_row_limit d \<and> df_row_limit d \<le> 2000 \<and> 1 \<le> df_estimated_cost d"
    using check_draft_ok [OF c] by (simp add: compose_draft_def Let_def)
  then show ?thesis
    using d ev check_draft_ok [OF c] evaluate_keeps [of "qd_user req" "qd_dataset_id req" "''query''" "qd_purpose req" s]
    by (simp add: unknown_columns_none)
qed

definition sample_published :: catalog_state where
  "sample_published = snd (run_mutation (Publish ''d1'' ''ops'' None) sample_catalog)"

definition sample_draft_request :: query_draft_request where
  "sample_draft_request = \<lparr>qd_question = ''active customers'', qd_user = ''analyst'', qd_purpose = ''analysis'',
     qd_dataset_id = ''d1'', qd_group_by = None, qd_date_window_days = 90, qd_columns = Some [''customer_id''],
     qd_row_limit = 5000, qd_timeout_ms = 30000\<rparr>"

theorem draft_within_policy_and_bounds_witness:
  "\<exists>d s'. draft_sql sample_draft_request sample_published = (Inr d, s') \<and> 1 \<le> df_row_limit d \<and> df_row_limit d \<le> 2000"
proof -
  have "(case fst (draft_sql sample_draft_request sample_published) of Inl _ \<Rightarrow> 0 | Inr d \<Rightarrow> df_row_limit d) = 2000"
    by code_simp
  then obtain d s' where d: "draft_sql sample_draft_request sample_published = (Inr d, s')"
    by (cases "draft_sql sample_draft_request sample_published") (auto split: sum.splits)
  from draft_within_policy_and_bounds [OF d] d show ?thesis by blast
qed

section \<open>Executions\<close>

text \<open>Two states with the same audit trail: the same log, and the same events in the store.\<close>

definition same_events :: "'s catalog_state_scheme \<Rightarrow> 's catalog_state_scheme \<Rightarrow> bool" where
  "same_events s s' \<longleftrightarrow> audit_log s' = audit_log s \<and> str_other s' = str_other s
     \<and> map_option (\<lambda>st. (st_backend st, st_events st)) (configured_store s')
       = map_option (\<lambda>st. (st_backend st, st_events st)) (configured_store s)"

lemma same_events_refl [simp]: "same_events s s"
  by (simp add: same_events_def)

lemma same_events_trans: "same_events s t \<Longrightarrow> same_events t u \<Longrightarrow> same_events s u"
  by (simp add: same_events_def)

lemma same_events_now: "same_events s (snd (now s))"
  by (simp add: same_events_def)

lemma store_record_decision_backend: "st_backend (fst (store_record_decision d st w)) = st_backend st"
  by (cases "st_backend st")
     (simp_all add: store_record_decision_def sqlite_record_decision_def postgres_record_decision_def
        Let_def case_prod_unfold)

lemma same_events_evaluate: "same_events s (snd (evaluate subject resource action purpose s))"
  by (auto simp: same_events_def evaluate_split Let_def case_prod_unfold make_decision_def
      record_policy_decision_def store_record_decision_events store_record_decision_backend
      store_record_decision_world uuid4_def now_def split: option.split)

lemma safe_request_id_state: "snd (safe_request_id s) = snd (now s)"
  by (simp add: safe_request_id_def Let_def case_prod_unfold)

lemma query_audit_audited:
  "\<exists>e. audited e s (query_audit req request_id dataset_id outcome reason d details s)
    \<and> ev_actor e = qe_user req \<and> ev_action e = ''browse.query'' \<and> ev_resource e = dataset_id
    \<and> ev_result e = outcome \<and> ev_decision_id e = d \<and> ev_reason e = reason"
  unfolding query_audit_def using ingest_event_audited by fast

lemma query_audit_keeps [simp]:
  "catalog_data (query_audit req request_id dataset_id outcome reason d details s) = catalog_data s"
  by (simp add: query_audit_def)

definition outcome_of_status :: "pystr \<Rightarrow> pystr" where
  "outcome_of_status status = (if status = ''SUCCEEDED'' then ''allowed''
     else if status = ''DENIED'' then ''denied'' else ''rejected'')"

text \<open>A response that is right for the event written: the relation between the two, and the state
  in which the event was written.\<close>

definition response_audited ::
  "query_execution_request \<Rightarrow> 's catalog_state_scheme \<Rightarrow> query_execution_response \<Rightarrow> 's catalog_state_scheme \<Rightarrow> bool" where
  "response_audited req s resp s' \<longleftrightarrow> catalog_data s' = catalog_data s
     \<and> qr_status resp \<in> {''SUCCEEDED'', ''DENIED'', ''REJECTED''} \<and> qr_row_count resp \<le> 2000
     \<and> (\<exists>e s0. same_events s s0 \<and> audited e s0 s' \<and> ev_actor e = qe_user req \<and> ev_action e = ''browse.query''
          \<and> ev_result e = outcome_of_status (qr_status resp) \<and> ev_resource e = qr_dataset_id resp)"

lemma response_audited_reject:
  assumes "same_events s w" "catalog_data w = catalog_data s" "status \<in> {''DENIED'', ''REJECTED''}"
  shows "response_audited req s (rejected_response rid k did status ex ws)
    (query_audit req rid k (outcome_of_status status) reason d details w)"
  using assms query_audit_audited [of w req rid k "outcome_of_status status" reason d details]
  by (auto simp: response_audited_def rejected_response_def)

lemmas response_denied = response_audited_reject [where status = "''DENIED''", unfolded outcome_of_status_def, simplified]
lemmas response_rejected = response_audited_reject [where status = "''REJECTED''", unfolded outcome_of_status_def, simplified]

lemma as_int_capped:
  assumes "capped_row_count v = Inr x" "as_int x = Inr n"
  shows "n \<le> 2000"
proof (cases v)
  case (VNum r)
  then show ?thesis
    using assms by (auto simp: capped_row_count_def as_int_def floor_le_iff split: if_splits)
qed (use assms in \<open>auto simp: capped_row_count_def as_int_def split: if_splits\<close>)

lemma run_accepted_query_audited:
  assumes "same_events s v" "catalog_data v = catalog_data s"
  shows "case run_accepted_query req rid ds did v of
     (Inl _, s') \<Rightarrow> catalog_data s' = catalog_data s
   | (Inr resp, s') \<Rightarrow> response_audited req s resp s' \<and> qr_status resp = ''SUCCEEDED''"
proof -
  have "same_events s (snd (now v))" using assms(1) same_events_now same_events_trans by blast
  then have audit: "\<exists>e s0. same_events s s0 \<and> audited e s0 (query_audit req rid k ''allowed'' reason d details (snd (now v)))
      \<and> ev_actor e = qe_user req \<and> ev_action e = ''browse.query'' \<and> ev_result e = ''allowed'' \<and> ev_resource e = k"
    for k reason d details
    using query_audit_audited [of "snd (now v)" req rid k "''allowed''" reason d details] by blast
  have cap: "n \<le> 2000" if "(if qe_dry_run req then Inr (VInt 0) else capped_row_count x) = Inr y" "as_int y = Inr n" for x y n
    using that as_int_capped [of x y n] by (auto simp: as_int_def split: if_splits)
  let ?c = "if qe_dry_run req then Inr (VInt 0) else capped_row_count (value_or (ds_profile ds) ''row_count'' (VInt 1000))"
  show ?thesis
  proof (cases ?c)
    case (Inl e)
    then show ?thesis using assms by (simp add: run_accepted_query_def)
  next
    case (Inr x)
    show ?thesis
    proof (cases "as_int x")
      case (Inl e)
      then show ?thesis
        using \<open>?c = Inr x\<close> assms by (simp add: run_accepted_query_def Let_def case_prod_unfold)
    next
      case n: (Inr n)
      then have "n \<le> 2000" using cap [OF \<open>?c = Inr x\<close>] by simp
      then show ?thesis
        using \<open>?c = Inr x\<close> n assms audit
        by (simp add: run_accepted_query_def response_audited_def outcome_of_status_def Let_def case_prod_unfold)
    qed
  qed
qed

lemma decide_query_audited:
  assumes "same_events s w" "catalog_data w = catalog_data s"
  shows "case decide_query req rid k ds w of
     (Inl _, s') \<Rightarrow> catalog_data s' = catalog_data s
   | (Inr resp, s') \<Rightarrow> response_audited req s resp s'"
proof -
  obtain dec v where ev: "evaluate (qe_user req) k ''query'' (qe_purpose req) w = (dec, v)"
    by (cases "evaluate (qe_user req) k ''query'' (qe_purpose req) w")
  have v: "catalog_data v = catalog_data s" "same_events s v"
    using evaluate_keeps(1) [of "qe_user req" k "''query''" "qe_purpose req" w] assms ev
      same_events_trans [OF assms(1) same_events_evaluate [of w "qe_user req" k "''query''" "qe_purpose req"]]
    by simp_all
  show ?thesis
    using v response_denied [OF v(2,1)] response_rejected [OF v(2,1)] run_accepted_query_audited [OF v(2,1), of req rid ds "pd_decision_id dec"]
    by (auto simp: decide_query_def ev Let_def split: sum.splits prod.splits)
qed

text \<open>
  C12.  Executing a query changes no dataset, and every response it returns was audited by exactly
  one event: by the user, for the response's dataset, \<open>allowed\<close> for a success, \<open>denied\<close> for a
  denial and \<open>rejected\<close> otherwise.  No response reports more than 2000 rows.
\<close>

theorem execute_query_audited:
  "case execute_query req s of
     (Inl _, s') \<Rightarrow> catalog_data s' = catalog_data s
   | (Inr resp, s') \<Rightarrow> response_audited req s resp s'"
proof -
  obtain rid w where id: "safe_request_id s = (rid, w)" by (cases "safe_request_id s")
  have "w = snd (now s)" using id safe_request_id_state [of s] by simp
  then have w: "same_events s w" "catalog_data w = catalog_data s" by (simp_all add: same_events_now)
  show ?thesis
    using w response_rejected [OF w] decide_query_audited [OF w]
    by (auto simp: execute_query_def id Let_def split: list.split option.split)
qed

text \<open>
  C5.  A query succeeds only if it names a single existing dataset, is SQL without a forbidden
  keyword, the policy allows the user to query the dataset for the purpose, and the SQL guard has
  no warning; the response carries the id of that decision.
\<close>

theorem query_succeeds_only_if_allowed:
  assumes run: "execute_query req s = (Inr resp, s')" and ok: "qr_status resp = ''SUCCEEDED''"
  shows "\<exists>k ds. qe_dataset_ids req = [k] \<and> get_dataset k s = Some ds \<and> upper (strip (qe_language req)) = ''SQL''
    \<and> (\<forall>token \<in> set forbidden_keywords. \<not> contains token (lower (qe_query req)))
    \<and> validate_sql_query (qe_query req) (ds_source_system ds) = []
    \<and> pd_effect (fst (evaluate (qe_user req) k ''query'' (qe_purpose req) (snd (now s)))) = ''allow''
    \<and> qr_policy_decision_id resp = pd_decision_id (fst (evaluate (qe_user req) k ''query'' (qe_purpose req) (snd (now s))))"
proof -
  obtain rid w where id: "safe_request_id s = (rid, w)" by (cases "safe_request_id s")
  have w: "w = snd (now s)" using id safe_request_id_state [of s] by simp
  have get: "get_dataset k w = get_dataset k s" for k by (simp add: w get_dataset_def)
  have no: "qr_status (rejected_response rid k did ''REJECTED'' ex ws) \<noteq> ''SUCCEEDED''"
    "qr_status (rejected_response rid k did ''DENIED'' ex ws) \<noteq> ''SUCCEEDED''" for k did ex ws
    by (simp_all add: rejected_response_def)
  have "\<exists>k ds. qe_dataset_ids req = [k] \<and> get_dataset k s = Some ds \<and> upper (strip (qe_language req)) = ''SQL''
    \<and> (\<forall>token \<in> set forbidden_keywords. \<not> contains token (lower (qe_query req)))
    \<and> decide_query req rid k ds w = (Inr resp, s')"
    using run ok no by (auto simp: execute_query_def id Let_def get list_ex_iff split: list.splits option.splits if_splits)
  then obtain k ds where k: "qe_dataset_ids req = [k]" "get_dataset k s = Some ds" "upper (strip (qe_language req)) = ''SQL''"
    "\<forall>token \<in> set forbidden_keywords. \<not> contains token (lower (qe_query req))"
    and dq: "decide_query req rid k ds w = (Inr resp, s')"
    by blast
  obtain dec v where ev: "evaluate (qe_user req) k ''query'' (qe_purpose req) w = (dec, v)"
    by (cases "evaluate (qe_user req) k ''query'' (qe_purpose req) w")
  have "pd_effect dec = ''allow'' \<and> validate_sql_query (qe_query req) (ds_source_system ds) = []
      \<and> run_accepted_query req rid ds (pd_decision_id dec) v = (Inr resp, s')"
    using dq ok no by (auto simp: decide_query_def ev Let_def split: if_splits)
  moreover from this have "qr_policy_decision_id resp = pd_decision_id dec"
    by (auto simp: run_accepted_query_def Let_def case_prod_unfold split: sum.splits)
  ultimately show ?thesis using k ev w by auto
qed

definition sample_query :: query_execution_request where
  "sample_query = \<lparr>qe_language = ''sql'', qe_user = ''analyst'', qe_purpose = ''analysis'',
     qe_dataset_ids = [''d1''], qe_query = ''SELECT customer_id FROM crm_db'', qe_dry_run = False\<rparr>"

theorem query_succeeds_only_if_allowed_witness:
  "(case fst (execute_query sample_query sample_catalog) of Inl _ \<Rightarrow> [] | Inr r \<Rightarrow> qr_status r) = ''SUCCEEDED''
   \<and> list_all (\<lambda>token. \<not> contains token (lower (qe_query sample_query))) forbidden_keywords"
proof -
  have st: "(case fst (execute_query sample_query sample_catalog) of Inl _ \<Rightarrow> [] | Inr r \<Rightarrow> qr_status r) = ''SUCCEEDED''"
    by code_simp
  then obtain r s' where "execute_query sample_query sample_catalog = (Inr r, s')" "qr_status r = ''SUCCEEDED''"
    by (cases "execute_query sample_query sample_catalog") (auto split: sum.splits)
  from query_succeeds_only_if_allowed [OF this] st show ?thesis unfolding list_all_iff by blast
qed

text \<open>
  The guard looks at the table after \<open>from\<close> or \<open>join\<close> only: a second table after a comma
  is not checked, so a query over an unauthorized table passes.
\<close>

theorem comma_join_passes_the_guard:
  "validate_sql_query ''select * from crm_db, secrets'' ''crm-db'' = []
   \<and> validate_sql_query ''select * from crm_db join secrets'' ''crm-db'' = [''unauthorized_table_reference'']"
  by code_simp

end
