(* ===== verification/Ontology.thy ===== *)
theory Ontology
  imports Orchestrator
begin

text \<open>
  \<open>src/sdp/ontology.py\<close>: the business concepts, the term resolution over the catalog's index of
  terms, and the patches that propose a change to the ontology and are reviewed once.

  The five concepts and their words are the source's Korean: customer, active customer, churn,
  churned customer, revenue.  The index is built when the module loads, so it is a component of
  the state that no operation changes.
\<close>

section \<open>Concepts\<close>

record concept_metadata =
  cm_aliases :: "pystr list"
  cm_broader :: "pystr option"
  cm_narrower :: "pystr list"
  cm_related :: "pystr list"
  cm_definition :: pystr
  cm_multilingual :: "pystr list"

definition concept_definitions :: "concept_metadata dict" where
  "concept_definitions =
     [(utf8 [0xACE0, 0xAC1D],
        \<lparr>cm_aliases = [''customer'', utf8 [0xD074, 0xB77C, 0xC774, 0xC5B8, 0xD2B8], utf8
           [0xC774, 0xC6A9, 0xC790], utf8 [0xD68C, 0xC6D0]],
         cm_broader = None,
         cm_narrower = [utf8 [0xD65C, 0xC131, 0x20, 0xACE0, 0xAC1D], utf8 [0xC774, 0xD0C8, 0x20,
           0xACE0, 0xAC1D]],
         cm_related = [utf8 [0xAD6C, 0xB9E4], utf8 [0xAC70, 0xB798], utf8 [0xD68C, 0xC6D0, 0xAC00,
           0xC785]],
         cm_definition = utf8 [0xACE0, 0xAC1D, 0xC740, 0x20, 0xD2B9, 0xC815, 0x20, 0xC870, 0xC9C1,
           0xC758, 0x20, 0xC81C, 0xD488, 0x20, 0xB610, 0xB294, 0x20, 0xC11C, 0xBE44, 0xC2A4,
           0xB97C, 0x20, 0xC774, 0xC6A9, 0xD558, 0xB294, 0x20, 0xB300, 0xC0C1, 0x20, 0xC5D4,
           0xD2F0, 0xD2F0, 0x20, 0xC9D1, 0xD569, 0xC774, 0xB2E4, 0x2E],
         cm_multilingual = [''customer'', ''client'']\<rparr>),
      (utf8 [0xD65C, 0xC131, 0x20, 0xACE0, 0xAC1D],
        \<lparr>cm_aliases = [utf8 [0xC561, 0xD2F0, 0xBE0C, 0x20, 0xACE0, 0xAC1D], utf8 [0xC720,
           0xD6A8, 0x20, 0xACE0, 0xAC1D], utf8 [0xD65C, 0xC131, 0x20, 0xC720, 0xC800]],
         cm_broader = Some (utf8 [0xACE0, 0xAC1D]),
         cm_narrower = [],
         cm_related = [utf8 [0xC774, 0xD0C8, 0x20, 0xACE0, 0xAC1D], utf8 [0xD734, 0xBA74, 0x20,
           0xACE0, 0xAC1D], utf8 [0xAD6C, 0xB9E4, 0xC790]],
         cm_definition = utf8 [0xCD5C, 0xADFC, 0x20, 0xD65C, 0xC131, 0xC774, 0x20, 0xD655, 0xC778,
           0xB41C, 0x20, 0xACE0, 0xAC1D, 0xC758, 0x20, 0xC9D1, 0xD569, 0xC774, 0xB2E4, 0x2E],
         cm_multilingual = [''active customer'']\<rparr>),
      (utf8 [0xC774, 0xD0C8],
        \<lparr>cm_aliases = [utf8 [0xD0C8, 0xD1F4], utf8 [0xC774, 0xD0C8, 0xB960], utf8 [0xD734,
           0xBA74]],
         cm_broader = None,
         cm_narrower = [utf8 [0xC774, 0xD0C8, 0x20, 0xACE0, 0xAC1D]],
         cm_related = [utf8 [0xD65C, 0xC131, 0x20, 0xACE0, 0xAC1D], utf8 [0xC7AC, 0xAD6C,
           0xB9E4]],
         cm_definition = utf8 [0xC11C, 0xBE44, 0xC2A4, 0x20, 0xC9C0, 0xC18D, 0x20, 0xC774, 0xC6A9,
           0xC774, 0x20, 0xB05D, 0xB09C, 0x20, 0xACE0, 0xAC1D, 0x20, 0xC0C1, 0xD0DC, 0x20, 0xBC0F,
           0x20, 0xBCC0, 0xD654, 0x20, 0xD328, 0xD134, 0xC758, 0x20, 0xC758, 0xBBF8, 0x20, 0xB2E8,
           0xC704, 0xC774, 0xB2E4, 0x2E],
         cm_multilingual = [''churn'', ''churned'']\<rparr>),
      (utf8 [0xC774, 0xD0C8, 0x20, 0xACE0, 0xAC1D],
        \<lparr>cm_aliases = [utf8 [0xD0C8, 0xD1F4, 0x20, 0xACE0, 0xAC1D], utf8 [0x63, 0x68, 0x75,
           0x72, 0x6E, 0x20, 0xACE0, 0xAC1D], utf8 [0xD734, 0xBA74, 0x20, 0xACE0, 0xAC1D]],
         cm_broader = Some (utf8 [0xACE0, 0xAC1D]),
         cm_narrower = [],
         cm_related = [utf8 [0xD65C, 0xC131, 0x20, 0xACE0, 0xAC1D], utf8 [0xAC00, 0xC785,
           0xC790]],
         cm_definition = utf8 [0xCD5C, 0xADFC, 0x20, 0xC7A5, 0xAE30, 0x20, 0xBBF8, 0xC811, 0xC18D,
           0x20, 0xB610, 0xB294, 0x20, 0xD574, 0xC9C0, 0xB85C, 0x20, 0xBD84, 0xB958, 0xB41C, 0x20,
           0xACE0, 0xAC1D, 0x20, 0xC138, 0xADF8, 0xBA3C, 0xD2B8, 0xC774, 0xB2E4, 0x2E],
         cm_multilingual = [''churned customer'']\<rparr>),
      (utf8 [0xB9E4, 0xCD9C],
        \<lparr>cm_aliases = [utf8 [0xC218, 0xC775], utf8 [0xD310, 0xB9E4], utf8 [0xB9E4, 0xCD9C,
           0xC561]],
         cm_broader = None,
         cm_narrower = [utf8 [0xB9E4, 0xCD9C, 0x20, 0xC131, 0xC7A5], utf8 [0xB9E4, 0xCD9C, 0x20,
           0xCC44, 0xB110, 0xBCC4, 0x20, 0xC9D1, 0xACC4]],
         cm_related = [utf8 [0xAD6C, 0xB9E4], utf8 [0xAC00, 0xACA9]],
         cm_definition = utf8 [0xBE44, 0xC988, 0xB2C8, 0xC2A4, 0xC758, 0x20, 0xACBD, 0xC81C,
           0xC801, 0x20, 0xC0B0, 0xCD9C, 0x20, 0xACB0, 0xACFC, 0xB97C, 0x20, 0xB098, 0xD0C0,
           0xB0B4, 0xB294, 0x20, 0xC9C0, 0xD45C, 0xAD70, 0xC774, 0xB2E4, 0x2E],
         cm_multilingual = [''revenue'', ''sales'']\<rparr>)]"

record ontology_state = catalog_state +
  concept_index :: "(pystr list) dict"
  ontology_patches :: "ontology_patch list"

definition add_to_index :: "pystr \<Rightarrow> pystr \<Rightarrow> (pystr list) dict \<Rightarrow> (pystr list) dict" where
  "add_to_index dataset_id concept index =
     dict_set concept ((case dict_get index concept of None \<Rightarrow> [] | Some ids \<Rightarrow> ids) @ [dataset_id]) index"

definition build_index :: "dataset list \<Rightarrow> (pystr list) dict" where
  "build_index dss = fold (\<lambda>ds index. fold (add_to_index (ds_id ds)) (ds_terms ds) index) dss []"

text \<open>The module's start.\<close>

definition load_ontology :: "'s ontology_state_scheme \<Rightarrow> 's ontology_state_scheme" where
  "load_ontology s = s\<lparr>concept_index := build_index (list_datasets s), ontology_patches := []\<rparr>"

definition normalize_term :: "pystr \<Rightarrow> pystr" where
  "normalize_term value = lower (replace_char (CHR ''_'') (CHR '' '') (strip value))"

definition alias_to_canonical :: "pystr dict" where
  "alias_to_canonical =
     dict_of (concat (map (\<lambda>(base, m). map (\<lambda>a. (normalize_term a, base))
       (base # cm_aliases m @ cm_multilingual m)) concept_definitions))"

definition canonicalize_concept :: "pystr \<Rightarrow> pystr" where
  "canonicalize_concept concept =
     (case dict_get alias_to_canonical (normalize_term concept) of None \<Rightarrow> concept | Some c \<Rightarrow> c)"

definition list_concepts :: "pystr list" where
  "list_concepts = sort (dict_keys concept_definitions)"

record concept_term =
  ct_concept :: pystr
  ct_aliases :: "pystr list"
  ct_broader :: "pystr option"
  ct_narrower :: "pystr list"
  ct_related :: "pystr list"
  ct_definition :: pystr
  ct_multilingual :: "pystr list"

text \<open>\<open>_to_concept_payload\<close>, for a concept with its metadata.\<close>

definition to_concept_payload :: "pystr \<Rightarrow> concept_metadata \<Rightarrow> concept_term" where
  "to_concept_payload concept m =
     \<lparr>ct_concept = concept, ct_aliases = concept # cm_aliases m, ct_broader = cm_broader m,
      ct_narrower = cm_narrower m, ct_related = cm_related m, ct_definition = cm_definition m,
      ct_multilingual = cm_multilingual m\<rparr>"

definition search_concepts :: "pystr \<Rightarrow> concept_term list" where
  "search_concepts query =
     (let q = lower (strip query) in
      if q = [] then []
      else map (\<lambda>(concept, m). to_concept_payload concept m)
        (filter (\<lambda>(concept, m).
           q = normalize_term concept
         \<or> list_ex (\<lambda>alias. contains (normalize_term alias) q) (concept # cm_aliases m @ cm_multilingual m)
         \<or> contains concept q) concept_definitions))"

datatype concept_graph_result =
    Concept_found concept_term pystr
  | Concept_not_found pystr

definition concept_graph :: "pystr \<Rightarrow> concept_graph_result" where
  "concept_graph concept =
     (let canonical = canonicalize_concept concept in
      case dict_get concept_definitions canonical of
        Some m \<Rightarrow> Concept_found (to_concept_payload canonical m) canonical
      | None \<Rightarrow> Concept_not_found concept)"

section \<open>Resolution\<close>

record resolution =
  rs_term :: pystr
  rs_score :: rat
  rs_uri :: pystr
  rs_aliases :: "pystr list"

definition term_uri :: "pystr \<Rightarrow> pystr" where
  "term_uri concept = ''https://data.example.org/term/'' @ replace_char (CHR '' '') (CHR ''-'') concept"

text \<open>The score a concept of the index earns from its own aliases, and from its first dataset.\<close>

definition alias_matches :: "pystr \<Rightarrow> pystr list \<Rightarrow> pystr \<Rightarrow> rat \<times> pystr list" where
  "alias_matches concept candidates txt =
     (let start = (if contains concept txt then (1, [concept]) else (0, []))
      in fold (\<lambda>a (score, aliases).
           if contains a txt \<and> a \<notin> set aliases then (score + 3/10, aliases @ [a]) else (score, aliases))
         candidates start)"

definition dataset_matches :: "dataset \<Rightarrow> pystr \<Rightarrow> pystr \<Rightarrow> rat \<times> pystr list" where
  "dataset_matches ds concept txt =
     (let terms = filter (\<lambda>t. contains t txt) (ds_terms ds);
          mapped = filter (\<lambda>t. contains t txt) (mapping_candidates ds concept)
      in (of_nat (length terms) * (5/10) + of_nat (length mapped) * (3/10), terms))"

text \<open>\<open>next(...)\<close> over the datasets raises \<open>StopIteration\<close> when the indexed one is gone.\<close>

definition resolve_entry :: "pystr \<Rightarrow> pystr \<Rightarrow> pystr list \<Rightarrow> 's catalog_state_scheme \<Rightarrow> resolution option result" where
  "resolve_entry txt concept dataset_ids s =
     (let aliases = (case dict_get concept_definitions concept of None \<Rightarrow> [] | Some m \<Rightarrow> cm_aliases m);
          (score, names) = alias_matches concept (concept # aliases) txt;
          more = (case dataset_ids of
              [] \<Rightarrow> Inr (0, [])
            | dataset # _ \<Rightarrow>
                if dataset = [] then Inr (0, [])
                else (case find (\<lambda>ds. ds_id ds = dataset) (list_datasets s) of
                  None \<Rightarrow> Inl (RuntimeError ''StopIteration'')
                | Some ds \<Rightarrow> Inr (dataset_matches ds concept txt)))
      in case more of
           Inl e \<Rightarrow> Inl e
         | Inr (extra, terms) \<Rightarrow>
             (if 0 < score + extra
              then Inr (Some \<lparr>rs_term = concept, rs_score = min (score + extra) 1, rs_uri = term_uri concept,
                     rs_aliases = sorted_set (names @ terms)\<rparr>)
              else Inr None))"

fun resolve_index ::
  "pystr \<Rightarrow> (pystr list) dict \<Rightarrow> 's catalog_state_scheme \<Rightarrow> resolution list result" where
  "resolve_index txt [] s = Inr []"
| "resolve_index txt ((concept, ids) # index) s =
     (case resolve_entry txt concept ids s of
        Inl e \<Rightarrow> Inl e
      | Inr found \<Rightarrow>
          (case resolve_index txt index s of
             Inl e \<Rightarrow> Inl e
           | Inr rest \<Rightarrow> Inr ((case found of None \<Rightarrow> [] | Some r \<Rightarrow> [r]) @ rest)))"

definition add_candidate :: "concept_term \<Rightarrow> resolution list \<Rightarrow> resolution list" where
  "add_candidate candidate resolved =
     (if ct_concept candidate \<in> rs_term ` set resolved then resolved
      else resolved @ [\<lparr>rs_term = ct_concept candidate, rs_score = 55/100, rs_uri = term_uri (ct_concept candidate),
        rs_aliases = sort (ct_aliases candidate)\<rparr>])"

definition resolve_terms :: "pystr \<Rightarrow> 's ontology_state_scheme \<Rightarrow> resolution list result" where
  "resolve_terms given s =
     (let txt = strip given in
      if txt = [] then Inr []
      else (case resolve_index txt (concept_index s) s of
        Inl e \<Rightarrow> Inl e
      | Inr resolved \<Rightarrow> Inr (sort_desc rs_score (fold add_candidate (search_concepts txt) resolved))))"

record concept_assets_result =
  ca_concept :: pystr
  ca_graph :: concept_graph_result
  ca_dataset_ids :: "pystr list"
  ca_count :: nat
  ca_aliases :: "pystr list"

definition concept_assets :: "pystr \<Rightarrow> 's ontology_state_scheme \<Rightarrow> concept_assets_result" where
  "concept_assets concept s =
     (let canonical = canonicalize_concept concept;
          datasets = (case dict_get (concept_index s) canonical of None \<Rightarrow> [] | Some ids \<Rightarrow> ids);
          aliases = (case dict_get concept_definitions canonical of None \<Rightarrow> [] | Some m \<Rightarrow> cm_aliases m)
      in \<lparr>ca_concept = canonical, ca_graph = concept_graph canonical, ca_dataset_ids = datasets,
          ca_count = length datasets, ca_aliases = canonical # aliases\<rparr>)"

section \<open>Patches\<close>

definition propose_patch ::
  "pystr \<Rightarrow> pystr \<Rightarrow> pystr \<Rightarrow> 's ontology_state_scheme \<Rightarrow> ontology_patch \<times> 's ontology_state_scheme" where
  "propose_patch concept suggestion requestor s =
     (let (k, s) = uuid4 s; (t, s) = now s;
          patch = \<lparr>op_id = k, op_concept = (if strip concept = [] then ''unknown'' else strip concept),
            op_requestor = requestor, op_suggestion = strip suggestion,
            op_confidence = min (max (of_nat (py_len suggestion) / 220) (3/10)) (95/100),
            op_status = status_PROPOSED, op_created_at = t, op_reviewed_by = None,
            op_reviewed_at = None, op_review_comment = None\<rparr>
      in (patch, s\<lparr>ontology_patches := ontology_patches s @ [patch]\<rparr>))"

definition list_patches :: "pystr option \<Rightarrow> 's ontology_state_scheme \<Rightarrow> ontology_patch list" where
  "list_patches status s =
     (case status of
        None \<Rightarrow> ontology_patches s
      | Some st \<Rightarrow> if st = [] then ontology_patches s else filter (\<lambda>p. op_status p = st) (ontology_patches s))"

definition reviewed :: "pystr \<Rightarrow> pystr \<Rightarrow> pystr \<Rightarrow> int \<Rightarrow> ontology_patch \<Rightarrow> ontology_patch" where
  "reviewed decision reviewer comment t p =
     p\<lparr>op_reviewed_by := Some reviewer, op_reviewed_at := Some t, op_review_comment := Some comment,
       op_status := (if decision = ''approve'' then ''approved'' else ''rejected'')\<rparr>"

text \<open>The position of the first patch with an id.\<close>

fun find_patch :: "pystr \<Rightarrow> ontology_patch list \<Rightarrow> nat option" where
  "find_patch k [] = None"
| "find_patch k (p # ps) = (if op_id p = k then Some 0 else map_option Suc (find_patch k ps))"

definition review_patch ::
  "pystr \<Rightarrow> pystr \<Rightarrow> pystr \<Rightarrow> pystr \<Rightarrow> 's ontology_state_scheme
   \<Rightarrow> ontology_patch result \<times> 's ontology_state_scheme" where
  "review_patch patch_id decision reviewer comment s =
     (let normalized = lower (strip decision) in
      if normalized \<notin> {''approve'', ''reject''}
      then (Inl (ValueError ''decision must be approve or reject''), s)
      else (case find_patch patch_id (ontology_patches s) of
        None \<Rightarrow> (Inl (KeyError ''patch not found''), s)
      | Some i \<Rightarrow>
          if op_status (ontology_patches s ! i) \<noteq> ''proposed''
          then (Inl (ValueError ''patch is not in proposed state''), s)
          else (let (t, s) = now s;
                    p = reviewed normalized reviewer comment t (ontology_patches s ! i)
                in (Inr p, s\<lparr>ontology_patches := (ontology_patches s)[i := p]\<rparr>))))"

section \<open>Canonical concepts\<close>

definition aliases_lead_home :: "pystr dict \<Rightarrow> pystr list \<Rightarrow> bool" where
  "aliases_lead_home table concepts \<longleftrightarrow>
     list_all (\<lambda>c. dict_get table (normalize_term c) = Some c \<and> c \<in> set concepts) (remdups (dict_values table))"

lemma alias_table_sound: "aliases_lead_home alias_to_canonical (dict_keys concept_definitions)"
  by code_simp

lemma canonicalize_found:
  "dict_get alias_to_canonical (normalize_term c) = Some b \<Longrightarrow>
   dict_get alias_to_canonical (normalize_term b) = Some b \<and> dict_get concept_definitions b \<noteq> None"
proof -
  assume "dict_get alias_to_canonical (normalize_term c) = Some b"
  then have "b \<in> set (dict_values alias_to_canonical)"
    by (force simp: dict_values_def dest: dict_get_Some_in)
  then show ?thesis
    using alias_table_sound
    by (auto simp: aliases_lead_home_def list_all_iff dict_get_def dict_keys_def map_of_eq_None_iff)
qed

lemma normalize_term_idem_lookup: "dict_get alias_to_canonical (normalize_term c) = None \<Longrightarrow> canonicalize_concept c = c"
  by (simp add: canonicalize_concept_def)



section \<open>Resolution scores\<close>

definition resolution_ok :: "resolution \<Rightarrow> bool" where
  "resolution_ok r \<longleftrightarrow> 0 < rs_score r \<and> rs_score r \<le> 1 \<and> sorted (rs_aliases r) \<and> rs_uri r = term_uri (rs_term r)"

lemma resolve_entry_ok:
  "resolve_entry txt concept ids s = Inr (Some r) \<Longrightarrow> resolution_ok r \<and> rs_term r = concept"
  unfolding resolve_entry_def Let_def case_prod_unfold resolution_ok_def
  by (auto split: if_split_asm list.split_asm option.split_asm)

lemma resolve_index_ok:
  "resolve_index txt index s = Inr rs \<Longrightarrow>
   list_all resolution_ok rs \<and> subseq (map rs_term rs) (map fst index)"
proof (induction index arbitrary: rs)
  case (Cons entry index)
  obtain concept ids where e: "entry = (concept, ids)" by (cases entry)
  from Cons.prems e obtain found rest where
    f: "resolve_entry txt concept ids s = Inr found" "resolve_index txt index s = Inr rest"
    and rs: "rs = (case found of None \<Rightarrow> [] | Some r \<Rightarrow> [r]) @ rest"
    by (auto split: sum.splits)
  have "found = Some r \<Longrightarrow> resolution_ok r \<and> rs_term r = concept" for r
    using resolve_entry_ok f(1) by blast
  with Cons.IH [OF f(2)] show ?case
    by (auto simp: rs e split: option.split)
qed simp

lemma subseq_distinct: "subseq xs ys \<Longrightarrow> distinct ys \<Longrightarrow> distinct xs"
  using subseq_conv_nths distinct_nthsI by metis

lemma fold_add_candidate:
  "list_all resolution_ok rs \<Longrightarrow> distinct (map rs_term rs) \<Longrightarrow>
   list_all resolution_ok (fold add_candidate cs rs) \<and> distinct (map rs_term (fold add_candidate cs rs))
     \<and> rs_term ` set (fold add_candidate cs rs) = rs_term ` set rs \<union> ct_concept ` set cs"
proof (induction cs arbitrary: rs)
  case (Cons c cs)
  have "list_all resolution_ok (add_candidate c rs) \<and> distinct (map rs_term (add_candidate c rs))
      \<and> rs_term ` set (add_candidate c rs) = insert (ct_concept c) (rs_term ` set rs)"
  proof -
    have "resolution_ok \<lparr>rs_term = ct_concept c, rs_score = 55/100, rs_uri = term_uri (ct_concept c),
        rs_aliases = sort (ct_aliases c)\<rparr>"
      by (simp add: resolution_ok_def)
    then show ?thesis using Cons.prems by (auto simp: add_candidate_def)
  qed
  with Cons.IH [of "add_candidate c rs"] show ?case by auto
qed simp

text \<open>
  C18.  Resolving a text gives each term at most once, with a score in (0, 1], in descending
  order of score; every defined concept that the concept search finds in the text is among them.
\<close>

theorem resolve_terms_ranked:
  assumes ok: "resolve_terms txt s = Inr rs" and index: "dict_ok (concept_index s)"
  shows "sorted_wrt (\<lambda>a b. rs_score b \<le> rs_score a) rs \<and> distinct (map rs_term rs)
    \<and> (\<forall>r \<in> set rs. 0 < rs_score r \<and> rs_score r \<le> 1)
    \<and> ct_concept ` set (search_concepts (strip txt)) \<subseteq> rs_term ` set rs"
proof (cases "strip txt = []")
  case True
  moreover have "search_concepts [] = []" by (simp add: search_concepts_def strip_def lstrip_def rstrip_def)
  ultimately show ?thesis using ok by (simp add: resolve_terms_def)
next
  case False
  then obtain res where res: "resolve_index (strip txt) (concept_index s) s = Inr res"
    and rs: "rs = sort_desc rs_score (fold add_candidate (search_concepts (strip txt)) res)"
    using ok by (auto simp: resolve_terms_def Let_def split: sum.splits)
  let ?all = "fold add_candidate (search_concepts (strip txt)) res"
  have "list_all resolution_ok res" "subseq (map rs_term res) (map fst (concept_index s))"
    using resolve_index_ok [OF res] by auto
  moreover from this have "distinct (map rs_term res)"
    using index by (auto simp: dict_ok_def intro: subseq_distinct)
  ultimately have all: "list_all resolution_ok ?all" "distinct (map rs_term ?all)"
    "rs_term ` set ?all = rs_term ` set res \<union> ct_concept ` set (search_concepts (strip txt))"
    using fold_add_candidate by blast+
  have "mset (map rs_term rs) = mset (map rs_term ?all)" by (simp add: rs)
  then have "distinct (map rs_term rs)" using all(2) mset_eq_imp_distinct_iff by blast
  then show ?thesis
    using all by (auto simp: rs sort_desc_sorted list_all_iff resolution_ok_def)
qed

text \<open>The index the module builds is a good dictionary, and every indexed id is a dataset's.\<close>

lemma dict_ok_add_to_index: "dict_ok index \<Longrightarrow> dict_ok (add_to_index k c index)"
  by (simp add: add_to_index_def)

lemma dict_ok_build_index: "dict_ok (build_index dss)"
proof -
  have terms: "dict_ok index \<Longrightarrow> dict_ok (fold (add_to_index k) cs index)" for k cs and index :: "(pystr list) dict"
    by (induction cs arbitrary: index) (simp_all add: dict_ok_add_to_index)
  have "dict_ok index \<Longrightarrow> dict_ok (fold (\<lambda>ds index. fold (add_to_index (ds_id ds)) (ds_terms ds) index) dss index)" for index
    by (induction dss arbitrary: index) (simp_all add: terms)
  then show ?thesis by (simp add: build_index_def)
qed

section \<open>The life of a patch\<close>

text \<open>One operation on the patches: a proposal or a review.\<close>

datatype patch_op =
    Propose pystr pystr pystr
  | Review pystr pystr pystr pystr

fun run_patch_op :: "patch_op \<Rightarrow> 's ontology_state_scheme \<Rightarrow> 's ontology_state_scheme" where
  "run_patch_op (Propose concept suggestion requestor) s = snd (propose_patch concept suggestion requestor s)"
| "run_patch_op (Review k decision reviewer comment) s = snd (review_patch k decision reviewer comment s)"

text \<open>What may happen to one patch: nothing, or its one review.\<close>

inductive patch_step :: "ontology_patch \<Rightarrow> ontology_patch \<Rightarrow> bool" where
  unchanged: "patch_step p p"
| review: "op_status p = ''proposed'' \<Longrightarrow> patch_step p (reviewed decision reviewer comment t p)"

inductive_simps patch_step_iff: "patch_step p q"

definition patch_ok :: "ontology_patch \<Rightarrow> bool" where
  "patch_ok p \<longleftrightarrow> in_unit (op_confidence p) \<and> 3/10 \<le> op_confidence p \<and> op_confidence p \<le> 95/100
     \<and> op_status p \<in> {''proposed'', ''approved'', ''rejected''}
     \<and> (op_status p = ''proposed'' \<longleftrightarrow> op_reviewed_by p = None)
     \<and> (op_reviewed_by p = None \<longleftrightarrow> op_reviewed_at p = None)"

lemma patch_step_settled: "patch_step p q \<Longrightarrow> op_status p \<noteq> ''proposed'' \<Longrightarrow> q = p"
  by (auto elim: patch_step.cases)

lemma reviewed_settled: "op_status (reviewed decision reviewer comment t p) \<noteq> ''proposed''"
  by (simp add: reviewed_def)

lemma patch_step_trans: "patch_step p q \<Longrightarrow> patch_step q r \<Longrightarrow> patch_step p r"
  by (auto simp: patch_step_iff reviewed_settled)

lemma patch_step_same_id: "patch_step p q \<Longrightarrow> op_id q = op_id p \<and> op_suggestion q = op_suggestion p"
  by (auto elim!: patch_step.cases simp: reviewed_def)

lemma find_patch_less: "find_patch k ps = Some i \<Longrightarrow> i < length ps \<and> op_id (ps ! i) = k"
  by (induction ps arbitrary: i) (auto split: if_splits)

lemma patches_run:
  "(\<exists>added. ontology_patches (run_patch_op op s) = ontology_patches s @ added \<and> list_all patch_ok added)
   \<or> (\<exists>i decision reviewer comment t. i < length (ontology_patches s)
       \<and> op_status (ontology_patches s ! i) = ''proposed''
       \<and> ontology_patches (run_patch_op op s)
         = (ontology_patches s)[i := reviewed decision reviewer comment t (ontology_patches s ! i)])"
proof (cases op)
  case (Propose concept suggestion requestor)
  then show ?thesis
    by (auto simp: propose_patch_def Let_def uuid4_def now_def patch_ok_def in_unit_def status_PROPOSED_def)
next
  case (Review k decision reviewer comment)
  show ?thesis
  proof (cases "ontology_patches (run_patch_op op s) = ontology_patches s")
    case False
    then obtain i where i: "find_patch k (ontology_patches s) = Some i" "op_status (ontology_patches s ! i) = ''proposed''"
      and d: "lower (strip decision) \<in> {''approve'', ''reject''}"
      using Review by (auto simp: review_patch_def Let_def case_prod_unfold split: option.splits if_splits)
    have "ontology_patches (run_patch_op op s) = (ontology_patches s)[i :=
        reviewed (lower (strip decision)) reviewer comment (fst (now s)) (ontology_patches s ! i)]"
      using Review i d by (auto simp: review_patch_def Let_def now_def)
    then show ?thesis using i find_patch_less [OF i(1)] by blast
  qed (auto intro: exI [of _ "[]"])
qed

inductive patches_reach :: "'s ontology_state_scheme \<Rightarrow> 's ontology_state_scheme \<Rightarrow> bool" for s where
  start: "patches_reach s s"
| step: "patches_reach s t \<Longrightarrow> patches_reach s (run_patch_op op t)"

lemma patch_op_steps:
  "list_all2 patch_step (ontology_patches s) (take (length (ontology_patches s)) (ontology_patches (run_patch_op op s)))
   \<and> length (ontology_patches s) \<le> length (ontology_patches (run_patch_op op s))"
  using patches_run [of op s]
  by (auto simp: list_all2_conv_all_nth nth_list_update nth_append intro: patch_step.intros)

lemma patch_op_ok:
  assumes "list_all patch_ok (ontology_patches s)"
  shows "list_all patch_ok (ontology_patches (run_patch_op op s))"
proof -
  have rev: "patch_ok (reviewed decision reviewer comment t p)" if "patch_ok p" for decision reviewer comment t p
    using that by (simp add: patch_ok_def reviewed_def)
  show ?thesis
    using patches_run [of op s] assms rev
    by (auto simp: list_all_length nth_append nth_list_update list_all_iff)
qed

text \<open>
  C8.  Whatever sequence of proposals and reviews runs, every patch keeps its place, its id and
  its text; it leaves the proposed state at most once, and a settled patch never changes again.
  From the empty list on, every patch has a confidence in [0.3, 0.95], and is reviewed exactly
  when it is settled.
\<close>

theorem patches_settle_once:
  assumes reach: "patches_reach s t"
  shows "length (ontology_patches s) \<le> length (ontology_patches t)
    \<and> (\<forall>i < length (ontology_patches s). patch_step (ontology_patches s ! i) (ontology_patches t ! i)
        \<and> op_id (ontology_patches t ! i) = op_id (ontology_patches s ! i)
        \<and> (op_status (ontology_patches s ! i) \<noteq> ''proposed'' \<longrightarrow> ontology_patches t ! i = ontology_patches s ! i))
    \<and> (ontology_patches s = [] \<longrightarrow> list_all patch_ok (ontology_patches t))"
  using reach
proof (induction rule: patches_reach.induct)
  case start
  show ?case by (simp add: patch_step.unchanged)
next
  case (step t op)
  have next_step: "patch_step (ontology_patches t ! i) (ontology_patches (run_patch_op op t) ! i)"
    if "i < length (ontology_patches t)" for i
    using patch_op_steps [of t op] that by (simp add: list_all2_conv_all_nth)
  have len: "length (ontology_patches t) \<le> length (ontology_patches (run_patch_op op t))"
    using patch_op_steps [of t op] by simp
  have "patch_step (ontology_patches s ! i) (ontology_patches (run_patch_op op t) ! i)"
    if "i < length (ontology_patches s)" for i
    using step.IH next_step that patch_step_trans by (meson order_less_le_trans)
  then show ?case
    using step.IH len patch_op_ok patch_step_same_id patch_step_settled by auto
qed

definition empty_ontology :: ontology_state where
  "empty_ontology =
     \<lparr>uuid_source = show_nat, clock_source = int, iso_text = show_int, stamp_text = show_int,
      str_other = (\<lambda>_. []), uuid_tick = 0, clock_tick = 0, configured_store = None,
      policy_decision_log = [], catalog_data = [], audit_log = [], schema_history = [],
      concept_index = [], ontology_patches = []\<rparr>"

theorem patches_settle_once_witness:
  "list_all patch_ok (ontology_patches (run_patch_op (Review ''0'' ''Approve '' ''steward'' ''ok'')
     (run_patch_op (Propose ''churn'' ''split the concept'' ''analyst'') empty_ontology)))
   \<and> map op_status (ontology_patches (run_patch_op (Review ''0'' ''Approve '' ''steward'' ''ok'')
     (run_patch_op (Propose ''churn'' ''split the concept'' ''analyst'') empty_ontology))) = [''approved'']"
proof -
  let ?t = "run_patch_op (Review ''0'' ''Approve '' ''steward'' ''ok'')
     (run_patch_op (Propose ''churn'' ''split the concept'' ''analyst'') empty_ontology)"
  have "patches_reach empty_ontology ?t" by (intro patches_reach.intros)
  from patches_settle_once [OF this] have "list_all patch_ok (ontology_patches ?t)"
    by (simp add: empty_ontology_def)
  moreover have "map op_status (ontology_patches ?t) = [''approved'']" by code_simp
  ultimately show ?thesis by simp
qed

definition sample_ontology :: ontology_state where
  "sample_ontology = load_ontology (load_catalog [sample_dataset] empty_ontology)"

theorem resolve_terms_ranked_witness:
  "\<exists>rs. resolve_terms ''customer churn'' sample_ontology = Inr rs \<and> length rs = 3 \<and> distinct (map rs_term rs)"
proof -
  have "(case resolve_terms ''customer churn'' sample_ontology of Inl _ \<Rightarrow> 0 | Inr rs \<Rightarrow> length rs) = 3"
    by code_simp
  then obtain rs where rs: "resolve_terms ''customer churn'' sample_ontology = Inr rs" "length rs = 3"
    by (auto split: sum.splits)
  moreover have "dict_ok (concept_index sample_ontology)"
    by (simp add: sample_ontology_def load_ontology_def dict_ok_build_index)
  ultimately show ?thesis using resolve_terms_ranked [of "''customer churn''" sample_ontology rs] by blast
qed

end
