(* ===== verification/Governance.thy ===== *)
theory Governance
  imports Readiness Ontology
begin

text \<open>
  The reports that speak of the whole portal (\<open>src/sdp/semantic_validation.py\<close>,
  \<open>src/sdp/steward_review.py\<close>, \<open>src/sdp/enterprise_evidence.py\<close>): the semantic validation of a
  dataset and its summary, the steward's review queue and the evidence pack with its gates.
\<close>

section \<open>Semantic validation\<close>

record semantic_shape =
  sp_id :: pystr
  sp_target :: pystr
  sp_required_properties :: "pystr list"

definition shacl_compatible_shapes :: "semantic_shape list" where
  "shacl_compatible_shapes =
     [\<lparr>sp_id = ''DatasetShape'', sp_target = ''Dataset'',
       sp_required_properties = [''owner'', ''steward'', ''domain'', ''source_system'', ''schema'', ''distributions'']\<rparr>,
      \<lparr>sp_id = ''BusinessMappingShape'', sp_target = ''BusinessMapping'',
       sp_required_properties = [''concept'', ''status'']\<rparr>,
      \<lparr>sp_id = ''DistributionShape'', sp_target = ''DatasetDistribution'',
       sp_required_properties = [''format'', ''endpoint'']\<rparr>]"

record violation =
  vi_shape :: pystr
  vi_path :: pystr
  vi_severity :: pystr
  vi_message :: pystr

definition missing_field_violation :: "pystr \<Rightarrow> violation" where
  "missing_field_violation field =
     \<lparr>vi_shape = ''DatasetShape'', vi_path = field, vi_severity = ''violation'',
      vi_message = ''required metadata field is missing: '' @ field\<rparr>"

definition approved_mappings :: "dataset \<Rightarrow> business_mapping list" where
  "approved_mappings ds = filter (\<lambda>m. map_status m = status_APPROVED) (ds_mappings ds)"

definition no_mapping_violation :: violation where
  "no_mapping_violation =
     \<lparr>vi_shape = ''BusinessMappingShape'', vi_path = ''mappings'', vi_severity = ''violation'',
      vi_message = ''at least one approved business mapping is required''\<rparr>"

definition no_term_warning :: violation where
  "no_term_warning =
     \<lparr>vi_shape = ''BusinessMappingShape'', vi_path = ''terms'', vi_severity = ''warning'',
      vi_message = ''at least one searchable business term is recommended''\<rparr>"

definition semantic_violations :: "dataset \<Rightarrow> violation list" where
  "semantic_violations ds =
     map missing_field_violation (mv_missing (validate_metadata ds))
     @ (if approved_mappings ds = [] then [no_mapping_violation] else [])
     @ (if ds_terms ds = [] then [no_term_warning] else [])"

record semantic_report =
  rp_dataset_id :: pystr
  rp_shacl_compatible :: bool
  rp_conforms :: bool
  rp_shapes :: "semantic_shape list"
  rp_violations :: "violation list"
  rp_approved_mapping_count :: nat
  rp_metadata_completeness :: rat

definition report_of :: "dataset \<Rightarrow> semantic_report" where
  "report_of ds =
     (let violations = semantic_violations ds in
      \<lparr>rp_dataset_id = ds_id ds, rp_shacl_compatible = True,
       rp_conforms = (\<not> list_ex (\<lambda>v. vi_severity v = ''violation'') violations),
       rp_shapes = shacl_compatible_shapes, rp_violations = violations,
       rp_approved_mapping_count = length (approved_mappings ds),
       rp_metadata_completeness = metadata_completeness ds\<rparr>)"

definition validate_dataset_semantics :: "pystr \<Rightarrow> 's catalog_state_scheme \<Rightarrow> semantic_report result" where
  "validate_dataset_semantics dataset_id s =
     (case get_dataset dataset_id s of
        None \<Rightarrow> Inl (KeyError dataset_id)
      | Some ds \<Rightarrow> Inr (report_of ds))"

record shacl_summary =
  sv_shacl_compatible :: bool
  sv_target_pass_rate :: rat
  sv_validation_pass_rate :: rat
  sv_dataset_count :: nat
  sv_conforming_datasets :: nat
  sv_shape_count :: nat
  sv_reports :: "semantic_report list"

text \<open>\<open>round(numerator / denominator, 3)\<close>, zero when there is nothing to divide by.\<close>

definition ratio :: "nat \<Rightarrow> nat \<Rightarrow> rat" where
  "ratio numerator denominator =
     (if denominator = 0 then 0 else py_round (of_nat numerator / of_nat denominator) 3)"

definition enterprise_shacl_validation_summary :: "'s catalog_state_scheme \<Rightarrow> shacl_summary result" where
  "enterprise_shacl_validation_summary s =
     (case collect_results (\<lambda>ds. validate_dataset_semantics (ds_id ds) s) (list_datasets s) of
        Inl e \<Rightarrow> Inl e
      | Inr reports \<Rightarrow>
          (let conforming = length (filter rp_conforms reports); total = length reports in
           Inr \<lparr>sv_shacl_compatible = True, sv_target_pass_rate = 95/100, sv_validation_pass_rate = ratio conforming total,
                sv_dataset_count = total, sv_conforming_datasets = conforming,
                sv_shape_count = length shacl_compatible_shapes, sv_reports = reports\<rparr>))"

section \<open>The steward's review queue\<close>

datatype review_item =
    Semantic_review pystr "violation list"
  | Patch_review pystr pystr pystr pystr rat

record steward_summary =
  sw_feature_gate :: pystr
  sw_review_sla :: pystr
  sw_dataset_status_counts :: "nat dict"
  sw_validation_pass_rate :: rat
  sw_validation_review_count :: nat
  sw_ontology_patch_count :: nat
  sw_review_queue_count :: nat
  sw_buyer_handoff_ready :: bool
  sw_proof_endpoints :: "pystr list"
  sw_review_items :: "review_item list"

definition review_items_of :: "semantic_report list \<Rightarrow> review_item list" where
  "review_items_of reports =
     map (\<lambda>r. Semantic_review (rp_dataset_id r) (filter (\<lambda>v. vi_severity v = ''violation'') (rp_violations r)))
       (filter (\<lambda>r. \<not> rp_conforms r) reports)"

text \<open>Identity, status, concept, requestor and confidence of an open patch.\<close>

definition patch_item :: "ontology_patch \<Rightarrow> review_item" where
  "patch_item p = Patch_review (op_id p) (op_status p) (op_concept p) (op_requestor p) (op_confidence p)"

definition build_steward_review_summary :: "'s ontology_state_scheme \<Rightarrow> steward_summary result" where
  "build_steward_review_summary s =
     (case enterprise_shacl_validation_summary s of
        Inl e \<Rightarrow> Inl e
      | Inr validation \<Rightarrow>
          (let open_patches = list_patches (Some ''proposed'') s;
               status_counts = fold (\<lambda>ds. count_up (ds_status ds)) (list_datasets s) [];
               validation_items = review_items_of (sv_reports validation);
               patch_items = map patch_item open_patches;
               review_items = validation_items @ patch_items
           in Inr \<lparr>sw_feature_gate = ''sdp_enterprise'', sw_review_sla = ''2 business days'',
                sw_dataset_status_counts = status_counts,
                sw_validation_pass_rate = sv_validation_pass_rate validation,
                sw_validation_review_count = length validation_items,
                sw_ontology_patch_count = length open_patches,
                sw_review_queue_count = length review_items,
                sw_buyer_handoff_ready = (review_items = []
                  \<and> sv_target_pass_rate validation \<le> sv_validation_pass_rate validation),
                sw_proof_endpoints = [''/enterprise/shacl-validation'',
                  ''/catalog/datasets/{dataset_id}/semantic-validation'', ''/ontology/patches'',
                  ''/ontology/patches/{patch_id}/review''],
                sw_review_items = review_items\<rparr>))"

section \<open>The evidence pack\<close>

definition metadata_validation_pass_rate :: "'s catalog_state_scheme \<Rightarrow> rat" where
  "metadata_validation_pass_rate s =
     ratio (length (filter (\<lambda>ds. mv_is_valid (validate_metadata ds)) (list_datasets s))) (length (list_datasets s))"

definition ontology_mapping_coverage :: "'s catalog_state_scheme \<Rightarrow> rat" where
  "ontology_mapping_coverage s =
     (let mappings = concat (map ds_mappings (list_datasets s))
      in ratio (length (filter (\<lambda>m. map_status m = status_APPROVED) mappings)) (length mappings))"

record evidence_pack =
  ep_product :: pystr
  ep_valuation_target_krw :: int
  ep_demo_domain :: pystr
  ep_dataset_count :: nat
  ep_demo_seed_datasets :: "pystr list"
  ep_metadata_validation_pass_rate :: rat
  ep_shacl_validation_pass_rate :: rat
  ep_steward_review_queue_count :: nat
  ep_steward_buyer_handoff_ready :: bool
  ep_ontology_mapping_coverage :: rat
  ep_policy_decision_count :: nat
  ep_audit_event_count :: nat
  ep_production_demo_release_ready :: bool
  ep_production_paid_pilot_ready :: bool
  ep_production_paid_pilot_blockers :: nat
  ep_implemented_enterprise_controls :: int
  ep_planned_enterprise_controls :: int
  ep_primary_kpis :: "pystr list"
  ep_guardrail_kpis :: "pystr list"
  ep_proof_endpoints :: "pystr list"
  ep_saleability_gates :: "pystr dict"

definition pack_proof_endpoints :: "pystr list" where
  "pack_proof_endpoints =
     [''/enterprise/readiness'', ''/enterprise/demo-plan'', ''/enterprise/kpis'', ''/enterprise/controls'',
      ''/enterprise/rbac-matrix'', ''/enterprise/observability'', ''/enterprise/production-readiness'',
      ''/enterprise/shacl-validation'', ''/enterprise/steward-review'',
      ''/enterprise/connectors/sql_connector/probe?dataset_id=crm-customer-master'', ''/policy/decisions'',
      ''/audit/events'', ''/metrics'']"

definition gate :: "bool \<Rightarrow> pystr \<Rightarrow> pystr" where
  "gate passed otherwise = (if passed then ''pass'' else otherwise)"

definition saleability_gates ::
  "rat \<Rightarrow> shacl_summary \<Rightarrow> steward_summary \<Rightarrow> rat \<Rightarrow> policy_decision list \<Rightarrow> audit_event list
   \<Rightarrow> enterprise_controls \<Rightarrow> production_readiness \<Rightarrow> pystr dict" where
  "saleability_gates metadata_rate shacl steward coverage decisions events controls production =
     [(''metadata_validation_pass_rate'', gate (95/100 \<le> metadata_rate) ''gap''),
      (''shacl_validation_pass_rate'', gate (95/100 \<le> sv_validation_pass_rate shacl) ''gap''),
      (''steward_review_queue'', gate (sw_buyer_handoff_ready steward) ''needs_review''),
      (''ontology_mapping_coverage'', gate (7/10 \<le> coverage) ''gap''),
      (''policy_decisions_inspectable'', gate (decisions \<noteq> []) ''needs_activity''),
      (''audit_events_inspectable'', gate (events \<noteq> []) ''needs_activity''),
      (''enterprise_controls_visible'', gate (2 \<le> em_implemented_controls controls) ''gap''),
      (''production_demo_release'', gate (pm_demo_release_ready production) ''gap''),
      (''production_paid_pilot'', gate (pm_paid_pilot_ready production) ''needs_integration'')]"

text \<open>\<open>build_enterprise_evidence_pack\<close>; making the demo plan reads the clock.\<close>

definition build_enterprise_evidence_pack ::
  "'s ontology_state_scheme \<Rightarrow> evidence_pack result \<times> 's ontology_state_scheme" where
  "build_enterprise_evidence_pack s =
     (let readiness = enterprise_readiness_manifest;
          (demo, s) = buyer_demo_activation_plan ''customer intelligence'' None s;
          controls = enterprise_controls_manifest; kpis = enterprise_kpi_framework;
          production = enterprise_production_readiness_manifest
      in case demo of
           Inl e \<Rightarrow> (Inl e, s)
         | Inr demo_plan \<Rightarrow>
             (case enterprise_shacl_validation_summary s of
                Inl e \<Rightarrow> (Inl e, s)
              | Inr shacl \<Rightarrow>
                  (case build_steward_review_summary s of
                     Inl e \<Rightarrow> (Inl e, s)
                   | Inr steward \<Rightarrow>
                       (let audit_events = list_audit_events 500 None s;
                            policy_decisions = list_policy_decisions None 500 s in
                        (Inr \<lparr>ep_product = er_product readiness,
                           ep_valuation_target_krw = er_valuation_target_krw readiness,
                           ep_demo_domain = bp_priority_domain demo_plan,
                           ep_dataset_count = length (list_datasets s),
                           ep_demo_seed_datasets = map sm_id (bp_demo_datasets demo_plan),
                           ep_metadata_validation_pass_rate = metadata_validation_pass_rate s,
                           ep_shacl_validation_pass_rate = sv_validation_pass_rate shacl,
                           ep_steward_review_queue_count = sw_review_queue_count steward,
                           ep_steward_buyer_handoff_ready = sw_buyer_handoff_ready steward,
                           ep_ontology_mapping_coverage = ontology_mapping_coverage s,
                           ep_policy_decision_count = length policy_decisions,
                           ep_audit_event_count = length audit_events,
                           ep_production_demo_release_ready = pm_demo_release_ready production,
                           ep_production_paid_pilot_ready = pm_paid_pilot_ready production,
                           ep_production_paid_pilot_blockers = length (pm_paid_pilot_blockers production),
                           ep_implemented_enterprise_controls = em_implemented_controls controls,
                           ep_planned_enterprise_controls = em_planned_controls controls,
                           ep_primary_kpis = map kp_id (kf_primary_kpis kpis),
                           ep_guardrail_kpis = map kp_id (kf_guardrail_kpis kpis),
                           ep_proof_endpoints = pack_proof_endpoints,
                           ep_saleability_gates = saleability_gates (metadata_validation_pass_rate s) shacl steward
                             (ontology_mapping_coverage s) policy_decisions audit_events controls production\<rparr>, s)))))"

section \<open>What conforms\<close>

lemma severities [simp]:
  "vi_severity (missing_field_violation f) = ''violation''" "vi_severity no_mapping_violation = ''violation''"
  "vi_severity no_term_warning = ''warning''"
  by (simp_all add: missing_field_violation_def no_mapping_violation_def no_term_warning_def)

lemma hard_violations:
  "filter (\<lambda>v. vi_severity v = ''violation'') (semantic_violations ds)
     = map missing_field_violation (missing_metadata ds)
       @ (if approved_mappings ds = [] then [no_mapping_violation] else [])"
  by (simp add: semantic_violations_def validate_metadata_def Let_def filter_map o_def)

definition conforms :: "dataset \<Rightarrow> bool" where
  "conforms ds \<longleftrightarrow> missing_metadata ds = [] \<and> approved_mappings ds \<noteq> []"

lemma report_conforms: "rp_conforms (report_of ds) = conforms ds"
proof -
  have "rp_conforms (report_of ds) \<longleftrightarrow> filter (\<lambda>v. vi_severity v = ''violation'') (semantic_violations ds) = []"
    by (simp add: report_of_def Let_def list_ex_iff filter_empty_conv)
  then show ?thesis by (simp add: hard_violations conforms_def)
qed

lemma approved_mappings_Nil: "approved_mappings ds = [] \<longleftrightarrow> status_APPROVED \<notin> map_status ` set (ds_mappings ds)"
  by (auto simp: approved_mappings_def filter_empty_conv image_iff)

lemma report_id [simp]: "rp_dataset_id (report_of ds) = ds_id ds"
  by (simp add: report_of_def Let_def)

lemma catalog_inv_get:
  assumes "catalog_inv s" and "ds \<in> set (list_datasets s)"
  shows "get_dataset (ds_id ds) s = Some ds"
proof -
  obtain k where k: "(k, ds) \<in> set (catalog_data s)"
    using assms(2) by (auto simp: list_datasets_def dict_values_def)
  then have "dict_get (catalog_data s) k = Some ds"
    using assms(1) by (simp add: catalog_inv_def dict_get_is_Some_in)
  then show ?thesis using catalog_inv_dataset [OF assms(1)] by (auto simp: get_dataset_def)
qed

lemma summary_of_catalog:
  assumes inv: "catalog_inv s"
  defines "n \<equiv> length (filter conforms (list_datasets s))"
  shows "enterprise_shacl_validation_summary s =
     Inr \<lparr>sv_shacl_compatible = True, sv_target_pass_rate = 95/100,
          sv_validation_pass_rate = ratio n (length (list_datasets s)),
          sv_dataset_count = length (list_datasets s), sv_conforming_datasets = n, sv_shape_count = 3,
          sv_reports = map report_of (list_datasets s)\<rparr>"
proof -
  have "collect_results (\<lambda>ds. validate_dataset_semantics (ds_id ds) s) (list_datasets s)
      = Inr (map report_of (list_datasets s))"
    by (rule collect_results_total) (simp add: validate_dataset_semantics_def catalog_inv_get [OF inv])
  then show ?thesis
    by (simp add: enterprise_shacl_validation_summary_def Let_def filter_map o_def report_conforms n_def
        shacl_compatible_shapes_def)
qed

lemma py_round_one [simp]: "py_round 1 3 = 1"
  by code_simp

lemma ratio_full [simp]: "n \<noteq> 0 \<Longrightarrow> ratio n n = 1"
  by (simp add: ratio_def)

lemma ratio_zero [simp]: "ratio n 0 = 0"
  by (simp add: ratio_def)

text \<open>
  C35.  A semantic report is made exactly for the datasets there are, and says that a dataset conforms
  exactly when no required metadata is missing and a business mapping is approved; its hard
  violations are the missing fields in order, then the missing mapping; a missing term is only a
  warning.
\<close>

theorem semantic_conformance:
  "case validate_dataset_semantics k s of
     Inl err \<Rightarrow> err = KeyError k \<and> get_dataset k s = None
   | Inr r \<Rightarrow> (\<exists>ds. get_dataset k s = Some ds \<and> rp_dataset_id r = ds_id ds
       \<and> rp_conforms r = (missing_metadata ds = [] \<and> status_APPROVED \<in> map_status ` set (ds_mappings ds))
       \<and> map vi_path (filter (\<lambda>v. vi_severity v = ''violation'') (rp_violations r))
           = missing_metadata ds @ (if status_APPROVED \<in> map_status ` set (ds_mappings ds) then [] else [''mappings''])
       \<and> (no_term_warning \<in> set (rp_violations r)) = (ds_terms ds = []))"
proof (cases "get_dataset k s")
  case (Some ds)
  have path: "map vi_path (map missing_field_violation fs) = fs" for fs
    by (simp add: missing_field_violation_def o_def)
  have warning: "no_term_warning \<in> set (semantic_violations ds) \<longleftrightarrow> ds_terms ds = []"
    by (auto simp: semantic_violations_def missing_field_violation_def no_mapping_violation_def no_term_warning_def)
  have "vi_path no_mapping_violation = ''mappings''" by (simp add: no_mapping_violation_def)
  then have paths: "map vi_path (filter (\<lambda>v. vi_severity v = ''violation'') (semantic_violations ds))
      = missing_metadata ds @ (if status_APPROVED \<in> map_status ` set (ds_mappings ds) then [] else [''mappings''])"
    unfolding hard_violations approved_mappings_Nil by (simp add: path del: map_map)
  have "rp_violations (report_of ds) = semantic_violations ds" by (simp add: report_of_def Let_def)
  with Some show ?thesis
    by (simp add: validate_dataset_semantics_def report_conforms conforms_def approved_mappings_Nil paths warning)
qed (simp add: validate_dataset_semantics_def)

text \<open>
  C36.  In a state that satisfies the catalog invariant the steward's summary is always made; the
  queue holds one item for each dataset that does not conform and each open patch, and the portal
  is ready for the handoff to a buyer exactly when it has a dataset, every dataset conforms and no
  patch is open.
\<close>

theorem handoff_ready_iff_reviewed:
  assumes inv: "catalog_inv s"
  shows "case build_steward_review_summary s of
     Inl err \<Rightarrow> False
   | Inr sm \<Rightarrow> sw_review_queue_count sm
         = length (filter (\<lambda>ds. \<not> (missing_metadata ds = [] \<and> approved_mappings ds \<noteq> [])) (list_datasets s))
           + length (filter (\<lambda>p. op_status p = ''proposed'') (ontology_patches s))
       \<and> sw_buyer_handoff_ready sm = (list_datasets s \<noteq> []
           \<and> list_all (\<lambda>ds. missing_metadata ds = [] \<and> approved_mappings ds \<noteq> []) (list_datasets s)
           \<and> list_all (\<lambda>p. op_status p \<noteq> ''proposed'') (ontology_patches s))"
proof -
  let ?ds = "list_datasets s"
  have items: "review_items_of (map report_of ?ds) = [] \<longleftrightarrow> list_all conforms ?ds"
    "length (review_items_of (map report_of ?ds)) = length (filter (\<lambda>ds. \<not> conforms ds) ?ds)"
    by (auto simp: review_items_of_def filter_map o_def report_conforms list_all_iff filter_empty_conv)
  have rate: "95/100 \<le> ratio (length (filter conforms ?ds)) (length ?ds) \<longleftrightarrow> ?ds \<noteq> []" if "list_all conforms ?ds"
    using that by (cases ?ds) (auto simp: list_all_iff filter_True)
  have patches: "list_patches (Some ''proposed'') s = filter (\<lambda>p. op_status p = ''proposed'') (ontology_patches s)"
    by (simp add: list_patches_def)
  have settled: "filter (\<lambda>p. op_status p = ''proposed'') (ontology_patches s) = []
      \<longleftrightarrow> list_all (\<lambda>p. op_status p \<noteq> ''proposed'') (ontology_patches s)"
    by (auto simp: list_all_iff filter_empty_conv)
  have ready: "review_items_of (map report_of ?ds) @ map patch_item (filter (\<lambda>p. op_status p = ''proposed'') (ontology_patches s)) = []
      \<and> 95/100 \<le> ratio (length (filter conforms ?ds)) (length ?ds)
      \<longleftrightarrow> ?ds \<noteq> [] \<and> list_all conforms ?ds \<and> list_all (\<lambda>p. op_status p \<noteq> ''proposed'') (ontology_patches s)"
    using rate by (auto simp: items settled)
  have c: "(\<lambda>ds. missing_metadata ds = [] \<and> approved_mappings ds \<noteq> []) = conforms"
    "(\<lambda>ds. \<not> (missing_metadata ds = [] \<and> approved_mappings ds \<noteq> [])) = (\<lambda>ds. \<not> conforms ds)"
    by (simp_all add: conforms_def fun_eq_iff)
  show ?thesis
    unfolding c build_steward_review_summary_def summary_of_catalog [OF inv]
    by (simp only: Let_def sum.case steward_summary.simps shacl_summary.simps patches ready) (simp add: items)
qed

definition sample_portal :: ontology_state where
  "sample_portal = load_catalog
     [sample_dataset\<lparr>ds_mappings := [\<lparr>map_concept = ''customer'', map_status = ''approved'', map_source = None,
        map_steward = None, map_approved_at = None, map_fields_set = []\<rparr>]\<rparr>] empty_ontology"

lemma sample_portal_inv: "catalog_inv sample_portal"
  unfolding sample_portal_def by (rule catalog_inv_load) code_simp

theorem handoff_ready_iff_reviewed_witness:
  "map_sum id sw_buyer_handoff_ready (build_steward_review_summary sample_portal) = Inr True"
proof -
  have "list_all (\<lambda>ds. missing_metadata ds = [] \<and> approved_mappings ds \<noteq> []) (list_datasets sample_portal)"
    by code_simp
  moreover have "list_datasets sample_portal \<noteq> []" "ontology_patches sample_portal = []" by code_simp+
  ultimately show ?thesis
    using handoff_ready_iff_reviewed [OF sample_portal_inv] by (auto split: sum.splits)
qed

section \<open>The evidence pack\<close>

lemma plan_only_reads_clock:
  "\<exists>n. snd (buyer_demo_activation_plan domain ids s) = s\<lparr>clock_tick := n\<rparr>"
proof -
  have "\<exists>n. snd (customer_intelligence_datasets s) = s\<lparr>clock_tick := n\<rparr>" for s :: "'s world_scheme"
    by (simp add: customer_intelligence_datasets_def case_prod_unfold demo_dataset_defs) metis
  moreover have "\<exists>n. s = s\<lparr>clock_tick := n\<rparr>" for s :: "'s world_scheme" by (rule exI [of _ "clock_tick s"]) simp
  ultimately show ?thesis
    by (auto simp: buyer_demo_activation_plan_def Let_def buyer_demo_dataset_summaries_def buyer_demo_datasets_def
        case_prod_unfold split: option.split sum.split)
qed

lemma catalog_inv_clock [simp]: "catalog_inv (s\<lparr>clock_tick := n\<rparr>) = catalog_inv s"
  by (simp add: catalog_inv_def history_of_def cong: option.case_cong)

lemma default_plan:
  "\<exists>plan. fst (buyer_demo_activation_plan ''customer intelligence'' None s) = Inr plan
     \<and> map sm_id (bp_demo_datasets plan) = dd_dataset_ids customer_intelligence_domain"
proof -
  have fixture: "get_buyer_demo_domain ''customer intelligence'' = Some customer_intelligence_domain" by code_simp
  have known: "sorted_set (filter (\<lambda>c. c \<notin> set (dict_keys connectors_by_id))
      (selected_connector_ids None (Some customer_intelligence_domain))) = []" by code_simp
  have "map ds_id (fst (customer_intelligence_datasets s)) = dd_dataset_ids customer_intelligence_domain"
    by (simp add: customer_intelligence_datasets_def case_prod_unfold Let_def demo_dataset_ids
        customer_intelligence_domain_def)
  moreover have "dd_id customer_intelligence_domain = ''customer_intelligence''"
    by (simp add: customer_intelligence_domain_def)
  ultimately show ?thesis
    by (simp add: buyer_demo_activation_plan_def fixture known plan_of_def buyer_demo_dataset_summaries_def
        buyer_demo_datasets_def dataset_summary_def case_prod_unfold o_def Let_def)
qed

lemma all_conform_rates:
  assumes "list_datasets s \<noteq> []" and "list_all conforms (list_datasets s)"
  shows "metadata_validation_pass_rate s = 1"
    "ratio (length (filter conforms (list_datasets s))) (length (list_datasets s)) = 1"
proof -
  have "list_all (\<lambda>ds. mv_is_valid (validate_metadata ds)) (list_datasets s)"
    using assms(2) by (auto simp: list_all_iff conforms_def validate_metadata_def Let_def)
  then show "metadata_validation_pass_rate s = 1"
    using assms(1) by (simp add: metadata_validation_pass_rate_def list_all_iff filter_True)
  show "ratio (length (filter conforms (list_datasets s))) (length (list_datasets s)) = 1"
    using assms by (simp add: list_all_iff filter_True)
qed

lemma steward_of_catalog:
  assumes "catalog_inv s"
  shows "\<exists>sm. build_steward_review_summary s = Inr sm
    \<and> (sw_buyer_handoff_ready sm \<longrightarrow> metadata_validation_pass_rate s = 1
        \<and> ratio (length (filter conforms (list_datasets s))) (length (list_datasets s)) = 1)"
proof -
  let ?ds = "list_datasets s"
  have "?ds \<noteq> [] \<and> list_all conforms ?ds"
    if "review_items_of (map report_of ?ds) = []" "95/100 \<le> ratio (length (filter conforms ?ds)) (length ?ds)"
    using that by (auto simp: review_items_of_def filter_map o_def report_conforms list_all_iff filter_empty_conv)
  note all = this
  obtain sm where sm: "build_steward_review_summary s = Inr sm"
    by (simp add: build_steward_review_summary_def summary_of_catalog [OF assms] Let_def)
  have "metadata_validation_pass_rate s = 1 \<and> ratio (length (filter conforms ?ds)) (length ?ds) = 1"
    if "sw_buyer_handoff_ready sm"
  proof -
    have "review_items_of (map report_of ?ds) = []" "95/100 \<le> ratio (length (filter conforms ?ds)) (length ?ds)"
      using sm that by (auto simp: build_steward_review_summary_def summary_of_catalog [OF assms] Let_def)
    then show ?thesis using all all_conform_rates [of s] by blast
  qed
  with sm show ?thesis by blast
qed

lemma gate_lookups:
  "dict_get (saleability_gates m v sm c d e k p) ''metadata_validation_pass_rate'' = Some (gate (95/100 \<le> m) ''gap'')"
  "dict_get (saleability_gates m v sm c d e k p) ''shacl_validation_pass_rate''
     = Some (gate (95/100 \<le> sv_validation_pass_rate v) ''gap'')"
  "dict_get (saleability_gates m v sm c d e k p) ''steward_review_queue'' = Some (gate (sw_buyer_handoff_ready sm) ''needs_review'')"
  "dict_get (saleability_gates m v sm c d e k p) ''production_paid_pilot'' = Some (gate (pm_paid_pilot_ready p) ''needs_integration'')"
  by (simp_all add: saleability_gates_def dict_get_def)

lemma gate_pass: "otherwise \<noteq> ''pass'' \<Longrightarrow> gate b otherwise = ''pass'' \<longleftrightarrow> b"
  by (simp add: gate_def)

text \<open>
  In a state that satisfies the catalog invariant the evidence pack is always made, and reading
  it changes nothing but the clock.  It counts the demo's five datasets, and its gates agree:
  when the steward's gate passes, so do both validation gates; the paid pilot's gate passes exactly
  when no blocker is left.
\<close>

theorem evidence_pack_gates_agree:
  assumes inv: "catalog_inv s"
  shows "case build_enterprise_evidence_pack s of
     (Inl err, s') \<Rightarrow> False
   | (Inr pack, s') \<Rightarrow> (\<exists>n. s' = s\<lparr>clock_tick := n\<rparr>)
       \<and> ep_demo_seed_datasets pack = dd_dataset_ids customer_intelligence_domain
       \<and> ep_dataset_count pack = length (catalog_data s)
       \<and> ep_audit_event_count pack \<le> 500 \<and> ep_policy_decision_count pack \<le> 500
       \<and> (dict_get (ep_saleability_gates pack) ''steward_review_queue'' = Some ''pass'') = ep_steward_buyer_handoff_ready pack
       \<and> (ep_steward_buyer_handoff_ready pack \<longrightarrow>
            dict_get (ep_saleability_gates pack) ''metadata_validation_pass_rate'' = Some ''pass''
            \<and> dict_get (ep_saleability_gates pack) ''shacl_validation_pass_rate'' = Some ''pass'')
       \<and> (dict_get (ep_saleability_gates pack) ''production_paid_pilot'' = Some ''pass'')
           = (ep_production_paid_pilot_blockers pack = 0)"
proof -
  obtain n where n: "snd (buyer_demo_activation_plan ''customer intelligence'' None s) = s\<lparr>clock_tick := n\<rparr>"
    using plan_only_reads_clock by metis
  let ?s = "s\<lparr>clock_tick := n\<rparr>"
  obtain plan where plan: "buyer_demo_activation_plan ''customer intelligence'' None s = (Inr plan, ?s)"
    "map sm_id (bp_demo_datasets plan) = dd_dataset_ids customer_intelligence_domain"
    using default_plan [of s] n by (metis prod.collapse)
  have inv': "catalog_inv ?s" using inv by simp
  obtain sm where sm: "build_steward_review_summary ?s = Inr sm"
    "sw_buyer_handoff_ready sm \<Longrightarrow> metadata_validation_pass_rate ?s = 1
        \<and> ratio (length (filter conforms (list_datasets ?s))) (length (list_datasets ?s)) = 1"
    using steward_of_catalog [OF inv'] by blast
  have bounds: "length (list_audit_events 500 None ?s) \<le> 500" "length (list_policy_decisions None 500 ?s) \<le> 500"
    by (auto simp: list_audit_events_def list_policy_decisions_def store_list_decisions_def select_latest_def Let_def
        split: option.split)
  have pilot: "pm_paid_pilot_ready enterprise_production_readiness_manifest
      \<longleftrightarrow> pm_paid_pilot_blockers enterprise_production_readiness_manifest = []"
    by code_simp
  have data: "length (list_datasets ?s) = length (catalog_data s)" by (simp add: list_datasets_def dict_values_def)
  show ?thesis
    using plan(2) sm(2) bounds data
    by (simp add: build_enterprise_evidence_pack_def plan(1) summary_of_catalog [OF inv'] sm(1)
        gate_lookups gate_pass pilot Let_def) blast
qed

theorem evidence_pack_gates_agree_witness:
  "map_sum id (\<lambda>pack. (ep_dataset_count pack, length (ep_demo_seed_datasets pack)))
     (fst (build_enterprise_evidence_pack sample_portal)) = Inr (1, 5)"
proof -
  have "length (dd_dataset_ids customer_intelligence_domain) = 5" "length (catalog_data sample_portal) = 1"
    by code_simp+
  then show ?thesis
    using evidence_pack_gates_agree [OF sample_portal_inv] by (auto split: prod.splits sum.splits)
qed

end
