(* ===== verification/Connectors.thy ===== *)
theory Connectors
  imports Browse Readiness
begin

text \<open>
  The source connectors (\<open>src/sdp/connectors.py\<close>) and the references to their credentials
  (\<open>src/sdp/credentials.py\<close>): schema inspection, governed previews and the probe that says whether
  a connector is ready for a demo.  The environment is a parameter, as the map from variable names
  to values that \<open>os.getenv\<close> reads.
\<close>

section \<open>Credentials\<close>

type_synonym process_env = "pystr \<Rightarrow> pystr option"

definition getenv_or :: "process_env \<Rightarrow> pystr \<Rightarrow> pystr \<Rightarrow> pystr" where
  "getenv_or env name fallback = (case env name of None \<Rightarrow> fallback | Some v \<Rightarrow> v)"

text \<open>\<open>re.sub(r"[class]+", rep, s)\<close>: every maximal run of characters of the class is replaced.\<close>

function sub_runs :: "(char \<Rightarrow> bool) \<Rightarrow> pystr \<Rightarrow> pystr \<Rightarrow> pystr" where
  "sub_runs P rep [] = []"
| "sub_runs P rep (c # s) = (if P c then rep @ sub_runs P rep (dropWhile P s) else c # sub_runs P rep s)"
  by pat_completeness auto
termination by (relation "measure (\<lambda>(_, _, s). length s)") (auto simp: length_dropWhile_le less_Suc_eq_le)

definition slug_char :: "char \<Rightarrow> bool" where
  "slug_char c \<longleftrightarrow> is_upper c \<or> is_digit c"

definition slug :: "pystr \<Rightarrow> pystr" where
  "slug value = strip_char (CHR ''_'') (sub_runs (\<lambda>c. \<not> slug_char c) ''_'' (upper value))"

definition connector_secret_ref :: "process_env \<Rightarrow> pystr \<Rightarrow> pystr \<Rightarrow> pystr" where
  "connector_secret_ref env connector_id dataset_id =
     getenv_or env ''SDP_CONNECTOR_SECRET_REF_PREFIX'' ''SDP_CONNECTOR_SECRET_''
       @ slug connector_id @ ''_'' @ slug dataset_id @ ''_TOKEN''"

record connector_secret =
  cs_provider :: pystr
  cs_secret_ref :: pystr
  cs_secret_present :: bool
  cs_timeout_ms :: int

definition public_dict :: "connector_secret \<Rightarrow> pyval dict" where
  "public_dict c =
     [(''vault_provider'', VStr (cs_provider c)), (''secret_ref'', VStr (cs_secret_ref c)),
      (''secret_present'', VBool (cs_secret_present c)), (''timeout_ms'', VInt (cs_timeout_ms c))]"

text \<open>\<open>bool(os.getenv(ref))\<close>: set and not empty.\<close>

definition env_present :: "process_env \<Rightarrow> pystr \<Rightarrow> bool" where
  "env_present env name \<longleftrightarrow> env name \<noteq> None \<and> env name \<noteq> Some []"

definition connector_secret_status :: "process_env \<Rightarrow> pystr \<Rightarrow> pystr \<Rightarrow> connector_secret result" where
  "connector_secret_status env connector_id dataset_id =
     (let provider = getenv_or env ''SDP_CONNECTOR_VAULT_PROVIDER'' ''env'' in
      if provider \<noteq> ''env'' then Inl (ValueError (''unsupported connector vault provider: '' @ provider))
      else (let secret_ref = connector_secret_ref env connector_id dataset_id in
        case read_int (getenv_or env ''SDP_CONNECTOR_TIMEOUT_MS'' ''1000'') of
          None \<Rightarrow> Inl (ValueError ''invalid literal for int()'')
        | Some timeout_ms \<Rightarrow> Inr \<lparr>cs_provider = provider, cs_secret_ref = secret_ref,
            cs_secret_present = env_present env secret_ref, cs_timeout_ms = timeout_ms\<rparr>))"

section \<open>Schema inspection\<close>

definition removeprefix :: "pystr \<Rightarrow> pystr \<Rightarrow> pystr" where
  "removeprefix p s = (if startswith s p then drop (length p) s else s)"

definition columns_dump :: "dataset \<Rightarrow> pyval" where
  "columns_dump ds = VList (map (\<lambda>c. VDict (column_dump c)) (ds_schema ds))"

text \<open>The dataset a connector serves: it exists and its source system has one of the prefixes.\<close>

definition backed_dataset :: "pystr list \<Rightarrow> pystr \<Rightarrow> pystr \<Rightarrow> 's catalog_state_scheme \<Rightarrow> dataset result" where
  "backed_dataset schemes message dataset_id s =
     (case get_dataset dataset_id s of
        None \<Rightarrow> Inl (KeyError dataset_id)
      | Some ds \<Rightarrow> if list_ex (startswith (ds_source_system ds)) schemes then Inr ds
          else Inl (ValueError message))"

definition sql_message :: pystr where "sql_message = ''dataset is not backed by the demo SQL connector''"
definition rdf_message :: pystr where "rdf_message = ''dataset is not backed by the demo RDF connector''"
definition lake_message :: pystr where "lake_message = ''dataset is not backed by the demo file lake connector''"
definition rest_message :: pystr where "rest_message = ''dataset is not backed by the demo REST connector''"

definition sql_inspect_schema :: "pystr \<Rightarrow> 's catalog_state_scheme \<Rightarrow> pyval dict result" where
  "sql_inspect_schema dataset_id s =
     (case backed_dataset [''postgresql://''] sql_message dataset_id s of
        Inl err \<Rightarrow> Inl err
      | Inr ds \<Rightarrow> Inr [(''dataset_id'', VStr (ds_id ds)), (''source_system'', VStr (ds_source_system ds)),
          (''columns'', columns_dump ds)])"

definition rdf_inspect_schema :: "pystr \<Rightarrow> 's catalog_state_scheme \<Rightarrow> pyval dict result" where
  "rdf_inspect_schema dataset_id s =
     (case backed_dataset [''sparql://''] rdf_message dataset_id s of
        Inl err \<Rightarrow> Inl err
      | Inr ds \<Rightarrow> Inr [(''dataset_id'', VStr (ds_id ds)), (''source_system'', VStr (ds_source_system ds)),
          (''named_graph'', VStr (removeprefix ''sparql://'' (ds_source_system ds))),
          (''columns'', columns_dump ds)])"

definition manifest_path :: "dataset \<Rightarrow> pystr" where
  "manifest_path ds = rstrip_char (CHR ''/'') (ds_source_system ds) @ ''/_manifest.json''"

definition lake_inspect_schema :: "pystr \<Rightarrow> 's catalog_state_scheme \<Rightarrow> pyval dict result" where
  "lake_inspect_schema dataset_id s =
     (case backed_dataset [''s3://''] lake_message dataset_id s of
        Inl err \<Rightarrow> Inl err
      | Inr ds \<Rightarrow> Inr [(''dataset_id'', VStr (ds_id ds)), (''source_system'', VStr (ds_source_system ds)),
          (''manifest_path'', VStr (manifest_path ds)), (''columns'', columns_dump ds)])"

definition rest_inspect_schema :: "pystr \<Rightarrow> 's catalog_state_scheme \<Rightarrow> pyval dict result" where
  "rest_inspect_schema dataset_id s =
     (case backed_dataset [''https://'', ''http://''] rest_message dataset_id s of
        Inl err \<Rightarrow> Inl err
      | Inr ds \<Rightarrow> Inr [(''dataset_id'', VStr (ds_id ds)), (''source_system'', VStr (ds_source_system ds)),
          (''auth_mode'', VStr ''service_account_reference''), (''columns'', columns_dump ds)])"

section \<open>Previews\<close>

text \<open>\<open>xs[i:j]\<close> for any integers: a negative index counts from the end, and both are clipped.\<close>

definition slice_index :: "nat \<Rightarrow> int \<Rightarrow> nat" where
  "slice_index n i = nat (if i < 0 then i + int n else min i (int n))"

definition py_slice :: "int \<Rightarrow> int \<Rightarrow> 'a list \<Rightarrow> 'a list" where
  "py_slice i j xs =
     take (slice_index (length xs) j - slice_index (length xs) i) (drop (slice_index (length xs) i) xs)"

text \<open>The body the RDF, file lake and REST previews share: the dataset, the decision, the audit
  event of a refusal, the slice of the sample rows and the audit event of the access.\<close>

definition governed_preview ::
  "pystr \<Rightarrow> dataset result \<Rightarrow> pyval dict list \<Rightarrow> (dataset \<Rightarrow> pyval dict) \<Rightarrow> pystr \<Rightarrow> int \<Rightarrow> int
   \<Rightarrow> 's catalog_state_scheme \<Rightarrow> pyval dict list result \<times> 's catalog_state_scheme" where
  "governed_preview event_type found rows extra dataset_id limit offset s =
     (case found of
        Inl err \<Rightarrow> (Inl err, s)
      | Inr ds \<Rightarrow>
          (let (decision, s) = evaluate ''analyst'' dataset_id ''preview'' ''analysis'' s;
               linked = (''policy_decision_id'', VStr (pd_decision_id decision)) in
           if pd_effect decision \<noteq> ''allow''
           then (Inl (PermissionError (pd_reason decision)),
             ingest_event event_type ''analyst'' dataset_id ''denied'' (Some (pd_decision_id decision))
               (pd_reason decision) [linked] s)
           else (let selected = py_slice offset (offset + limit) rows in
             (Inr selected,
              ingest_event event_type ''analyst'' dataset_id ''allowed'' (Some (pd_decision_id decision)) ''ok''
                ([linked, (''requested_offset'', VInt offset), (''requested_limit'', VInt limit),
                  (''returned_rows'', VInt (int (length selected)))] @ extra ds) s))))"

definition sql_preview ::
  "pystr \<Rightarrow> int \<Rightarrow> int \<Rightarrow> 's catalog_state_scheme \<Rightarrow> pyval dict list result \<times> 's catalog_state_scheme" where
  "sql_preview dataset_id limit offset s =
     (case preview dataset_id ''analyst'' ''analysis'' limit offset s of
        (Inl err, s) \<Rightarrow> (Inl err, s) | (Inr p, s) \<Rightarrow> (Inr (pv_rows p), s))"

definition rdf_rows :: "pyval dict list" where
  "rdf_rows =
     [[(''concept_uri'', VStr ''https://semantic-data-portal.local/concepts/customer''),
       (''preferred_label'', VStr kr_customer), (''broader_concept'', VStr
       ''https://semantic-data-portal.local/concepts/party'')],
      [(''concept_uri'', VStr ''https://semantic-data-portal.local/concepts/active-customer''),
       (''preferred_label'', VStr kr_active_customer), (''broader_concept'', VStr
       ''https://semantic-data-portal.local/concepts/customer'')],
      [(''concept_uri'', VStr ''https://semantic-data-portal.local/concepts/churn''),
       (''preferred_label'', VStr kr_churn), (''broader_concept'', VStr
       ''https://semantic-data-portal.local/concepts/customer'')]]"

definition rdf_preview ::
  "pystr \<Rightarrow> int \<Rightarrow> int \<Rightarrow> 's catalog_state_scheme \<Rightarrow> pyval dict list result \<times> 's catalog_state_scheme" where
  "rdf_preview dataset_id limit offset s =
     governed_preview ''connector.rdf.preview'' (backed_dataset [''sparql://''] rdf_message dataset_id s) rdf_rows
       (\<lambda>ds. [(''named_graph'', VStr (removeprefix ''sparql://'' (ds_source_system ds)))])
       dataset_id limit offset s"

definition lake_rows :: "pyval dict list" where
  "lake_rows =
     [[(''event_id'', VStr ''evt-1001''), (''customer_id'', VStr ''C-1001''), (''event_timestamp'', VStr
       ''2026-06-20T12:10:00Z''), (''device_id'', VStr ''dev-88'')],
      [(''event_id'', VStr ''evt-1002''), (''customer_id'', VStr ''C-1002''), (''event_timestamp'', VStr
       ''2026-06-21T09:11:00Z''), (''device_id'', VStr ''dev-01'')]]"

definition lake_preview ::
  "pystr \<Rightarrow> int \<Rightarrow> int \<Rightarrow> 's catalog_state_scheme \<Rightarrow> pyval dict list result \<times> 's catalog_state_scheme" where
  "lake_preview dataset_id limit offset s =
     governed_preview ''connector.file_lake.preview'' (backed_dataset [''s3://''] lake_message dataset_id s) lake_rows
       (\<lambda>ds. [(''sample_budget'', VInt limit), (''manifest_path'', VStr (manifest_path ds))])
       dataset_id limit offset s"

definition rest_rows :: "pyval dict list" where
  "rest_rows =
     [[(''campaign_id'', VStr ''cmp-1001''), (''target_segment'', VStr ''active_customers''),
       (''channel'', VStr ''email'')],
      [(''campaign_id'', VStr ''cmp-1002''), (''target_segment'', VStr ''churn_risk''), (''channel'', VStr
       ''push'')]]"

definition rest_preview ::
  "pystr \<Rightarrow> int \<Rightarrow> int \<Rightarrow> 's catalog_state_scheme \<Rightarrow> pyval dict list result \<times> 's catalog_state_scheme" where
  "rest_preview dataset_id limit offset s =
     governed_preview ''connector.rest.preview''
       (backed_dataset [''https://'', ''http://''] rest_message dataset_id s) rest_rows
       (\<lambda>ds. [(''auth_mode'', VStr ''service_account_reference'')]) dataset_id limit offset s"

section \<open>The registry and the probe\<close>

text \<open>The two methods of the \<open>SourceConnector\<close> protocol.\<close>

record 's source_connector =
  so_connector_id :: pystr
  so_source_type :: pystr
  so_inspect_schema :: "pystr \<Rightarrow> 's catalog_state_scheme \<Rightarrow> pyval dict result"
  so_preview :: "pystr \<Rightarrow> int \<Rightarrow> int \<Rightarrow> 's catalog_state_scheme
    \<Rightarrow> pyval dict list result \<times> 's catalog_state_scheme"

definition source_connectors :: "'s source_connector dict" where
  "source_connectors =
     [(''sql_connector'', \<lparr>so_connector_id = ''sql_connector'', so_source_type = ''warehouse_or_rdbms'',
        so_inspect_schema = sql_inspect_schema, so_preview = sql_preview\<rparr>),
      (''rdf_connector'', \<lparr>so_connector_id = ''rdf_connector'', so_source_type = ''semantic_store'',
        so_inspect_schema = rdf_inspect_schema, so_preview = rdf_preview\<rparr>),
      (''file_lake_connector'', \<lparr>so_connector_id = ''file_lake_connector'',
        so_source_type = ''object_storage_or_lakehouse'',
        so_inspect_schema = lake_inspect_schema, so_preview = lake_preview\<rparr>),
      (''rest_connector'', \<lparr>so_connector_id = ''rest_connector'', so_source_type = ''governed_api'',
        so_inspect_schema = rest_inspect_schema, so_preview = rest_preview\<rparr>)]"

definition unsupported_connector :: "pystr \<Rightarrow> py_exn" where
  "unsupported_connector connector_id = ValueError (''unsupported connector id: '' @ connector_id)"

definition get_source_connector :: "pystr \<Rightarrow> 's source_connector result" where
  "get_source_connector connector_id =
     (case dict_get source_connectors connector_id of
        None \<Rightarrow> Inl (unsupported_connector connector_id) | Some c \<Rightarrow> Inr c)"

definition implemented_proof :: "(pystr list) dict" where
  "implemented_proof =
     [(''audit_event'', [''/audit/events'']),
      (''credential_vault'', [''/enterprise/connectors/{connector_id}/probe'', ''SDP_CONNECTOR_SECRET_REF_PREFIX'']),
      (''lineage_capture'', [''/catalog/datasets/{dataset_id}/lineage'']),
      (''ontology_version_pin'', [''/ontology/search'', ''/ontology/resolve'']),
      (''pii_masking'', [''/browse/{dataset_id}/preview'']),
      (''pii_profile'', [''/catalog/datasets/{dataset_id}/profile'']),
      (''policy_before_query'', [''/browse/query'', ''/policy/decision'', ''/policy/decisions'']),
      (''purpose_binding'', [''/policy/decision'', ''/policy/decisions'']),
      (''row_limit'', [''/browse/query'', ''/llm/draft-query'']),
      (''sample_budget'', [''/browse/{dataset_id}/preview'']),
      (''timeout_ms'', [''/browse/query'', ''/llm/draft-query''])]"

text \<open>The evidence of one control, and whether it is satisfied.\<close>

definition control_evidence ::
  "process_env \<Rightarrow> pystr \<Rightarrow> pystr \<Rightarrow> pystr \<Rightarrow> (pyval dict \<times> bool) result" where
  "control_evidence env connector_id dataset_id control =
     (let proof_endpoints = (case dict_get implemented_proof control of None \<Rightarrow> [] | Some e \<Rightarrow> e);
          implemented = (proof_endpoints \<noteq> []);
          payload = [(''control'', VStr control),
            (''status'', VStr (if implemented then ''implemented'' else ''planned'')),
            (''proof_endpoints'', str_list proof_endpoints)] in
      if control = ''credential_vault'' then
        (case connector_secret_status env connector_id dataset_id of
           Inl err \<Rightarrow> Inl err
         | Inr vault \<Rightarrow> Inr (dict_update payload (public_dict vault), implemented \<and> cs_secret_present vault))
      else Inr (payload, implemented))"

record connector_probe_result =
  cp_connector_id :: pystr
  cp_dataset_id :: pystr
  cp_source_type :: pystr
  cp_source_system :: pystr
  cp_status :: pystr
  cp_contract_methods :: "pystr list"
  cp_adapter_status :: pystr
  cp_data_contract :: "pyval dict"
  cp_demo_context :: "pyval dict option"
  cp_control_evidence :: "pyval dict list"
  cp_proof :: pystr

text \<open>\<open>len(inspected_schema["columns"])\<close>.\<close>

definition inspected_columns :: "pyval dict \<Rightarrow> nat" where
  "inspected_columns inspected = (case dict_get inspected ''columns'' of Some (VList cs) \<Rightarrow> length cs | _ \<Rightarrow> 0)"

definition probe_result ::
  "connector_capability \<Rightarrow> dataset \<Rightarrow> pyval dict option \<Rightarrow> (pyval dict \<times> bool) list \<Rightarrow> connector_probe_result" where
  "probe_result connector ds inspected_schema evidence =
     (let adapter_status = (if inspected_schema = None then ''planned'' else ''implemented'');
          satisfied_controls = length (filter snd evidence);
          ready_for_demo = (adapter_status = ''implemented''
            \<and> satisfied_controls = length (cc_required_controls connector))
      in \<lparr>cp_connector_id = cc_id connector, cp_dataset_id = ds_id ds, cp_source_type = cc_source_type connector,
          cp_source_system = ds_source_system ds,
          cp_status = (if ready_for_demo then ''ready_for_demo'' else ''contract_only''),
          cp_contract_methods = [''inspect_schema'', ''preview''], cp_adapter_status = adapter_status,
          cp_data_contract =
            [(''schema_fields'', VInt (int (case inspected_schema of Some i \<Rightarrow> inspected_columns i
                | None \<Rightarrow> length (ds_schema ds)))),
             (''sensitivity'', VStr (ds_sensitivity ds)), (''quality_score'', VNum (ds_quality_score ds)),
             (''freshness_score'', VNum (ds_freshness_score ds))],
          cp_demo_context = buyer_demo_context_for_dataset (ds_id ds),
          cp_control_evidence = map fst evidence, cp_proof = cc_proof connector\<rparr>)"

definition connector_probe ::
  "process_env \<Rightarrow> pystr \<Rightarrow> pystr \<Rightarrow> 's catalog_state_scheme \<Rightarrow> connector_probe_result result" where
  "connector_probe env connector_id dataset_id s =
     (case dict_get connectors_by_id connector_id of
        None \<Rightarrow> Inl (unsupported_connector connector_id)
      | Some connector \<Rightarrow>
          (case get_dataset dataset_id s of
             None \<Rightarrow> Inl (KeyError dataset_id)
           | Some ds \<Rightarrow>
               (let inspected = (case dict_get source_connectors connector_id of
                      None \<Rightarrow> Inr None
                    | Some adapter \<Rightarrow> (case so_inspect_schema adapter dataset_id s of
                        Inl err \<Rightarrow> Inl err | Inr i \<Rightarrow> Inr (Some i)))
                in case inspected of
                  Inl err \<Rightarrow> Inl err
                | Inr inspected_schema \<Rightarrow>
                    (case collect_results (control_evidence env connector_id dataset_id)
                       (cc_required_controls connector) of
                       Inl err \<Rightarrow> Inl err
                     | Inr evidence \<Rightarrow> Inr (probe_result connector ds inspected_schema evidence)))))"

section \<open>The contract of a connector\<close>

definition analyst_decision :: "pystr \<Rightarrow> 's catalog_state_scheme \<Rightarrow> policy_decision" where
  "analyst_decision k s = fst (evaluate ''analyst'' k ''preview'' ''analysis'' s)"

text \<open>The state after the decision, in which the access is audited.\<close>

definition decided :: "pystr \<Rightarrow> 's catalog_state_scheme \<Rightarrow> 's catalog_state_scheme" where
  "decided k s = snd (evaluate ''analyst'' k ''preview'' ''analysis'' s)"

definition access_event :: "pystr \<Rightarrow> pystr \<Rightarrow> pystr \<Rightarrow> policy_decision \<Rightarrow> audit_event \<Rightarrow> bool" where
  "access_event event k outcome d e \<longleftrightarrow> ev_actor e = ''analyst'' \<and> ev_action e = event \<and> ev_resource e = k
     \<and> ev_result e = outcome \<and> ev_decision_id e = Some (pd_decision_id d)"

definition governed_outcome ::
  "pystr \<Rightarrow> pystr \<Rightarrow> 's catalog_state_scheme \<Rightarrow> pyval dict list result \<times> 's catalog_state_scheme \<Rightarrow> bool" where
  "governed_outcome event k s r \<longleftrightarrow>
     (case r of
        (Inl err, s') \<Rightarrow> catalog_data s' = catalog_data s
      | (Inr rows, s') \<Rightarrow> catalog_data s' = catalog_data s \<and> get_dataset k s \<noteq> None
          \<and> pd_effect (analyst_decision k s) = ''allow''
          \<and> (\<exists>e. audited e (decided k s) s' \<and> access_event event k ''allowed'' (analyst_decision k s) e))"

text \<open>What every connector promises of its previews: rows are served only of a dataset there is,
  only when the policy allows the demo's analyst to preview it, and with one audit event that
  names the decision; and no preview changes the catalog.\<close>

locale governed_source =
  fixes fetch :: "pystr \<Rightarrow> int \<Rightarrow> int \<Rightarrow> 's catalog_state_scheme
      \<Rightarrow> pyval dict list result \<times> 's catalog_state_scheme"
    and event :: pystr
  assumes served: "fetch k limit offset s = (Inr rows, s') \<Longrightarrow>
      get_dataset k s \<noteq> None \<and> pd_effect (analyst_decision k s) = ''allow''
      \<and> (\<exists>e. audited e (decided k s) s' \<and> access_event event k ''allowed'' (analyst_decision k s) e)"
    and kept: "catalog_data (snd (fetch k limit offset s)) = catalog_data s"
begin

lemma refused_without_decision:
  assumes "get_dataset k s = None \<or> pd_effect (analyst_decision k s) \<noteq> ''allow''"
  shows "\<exists>err. fst (fetch k limit offset s) = Inl err"
  using assms served [of k limit offset s] by (cases "fetch k limit offset s"; cases "fst (fetch k limit offset s)") auto

lemma outcome: "governed_outcome event k s (fetch k limit offset s)"
  using served [of k limit offset s] kept [of k limit offset s]
  by (auto simp: governed_outcome_def split: prod.split sum.split)

text \<open>A preview leaves the next one the datasets it found.\<close>

lemma dataset_kept: "get_dataset j (snd (fetch k limit offset s)) = get_dataset j s"
  by (simp add: get_dataset_def kept)

end

lemma access_audited:
  "\<exists>e. audited e s (ingest_event event ''analyst'' k outcome (Some (pd_decision_id d)) reason details s)
     \<and> access_event event k outcome d e"
  using ingest_event_audited [of s event "''analyst''" k outcome "Some (pd_decision_id d)" reason details]
  by (auto simp: access_event_def)

lemma governed_preview_contract:
  assumes found: "\<And>s ds. found s = Inr ds \<Longrightarrow> get_dataset k s \<noteq> None"
    and run: "governed_preview event (found s) rows extra k limit offset s = (Inr selected, s')"
  shows "get_dataset k s \<noteq> None \<and> pd_effect (analyst_decision k s) = ''allow''
    \<and> (\<exists>e. audited e (decided k s) s' \<and> access_event event k ''allowed'' (analyst_decision k s) e)"
proof (cases "found s")
  case (Inr ds)
  then show ?thesis
    using run found [OF Inr] access_audited
    by (auto simp: governed_preview_def analyst_decision_def decided_def case_prod_unfold Let_def
        split: if_split_asm)
qed (use run in \<open>simp add: governed_preview_def\<close>)

lemma governed_preview_keeps:
  "catalog_data (snd (governed_preview event found rows extra k limit offset s)) = catalog_data s"
  by (simp add: governed_preview_def evaluate_keeps case_prod_unfold Let_def split: sum.split)

lemma backed_dataset_exists: "backed_dataset schemes message k s = Inr ds \<Longrightarrow> get_dataset k s = Some ds"
  by (auto simp: backed_dataset_def split: option.splits if_split_asm)

lemma preview_contract:
  assumes "preview k ''analyst'' ''analysis'' limit offset s = (Inr p, s')"
  shows "get_dataset k s \<noteq> None \<and> pd_effect (analyst_decision k s) = ''allow''
    \<and> (\<exists>e. audited e (decided k s) s' \<and> access_event ''browse.preview'' k ''allowed'' (analyst_decision k s) e)"
proof (cases "get_dataset k s")
  case (Some ds)
  then show ?thesis
    using assms access_audited
    by (auto simp: preview_def analyst_decision_def decided_def case_prod_unfold Let_def split: if_split_asm)
qed (use assms in \<open>auto simp: preview_def split: if_split_asm\<close>)

lemma preview_keeps: "catalog_data (snd (preview k user purpose limit offset s)) = catalog_data s"
  by (auto simp: preview_def evaluate_keeps case_prod_unfold Let_def split: option.split)

interpretation sql_source: governed_source sql_preview "''browse.preview''"
proof unfold_locales
  fix k limit offset rows and s s' :: "'a catalog_state_scheme"
  assume "sql_preview k limit offset s = (Inr rows, s')"
  then obtain p where "preview k ''analyst'' ''analysis'' limit offset s = (Inr p, s')"
    by (auto simp: sql_preview_def split: prod.splits sum.splits)
  then show "get_dataset k s \<noteq> None \<and> pd_effect (analyst_decision k s) = ''allow''
    \<and> (\<exists>e. audited e (decided k s) s' \<and> access_event ''browse.preview'' k ''allowed'' (analyst_decision k s) e)"
    by (rule preview_contract)
next
  fix k limit offset and s :: "'a catalog_state_scheme"
  show "catalog_data (snd (sql_preview k limit offset s)) = catalog_data s"
    using preview_keeps [of k "''analyst''" "''analysis''" limit offset s]
    by (auto simp: sql_preview_def split: prod.split sum.split)
qed

interpretation rdf_source: governed_source rdf_preview "''connector.rdf.preview''"
  unfolding rdf_preview_def
  by unfold_locales (erule governed_preview_contract [rotated], auto dest: backed_dataset_exists simp: governed_preview_keeps)

interpretation lake_source: governed_source lake_preview "''connector.file_lake.preview''"
  unfolding lake_preview_def
  by unfold_locales (erule governed_preview_contract [rotated], auto dest: backed_dataset_exists simp: governed_preview_keeps)

interpretation rest_source: governed_source rest_preview "''connector.rest.preview''"
  unfolding rest_preview_def
  by unfold_locales (erule governed_preview_contract [rotated], auto dest: backed_dataset_exists simp: governed_preview_keeps)

section \<open>Properties\<close>

definition preview_event_of :: "pystr \<Rightarrow> pystr" where
  "preview_event_of connector_id =
     (if connector_id = ''sql_connector'' then ''browse.preview''
      else if connector_id = ''rdf_connector'' then ''connector.rdf.preview''
      else if connector_id = ''file_lake_connector'' then ''connector.file_lake.preview''
      else ''connector.rest.preview'')"

lemma source_connector_cases:
  assumes "dict_get source_connectors connector_id = Some c"
  shows "connector_id = ''sql_connector'' \<and> so_preview c = sql_preview \<and> so_inspect_schema c = sql_inspect_schema
    \<or> connector_id = ''rdf_connector'' \<and> so_preview c = rdf_preview \<and> so_inspect_schema c = rdf_inspect_schema
    \<or> connector_id = ''file_lake_connector'' \<and> so_preview c = lake_preview \<and> so_inspect_schema c = lake_inspect_schema
    \<or> connector_id = ''rest_connector'' \<and> so_preview c = rest_preview \<and> so_inspect_schema c = rest_inspect_schema"
  using assms by (auto simp: source_connectors_def dict_get_def split: if_split_asm)


text \<open>Every control a connector requires is implemented.\<close>

lemma required_controls_implemented:
  "list_all (\<lambda>c. list_all (\<lambda>control. \<exists>e. dict_get implemented_proof control = Some e \<and> e \<noteq> []) (cc_required_controls c))
     connector_registry_manifest"
  by (simp add: connector_registry_manifest_def implemented_proof_def dict_get_def)

lemma connectors_by_id_registered:
  assumes "dict_get connectors_by_id connector_id = Some c"
  shows "c \<in> set connector_registry_manifest \<and> cc_id c = connector_id"
  using dict_get_Some_in [OF assms] set_dict_of [of "map (\<lambda>c. (cc_id c, c)) connector_registry_manifest"]
  by (auto simp: connectors_by_id_def)

lemma control_evidence_satisfied:
  assumes "c \<in> set connector_registry_manifest" and "control \<in> set (cc_required_controls c)"
    and "control_evidence env connector_id k control = Inr (payload, ok)"
  shows "ok = (if control = ''credential_vault'' then env_present env (connector_secret_ref env connector_id k) else True)"
proof -
  obtain e where "dict_get implemented_proof control = Some e" "e \<noteq> []"
    using required_controls_implemented assms(1,2) unfolding list_all_iff by blast
  then show ?thesis
    using assms(3) by (auto simp: control_evidence_def connector_secret_status_def Let_def
        split: if_split_asm option.splits)
qed

lemma all_filter_length: "length (filter P xs) = length xs \<longleftrightarrow> list_all P xs"
  by (metis filter_id_conv length_filter_less list_all_iff nat_neq_iff)

lemma all_controls_satisfied:
  assumes c: "c \<in> set connector_registry_manifest"
    and run: "collect_results (control_evidence env connector_id k) (cc_required_controls c) = Inr evidence"
  shows "length evidence = length (cc_required_controls c)
    \<and> (length (filter snd evidence) = length (cc_required_controls c))
      = (if ''credential_vault'' \<in> set (cc_required_controls c)
         then env_present env (connector_secret_ref env connector_id k) else True)"
proof -
  let ?controls = "cc_required_controls c" and ?present = "env_present env (connector_secret_ref env connector_id k)"
  have m: "map (control_evidence env connector_id k) ?controls = map Inr evidence"
    by (rule collect_results_Inr [OF run])
  then have len: "length evidence = length ?controls" by (metis length_map)
  have nth: "snd (evidence ! i) = (if ?controls ! i = ''credential_vault'' then ?present else True)"
    if i: "i < length ?controls" for i
  proof -
    have "control_evidence env connector_id k (?controls ! i) = Inr (evidence ! i)"
      using arg_cong [OF m, of "\<lambda>xs. xs ! i"] i len by simp
    then show ?thesis
      using control_evidence_satisfied [OF c nth_mem [OF i]] by (metis prod.collapse)
  qed
  have "list_all snd evidence = (if ''credential_vault'' \<in> set ?controls then ?present else True)"
    using nth len by (auto simp: list_all_length in_set_conv_nth)
  then show ?thesis using len by (simp add: all_filter_length [symmetric])
qed

text \<open>The URL schemes of the sources a connector reads.\<close>

definition source_schemes :: "pystr \<Rightarrow> pystr list" where
  "source_schemes connector_id =
     (if connector_id = ''sql_connector'' then [''postgresql://'']
      else if connector_id = ''rdf_connector'' then [''sparql://'']
      else if connector_id = ''file_lake_connector'' then [''s3://'']
      else [''https://'', ''http://''])"

lemma backed_dataset_scheme:
  "backed_dataset schemes message k s = Inr ds \<Longrightarrow> list_ex (startswith (ds_source_system ds)) schemes"
  by (auto simp: backed_dataset_def split: option.splits if_split_asm)

lemma inspected_backed:
  assumes "dict_get source_connectors connector_id = Some adapter"
    and "so_inspect_schema adapter k s = Inr i" and "get_dataset k s = Some ds"
  shows "list_ex (startswith (ds_source_system ds)) (source_schemes connector_id)"
proof -
  have "\<exists>m. backed_dataset (source_schemes connector_id) m k s = Inr ds"
    using source_connector_cases [OF assms(1)] assms(2,3) backed_dataset_exists [of _ _ k s]
    by (elim disjE conjE)
       (fastforce simp: sql_inspect_schema_def rdf_inspect_schema_def lake_inspect_schema_def
          rest_inspect_schema_def source_schemes_def split: sum.splits)+
  then show ?thesis using backed_dataset_scheme by blast
qed

lemma inspect_error:
  assumes "dict_get source_connectors connector_id = Some adapter" and "so_inspect_schema adapter k s = Inl err"
    and "get_dataset k s \<noteq> None"
  shows "\<exists>m. err = ValueError m"
  using source_connector_cases [OF assms(1)] assms(2,3)
  by (elim disjE conjE)
     (auto simp: sql_inspect_schema_def rdf_inspect_schema_def lake_inspect_schema_def
        rest_inspect_schema_def backed_dataset_def split: if_split_asm)

lemma collect_control_error:
  assumes "collect_results (control_evidence env connector_id k) controls = Inl err"
  shows "\<exists>m. err = ValueError m"
  using collect_results_Inl [OF assms]
  by (auto simp: control_evidence_def connector_secret_status_def Let_def split: if_split_asm option.splits)

lemma registered_connectors_have_adapters:
  assumes "c \<in> set connector_registry_manifest"
  shows "\<exists>adapter :: 's source_connector. dict_get source_connectors (cc_id c) = Some adapter"
  using assms by (auto simp: connector_registry_manifest_def source_connectors_def dict_get_def)


text \<open>
  C25.  A probe does not reveal a secret: two environments that differ only in the value of the
  connector's secret, present in both, give the same answer.
\<close>

theorem probe_never_reveals_secret:
  assumes same: "\<forall>v. v \<noteq> connector_secret_ref env connector_id k \<longrightarrow> env' v = env v"
    and present: "env_present env (connector_secret_ref env connector_id k)"
      "env_present env' (connector_secret_ref env connector_id k)"
  shows "connector_probe env' connector_id k s = connector_probe env connector_id k s"
proof -
  let ?ref = "connector_secret_ref env connector_id k"
  have "last ?ref = CHR ''N''" by (simp add: connector_secret_ref_def)
  then have names: "?ref \<noteq> ''SDP_CONNECTOR_SECRET_REF_PREFIX''" "?ref \<noteq> ''SDP_CONNECTOR_VAULT_PROVIDER''"
    "?ref \<noteq> ''SDP_CONNECTOR_TIMEOUT_MS''" by auto
  then have "getenv_or env' v d = getenv_or env v d"
    if "v \<in> {''SDP_CONNECTOR_SECRET_REF_PREFIX'', ''SDP_CONNECTOR_VAULT_PROVIDER'', ''SDP_CONNECTOR_TIMEOUT_MS''}"
    for v d using that same by (auto simp: getenv_or_def)
  moreover from this have "connector_secret_ref env' connector_id k = ?ref"
    by (simp add: connector_secret_ref_def)
  ultimately have status: "connector_secret_status env' connector_id k = connector_secret_status env connector_id k"
    using present by (simp add: connector_secret_status_def Let_def cong: option.case_cong)
  have control: "control_evidence env' connector_id k = control_evidence env connector_id k"
    unfolding control_evidence_def status ..
  show ?thesis unfolding connector_probe_def control ..
qed

definition secret_env :: "pystr \<Rightarrow> process_env" where
  "secret_env secret v =
     (if v = ''SDP_CONNECTOR_SECRET_REST_CONNECTOR_D1_TOKEN'' then Some secret else None)"

definition rest_catalog :: catalog_state where
  "rest_catalog = load_catalog [sample_dataset\<lparr>ds_source_system := ''https://api.internal/d1''\<rparr>] empty_portal"

theorem probe_never_reveals_secret_witness:
  "map_sum id cp_status (connector_probe (secret_env ''abc'') ''rest_connector'' ''d1'' rest_catalog) = Inr ''ready_for_demo''
   \<and> connector_probe (secret_env ''xyz'') ''rest_connector'' ''d1'' rest_catalog
     = connector_probe (secret_env ''abc'') ''rest_connector'' ''d1'' rest_catalog"
proof
  show "map_sum id cp_status (connector_probe (secret_env ''abc'') ''rest_connector'' ''d1'' rest_catalog) = Inr ''ready_for_demo''"
    by code_simp
  have ref: "connector_secret_ref (secret_env ''abc'') ''rest_connector'' ''d1''
      = ''SDP_CONNECTOR_SECRET_REST_CONNECTOR_D1_TOKEN''" by code_simp
  show "connector_probe (secret_env ''xyz'') ''rest_connector'' ''d1'' rest_catalog
     = connector_probe (secret_env ''abc'') ''rest_connector'' ''d1'' rest_catalog"
    by (rule probe_never_reveals_secret) (simp_all add: ref secret_env_def env_present_def)
qed
end
