(* ===== verification/Observability.thy ===== *)
theory Observability
  imports Connectors Ontology
begin

text \<open>
  Request observations and the metrics of the portal (\<open>src/sdp/observability.py\<close>) with the
  middleware that records them (\<open>record_request_observability\<close> in \<open>src/sdp/api.py\<close>): two ring
  buffers, the export to a log sink, the manifest and its Prometheus text.  The platform is POSIX.
  What lies behind the sink (the file system, the HTTP server) is a parameter: it answers an
  export with nothing or with the text of the exception it raised.
\<close>

section \<open>Ring buffers and headers\<close>

record request_observation =
  ob_timestamp :: pystr
  ob_request_id :: pystr
  ob_tenant_id :: pystr
  ob_actor :: pystr
  ob_route :: pystr
  ob_method :: pystr
  ob_status_code :: int
  ob_latency_ms :: rat
  ob_evidence_ids :: "pystr list"

record portal_state = ontology_state +
  request_observations :: "request_observation list"
  export_errors :: "pyval dict list"

text \<open>\<open>deque(maxlen=n).append(x)\<close>: the oldest entries leave at the front.  \<open>xs[-limit:]\<close> is the
  whole list for limit zero.\<close>

definition push :: "nat \<Rightarrow> 'a \<Rightarrow> 'a list \<Rightarrow> 'a list" where
  "push n x xs = (let ys = xs @ [x] in drop (length ys - n) ys)"

definition last_items :: "int \<Rightarrow> 'a list \<Rightarrow> 'a list" where
  "last_items limit xs = (if 0 < limit then drop (length xs - nat limit) xs else drop (nat (- limit)) xs)"

definition observation_capacity :: nat where "observation_capacity = 500"
definition error_capacity :: nat where "error_capacity = 50"

definition request_id_header :: "process_env \<Rightarrow> pystr" where
  "request_id_header env = getenv_or env ''SDP_REQUEST_ID_HEADER'' ''X-Request-Id''"

text \<open>A header is looked up as it is written, then without regard to case; a value found the
  second way counts even when it is empty.\<close>

definition header_value :: "pystr dict \<Rightarrow> pystr \<Rightarrow> pystr option \<Rightarrow> pystr option" where
  "header_value headers name fallback =
     (if headers = [] then fallback
      else (case dict_get headers name of
        Some (c # cs) \<Rightarrow> Some (c # cs)
      | _ \<Rightarrow> (case find (\<lambda>(k, _). lower k = lower name) headers of
          Some (_, v) \<Rightarrow> Some v | None \<Rightarrow> fallback)))"

text \<open>\<open>uuid4().hex\<close> is the uuid without its dashes.\<close>

definition request_id_from_headers :: "process_env \<Rightarrow> pystr dict \<Rightarrow> 's world_scheme \<Rightarrow> pystr \<times> 's world_scheme" where
  "request_id_from_headers env headers w =
     (case header_value headers (request_id_header env) None of
        Some (c # cs) \<Rightarrow> (c # cs, w)
      | _ \<Rightarrow> (let (u, w) = uuid4 w in (''sdp-'' @ filter (\<lambda>c. c \<noteq> CHR ''-'') u, w)))"

definition evidence_ids_of :: "pystr option \<Rightarrow> pystr list" where
  "evidence_ids_of header =
     (case header of
        Some (c # cs) \<Rightarrow> filter (\<lambda>i. i \<noteq> []) (map strip (split_char (CHR '','') (c # cs))) | _ \<Rightarrow> [])"

definition header_or :: "pystr dict \<Rightarrow> pystr \<Rightarrow> pystr \<Rightarrow> pystr" where
  "header_or headers name fallback = (case header_value headers name (Some fallback) of Some v \<Rightarrow> v | None \<Rightarrow> fallback)"

definition build_request_observation ::
  "pystr \<Rightarrow> pystr \<Rightarrow> int \<Rightarrow> rat \<Rightarrow> pystr dict \<Rightarrow> pystr \<Rightarrow> 's world_scheme \<Rightarrow> request_observation \<times> 's world_scheme" where
  "build_request_observation http_method route status_code latency_ms headers request_id w =
     (let (t, w) = now w in
      (\<lparr>ob_timestamp = iso_text w t, ob_request_id = request_id,
        ob_tenant_id = header_or headers ''X-SDP-Tenant'' ''unknown'',
        ob_actor = header_or headers ''X-SDP-Actor'' ''anonymous'',
        ob_route = route, ob_method = http_method, ob_status_code = status_code,
        ob_latency_ms = py_round latency_ms 3,
        ob_evidence_ids = evidence_ids_of (header_value headers ''X-SDP-Evidence-Ids'' (Some []))\<rparr>, w))"

section \<open>The log sink\<close>

text \<open>What \<open>urllib.parse.urlparse\<close> finds in a stripped URL: the scheme, the network location and the
  path, without parameters, query and fragment.\<close>

record parsed_url =
  pu_scheme :: pystr
  pu_netloc :: pystr
  pu_path :: pystr

definition scheme_char :: "char \<Rightarrow> bool" where
  "scheme_char c \<longleftrightarrow> is_upper c \<or> is_lower c \<or> is_digit c \<or> c \<in> {CHR ''+'', CHR ''-'', CHR ''.''}"

definition split_scheme :: "pystr \<Rightarrow> pystr \<times> pystr" where
  "split_scheme url =
     (let name = takeWhile (\<lambda>c. c \<noteq> CHR '':'') url; rest = drop (length name) url in
      if rest \<noteq> [] \<and> name \<noteq> [] \<and> (is_upper (hd name) \<or> is_lower (hd name)) \<and> list_all scheme_char name
      then (lower name, tl rest) else ([], url))"

definition split_netloc :: "pystr \<Rightarrow> pystr \<times> pystr" where
  "split_netloc url =
     (if startswith url ''//''
      then (let loc = takeWhile (\<lambda>c. c \<notin> {CHR ''/'', CHR ''?'', CHR ''#''}) (drop 2 url)
            in (loc, drop (2 + length loc) url))
      else ([], url))"

text \<open>Parameters are cut off the last segment, for the schemes that have them.\<close>

definition without_params :: "pystr \<Rightarrow> pystr \<Rightarrow> pystr" where
  "without_params scheme path =
     (if scheme \<in> {[], ''ftp'', ''hdl'', ''prospero'', ''http'', ''https'', ''shttp'', ''rtsp'', ''rtsps'', ''rtspu'', ''sip'', ''sips'', ''mms'', ''sftp'', ''tel''}
      then (let segment = after_last (CHR ''/'') path
            in take (length path - length segment) path @ takeWhile (\<lambda>c. c \<noteq> CHR '';'') segment)
      else path)"

definition url_parse :: "pystr \<Rightarrow> parsed_url" where
  "url_parse url =
     (let (scheme, rest) = split_scheme (filter (\<lambda>c. code c \<notin> {9, 10, 13}) url);
          (netloc, rest) = split_netloc rest;
          path = takeWhile (\<lambda>c. c \<notin> {CHR ''?'', CHR ''#''}) rest
      in \<lparr>pu_scheme = scheme, pu_netloc = netloc, pu_path = without_params scheme path\<rparr>)"

text \<open>\<open>url2pathname\<close> decodes percent escapes.\<close>

definition hex_value :: "char \<Rightarrow> nat option" where
  "hex_value c =
     (if is_digit c then Some (code c - 48)
      else if 65 \<le> code c \<and> code c \<le> 70 then Some (code c - 55)
      else if 97 \<le> code c \<and> code c \<le> 102 then Some (code c - 87) else None)"

fun unquote :: "pystr \<Rightarrow> pystr" where
  "unquote (p # a # b # s) =
     (if p = CHR ''%'' then
        (case (hex_value a, hex_value b) of
           (Some x, Some y) \<Rightarrow> char_of (16 * x + y) # unquote s
         | _ \<Rightarrow> p # unquote (a # b # s))
      else p # unquote (a # b # s))"
| "unquote s = s"

text \<open>\<open>str(Path(raw))\<close>: empty and dot segments vanish; exactly two leading slashes are kept.\<close>

definition path_text :: "pystr \<Rightarrow> pystr" where
  "path_text raw =
     (let root = (if startswith raw ''//'' \<and> \<not> startswith raw ''///'' then ''//''
                  else if startswith raw ''/'' then ''/'' else []);
          parts = filter (\<lambda>p. p \<noteq> [] \<and> p \<noteq> ''.'') (split_char (CHR ''/'') raw);
          text = root @ join ''/'' parts
      in if text = [] then ''.'' else text)"

definition file_sink_path :: "pystr \<Rightarrow> parsed_url \<Rightarrow> pystr" where
  "file_sink_path sink_url parsed =
     (if pu_netloc parsed \<noteq> [] \<and> pu_path parsed = [] then path_text (unquote (pu_netloc parsed))
      else (let raw_path = unquote (if pu_path parsed \<noteq> [] then pu_path parsed else sink_url)
            in path_text (if pu_netloc parsed \<noteq> [] then ''//'' @ pu_netloc parsed @ raw_path else raw_path)))"

definition sink_scheme :: "parsed_url \<Rightarrow> pystr" where
  "sink_scheme parsed = (if pu_scheme parsed \<noteq> [] then pu_scheme parsed else ''file'')"

record sink_status =
  si_configured :: bool
  si_scheme :: pystr
  si_target :: pystr
  si_alert_webhook_configured :: bool

definition current_sink_status :: "process_env \<Rightarrow> sink_status" where
  "current_sink_status env =
     (let sink_url = strip (getenv_or env ''SDP_LOG_SINK_URL'' []);
          alerts = strip (getenv_or env ''SDP_ALERT_WEBHOOK_URL'' []) \<noteq> []
      in if sink_url = [] then \<lparr>si_configured = False, si_scheme = ''memory'', si_target = ''in_process_ring_buffer'',
            si_alert_webhook_configured = alerts\<rparr>
         else (let parsed = url_parse sink_url; scheme = sink_scheme parsed in
           \<lparr>si_configured = True, si_scheme = scheme,
            si_target = (if scheme = ''file'' then file_sink_path sink_url parsed
              else if scheme \<in> {''http'', ''https''} then pu_netloc parsed else sink_url),
            si_alert_webhook_configured = alerts\<rparr>))"

text \<open>What an export does: append a line to a file, or post to a URL within a time limit.\<close>

datatype sink_action =
    Append_line pystr
  | Post_to pystr int

definition sink_action_of :: "process_env \<Rightarrow> pystr \<Rightarrow> sink_action result" where
  "sink_action_of env sink_url =
     (let parsed = url_parse sink_url; scheme = sink_scheme parsed in
      if scheme = ''file'' then Inr (Append_line (file_sink_path sink_url parsed))
      else if scheme \<in> {''http'', ''https''} then
        (case read_int (getenv_or env ''SDP_LOG_SINK_TIMEOUT_MS'' ''500'') of
           None \<Rightarrow> Inl (ValueError ''invalid literal for int()'')
         | Some ms \<Rightarrow> Inr (Post_to sink_url ms))
      else Inl (ValueError (''unsupported SDP_LOG_SINK_URL scheme: '' @ scheme)))"

type_synonym sink = "sink_action \<Rightarrow> request_observation \<Rightarrow> pystr option"

text \<open>\<open>str(exc)\<close>; an export that raises is caught by its caller.\<close>

definition exn_text :: "py_exn \<Rightarrow> pystr" where
  "exn_text e = (case e of
     KeyError m \<Rightarrow> CHR 0x27 # m @ [CHR 0x27] | ValueError m \<Rightarrow> m | PermissionError m \<Rightarrow> m | TypeError m \<Rightarrow> m
   | AttributeError m \<Rightarrow> m | RuntimeError m \<Rightarrow> m | IndexError m \<Rightarrow> m | HTTPException n _ \<Rightarrow> show_int n)"

definition export_to_sink :: "process_env \<Rightarrow> sink \<Rightarrow> request_observation \<Rightarrow> pystr option" where
  "export_to_sink env deliver observation =
     (let sink_url = strip (getenv_or env ''SDP_LOG_SINK_URL'' []) in
      if sink_url = [] then None
      else (case sink_action_of env sink_url of
        Inl e \<Rightarrow> Some (exn_text e) | Inr action \<Rightarrow> deliver action observation))"

section \<open>Recording\<close>

text \<open>The error is a text or a payload of its own; the clock is read either way.\<close>

definition record_observability_export_error ::
  "pystr + pyval dict \<Rightarrow> 's portal_state_scheme \<Rightarrow> 's portal_state_scheme" where
  "record_observability_export_error error s =
     (let (t, s) = now s; stamp = VStr (iso_text s t);
          payload = (case error of
            Inl message \<Rightarrow> [(''timestamp'', stamp), (''message'', VStr message)]
          | Inr payload \<Rightarrow> if dict_get payload ''timestamp'' = None then payload @ [(''timestamp'', stamp)] else payload)
      in s\<lparr>export_errors := push error_capacity payload (export_errors s)\<rparr>)"

definition record_request_observation ::
  "process_env \<Rightarrow> sink \<Rightarrow> request_observation \<Rightarrow> bool \<Rightarrow> 's portal_state_scheme \<Rightarrow> 's portal_state_scheme" where
  "record_request_observation env deliver observation export s =
     (let s = s\<lparr>request_observations := push observation_capacity observation (request_observations s)\<rparr> in
      if \<not> export then s
      else (case export_to_sink env deliver observation of
        None \<Rightarrow> s | Some message \<Rightarrow> record_observability_export_error (Inl message) s))"

definition list_request_observations :: "int \<Rightarrow> 's portal_state_scheme \<Rightarrow> request_observation list" where
  "list_request_observations limit s = last_items limit (request_observations s)"

definition list_observability_export_errors :: "int \<Rightarrow> 's portal_state_scheme \<Rightarrow> pyval dict list" where
  "list_observability_export_errors limit s = last_items limit (export_errors s)"

definition reset_request_observability :: "'s portal_state_scheme \<Rightarrow> 's portal_state_scheme" where
  "reset_request_observability s = s\<lparr>request_observations := [], export_errors := []\<rparr>"

text \<open>The middleware: \<open>call_next\<close> answers with a status and a response, or raises; the observation
  is recorded in either case, and an answer carries the request id.\<close>

definition record_request_observability ::
  "process_env \<Rightarrow> sink \<Rightarrow> rat \<Rightarrow> pystr \<Rightarrow> pystr \<Rightarrow> pystr dict
   \<Rightarrow> ('s portal_state_scheme \<Rightarrow> (py_exn + int \<times> 'r) \<times> 's portal_state_scheme)
   \<Rightarrow> 's portal_state_scheme \<Rightarrow> (py_exn + (int \<times> 'r) \<times> (pystr \<times> pystr)) \<times> 's portal_state_scheme" where
  "record_request_observability env deliver latency_ms http_method route headers call_next s =
     (let (request_id, s) = request_id_from_headers env headers s;
          (answer, s) = call_next s;
          status_code = (case answer of Inl _ \<Rightarrow> 500 | Inr (n, _) \<Rightarrow> n);
          (observation, s) = build_request_observation http_method route status_code latency_ms headers request_id s;
          s = record_request_observation env deliver observation True s
      in (case answer of
            Inl e \<Rightarrow> (Inl e, s)
          | Inr response \<Rightarrow> (Inr (response, (request_id_header env, request_id)), s)))"

section \<open>The manifest and the metrics\<close>

record portal_metrics =
  pm_catalog_datasets_total :: nat
  pm_audit_events_observed_total :: nat
  pm_policy_decisions_observed_total :: nat
  pm_enterprise_controls_implemented :: int
  pm_enterprise_controls_planned :: int
  pm_enterprise_controls_external :: int
  pm_request_observations_total :: nat
  pm_observability_export_errors_total :: nat

record observability_manifest =
  om_service :: pystr
  om_health_endpoint :: pystr
  om_metrics_endpoint :: pystr
  om_request_id_header :: pystr
  om_sink :: sink_status
  om_fields :: "pystr list"
  om_body_logging :: pystr
  om_metrics :: portal_metrics
  om_recent_requests :: "request_observation list"
  om_export_errors :: "pyval dict list"
  om_retention :: "pystr dict"
  om_alerts :: "(pystr dict) list"

definition portal_metrics_of :: "'s portal_state_scheme \<Rightarrow> portal_metrics" where
  "portal_metrics_of s =
     (let controls = enterprise_controls_manifest in
      \<lparr>pm_catalog_datasets_total = length (list_datasets s),
       pm_audit_events_observed_total = length (list_audit_events 500 None s),
       pm_policy_decisions_observed_total = length (list_policy_decisions None 500 s),
       pm_enterprise_controls_implemented = em_implemented_controls controls,
       pm_enterprise_controls_planned = em_planned_controls controls,
       pm_enterprise_controls_external = em_external_controls controls,
       pm_request_observations_total = length (list_request_observations 25 s),
       pm_observability_export_errors_total = length (list_observability_export_errors 50 s)\<rparr>)"

definition build_observability_manifest :: "process_env \<Rightarrow> 's portal_state_scheme \<Rightarrow> observability_manifest" where
  "build_observability_manifest env s =
     \<lparr>om_service = ''semantic-data-portal'', om_health_endpoint = ''/health'', om_metrics_endpoint = ''/metrics'',
      om_request_id_header = request_id_header env, om_sink = current_sink_status env,
      om_fields = [''request_id'', ''tenant_id'', ''actor'', ''route'', ''method'', ''status_code'',
        ''latency_ms'', ''evidence_ids''],
      om_body_logging = ''disabled'', om_metrics = portal_metrics_of s,
      om_recent_requests = last_items 10 (list_request_observations 25 s),
      om_export_errors = last_items 5 (list_observability_export_errors 50 s),
      om_retention = [(''local_evidence_store'', ''SDP_SQLITE_PATH''),
        (''production_target'', ''tenant-configurable append-only log sink plus queryable hot store'')],
      om_alerts =
        [[(''id'', ''policy_audit_gap''),
          (''condition'', ''preview/query count exceeds policy decision or audit event count''),
          (''severity'', ''critical'')],
         [(''id'', ''central_workflow_backlog''),
          (''condition'', ''required workflow queued or in_progress beyond stale threshold''),
          (''severity'', ''warning'')]]\<rparr>"

definition gauge :: "pystr \<Rightarrow> pystr \<Rightarrow> int \<Rightarrow> pystr list" where
  "gauge name help v =
     [''# HELP '' @ name @ '' '' @ help, ''# TYPE '' @ name @ '' gauge'', name @ '' '' @ show_int v]"

definition prometheus_lines :: "portal_metrics \<Rightarrow> pystr list" where
  "prometheus_lines m =
     gauge ''sdp_catalog_datasets_total'' ''Number of catalog datasets currently registered.''
       (int (pm_catalog_datasets_total m))
     @ gauge ''sdp_audit_events_observed_total'' ''Number of in-process audit events visible to the API.''
       (int (pm_audit_events_observed_total m))
     @ gauge ''sdp_policy_decisions_observed_total'' ''Number of policy decisions visible to the API.''
       (int (pm_policy_decisions_observed_total m))
     @ gauge ''sdp_enterprise_controls_implemented'' ''Number of implemented enterprise controls.''
       (pm_enterprise_controls_implemented m)
     @ gauge ''sdp_enterprise_controls_planned'' ''Number of planned enterprise controls.''
       (pm_enterprise_controls_planned m)
     @ gauge ''sdp_request_observations_total'' ''Number of request observations in the local ring buffer.''
       (int (pm_request_observations_total m))
     @ gauge ''sdp_observability_export_errors_total'' ''Number of request observation export errors.''
       (int (pm_observability_export_errors_total m))
     @ [[]]"

definition prometheus_metrics_text :: "process_env \<Rightarrow> 's portal_state_scheme \<Rightarrow> pystr" where
  "prometheus_metrics_text env s =
     join [CHR 0x0A] (prometheus_lines (om_metrics (build_observability_manifest env s)))"

section \<open>What the buffers keep\<close>

lemma push_last: "push n x (drop (length xs - n) xs) = drop (Suc (length xs) - n) (xs @ [x])"
  by (cases "n \<le> length xs") (auto simp: push_def Let_def Suc_diff_le)

text \<open>Pushing a sequence keeps its last entries, after those there were.\<close>

lemma fold_push: "fold (push n) xs (drop (length ys - n) ys) = drop (length ys + length xs - n) (ys @ xs)"
proof (induction xs arbitrary: ys)
  case (Cons x xs)
  then show ?case using Cons.IH [of "ys @ [x]"] push_last [of n x ys] by simp
qed simp

lemma length_push: "length xs \<le> n \<Longrightarrow> length (push n x xs) \<le> n"
  by (simp add: push_def Let_def)

lemma last_push: "0 < n \<Longrightarrow> push n x xs \<noteq> [] \<and> last (push n x xs) = x"
  by (simp add: push_def Let_def)

lemma length_last_items: "0 < limit \<Longrightarrow> length (last_items limit xs) = min (length xs) (nat limit)"
  by (simp add: last_items_def)

text \<open>A sequence of requests recorded one after the other.\<close>

definition observe_all ::
  "process_env \<Rightarrow> sink \<Rightarrow> bool \<Rightarrow> request_observation list \<Rightarrow> 's portal_state_scheme \<Rightarrow> 's portal_state_scheme" where
  "observe_all env deliver export obs s = fold (\<lambda>ob. record_request_observation env deliver ob export) obs s"

definition buffers_bounded :: "'s portal_state_scheme \<Rightarrow> bool" where
  "buffers_bounded s \<longleftrightarrow> length (request_observations s) \<le> 500 \<and> length (export_errors s) \<le> 50"

lemma record_error_fields:
  "request_observations (record_observability_export_error e s) = request_observations s"
  "catalog_data (record_observability_export_error e s) = catalog_data s"
  "ontology_patches (record_observability_export_error e s) = ontology_patches s"
  "audit_log (record_observability_export_error e s) = audit_log s"
  "policy_decision_log (record_observability_export_error e s) = policy_decision_log s"
  by (simp_all add: record_observability_export_error_def Let_def now_def)

lemma record_error_bounded: "buffers_bounded s \<Longrightarrow> buffers_bounded (record_observability_export_error e s)"
  by (simp add: buffers_bounded_def record_observability_export_error_def Let_def now_def error_capacity_def length_push)

lemma record_observation_fields:
  "request_observations (record_request_observation env deliver ob export s)
     = push 500 ob (request_observations s)"
  "catalog_data (record_request_observation env deliver ob export s) = catalog_data s"
  "ontology_patches (record_request_observation env deliver ob export s) = ontology_patches s"
  "audit_log (record_request_observation env deliver ob export s) = audit_log s"
  "policy_decision_log (record_request_observation env deliver ob export s) = policy_decision_log s"
  by (simp_all add: record_request_observation_def Let_def record_error_fields observation_capacity_def split: option.split)

lemma record_observation_bounded:
  "buffers_bounded s \<Longrightarrow> buffers_bounded (record_request_observation env deliver ob export s)"
  by (auto simp: record_request_observation_def Let_def observation_capacity_def length_push buffers_bounded_def
      intro!: record_error_bounded [unfolded buffers_bounded_def] split: option.split)

lemma request_id_not_empty: "request_id_from_headers env headers w = (i, w') \<Longrightarrow> i \<noteq> []"
  by (auto simp: request_id_from_headers_def Let_def uuid4_def split: option.splits list.splits)

text \<open>
  C32.  Every request leaves one observation, whether its handler answers or raises: the newest entry of
  the buffer, with the request's id, route and method and the status of the answer (500 for an
  exception).  The answer goes out unchanged under the same, non-empty id, an exception is raised
  again; the portal's own data are not touched, and the buffers stay within their bounds even when
  the export fails.
\<close>

theorem request_observed_once:
  fixes s :: "'s portal_state_scheme"
  shows "case request_id_from_headers env headers s of (request_id, s1) \<Rightarrow>
   (case call_next s1 of (answer, s2) \<Rightarrow>
   (case record_request_observability env deliver latency_ms http_method route headers call_next s of (reply, s3) \<Rightarrow>
     (\<exists>ob. request_observations s3 = push 500 ob (request_observations s2) \<and> ob_request_id ob = request_id
        \<and> ob_route ob = route \<and> ob_method ob = http_method
        \<and> ob_status_code ob = (case answer of Inl _ \<Rightarrow> 500 | Inr (status, _) \<Rightarrow> status))
     \<and> request_id \<noteq> []
     \<and> (case answer of Inl e \<Rightarrow> reply = Inl e | Inr r \<Rightarrow> reply = Inr (r, (request_id_header env, request_id)))
     \<and> catalog_data s3 = catalog_data s2 \<and> ontology_patches s3 = ontology_patches s2
     \<and> audit_log s3 = audit_log s2 \<and> policy_decision_log s3 = policy_decision_log s2
     \<and> (if buffers_bounded s2 then buffers_bounded s3 else True)))"
proof -
  obtain i s1 where i: "request_id_from_headers env headers s = (i, s1)" by fastforce
  obtain answer s2 where answer: "call_next s1 = (answer, s2)" by fastforce
  let ?status = "case answer of Inl _ \<Rightarrow> 500 | Inr (status, _) \<Rightarrow> status"
  obtain ob s2' where ob: "build_request_observation http_method route ?status latency_ms headers i s2 = (ob, s2')"
    by fastforce
  have s2': "\<exists>n. s2' = s2\<lparr>clock_tick := n\<rparr>" and fields: "ob_request_id ob = i \<and> ob_route ob = route
      \<and> ob_method ob = http_method \<and> ob_status_code ob = ?status"
    using ob by (auto simp: build_request_observation_def now_def Let_def)
  then have bounded: "buffers_bounded s2' = buffers_bounded s2" by (auto simp: buffers_bounded_def)
  have "record_request_observability env deliver latency_ms http_method route headers call_next s =
    ((case answer of Inl e \<Rightarrow> Inl e | Inr r \<Rightarrow> Inr (r, (request_id_header env, i))),
     record_request_observation env deliver ob True s2')"
    by (simp add: record_request_observability_def i answer ob split: sum.split)
  then show ?thesis
    using s2' fields bounded record_observation_bounded [of s2' env deliver ob True] request_id_not_empty [OF i]
    by (auto simp: i answer record_observation_fields split: sum.split)
qed

text \<open>
  C33.  The buffer is the record of the latest 500 requests since the last reset, in order.  The metric
  that is published as their number stops at 25.
\<close>

theorem buffer_keeps_latest_requests:
  fixes s :: "'s portal_state_scheme"
  shows "case observe_all env deliver export obs (reset_request_observability s) of s' \<Rightarrow>
     request_observations s' = drop (length obs - 500) obs
     \<and> list_request_observations 0 s' = drop (length obs - 500) obs
     \<and> pm_request_observations_total (portal_metrics_of s') = min 25 (length obs)"
proof -
  have "request_observations (observe_all env deliver export obs t)
      = fold (push 500) obs (request_observations t)" for t :: "'s portal_state_scheme"
    unfolding observe_all_def by (induction obs arbitrary: t) (simp_all add: record_observation_fields)
  then have buffer: "request_observations (observe_all env deliver export obs (reset_request_observability s))
      = drop (length obs - 500) obs"
    using fold_push [of 500 obs "[]"] by (simp add: reset_request_observability_def)
  then show ?thesis
    by (auto simp: portal_metrics_of_def Let_def list_request_observations_def length_last_items buffer
        last_items_def)
qed

end
