(* ===== verification/Embeddings.thy ===== *)
theory Embeddings
  imports Prelude
begin

text \<open>
  \<open>src/sdp/embeddings.py\<close>: the hashing embedding over words and character trigrams, and the cosine
  similarity.  Square roots make the components reals, not rationals, so these functions are
  not evaluated.

  MD5 is a parameter: \<open>digest token\<close> is the list of the bytes of the token's MD5 digest.  A
  trigram is three characters: \<open>characters\<close> splits the UTF-8 bytes at the start of each.
\<close>

section \<open>Tokens\<close>

text \<open>The characters of a text, each the bytes of its encoding.\<close>

definition continues :: "char \<Rightarrow> bool" where
  "continues c \<longleftrightarrow> 128 \<le> code c \<and> code c < 192"

fun characters :: "pystr \<Rightarrow> pystr list" where
  "characters [] = []"
| "characters (c # s) =
     (case characters s of
        [] \<Rightarrow> [[c]]
      | d # ds \<Rightarrow> (if d \<noteq> [] \<and> continues (hd d) then (c # d) # ds else [c] # d # ds))"

text \<open>\<open>re.sub(r"\s+", " ", s)\<close>.\<close>

fun collapse_spaces :: "bool \<Rightarrow> pystr \<Rightarrow> pystr" where
  "collapse_spaces after_space [] = []"
| "collapse_spaces after_space (c # s) =
     (if is_space c then (if after_space then [] else [CHR '' '']) @ collapse_spaces True s
      else c # collapse_spaces False s)"

fun trigrams :: "pystr list \<Rightarrow> pystr list" where
  "trigrams (a # b # c # s) = (a @ b @ c) # trigrams (b # c # s)"
| "trigrams s = []"

definition tokens :: "pystr \<Rightarrow> pystr list" where
  "tokens s =
     (let normalized = strip (lower s) in
      if normalized = [] then []
      else runs is_word normalized @ trigrams (characters (collapse_spaces False normalized)))"

section \<open>Embedding\<close>

definition bucket :: "(pystr \<Rightarrow> nat list) \<Rightarrow> nat \<Rightarrow> pystr \<Rightarrow> nat" where
  "bucket digest dimension token =
     (case digest token of
        a # b # c # d # _ \<Rightarrow> (a + 256 * b + 65536 * c + 16777216 * d) mod dimension
      | _ \<Rightarrow> 0)"

definition token_sign :: "(pystr \<Rightarrow> nat list) \<Rightarrow> pystr \<Rightarrow> real" where
  "token_sign digest token = (if odd (digest token ! 4) then 1 else -1)"

definition add_token :: "(pystr \<Rightarrow> nat list) \<Rightarrow> nat \<Rightarrow> pystr \<Rightarrow> real list \<Rightarrow> real list" where
  "add_token digest dimension token vec =
     vec[bucket digest dimension token := vec ! bucket digest dimension token + token_sign digest token]"

definition square_norm :: "real list \<Rightarrow> real" where
  "square_norm vec = sqrt (sum_list (map (\<lambda>x. x * x) vec))"

definition embed_text :: "(pystr \<Rightarrow> nat list) \<Rightarrow> pystr \<Rightarrow> nat \<Rightarrow> real list" where
  "embed_text digest txt dimension =
     (let vec = fold (add_token digest dimension) (tokens txt) (replicate dimension 0);
          norm = square_norm vec
      in if norm = 0 then vec else map (\<lambda>x. x / norm) vec)"

definition cosine_similarity :: "real list \<Rightarrow> real list \<Rightarrow> real" where
  "cosine_similarity left right =
     (if left = [] \<or> right = [] \<or> length left \<noteq> length right then 0
      else (let dot = sum_list (map (\<lambda>(a, b). a * b) (zip left right));
                left_norm = square_norm left; right_norm = square_norm right
            in if left_norm = 0 \<or> right_norm = 0 then 0 else dot / (left_norm * right_norm)))"

section \<open>Tokens are never empty\<close>

lemma trigrams_length: "length (trigrams s) = length s - 2"
  by (induction s rule: trigrams.induct) auto

lemma concat_characters: "concat (characters s) = s"
  by (induction s) (auto split: list.splits)

lemma characters_nonempty: "c \<in> set (characters s) \<Longrightarrow> c \<noteq> []"
  by (induction s arbitrary: c) (auto split: list.splits if_splits)

section \<open>Norms\<close>

lemma length_add_token [simp]: "length (add_token digest n t vec) = length vec"
  by (simp add: add_token_def)

lemma length_embed_text [simp]: "length (embed_text digest txt n) = n"
proof -
  have "length (fold (add_token digest n) ts vec) = length vec" for ts vec
    by (induction ts arbitrary: vec) simp_all
  then show ?thesis by (simp add: embed_text_def Let_def)
qed

lemma sum_squares_nonneg: "0 \<le> sum_list (map (\<lambda>x::real. x * x) xs)"
  by (rule sum_list_nonneg) auto

lemma square_norm_nonneg [simp]: "0 \<le> square_norm xs"
  by (simp add: square_norm_def sum_squares_nonneg)

lemma square_norm_square: "square_norm xs * square_norm xs = sum_list (map (\<lambda>x. x * x) xs)"
  by (simp add: square_norm_def sum_squares_nonneg)

lemma sum_list_scale: "sum_list (map (\<lambda>x::real. x * x / (c * c)) xs) = sum_list (map (\<lambda>x. x * x) xs) / (c * c)"
  by (induction xs) (simp_all add: add_divide_distrib)

lemma square_norm_scale: "0 < c \<Longrightarrow> square_norm (map (\<lambda>x. x / c) xs) = square_norm xs / c"
  by (simp add: square_norm_def o_def sum_list_scale real_sqrt_divide real_sqrt_mult)

text \<open>Cauchy-Schwarz on lists.\<close>

lemma cauchy_schwarz_list:
  assumes "length xs = length ys"
  shows "(sum_list (map (\<lambda>(a, b). a * b) (zip xs ys)))\<^sup>2
    \<le> sum_list (map (\<lambda>x::real. x * x) xs) * sum_list (map (\<lambda>x. x * x) ys)"
  using assms
proof (induction xs ys rule: list_induct2)
  case Nil
  show ?case by simp
next
  case (Cons x xs y ys)
  let ?d = "sum_list (map (\<lambda>(a, b). a * b) (zip xs ys))"
  let ?p = "sum_list (map (\<lambda>x. x * x) xs)" and ?q = "sum_list (map (\<lambda>x. x * x) ys)"
  have pq: "0 \<le> ?p" "0 \<le> ?q" by (rule sum_squares_nonneg)+
  have "\<bar>?d\<bar> \<le> sqrt ?p * sqrt ?q"
    using Cons.IH by (metis real_le_rsqrt real_sqrt_mult power2_abs)
  then have "2 * (x * y) * ?d \<le> 2 * (\<bar>x\<bar> * \<bar>y\<bar>) * (sqrt ?p * sqrt ?q)"
  proof -
    have "2 * (x * y) * ?d \<le> \<bar>2 * (x * y) * ?d\<bar>" by (rule abs_ge_self)
    also have "\<dots> = 2 * (\<bar>x\<bar> * \<bar>y\<bar>) * \<bar>?d\<bar>" by (simp add: abs_mult)
    also have "\<dots> \<le> 2 * (\<bar>x\<bar> * \<bar>y\<bar>) * (sqrt ?p * sqrt ?q)"
      using \<open>\<bar>?d\<bar> \<le> sqrt ?p * sqrt ?q\<close> by (intro mult_left_mono) auto
    finally show ?thesis .
  qed
  also have "\<dots> \<le> x * x * ?q + y * y * ?p"
  proof -
    have "0 \<le> (\<bar>x\<bar> * sqrt ?q - \<bar>y\<bar> * sqrt ?p)\<^sup>2" by simp
    then show ?thesis
      using pq by (simp add: power2_diff power_mult_distrib power2_eq_square algebra_simps)
  qed
  finally show ?case
    using Cons.IH by (simp add: power2_sum algebra_simps power2_eq_square)
qed

text \<open>
  An embedding has the configured number of components and is the zero vector or has
  length 1, and the cosine similarity of any two vectors lies between -1 and 1; a non-zero vector
  has similarity 1 with itself.
\<close>

theorem similarity_bounded:
  "\<bar>cosine_similarity u v\<bar> \<le> 1
   \<and> (cosine_similarity u u = (if square_norm u = 0 then 0 else 1))
   \<and> length (embed_text digest txt n) = n
   \<and> square_norm (embed_text digest txt n) \<in> {0, 1}"
proof -
  have bound: "\<bar>cosine_similarity u v\<bar> \<le> 1" for u v
  proof (cases "u = [] \<or> v = [] \<or> length u \<noteq> length v \<or> square_norm u = 0 \<or> square_norm v = 0")
    case False
    let ?d = "sum_list (map (\<lambda>(a, b). a * b) (zip u v))"
    have pos: "0 < square_norm u * square_norm v"
      using False square_norm_nonneg [of u] square_norm_nonneg [of v] by (simp add: order_less_le)
    have "?d\<^sup>2 \<le> (square_norm u * square_norm v)\<^sup>2"
      using cauchy_schwarz_list [of u v] False
      by (simp add: power_mult_distrib power2_eq_square square_norm_square mult.assoc mult.left_commute)
        (simp add: mult.assoc [symmetric] square_norm_square)
    then have "\<bar>?d\<bar> \<le> square_norm u * square_norm v"
      using pos by (metis abs_le_square_iff abs_of_pos)
    then show ?thesis
      using False pos by (simp add: cosine_similarity_def Let_def abs_mult divide_le_eq)
  qed (auto simp: cosine_similarity_def Let_def)
  have zip: "map (\<lambda>(a, b). a * b) (zip xs xs) = map (\<lambda>x::real. x * x) xs" for xs
    by (induction xs) auto
  have self: "cosine_similarity u u = (if square_norm u = 0 then 0 else 1)"
    by (simp add: cosine_similarity_def Let_def zip square_norm_square) (simp add: square_norm_def)
  have "square_norm (map (\<lambda>x. x / square_norm xs) xs) = 1" if "square_norm xs \<noteq> 0" for xs
    using that square_norm_scale [of "square_norm xs" xs] square_norm_nonneg [of xs] by simp
  then have "square_norm (embed_text digest txt n) \<in> {0, 1}"
    by (auto simp: embed_text_def Let_def)
  then show ?thesis using bound self by simp
qed

end
