(* ===== verification/Config.thy ===== *)
theory Config
  imports Authz Embeddings
begin

text \<open>
  Configuration (\<open>src/sdp/config.py\<close>) and the migrations that seed it
  (\<open>migrations/run_migrations.py\<close>): the defaults, the bootstrap coordinates, the key-value table
  \<open>config_entries\<close>, the effective configuration with its caches, the rendering of the embedding
  dimension into the DDL and the splitting of a migration into statements.

  The database is a parameter: what reading the table gives, or \<open>None\<close> when it cannot be reached.
  \<open>json_parse\<close> is the JSON parser.
\<close>

section \<open>Defaults and bootstrap\<close>

definition default_config :: "pyval dict" where
  "default_config =
     [(''cors_allow_origins'', str_list [''http://localhost:3000'', ''http://localhost:8000'', ''http://127.0.0.1:3000'']),
      (''cors_allow_methods'', str_list [''GET'', ''POST'', ''PATCH'', ''OPTIONS'']),
      (''cors_allow_headers'', str_list [''*'']), (''embedding_dimension'', VInt 128),
      (''graph_name'', VStr ''semantic_graph''), (''semantic_search_default_limit'', VInt 5),
      (''traversal_max_depth'', VInt 4), (''graph_backend'', VStr ''auto'')]"

definition default_config_seed :: "pyval dict" where
  "default_config_seed = default_config"

record bootstrap_settings =
  bs_database_dsn :: "pystr option"
  bs_config_namespace :: pystr
  bs_environment :: pystr

definition has_database :: "bootstrap_settings \<Rightarrow> bool" where
  "has_database b \<longleftrightarrow> bs_database_dsn b \<noteq> None \<and> bs_database_dsn b \<noteq> Some []"

definition load_bootstrap :: "(pystr \<Rightarrow> pystr option) \<Rightarrow> bootstrap_settings" where
  "load_bootstrap env =
     \<lparr>bs_database_dsn = (case env ''SDP_DATABASE_DSN'' of Some d \<Rightarrow> if d = [] then None else Some d | None \<Rightarrow> None),
      bs_config_namespace = (case env ''SDP_CONFIG_NAMESPACE'' of Some n \<Rightarrow> n | None \<Rightarrow> ''default''),
      bs_environment = (case env ''SDP_ENV'' of Some e \<Rightarrow> e | None \<Rightarrow> ''local'')\<rparr>"

section \<open>The application configuration\<close>

record app_config =
  cfg_cors_allow_origins :: "pyval list"
  cfg_cors_allow_methods :: "pyval list"
  cfg_cors_allow_headers :: "pyval list"
  cfg_embedding_dimension :: int
  cfg_graph_name :: pystr
  cfg_semantic_search_default_limit :: int
  cfg_traversal_max_depth :: int
  cfg_graph_backend :: pystr
  cfg_source :: pystr

text \<open>\<open>list(v)\<close> and \<open>int(v)\<close> of a configured value, with their exceptions.\<close>

definition py_list :: "pyval \<Rightarrow> pyval list result" where
  "py_list v = (case v of
     VList vs \<Rightarrow> Inr vs
   | VStr s \<Rightarrow> Inr (map VStr (characters s))
   | VDict kvs \<Rightarrow> Inr (map (\<lambda>(k, _). VStr k) kvs)
   | _ \<Rightarrow> Inl (TypeError ''object is not iterable''))"

definition py_int :: "pyval \<Rightarrow> int result" where
  "py_int v = (case int_of_value v of
     Some i \<Rightarrow> Inr i
   | None \<Rightarrow> (case v of VStr s \<Rightarrow> Inl (ValueError ''invalid literal for int()'')
       | _ \<Rightarrow> Inl (TypeError ''int() argument must be a string or a number'')))"

definition not_none :: "pyval dict \<Rightarrow> pyval dict" where
  "not_none values = filter (\<lambda>(_, v). v \<noteq> VNone) values"

definition merged_config :: "pyval dict \<Rightarrow> pyval dict" where
  "merged_config values = dict_update default_config (not_none values)"

definition graph_backends :: "pystr list" where
  "graph_backends = [''auto'', ''postgres'', ''memory'']"

definition from_mapping :: "pyval dict \<Rightarrow> pystr \<Rightarrow> 's world_scheme \<Rightarrow> app_config result" where
  "from_mapping values source w =
     (let merged = merged_config values; entry = get_or_none merged;
          backend = lower (py_str w (entry ''graph_backend'')) in
      if backend \<notin> set graph_backends then Inl (ValueError ''invalid graph_backend'')
      else case py_list (entry ''cors_allow_origins'') of Inl e \<Rightarrow> Inl e | Inr origins \<Rightarrow>
        (case py_list (entry ''cors_allow_methods'') of Inl e \<Rightarrow> Inl e | Inr methods \<Rightarrow>
        (case py_list (entry ''cors_allow_headers'') of Inl e \<Rightarrow> Inl e | Inr headers \<Rightarrow>
        (case py_int (entry ''embedding_dimension'') of Inl e \<Rightarrow> Inl e | Inr dimension \<Rightarrow>
        (case py_int (entry ''semantic_search_default_limit'') of Inl e \<Rightarrow> Inl e | Inr limit \<Rightarrow>
        (case py_int (entry ''traversal_max_depth'') of Inl e \<Rightarrow> Inl e | Inr depth \<Rightarrow>
          Inr \<lparr>cfg_cors_allow_origins = origins, cfg_cors_allow_methods = methods,
               cfg_cors_allow_headers = headers, cfg_embedding_dimension = dimension,
               cfg_graph_name = py_str w (entry ''graph_name''), cfg_semantic_search_default_limit = limit,
               cfg_traversal_max_depth = depth, cfg_graph_backend = backend, cfg_source = source\<rparr>))))))"

section \<open>The key-value table\<close>

text \<open>A row of \<open>config_entries\<close>; the JSONB value is the value it holds.\<close>

record config_entry =
  ce_namespace :: pystr
  ce_key :: pystr
  ce_value :: pyval

definition entry_key :: "config_entry \<Rightarrow> pystr \<times> pystr" where
  "entry_key r = (ce_namespace r, ce_key r)"

text \<open>A textual value is parsed once more as JSON; when that fails it is taken as it is.\<close>

definition config_value :: "(pystr \<Rightarrow> pyval result) \<Rightarrow> pyval \<Rightarrow> pyval" where
  "config_value json_parse raw = (case raw of
     VStr s \<Rightarrow> (case json_parse s of Inr v \<Rightarrow> v | Inl _ \<Rightarrow> raw) | _ \<Rightarrow> raw)"

definition load_from_kv_table ::
  "(pystr \<Rightarrow> pyval result) \<Rightarrow> (pystr \<Rightarrow> config_entry list option) \<Rightarrow> bootstrap_settings \<Rightarrow> pyval dict option" where
  "load_from_kv_table json_parse database b =
     (if \<not> has_database b then None
      else (case bs_database_dsn b of None \<Rightarrow> None | Some dsn \<Rightarrow>
        (case database dsn of
           None \<Rightarrow> None
         | Some rows \<Rightarrow> Some (dict_of (map (\<lambda>r. (ce_key r, config_value json_parse (ce_value r)))
             (filter (\<lambda>r. ce_namespace r = bs_config_namespace b) rows))))))"

definition effective_config ::
  "(pystr \<Rightarrow> pyval result) \<Rightarrow> (pystr \<Rightarrow> config_entry list option) \<Rightarrow> bootstrap_settings
   \<Rightarrow> 's world_scheme \<Rightarrow> app_config result" where
  "effective_config json_parse database b w =
     (case load_from_kv_table json_parse database b of
        None \<Rightarrow> from_mapping [] ''defaults'' w
      | Some values \<Rightarrow> if values = [] then from_mapping [] ''defaults'' w
          else from_mapping values ''config_entries'' w)"

section \<open>The caches\<close>

text \<open>\<open>lru_cache(maxsize=1)\<close> of the two functions without arguments: the first result is kept, an
  exception is not.\<close>

record config_cache =
  cached_bootstrap :: "bootstrap_settings option"
  cached_config :: "app_config option"

definition get_bootstrap :: "(pystr \<Rightarrow> pystr option) \<Rightarrow> config_cache \<Rightarrow> bootstrap_settings \<times> config_cache" where
  "get_bootstrap env c =
     (case cached_bootstrap c of
        Some b \<Rightarrow> (b, c)
      | None \<Rightarrow> (let b = load_bootstrap env in (b, c\<lparr>cached_bootstrap := Some b\<rparr>)))"

definition get_app_config ::
  "(pystr \<Rightarrow> pyval result) \<Rightarrow> (pystr \<Rightarrow> pystr option) \<Rightarrow> (pystr \<Rightarrow> config_entry list option)
   \<Rightarrow> 's world_scheme \<Rightarrow> config_cache \<Rightarrow> app_config result \<times> config_cache" where
  "get_app_config json_parse env database w c =
     (case cached_config c of
        Some cfg \<Rightarrow> (Inr cfg, c)
      | None \<Rightarrow>
          (let (b, c) = get_bootstrap env c in
           case effective_config json_parse database b w of
             Inl e \<Rightarrow> (Inl e, c)
           | Inr cfg \<Rightarrow> (Inr cfg, c\<lparr>cached_config := Some cfg\<rparr>)))"

definition reset_config_cache :: "config_cache \<Rightarrow> config_cache" where
  "reset_config_cache c = c\<lparr>cached_bootstrap := None, cached_config := None\<rparr>"

section \<open>Migrations\<close>

text \<open>\<open>INSERT ... ON CONFLICT DO NOTHING\<close>.\<close>

definition insert_or_ignore :: "('r \<Rightarrow> 'k) \<Rightarrow> 'r \<Rightarrow> 'r list \<Rightarrow> 'r list" where
  "insert_or_ignore key row rows = (if key row \<in> key ` set rows then rows else rows @ [row])"

definition load_config :: "pystr \<Rightarrow> config_entry list \<Rightarrow> config_entry list" where
  "load_config namespace rows =
     fold (\<lambda>(k, v). insert_or_ignore entry_key \<lparr>ce_namespace = namespace, ce_key = k, ce_value = v\<rparr>)
       default_config_seed rows"

text \<open>\<open>vector\(\d+\)\<close> is replaced by the column type of the configured dimension.\<close>

definition vector_type :: "int \<Rightarrow> pystr" where
  "vector_type dimension = ''vector('' @ show_int dimension @ '')''"

definition vector_match :: "pystr \<Rightarrow> pystr option" where
  "vector_match s =
     (if startswith s ''vector('' then
        (let digits = takeWhile is_digit (drop 7 s); rest = dropWhile is_digit (drop 7 s) in
         if digits \<noteq> [] \<and> startswith rest '')'' then Some (tl rest) else None)
      else None)"

lemma vector_match_shorter: "vector_match s = Some rest \<Longrightarrow> length rest < length s"
  using length_dropWhile_le [of is_digit "drop 7 s"]
  by (auto simp: vector_match_def Let_def startswith_def prefix_def split: if_split_asm)

function render_sql :: "int \<Rightarrow> pystr \<Rightarrow> pystr" where
  "render_sql dimension [] = []"
| "render_sql dimension (c # s) =
     (case vector_match (c # s) of
        Some rest \<Rightarrow> vector_type dimension @ render_sql dimension rest
      | None \<Rightarrow> c # render_sql dimension s)"
  by pat_completeness auto
termination by (relation "measure (\<lambda>(_, s). length s)") (auto dest: vector_match_shorter)

text \<open>\<open>str.splitlines\<close> on the ASCII line boundaries.\<close>

definition line_break :: "char \<Rightarrow> bool" where
  "line_break c \<longleftrightarrow> code c \<in> {10, 11, 12, 13, 28, 29, 30}"

function split_lines :: "pystr \<Rightarrow> pystr list" where
  "split_lines [] = []"
| "split_lines (c # s) =
     (let line = takeWhile (\<lambda>x. \<not> line_break x) (c # s); rest = dropWhile (\<lambda>x. \<not> line_break x) (c # s) in
      line # (case rest of
        [] \<Rightarrow> []
      | b # t \<Rightarrow> split_lines (if code b = 13 \<and> startswith t [CHR 0x0A] then tl t else t)))"
  by pat_completeness auto
termination
proof (relation "measure length", goal_cases)
  case (2 c s line rest b t)
  then have "length (b # t) \<le> length (c # s)" by (metis length_dropWhile_le)
  then show ?case by (auto simp: startswith_def prefix_def)
qed simp

text \<open>\<open>line.count("$$")\<close>: occurrences that do not overlap.\<close>

fun count_dollars :: "pystr \<Rightarrow> nat" where
  "count_dollars (a # b # s) = (if a = CHR ''$'' \<and> b = CHR ''$'' then Suc (count_dollars s) else count_dollars (b # s))"
| "count_dollars s = 0"

definition comment_line :: "pystr \<Rightarrow> bool" where
  "comment_line line \<longleftrightarrow> startswith (strip line) ''--''"

definition endswith :: "pystr \<Rightarrow> pystr \<Rightarrow> bool" where
  "endswith s p = suffix p s"

text \<open>The loop over the lines: the statements so far, the lines of the open one, and whether a
  \<open>$$\<close> block is open.\<close>

record splitter =
  sp_statements :: "(pystr list) list"
  sp_buffer :: "pystr list"
  sp_in_dollar :: bool

definition split_line :: "pystr \<Rightarrow> splitter \<Rightarrow> splitter" where
  "split_line line sp =
     (if comment_line line then sp
      else (let in_dollar = (if odd (count_dollars line) then \<not> sp_in_dollar sp else sp_in_dollar sp);
                buffer = sp_buffer sp @ [line]
            in if \<not> in_dollar \<and> endswith (strip line) '';''
               then \<lparr>sp_statements = sp_statements sp @ [buffer], sp_buffer = [], sp_in_dollar = in_dollar\<rparr>
               else \<lparr>sp_statements = sp_statements sp, sp_buffer = buffer, sp_in_dollar = in_dollar\<rparr>))"

definition split_script :: "pystr list \<Rightarrow> splitter" where
  "split_script lines =
     fold split_line lines \<lparr>sp_statements = [], sp_buffer = [], sp_in_dollar = False\<rparr>"

definition sql_text :: "pystr list \<Rightarrow> pystr" where
  "sql_text lines = strip (join [CHR 0x0A] lines)"

definition sql_statements :: "pystr \<Rightarrow> pystr list" where
  "sql_statements sql =
     (let sp = split_script (split_lines sql)
      in filter (\<lambda>s. s \<noteq> []) (map sql_text (sp_statements sp)
           @ (if sql_text (sp_buffer sp) \<noteq> [] then [sql_text (sp_buffer sp)] else [])))"

text \<open>\<open>apply_migrations\<close>: the statements of every script, in the order of the file names, with the
  configured dimension; \<open>execute\<close> runs one, and an error rolls the transaction back.\<close>

fun run_statements :: "(pystr \<Rightarrow> 'db \<Rightarrow> 'db result) \<Rightarrow> pystr list \<Rightarrow> 'db \<Rightarrow> 'db result" where
  "run_statements execute [] db = Inr db"
| "run_statements execute (q # qs) db =
     (case execute q db of Inl e \<Rightarrow> Inl e | Inr db \<Rightarrow> run_statements execute qs db)"

definition apply_migrations ::
  "(pystr \<Rightarrow> 'db \<Rightarrow> 'db result) \<Rightarrow> int \<Rightarrow> (pystr \<times> pystr) list \<Rightarrow> 'db \<Rightarrow> unit result \<times> 'db" where
  "apply_migrations execute dimension files db =
     (case run_statements execute
        (concat (map (\<lambda>(_, sql). sql_statements (render_sql dimension sql)) (sort_key fst files))) db of
        Inl e \<Rightarrow> (Inl e, db)
      | Inr db' \<Rightarrow> (Inr (), db'))"

section \<open>Seeding and loading\<close>

lemma dict_get_update:
  "dict_get (dict_update d kvs) k = (case map_of (rev kvs) k of Some v \<Rightarrow> Some v | None \<Rightarrow> dict_get d k)"
  by (induction kvs arbitrary: d) (auto simp: dict_get_set map_add_def split: option.splits)

lemma map_of_rev_distinct: "distinct (map fst kvs) \<Longrightarrow> map_of (rev kvs) k = map_of kvs k"
proof (induction kvs)
  case (Cons kv kvs)
  then have "map_of kvs (fst kv) = None" by (simp add: map_of_eq_None_iff)
  then show ?case using Cons by (cases kv) (auto simp: map_add_def split: option.split)
qed simp

lemma dict_get_of_distinct: "distinct (map fst kvs) \<Longrightarrow> dict_get (dict_of kvs) k = map_of kvs k"
  by (simp add: dict_of_def dict_get_update map_of_rev_distinct split: option.split)

lemma find_insert_or_ignore:
  "find (\<lambda>r. key r = q) (insert_or_ignore key row rows)
     = (case find (\<lambda>r. key r = q) rows of Some r \<Rightarrow> Some r | None \<Rightarrow> if key row = q then Some row else None)"
proof (cases "find (\<lambda>r. key r = q) rows")
  case None
  then have "q \<notin> key ` set rows" by (auto simp: find_None_iff)
  then show ?thesis using None by (auto simp: insert_or_ignore_def find_append)
qed (auto simp: insert_or_ignore_def find_append)

lemma distinct_insert_or_ignore:
  "distinct (map key rows) \<Longrightarrow> distinct (map key (insert_or_ignore key row rows))"
  by (auto simp: insert_or_ignore_def)

definition seed_entries :: "pystr \<Rightarrow> pyval dict \<Rightarrow> config_entry list \<Rightarrow> config_entry list" where
  "seed_entries namespace kvs rows =
     fold (\<lambda>(k, v). insert_or_ignore entry_key \<lparr>ce_namespace = namespace, ce_key = k, ce_value = v\<rparr>) kvs rows"

lemma entry_key_simps [simp]: "entry_key \<lparr>ce_namespace = n, ce_key = k, ce_value = v\<rparr> = (n, k)"
  by (simp add: entry_key_def)

lemma find_seed_entries:
  "find (\<lambda>r. entry_key r = (n, k)) (seed_entries namespace kvs rows)
     = (case find (\<lambda>r. entry_key r = (n, k)) rows of Some r \<Rightarrow> Some r
        | None \<Rightarrow> if n = namespace
            then map_option (\<lambda>v. \<lparr>ce_namespace = n, ce_key = k, ce_value = v\<rparr>) (map_of kvs k) else None)"
  unfolding seed_entries_def
  by (induction kvs arbitrary: rows)
     (auto simp: find_insert_or_ignore split: option.splits if_splits)

lemma distinct_seed_entries:
  "distinct (map entry_key rows) \<Longrightarrow> distinct (map entry_key (seed_entries namespace kvs rows))"
  unfolding seed_entries_def by (induction kvs arbitrary: rows) (auto simp: distinct_insert_or_ignore)

lemma seed_entries_present:
  assumes "\<forall>(k, v) \<in> set kvs. (namespace, k) \<in> entry_key ` set rows"
  shows "seed_entries namespace kvs rows = rows"
  using assms unfolding seed_entries_def
  by (induction kvs) (auto simp: insert_or_ignore_def)

lemma keys_insert_or_ignore: "key ` set (insert_or_ignore key row rows) = insert (key row) (key ` set rows)"
  by (auto simp: insert_or_ignore_def)

lemma seed_entries_keys:
  "entry_key ` set (seed_entries namespace kvs rows) = entry_key ` set rows \<union> (\<lambda>p. (namespace, fst p)) ` set kvs"
  unfolding seed_entries_def
  by (induction kvs arbitrary: rows) (simp_all add: keys_insert_or_ignore case_prod_unfold)

lemma kv_values_get:
  assumes "distinct (map entry_key rows)"
  shows "dict_get (dict_of (map (\<lambda>r. (ce_key r, f r)) (filter (\<lambda>r. ce_namespace r = n) rows))) k
    = map_option f (find (\<lambda>r. entry_key r = (n, k)) rows)"
proof -
  have "distinct (map fst (map (\<lambda>r. (ce_key r, f r)) (filter (\<lambda>r. ce_namespace r = n) rows)))"
    using assms by (induction rows) (auto simp: entry_key_def image_iff)
  moreover have "map_of (map (\<lambda>r. (ce_key r, f r)) (filter (\<lambda>r. ce_namespace r = n) rows)) k
      = map_option f (find (\<lambda>r. entry_key r = (n, k)) rows)"
    by (induction rows) (auto simp: entry_key_def)
  ultimately show ?thesis by (simp add: dict_get_of_distinct)
qed

text \<open>
  C27.  Seeding the configuration table and loading it back: seeding again changes nothing; an
  entry an operator has set stays, and every other key reads the bundled default; and a table that
  holds just the seed gives the default configuration.  A default text is not JSON, as the parser
  is documented.
\<close>

theorem config_seed_roundtrip:
  assumes json: "json_parse ''semantic_graph'' = Inl err1" "json_parse ''auto'' = Inl err2"
    and database: "bs_database_dsn b = Some dsn" "dsn \<noteq> []" and rows: "distinct (map entry_key rows)"
  shows "load_config namespace (load_config namespace rows) = load_config namespace rows
    \<and> (\<exists>values. load_from_kv_table json_parse (\<lambda>_. Some (load_config (bs_config_namespace b) rows)) b = Some values
        \<and> (\<forall>k. dict_get values k =
             (case find (\<lambda>r. entry_key r = (bs_config_namespace b, k)) rows of
                Some r \<Rightarrow> Some (config_value json_parse (ce_value r)) | None \<Rightarrow> dict_get default_config k)))
    \<and> effective_config json_parse (\<lambda>_. Some (load_config (bs_config_namespace b) [])) b w
        = from_mapping [] ''config_entries'' w"
proof (intro conjI)
  have seed: "load_config n rs = seed_entries n default_config rs" for n rs
    by (simp add: load_config_def seed_entries_def default_config_seed_def)
  show "load_config namespace (load_config namespace rows) = load_config namespace rows"
    unfolding seed by (rule seed_entries_present) (force simp: seed_entries_keys)
  have db: "has_database b" using database by (simp add: has_database_def)
  have same: "map_option (config_value json_parse) (map_of default_config k) = dict_get default_config k" for k
    unfolding dict_get_def by (simp add: default_config_def config_value_def str_list_def json)
  show "\<exists>values. load_from_kv_table json_parse (\<lambda>_. Some (load_config (bs_config_namespace b) rows)) b = Some values
        \<and> (\<forall>k. dict_get values k =
             (case find (\<lambda>r. entry_key r = (bs_config_namespace b, k)) rows of
                Some r \<Rightarrow> Some (config_value json_parse (ce_value r)) | None \<Rightarrow> dict_get default_config k))"
    using rows
    by (auto simp: load_from_kv_table_def db database seed kv_values_get distinct_seed_entries find_seed_entries
        option.map_comp o_def same split: option.split)
  have "load_config n [] = map (\<lambda>(k, v). \<lparr>ce_namespace = n, ce_key = k, ce_value = v\<rparr>) default_config" for n
    by (simp add: load_config_def default_config_seed_def default_config_def insert_or_ignore_def entry_key_def)
  then have "load_from_kv_table json_parse (\<lambda>_. Some (load_config (bs_config_namespace b) [])) b = Some default_config"
    by (simp add: load_from_kv_table_def db database default_config_def config_value_def str_list_def json
        dict_of_def dict_set_def)
  moreover have "merged_config default_config = merged_config []"
    by (simp add: merged_config_def not_none_def default_config_def dict_set_def str_list_def)
  ultimately show "effective_config json_parse (\<lambda>_. Some (load_config (bs_config_namespace b) [])) b w
        = from_mapping [] ''config_entries'' w"
    by (simp add: effective_config_def from_mapping_def default_config_def)
qed

theorem config_seed_roundtrip_witness:
  "map_sum id cfg_embedding_dimension (effective_config (\<lambda>_. Inl (ValueError ''json'')) (\<lambda>_. Some (load_config ''default'' []))
     \<lparr>bs_database_dsn = Some ''postgresql://db'', bs_config_namespace = ''default'', bs_environment = ''local''\<rparr> machine)
   = Inr 128"
proof -
  let ?b = "\<lparr>bs_database_dsn = Some ''postgresql://db'', bs_config_namespace = ''default'', bs_environment = ''local''\<rparr>"
  have "effective_config (\<lambda>_. Inl (ValueError ''json'')) (\<lambda>_. Some (load_config (bs_config_namespace ?b) [])) ?b machine
      = from_mapping [] ''config_entries'' machine"
    using config_seed_roundtrip [where json_parse = "\<lambda>_. Inl (ValueError ''json'')" and b = ?b
        and dsn = "''postgresql://db''" and rows = "[]" and w = machine, OF refl refl] by simp
  moreover have "map_sum id cfg_embedding_dimension (from_mapping [] ''config_entries'' machine) = Inr 128"
    by code_simp
  ultimately show ?thesis by simp
qed

section \<open>Splitting a migration\<close>

definition dollars :: "pystr list \<Rightarrow> nat" where
  "dollars lines = sum_list (map count_dollars lines)"

definition complete_statement :: "pystr list \<Rightarrow> bool" where
  "complete_statement lines \<longleftrightarrow> lines \<noteq> [] \<and> endswith (strip (last lines)) '';'' \<and> even (dollars lines)
     \<and> list_all (\<lambda>l. \<not> comment_line l) lines"

definition splitter_ok :: "pystr list \<Rightarrow> splitter \<Rightarrow> bool" where
  "splitter_ok lines sp \<longleftrightarrow>
     concat (sp_statements sp) @ sp_buffer sp = filter (\<lambda>l. \<not> comment_line l) lines
     \<and> list_all complete_statement (sp_statements sp)
     \<and> list_all (\<lambda>l. \<not> comment_line l) (sp_buffer sp)
     \<and> sp_in_dollar sp = odd (dollars (sp_buffer sp))"

lemma splitter_ok_step: "splitter_ok lines sp \<Longrightarrow> splitter_ok (lines @ [line]) (split_line line sp)"
  by (auto simp: splitter_ok_def split_line_def complete_statement_def dollars_def Let_def split: if_split_asm)

text \<open>
  Splitting a migration loses nothing but its comment lines and never cuts a dollar-quoted
  block: the statements and the tail, one after the other, are the other lines of the script in
  order, and every statement ends with a semicolon and closes the blocks it opens.
\<close>

theorem migration_split_lossless:
  "concat (sp_statements (split_script lines)) @ sp_buffer (split_script lines)
     = filter (\<lambda>l. \<not> comment_line l) lines
   \<and> list_all complete_statement (sp_statements (split_script lines))
   \<and> sp_in_dollar (split_script lines) = odd (dollars (sp_buffer (split_script lines)))"
proof -
  have "splitter_ok lines (split_script lines)"
    by (induction lines rule: rev_induct)
       (simp_all add: split_script_def splitter_ok_step, simp add: splitter_ok_def dollars_def)
  then show ?thesis by (simp add: splitter_ok_def)
qed

end
