(* ===== verification/Api_Catalog.thy ===== *)
theory Api_Catalog
  imports Governance Observability Orchestrator Config
begin

text \<open>
  The catalog, policy, browse, query and governance endpoints of the HTTP API
  (\<open>src/sdp/api.py\<close>).  A handler takes the decoded request and returns a response or an exception
  with the new state; \<open>HTTPException\<close> carries its status, any other exception is answered with 500.
  The declared bounds of query parameters (\<open>Query(ge=..., min_length=...)\<close>) are checked first and
  answered with 422.  Building a request model from a JSON object is the work of pydantic: the
  parser is a parameter and answers a message or the model.
\<close>

section \<open>Responses\<close>

definition http :: "int \<Rightarrow> pystr \<Rightarrow> py_exn" where
  "http status detail = HTTPException status (VStr detail)"

definition status_of :: "'a result \<Rightarrow> int" where
  "status_of r = (case r of Inr _ \<Rightarrow> 200 | Inl (HTTPException n _) \<Rightarrow> n | Inl _ \<Rightarrow> 500)"

text \<open>The \<open>except\<close> clauses of a handler, as a map on the exceptions of its body.\<close>

definition catching :: "(py_exn \<Rightarrow> py_exn) \<Rightarrow> 'a result \<times> 's \<Rightarrow> 'a result \<times> 's" where
  "catching clauses = map_prod (map_sum clauses id) id"

definition key_404 :: "py_exn \<Rightarrow> py_exn" where
  "key_404 e = (case e of KeyError _ \<Rightarrow> http 404 (exn_text e) | _ \<Rightarrow> e)"

definition value_400 :: "py_exn \<Rightarrow> py_exn" where
  "value_400 e = (case e of ValueError _ \<Rightarrow> http 400 (exn_text e) | _ \<Rightarrow> e)"

definition permission_403 :: "py_exn \<Rightarrow> py_exn" where
  "permission_403 e = (case e of PermissionError _ \<Rightarrow> http 403 (exn_text e) | _ \<Rightarrow> e)"

definition dataset_404 :: "py_exn \<Rightarrow> py_exn" where
  "dataset_404 e = (case e of KeyError _ \<Rightarrow> http 404 ''dataset not found'' | _ \<Rightarrow> e)"

definition any_400 :: "py_exn \<Rightarrow> py_exn" where
  "any_400 e = http 400 (exn_text e)"

text \<open>A parameter outside its declared bounds.\<close>

definition unprocessable :: py_exn where
  "unprocessable = HTTPException 422 VNone"

definition checked :: "bool \<Rightarrow> 'a result \<Rightarrow> 'a result" where
  "checked ok r = (if ok then r else Inl unprocessable)"

definition reading :: "('s \<Rightarrow> 'a result) \<Rightarrow> 's \<Rightarrow> 'a result \<times> 's" where
  "reading f s = (f s, s)"

section \<open>Actors and decisions\<close>

definition actor_of :: "pyval dict \<Rightarrow> 's world_scheme \<Rightarrow> pystr" where
  "actor_of payload w =
     (if payload = [] then ''anonymous'' else py_str w (value_or payload ''actor'' (VStr ''anonymous'')))"

text \<open>A handler that goes on only under an allowing decision, and answers 403 otherwise.\<close>

definition authorized ::
  "pystr \<Rightarrow> pystr \<Rightarrow> pystr \<Rightarrow> pystr \<Rightarrow> (policy_decision \<Rightarrow> 's catalog_state_scheme \<Rightarrow> 'a result \<times> 's catalog_state_scheme)
   \<Rightarrow> 's catalog_state_scheme \<Rightarrow> 'a result \<times> 's catalog_state_scheme" where
  "authorized subject resource action purpose body s =
     (let (decision, s) = evaluate subject resource action purpose s in
      if pd_effect decision \<noteq> ''allow'' then (Inl (http 403 (pd_reason decision)), s)
      else body decision s)"

section \<open>Changing the catalog\<close>

definition create_dataset ::
  "(pyval dict \<Rightarrow> pystr + dataset_create_request) \<Rightarrow> pyval dict \<Rightarrow> 's catalog_state_scheme
   \<Rightarrow> dataset result \<times> 's catalog_state_scheme" where
  "create_dataset parse payload s =
     (let actor_id = actor_of payload s in
      case parse payload of
        Inl message \<Rightarrow> (Inl (http 400 (''invalid payload: '' @ message)), s)
      | Inr request \<Rightarrow>
          authorized actor_id (case cr_id request of Some (c # cs) \<Rightarrow> c # cs | _ \<Rightarrow> ''new'') ''create'' ''catalog''
            (\<lambda>decision. register_dataset request actor_id (Some (pd_decision_id decision))) s)"

definition publish_catalog_dataset ::
  "pystr \<Rightarrow> pyval dict \<Rightarrow> 's catalog_state_scheme \<Rightarrow> dataset result \<times> 's catalog_state_scheme" where
  "publish_catalog_dataset dataset_id payload s =
     (let actor_id = actor_of payload s in
      authorized actor_id dataset_id ''publish'' ''catalog''
        (\<lambda>decision s. catching (value_400 \<circ> key_404)
           (publish_dataset dataset_id actor_id (Some (pd_decision_id decision)) s)) s)"

text \<open>Here the payload is parsed after the decision, inside the \<open>try\<close>: every exception but a
  \<open>KeyError\<close> is a 400.\<close>

definition key_404_else_400 :: "py_exn \<Rightarrow> py_exn" where
  "key_404_else_400 e = (case e of KeyError _ \<Rightarrow> key_404 e | _ \<Rightarrow> any_400 e)"

definition patch_catalog_dataset ::
  "(pyval dict \<Rightarrow> pystr + dataset_patch_request) \<Rightarrow> pystr \<Rightarrow> pyval dict \<Rightarrow> 's catalog_state_scheme
   \<Rightarrow> dataset result \<times> 's catalog_state_scheme" where
  "patch_catalog_dataset parse dataset_id payload s =
     (let actor_id = actor_of payload s in
      authorized actor_id dataset_id ''patch'' ''catalog''
        (\<lambda>decision s. catching key_404_else_400
           (case parse payload of
              Inl message \<Rightarrow> (Inl (ValueError message), s)
            | Inr request \<Rightarrow> patch_dataset dataset_id request actor_id (Some (pd_decision_id decision)) s)) s)"

definition text_payload :: "pystr dict \<Rightarrow> pyval dict" where
  "text_payload payload = map (\<lambda>(k, v). (k, VStr v)) payload"

definition text_or :: "pystr dict \<Rightarrow> pystr \<Rightarrow> pystr \<Rightarrow> pystr" where
  "text_or payload k fallback = (case dict_get payload k of None \<Rightarrow> fallback | Some v \<Rightarrow> v)"

definition deprecate_catalog_dataset ::
  "pystr \<Rightarrow> pystr dict \<Rightarrow> 's catalog_state_scheme \<Rightarrow> dataset result \<times> 's catalog_state_scheme" where
  "deprecate_catalog_dataset dataset_id payload s =
     (let actor_id = actor_of (text_payload payload) s in
      authorized actor_id dataset_id ''deprecate'' ''catalog''
        (\<lambda>decision s. catching key_404
           (deprecate_dataset dataset_id actor_id (text_or payload ''reason'' ''deprecated'')
              (Some (pd_decision_id decision)) s)) s)"

section \<open>Reading the catalog\<close>

definition badge :: "dataset \<Rightarrow> pystr" where
  "badge ds = (if 8/10 \<le> metadata_recommendation_score ds then ''good'' else ''partial'')"

record search_item =
  it_id :: pystr
  it_title :: pystr
  it_tags :: "pystr list"
  it_owner :: pystr
  it_steward :: pystr
  it_domain :: pystr
  it_quality :: rat
  it_freshness :: rat
  it_search_score :: rat
  it_metadata_completeness :: rat
  it_completeness_score :: rat
  it_status :: pystr
  it_version :: pystr
  it_schema_version :: pystr
  it_metadata_recommendation_score :: rat
  it_completeness_badge :: pystr

definition search_item_of :: "search_result \<Rightarrow> search_item" where
  "search_item_of row =
     (let ds = sr_dataset row in
      \<lparr>it_id = ds_id ds, it_title = ds_title ds, it_tags = ds_tags ds, it_owner = ds_owner ds,
       it_steward = ds_steward ds, it_domain = ds_domain ds, it_quality = ds_quality_score ds,
       it_freshness = ds_freshness_score ds, it_search_score = sr_score row,
       it_metadata_completeness = metadata_completeness ds, it_completeness_score = ds_completeness_score ds,
       it_status = ds_status ds, it_version = ds_version ds, it_schema_version = ds_schema_version ds,
       it_metadata_recommendation_score = metadata_recommendation_score ds, it_completeness_badge = badge ds\<rparr>)"

definition in_range :: "rat option \<Rightarrow> bool" where
  "in_range v = (case v of None \<Rightarrow> True | Some r \<Rightarrow> 0 \<le> r \<and> r \<le> 1)"

definition catalog_search ::
  "pystr \<Rightarrow> search_filters \<Rightarrow> int \<Rightarrow> 's catalog_state_scheme \<Rightarrow> (pystr \<times> nat \<times> search_item list) result" where
  "catalog_search q f limit s =
     checked (q \<noteq> [] \<and> in_range (sf_min_quality f) \<and> in_range (sf_min_freshness f) \<and> 1 \<le> limit \<and> limit \<le> 100)
       (let filtered = map search_item_of (search_catalog q f limit s) in Inr (q, length filtered, filtered))"

definition catalog_facets :: "pystr option \<Rightarrow> pystr \<Rightarrow> 's catalog_state_scheme \<Rightarrow> (pystr \<times> nat dict) result" where
  "catalog_facets q field s =
     (case list_facet_counts field q s of
        Inr counts \<Rightarrow> Inr (field, counts)
      | Inl (ValueError _) \<Rightarrow> Inl (http 400 ''unsupported facet field'')
      | Inl e \<Rightarrow> Inl e)"

definition dataset_view :: "dataset \<Rightarrow> dataset \<times> rat \<times> pystr" where
  "dataset_view ds = (ds, metadata_recommendation_score ds, badge ds)"

definition list_datasets_endpoint :: "'s catalog_state_scheme \<Rightarrow> (dataset \<times> rat \<times> pystr) list result" where
  "list_datasets_endpoint s = Inr (map dataset_view (list_datasets s))"

text \<open>The datasets' endpoints answer 404 when there is none.\<close>

definition of_dataset :: "pystr \<Rightarrow> (dataset \<Rightarrow> 'a) \<Rightarrow> 's catalog_state_scheme \<Rightarrow> 'a result" where
  "of_dataset dataset_id f s =
     (case get_dataset dataset_id s of
        None \<Rightarrow> Inl (http 404 ''dataset not found'') | Some ds \<Rightarrow> Inr (f ds))"

definition dataset_detail :: "pystr \<Rightarrow> 's catalog_state_scheme \<Rightarrow> (dataset \<times> rat \<times> pystr) result" where
  "dataset_detail dataset_id = of_dataset dataset_id dataset_view"

record dataset_document =
  dj_context :: pystr
  dj_type :: pystr
  dj_id :: pystr
  dj_title :: pystr
  dj_description :: pystr
  dj_license :: pystr
  dj_status :: pystr
  dj_completeness_score :: rat
  dj_metadata_completeness :: rat
  dj_metadata_recommendation_score :: rat
  dj_domain :: pystr
  dj_owner :: pystr
  dj_steward :: pystr
  dj_distribution :: "dataset_distribution list"
  dj_mappings :: "business_mapping list"

definition dataset_jsonld :: "pystr \<Rightarrow> 's catalog_state_scheme \<Rightarrow> dataset_document result" where
  "dataset_jsonld dataset_id = of_dataset dataset_id (\<lambda>ds.
     \<lparr>dj_context = ''https://www.w3.org/TR/vocab-dcat-3/'', dj_type = ''Dataset'',
      dj_id = ''https://semantic-data-portal.local/datasets/'' @ ds_id ds, dj_title = ds_title ds,
      dj_description = ds_description ds, dj_license = ds_license ds, dj_status = ds_status ds,
      dj_completeness_score = ds_completeness_score ds, dj_metadata_completeness = metadata_completeness ds,
      dj_metadata_recommendation_score = metadata_recommendation_score ds, dj_domain = ds_domain ds,
      dj_owner = ds_owner ds, dj_steward = ds_steward ds, dj_distribution = ds_distributions ds,
      dj_mappings = ds_mappings ds\<rparr>)"

definition validate_endpoint :: "pystr \<Rightarrow> 's catalog_state_scheme \<Rightarrow> metadata_validation result" where
  "validate_endpoint dataset_id = of_dataset dataset_id validate_metadata"

definition catalog_dataset_semantic_validation :: "pystr \<Rightarrow> 's catalog_state_scheme \<Rightarrow> semantic_report result" where
  "catalog_dataset_semantic_validation dataset_id s =
     map_sum dataset_404 id (validate_dataset_semantics dataset_id s)"

text \<open>These three let the \<open>KeyError\<close> of an unknown dataset through.\<close>

definition catalog_dataset_schema_history ::
  "pystr \<Rightarrow> 's catalog_state_scheme \<Rightarrow> (pystr \<times> schema_snapshot list) result" where
  "catalog_dataset_schema_history dataset_id s = get_dataset_schema_history dataset_id s"

definition catalog_dataset_schema_versions :: "pystr \<Rightarrow> 's catalog_state_scheme \<Rightarrow> (pystr \<times> pystr list) result" where
  "catalog_dataset_schema_versions dataset_id s =
     map_sum id (Pair dataset_id) (list_dataset_schema_versions dataset_id s)"

definition catalog_dataset_join_candidates ::
  "pystr \<Rightarrow> int \<Rightarrow> 's catalog_state_scheme \<Rightarrow> (pystr \<times> join_candidate list) result" where
  "catalog_dataset_join_candidates dataset_id limit s =
     checked (1 \<le> limit \<and> limit \<le> 100) (map_sum id (Pair dataset_id) (get_join_candidates dataset_id limit s))"

definition catalog_dataset_profile :: "pystr \<Rightarrow> 's catalog_state_scheme \<Rightarrow> pyval dict result" where
  "catalog_dataset_profile dataset_id s = map_sum key_404 id (get_dataset_profile dataset_id s)"

definition catalog_dataset_schema_diff ::
  "pystr \<Rightarrow> pystr \<Rightarrow> pystr \<Rightarrow> 's catalog_state_scheme \<Rightarrow> (pystr \<times> schema_diff) result" where
  "catalog_dataset_schema_diff dataset_id from_version to_version s =
     map_sum value_400 (Pair dataset_id) (get_dataset_schema_diff dataset_id from_version to_version s)"

definition dataset_lineage :: "pystr \<Rightarrow> 's catalog_state_scheme \<Rightarrow> (pystr \<times> pystr list \<times> pystr list) result" where
  "dataset_lineage dataset_id s = map_sum key_404 id (get_dataset_lineage dataset_id s)"

definition dataset_related :: "pystr \<Rightarrow> 's catalog_state_scheme \<Rightarrow> (pystr \<times> pystr list) result" where
  "dataset_related dataset_id s = map_sum key_404 (Pair dataset_id) (get_related_datasets dataset_id s)"

definition dataset_audit_events :: "pystr \<Rightarrow> int \<Rightarrow> 's catalog_state_scheme \<Rightarrow> audit_event list result" where
  "dataset_audit_events dataset_id limit s =
     checked (1 \<le> limit \<and> limit \<le> 200) (Inr (get_dataset_audit_events dataset_id (nat limit) s))"

definition list_events :: "int \<Rightarrow> pystr option \<Rightarrow> 's catalog_state_scheme \<Rightarrow> audit_event list result" where
  "list_events limit resource s =
     checked (1 \<le> limit \<and> limit \<le> 500) (Inr (list_audit_events (nat limit) resource s))"

section \<open>Policy\<close>

definition policy_decision_endpoint ::
  "pystr dict \<Rightarrow> 's catalog_state_scheme \<Rightarrow> policy_decision result \<times> 's catalog_state_scheme" where
  "policy_decision_endpoint payload s =
     map_prod Inr id (evaluate (text_or payload ''subject'' ''anonymous'') (text_or payload ''resource'' [])
       (text_or payload ''action'' ''preview'') (text_or payload ''purpose'' ''analysis'') s)"

definition policy_decisions :: "int \<Rightarrow> pystr option \<Rightarrow> 's catalog_state_scheme \<Rightarrow> policy_decision list result" where
  "policy_decisions limit resource s =
     checked (1 \<le> limit \<and> limit \<le> 500) (Inr (list_policy_decisions resource (nat limit) s))"

section \<open>Browsing and querying\<close>

definition browse_schema_endpoint ::
  "pystr \<Rightarrow> pystr \<Rightarrow> pystr \<Rightarrow> 's catalog_state_scheme \<Rightarrow> schema_result result \<times> 's catalog_state_scheme" where
  "browse_schema_endpoint dataset_id user purpose s =
     catching (permission_403 \<circ> dataset_404) (browse_schema dataset_id user purpose s)"

text \<open>\<open>int(v)\<close> of a JSON value.\<close>

definition int_or :: "pyval dict \<Rightarrow> pystr \<Rightarrow> int \<Rightarrow> int result" where
  "int_or payload k fallback = py_int (value_or payload k (VInt fallback))"

text \<open>The user and the purpose are handed on as text.  The offset is computed after the limit, so
  the exception of the limit comes first.\<close>

definition browse_preview ::
  "pystr \<Rightarrow> pyval dict \<Rightarrow> 's catalog_state_scheme \<Rightarrow> preview_result result \<times> 's catalog_state_scheme" where
  "browse_preview dataset_id payload s =
     (if dict_get payload ''user'' = None then (Inl (http 400 ''user is required''), s)
      else catching (permission_403 \<circ> value_400 \<circ> dataset_404)
        (case int_or payload ''limit'' 100 of
           Inl e \<Rightarrow> (Inl e, s)
         | Inr limit \<Rightarrow>
             (case int_or payload ''offset'' 0 of
                Inl e \<Rightarrow> (Inl e, s)
              | Inr offset \<Rightarrow>
                  preview dataset_id (py_str s (value_or payload ''user'' (VStr ''anonymous'')))
                    (py_str s (value_or payload ''purpose'' (VStr ''analysis''))) (min limit 100) (max offset 0) s)))"

text \<open>Every exception of a draft is a 400; its own errors are part of the answer.\<close>

definition draft_query ::
  "(pyval dict \<Rightarrow> pystr + query_draft_request) \<Rightarrow> pyval dict \<Rightarrow> 's catalog_state_scheme
   \<Rightarrow> (draft_error + draft) result \<times> 's catalog_state_scheme" where
  "draft_query parse payload s =
     (case parse payload of
        Inl message \<Rightarrow> (Inl (http 400 message), s)
      | Inr request \<Rightarrow> map_prod Inr id (draft_sql request s))"

definition refused :: "query_execution_response \<Rightarrow> int \<Rightarrow> py_exn" where
  "refused r status =
     HTTPException status (VDict [(''status'', VStr (qr_status r)), (''warnings'', str_list (qr_warnings r))])"

definition browse_query ::
  "(pyval dict \<Rightarrow> pystr + query_execution_request) \<Rightarrow> pyval dict \<Rightarrow> 's catalog_state_scheme
   \<Rightarrow> query_execution_response result \<times> 's catalog_state_scheme" where
  "browse_query parse payload s =
     (case parse payload of
        Inl message \<Rightarrow> (Inl (http 400 message), s)
      | Inr request \<Rightarrow>
          (case execute_query request s of
             (Inl e, s) \<Rightarrow> (Inl e, s)
           | (Inr r, s) \<Rightarrow>
               if qr_status r = ''REJECTED'' then (Inl (refused r 400), s)
               else if qr_status r = ''DENIED'' then (Inl (refused r 403), s)
               else (Inr r, s)))"

section \<open>What the handlers leave alone\<close>

text \<open>Two states with the same datasets, the same history and the same rest of the portal: at most
  the audit events, the decisions, the clock and the uuids differ.\<close>

definition only_evidence :: "'s catalog_state_scheme \<Rightarrow> 's catalog_state_scheme \<Rightarrow> bool" where
  "only_evidence s t \<longleftrightarrow> catalog_data t = catalog_data s \<and> schema_history t = schema_history s
     \<and> catalog_state.more t = catalog_state.more s"

named_theorems frame_simps

lemma frame_now [frame_simps]: "catalog_state.more (snd (now s)) = catalog_state.more s"
  by (simp add: now_def)

lemma frame_evaluate [frame_simps]:
  "catalog_state.more (snd (evaluate subject resource action purpose s)) = catalog_state.more s"
  by (auto simp: evaluate_split Let_def case_prod_unfold make_decision_def record_policy_decision_def
      store_record_decision_world uuid4_def now_def split: option.split)

lemma frame_ingest [frame_simps]: "catalog_state.more (ingest_event a b c d e f g s) = catalog_state.more s"
  by (simp add: ingest_event_def record_audit_event_def uuid4_def now_def append_audit_event_def
      Let_def split: option.split)

lemma frame_query_audit [frame_simps]:
  "catalog_state.more (query_audit req r k outcome reason d details s) = catalog_state.more s"
  "schema_history (query_audit req r k outcome reason d details s) = schema_history s"
  by (simp_all add: query_audit_def frame_simps)

lemma only_evidence_refl [simp]: "only_evidence s s"
  by (simp add: only_evidence_def)

lemma only_evidence_trans: "only_evidence s t \<Longrightarrow> only_evidence t u \<Longrightarrow> only_evidence s u"
  by (simp add: only_evidence_def)

lemma only_evidence_inv: "only_evidence s t \<Longrightarrow> catalog_inv t = catalog_inv s"
  by (simp add: only_evidence_def catalog_inv_def history_of_def cong: option.case_cong)

lemma only_evidence_evaluate: "only_evidence s (snd (evaluate subject resource action purpose s))"
  by (simp add: only_evidence_def frame_simps)

lemma only_evidence_preview: "only_evidence s (snd (preview k user purpose limit offset s))"
  by (simp add: only_evidence_def frame_simps preview_def case_prod_unfold Let_def split: option.split)

lemma only_evidence_schema: "only_evidence s (snd (browse_schema k user purpose s))"
  by (simp add: only_evidence_def frame_simps browse_schema_def case_prod_unfold Let_def split: option.split)

lemma only_evidence_draft: "only_evidence s (snd (draft_sql req s))"
  by (simp add: only_evidence_def frame_simps draft_sql_def case_prod_unfold Let_def split: option.split)

lemma only_evidence_accepted: "only_evidence s (snd (run_accepted_query req r ds d s))"
  by (simp add: only_evidence_def frame_simps run_accepted_query_def case_prod_unfold Let_def split: sum.split)

lemma only_evidence_decide: "only_evidence s (snd (decide_query req r k ds s))"
  using only_evidence_accepted [of "snd (evaluate (qe_user req) k ''query'' (qe_purpose req) s)" req r ds
      "pd_decision_id (fst (evaluate (qe_user req) k ''query'' (qe_purpose req) s))"]
  by (simp add: only_evidence_def frame_simps decide_query_def case_prod_unfold Let_def)

lemma only_evidence_execute: "only_evidence s (snd (execute_query req s))"
proof -
  have r: "snd (safe_request_id s) = snd (now s)" by (rule safe_request_id_state)
  have d: "catalog_data (snd (decide_query req i k ds t)) = catalog_data t"
    "schema_history (snd (decide_query req i k ds t)) = schema_history t"
    "catalog_state.more (snd (decide_query req i k ds t)) = catalog_state.more t" for i k ds and t :: "'a catalog_state_scheme"
    using only_evidence_decide [of t req i k ds] by (simp_all add: only_evidence_def)
  show ?thesis
    by (simp add: only_evidence_def frame_simps execute_query_def case_prod_unfold Let_def r d
        split: list.split option.split)
qed

text \<open>A change of the catalog keeps the rest of the portal.\<close>

lemma more_commit: "catalog_state.more (snd (commit_dataset k ds actor action d details s)) = catalog_state.more s"
  by (simp add: commit_dataset_def store_dataset_def record_schema_snapshot_def make_schema_snapshot_def
      audit_dataset_def build_dataset_payload_def record_audit_event_def uuid4_def now_def append_audit_event_def
      Let_def split: option.split)

lemma more_audit_dataset: "catalog_state.more (audit_dataset ds actor action d details s) = catalog_state.more s"
  by (simp add: audit_dataset_def build_dataset_payload_def record_audit_event_def uuid4_def now_def
      append_audit_event_def Let_def split: option.split)

lemma more_mutations:
  "catalog_state.more (snd (register_dataset payload actor d s)) = catalog_state.more s"
  "catalog_state.more (snd (patch_dataset k p actor d s)) = catalog_state.more s"
  "catalog_state.more (snd (publish_dataset k actor d s)) = catalog_state.more s"
  "catalog_state.more (snd (deprecate_dataset k actor reason d s)) = catalog_state.more s"
  by (auto simp: register_dataset_def patch_dataset_def publish_dataset_def deprecate_dataset_def case_prod_unfold
      more_commit frame_simps more_audit_dataset Let_def split: sum.split)

lemma snd_catching [simp]: "snd (catching f r) = snd r"
  by (simp add: catching_def)

lemma fst_catching: "fst (catching f r) = map_sum f id (fst r)"
  by (simp add: catching_def)

lemma authorized_cases:
  obtains (denied) "pd_effect (fst (evaluate subject resource action purpose s)) \<noteq> ''allow''"
      "authorized subject resource action purpose body s
         = (Inl (http 403 (pd_reason (fst (evaluate subject resource action purpose s)))),
            snd (evaluate subject resource action purpose s))"
    | (allowed) "pd_effect (fst (evaluate subject resource action purpose s)) = ''allow''"
      "authorized subject resource action purpose body s
         = body (fst (evaluate subject resource action purpose s)) (snd (evaluate subject resource action purpose s))"
  by (cases "pd_effect (fst (evaluate subject resource action purpose s)) = ''allow''")
     (simp_all add: authorized_def case_prod_unfold Let_def)

lemma lower_actions:
  "lower ''create'' = ''create''" "lower ''publish'' = ''publish''" "lower ''patch'' = ''patch''"
  "lower ''deprecate'' = ''deprecate''" "lower ''search'' = ''search''" "lower ''preview'' = ''preview''"
  by code_simp+

text \<open>The four changing actions are allowed to administrators only.\<close>

lemma change_needs_admin:
  assumes "action \<in> {''create'', ''publish'', ''patch'', ''deprecate''}"
    and "pd_effect (fst (evaluate subject resource action purpose s)) = ''allow''"
  shows "is_admin subject"
  using assms by (auto simp: evaluate_effect decision_for_def lower_actions split: option.splits if_splits)

end
