(* ===== verification/GraphStore.thy ===== *)
theory GraphStore
  imports Embeddings
begin

text \<open>
  \<open>src/sdp/graph_store.py\<close>: the relationship labels both backends enforce, and the in-memory
  backend: nodes with embeddings, directed edges, ontology concepts, breadth-first traversal and
  semantic search.

  The graph keeps the digest function of the embeddings (MD5) as a component.
\<close>

section \<open>Values\<close>

record graph_node =
  gn_node_id :: pystr
  gn_kind :: pystr
  gn_label :: pystr
  gn_properties :: "pyval dict"

record graph_edge =
  ge_edge_type :: pystr
  ge_source_id :: pystr
  ge_target_id :: pystr
  ge_properties :: "pyval dict"

definition graph_normalize :: "pystr \<Rightarrow> pystr" where
  "graph_normalize value = lower (replace_char (CHR ''_'') (CHR '' '') (strip value))"

text \<open>\<open>^[A-Za-z_][A-Za-z0-9_]*$\<close>: the dollar also matches before a final line break.\<close>

definition ascii_letter :: "char \<Rightarrow> bool" where
  "ascii_letter c \<longleftrightarrow> is_upper c \<or> is_lower c"

definition bare_identifier :: "pystr \<Rightarrow> bool" where
  "bare_identifier s = (case s of
     [] \<Rightarrow> False
   | c # cs \<Rightarrow> (ascii_letter c \<or> c = CHR ''_'') \<and> list_all (\<lambda>c. ascii_letter c \<or> is_digit c \<or> c = CHR ''_'') cs)"

definition matches_age_identifier :: "pystr \<Rightarrow> bool" where
  "matches_age_identifier s \<longleftrightarrow> bare_identifier s \<or> (s \<noteq> [] \<and> last s = CHR 0x0A \<and> bare_identifier (butlast s))"

definition age_label_chars :: pystr where
  "age_label_chars = ''ABCDEFGHIJKLMNOPQRSTUVWXYZ0123456789_''"

definition relationship_label :: "pystr \<Rightarrow> pystr result" where
  "relationship_label edge_type =
     (if \<not> matches_age_identifier edge_type then Inl (ValueError ''invalid relationship type'')
      else (case find (\<lambda>c. c \<notin> set age_label_chars) (upper edge_type) of
              None \<Rightarrow> Inr (upper edge_type)
            | Some c \<Rightarrow> Inl (KeyError [c])))"

section \<open>The in-memory store\<close>

record concept_record =
  co_concept :: pystr
  co_definition :: pystr
  co_aliases :: "pystr list"
  co_broader :: "pystr option"
  co_narrower :: "pystr list"
  co_related :: "pystr list"
  co_multilingual :: "pystr list"

record memory_store =
  gs_digest :: "pystr \<Rightarrow> nat list"
  gs_dimension :: nat
  gs_nodes :: "graph_node dict"
  gs_edges :: "graph_edge list"
  gs_embeddings :: "(real list) dict"
  gs_concepts :: "concept_record dict"
  gs_alias_to_concept :: "pystr dict"

definition empty_store :: "(pystr \<Rightarrow> nat list) \<Rightarrow> nat \<Rightarrow> memory_store" where
  "empty_store digest dimension =
     \<lparr>gs_digest = digest, gs_dimension = dimension, gs_nodes = [], gs_edges = [], gs_embeddings = [],
      gs_concepts = [], gs_alias_to_concept = []\<rparr>"

text \<open>\<open>a or b\<close> for an optional text.\<close>

definition or_text :: "pystr option \<Rightarrow> pystr \<Rightarrow> pystr" where
  "or_text given otherwise = (case given of Some s \<Rightarrow> if s \<noteq> [] then s else otherwise | None \<Rightarrow> otherwise)"

definition upsert_node ::
  "pystr \<Rightarrow> pystr \<Rightarrow> pystr option \<Rightarrow> pyval dict \<Rightarrow> pystr option \<Rightarrow> memory_store \<Rightarrow> graph_node \<times> memory_store" where
  "upsert_node node_id kind label properties content g =
     (let node = \<lparr>gn_node_id = node_id, gn_kind = kind, gn_label = or_text label node_id, gn_properties = properties\<rparr>;
          embed_source = or_text content (or_text label node_id)
      in (node, g\<lparr>gs_nodes := dict_set node_id node (gs_nodes g),
                  gs_embeddings := dict_set node_id (embed_text (gs_digest g) embed_source (gs_dimension g)) (gs_embeddings g)\<rparr>))"

definition same_edge :: "pystr \<Rightarrow> pystr \<Rightarrow> pystr \<Rightarrow> graph_edge \<Rightarrow> bool" where
  "same_edge edge_type source_id target_id e \<longleftrightarrow>
     ge_edge_type e = edge_type \<and> ge_source_id e = source_id \<and> ge_target_id e = target_id"

text \<open>The first edge with the key has its properties updated in place.\<close>

fun put_edge :: "graph_edge \<Rightarrow> graph_edge list \<Rightarrow> graph_edge \<times> graph_edge list" where
  "put_edge e [] = (e, [e])"
| "put_edge e (x # xs) =
     (if same_edge (ge_edge_type e) (ge_source_id e) (ge_target_id e) x
      then (let y = x\<lparr>ge_properties := dict_update (ge_properties x) (ge_properties e)\<rparr> in (y, y # xs))
      else (let (r, ys) = put_edge e xs in (r, x # ys)))"

definition upsert_edge ::
  "pystr \<Rightarrow> pystr \<Rightarrow> pystr \<Rightarrow> pyval dict \<Rightarrow> memory_store \<Rightarrow> graph_edge result \<times> memory_store" where
  "upsert_edge edge_type source_id target_id properties g =
     (case relationship_label edge_type of
        Inl e \<Rightarrow> (Inl e, g)
      | Inr _ \<Rightarrow>
          (let (edge, edges) = put_edge \<lparr>ge_edge_type = edge_type, ge_source_id = source_id,
                 ge_target_id = target_id, ge_properties = properties\<rparr> (gs_edges g)
           in (Inr edge, g\<lparr>gs_edges := edges\<rparr>)))"

fun upsert_edges :: "(pystr \<times> pystr \<times> pystr) list \<Rightarrow> memory_store \<Rightarrow> unit result \<times> memory_store" where
  "upsert_edges [] g = (Inr (), g)"
| "upsert_edges ((edge_type, source_id, target_id) # others) g =
     (case upsert_edge edge_type source_id target_id [] g of
        (Inl e, g) \<Rightarrow> (Inl e, g)
      | (Inr _, g) \<Rightarrow> upsert_edges others g)"

definition concept_edges :: "concept_record \<Rightarrow> (pystr \<times> pystr \<times> pystr) list" where
  "concept_edges r =
     (case co_broader r of None \<Rightarrow> [] | Some b \<Rightarrow> if b \<noteq> [] then [(''broader'', co_concept r, b)] else [])
     @ map (\<lambda>n. (''narrower'', co_concept r, n)) (co_narrower r)
     @ map (\<lambda>n. (''related'', co_concept r, n)) (co_related r)"

definition upsert_concept :: "concept_record \<Rightarrow> memory_store \<Rightarrow> concept_record result \<times> memory_store" where
  "upsert_concept payload g =
     (let concept = strip (co_concept payload);
          r = payload\<lparr>co_concept := concept\<rparr>;
          names = co_aliases r @ co_multilingual r;
          g = g\<lparr>gs_concepts := dict_set concept r (gs_concepts g),
                gs_alias_to_concept := dict_update (gs_alias_to_concept g)
                  (map (\<lambda>a. (graph_normalize a, concept)) (concept # names))\<rparr>;
          (_, g) = upsert_node concept ''concept'' (Some concept)
            [(''definition'', VStr (co_definition r)), (''aliases'', str_list (co_aliases r)),
             (''multilingual'', str_list (co_multilingual r))]
            (Some (join '' '' (concept # co_definition r # names))) g
      in case upsert_edges (concept_edges r) g of
           (Inl e, g) \<Rightarrow> (Inl e, g)
         | (Inr _, g) \<Rightarrow> (Inr r, g))"

section \<open>Reads\<close>

definition get_node :: "pystr \<Rightarrow> memory_store \<Rightarrow> graph_node option" where
  "get_node node_id g = dict_get (gs_nodes g) node_id"

definition canonical_concept :: "pystr \<Rightarrow> memory_store \<Rightarrow> pystr" where
  "canonical_concept term g =
     (case dict_get (gs_alias_to_concept g) (graph_normalize term) of None \<Rightarrow> term | Some c \<Rightarrow> c)"

datatype store_concept_graph =
    Store_concept concept_record "pystr list"
  | Store_no_concept pystr

definition store_concept_graph_of :: "pystr \<Rightarrow> memory_store \<Rightarrow> store_concept_graph" where
  "store_concept_graph_of term g =
     (let canonical = canonical_concept term g in
      case dict_get (gs_concepts g) canonical of
        None \<Rightarrow> Store_no_concept term
      | Some r \<Rightarrow>
          (let dataset_ids = sorted_set (map ge_source_id
             (filter (\<lambda>e. ge_edge_type e = ''mapping'' \<and> ge_target_id e = canonical) (gs_edges g)))
           in Store_concept \<lparr>co_concept = canonical, co_definition = co_definition r,
                co_aliases = canonical # co_aliases r, co_broader = co_broader r,
                co_narrower = co_narrower r, co_related = co_related r,
                co_multilingual = co_multilingual r\<rparr> dataset_ids))"

definition neighbor_of :: "pystr \<Rightarrow> pystr \<Rightarrow> graph_edge \<Rightarrow> pystr option" where
  "neighbor_of direction current e =
     (if direction \<in> {''out'', ''both''} \<and> ge_source_id e = current then Some (ge_target_id e)
      else if direction \<in> {''in'', ''both''} \<and> ge_target_id e = current then Some (ge_source_id e)
      else None)"

definition edge_key :: "graph_edge \<Rightarrow> pystr \<times> pystr \<times> pystr" where
  "edge_key e = (ge_edge_type e, ge_source_id e, ge_target_id e)"

definition edge_allowed :: "pystr list option \<Rightarrow> graph_edge \<Rightarrow> bool" where
  "edge_allowed edge_types e = (case edge_types of
     None \<Rightarrow> True | Some ts \<Rightarrow> ts = [] \<or> ge_edge_type e \<in> set ts)"

text \<open>What the traversal has seen: nodes, edges and the keys of the edges; and the queue.\<close>

record traversal =
  tv_nodes :: "graph_node dict"
  tv_edges :: "graph_edge list"
  tv_seen :: "(pystr \<times> pystr \<times> pystr) list"
  tv_frontier :: "(pystr \<times> nat) list"

definition see_edge :: "graph_edge \<Rightarrow> traversal \<Rightarrow> traversal" where
  "see_edge e tv =
     (if edge_key e \<in> set (tv_seen tv) then tv
      else tv\<lparr>tv_seen := tv_seen tv @ [edge_key e], tv_edges := tv_edges tv @ [e]\<rparr>)"

definition see_node :: "graph_node dict \<Rightarrow> nat \<Rightarrow> pystr \<Rightarrow> traversal \<Rightarrow> traversal" where
  "see_node nodes depth n tv =
     (if dict_get (tv_nodes tv) n \<noteq> None then tv
      else (let node = (case dict_get nodes n of
                Some node \<Rightarrow> node
              | None \<Rightarrow> \<lparr>gn_node_id = n, gn_kind = ''unknown'', gn_label = n, gn_properties = []\<rparr>)
            in tv\<lparr>tv_nodes := dict_set n node (tv_nodes tv), tv_frontier := tv_frontier tv @ [(n, depth + 1)]\<rparr>))"

definition scan_edge ::
  "graph_node dict \<Rightarrow> pystr list option \<Rightarrow> pystr \<Rightarrow> pystr \<Rightarrow> nat \<Rightarrow> graph_edge \<Rightarrow> traversal \<Rightarrow> traversal" where
  "scan_edge nodes edge_types direction current depth e tv =
     (if \<not> edge_allowed edge_types e then tv
      else (case neighbor_of direction current e of
              None \<Rightarrow> tv
            | Some n \<Rightarrow> see_node nodes depth n (see_edge e tv)))"

definition scan_edges ::
  "memory_store \<Rightarrow> pystr list option \<Rightarrow> pystr \<Rightarrow> pystr \<Rightarrow> nat \<Rightarrow> traversal \<Rightarrow> traversal" where
  "scan_edges g edge_types direction current depth tv =
     fold (scan_edge (gs_nodes g) edge_types direction current depth) (gs_edges g) tv"

text \<open>The end points of the edges, which bound the nodes the loop can discover.\<close>

definition endpoints :: "memory_store \<Rightarrow> pystr set" where
  "endpoints g = ge_source_id ` set (gs_edges g) \<union> ge_target_id ` set (gs_edges g)"

definition undiscovered :: "memory_store \<Rightarrow> traversal \<Rightarrow> nat" where
  "undiscovered g tv = card (endpoints g - set (dict_keys (tv_nodes tv)))"

lemma finite_endpoints [simp]: "finite (endpoints g)"
  by (simp add: endpoints_def)

lemma neighbor_endpoint: "e \<in> set (gs_edges g) \<Longrightarrow> neighbor_of direction current e = Some n \<Longrightarrow> n \<in> endpoints g"
  by (auto simp: neighbor_of_def endpoints_def split: if_splits)

lemma see_edge_simps [simp]:
  "tv_nodes (see_edge e tv) = tv_nodes tv" "tv_frontier (see_edge e tv) = tv_frontier tv"
  by (simp_all add: see_edge_def)

lemma see_node_work:
  assumes "n \<in> endpoints g"
  shows "undiscovered g (see_node nodes depth n tv) + length (tv_frontier (see_node nodes depth n tv))
    \<le> undiscovered g tv + length (tv_frontier tv)"
proof (cases "dict_get (tv_nodes tv) n")
  case None
  then have n: "n \<in> endpoints g - set (dict_keys (tv_nodes tv))"
    using assms by (simp add: dict_get_None_iff)
  then have "card (endpoints g - insert n (set (dict_keys (tv_nodes tv)))) + 1
      = card (endpoints g - set (dict_keys (tv_nodes tv)))"
    by (metis Diff_insert Suc_eq_plus1 card_Suc_Diff1 finite_Diff finite_endpoints)
  with None show ?thesis by (simp add: undiscovered_def see_node_def Let_def keys_dict_set)
qed (simp add: see_node_def)

lemma scan_edge_work:
  assumes "e \<in> set (gs_edges g)"
  shows "undiscovered g (scan_edge nodes edge_types direction current depth e tv)
      + length (tv_frontier (scan_edge nodes edge_types direction current depth e tv))
    \<le> undiscovered g tv + length (tv_frontier tv)"
  using assms see_node_work [of _ g nodes depth "see_edge e tv"] neighbor_endpoint [of e g direction current]
  by (auto simp: scan_edge_def undiscovered_def split: option.split)

lemma scan_edges_work:
  "undiscovered g (scan_edges g edge_types direction current depth tv)
      + length (tv_frontier (scan_edges g edge_types direction current depth tv))
    \<le> undiscovered g tv + length (tv_frontier tv)"
proof -
  let ?f = "scan_edge (gs_nodes g) edge_types direction current depth"
  have "undiscovered g (fold ?f es tv) + length (tv_frontier (fold ?f es tv))
    \<le> undiscovered g tv + length (tv_frontier tv)" if "set es \<subseteq> set (gs_edges g)" for es
    using that
  proof (induction es arbitrary: tv)
    case (Cons e es)
    then have "set es \<subseteq> set (gs_edges g)" "e \<in> set (gs_edges g)" by simp_all
    then show ?case
      using order_trans [OF Cons.IH [of "?f e tv"] scan_edge_work [of e g "gs_nodes g" edge_types direction current depth tv]]
      by simp
  qed simp
  then show ?thesis by (simp add: scan_edges_def)
qed

text \<open>The loop over the queue; every node enters the queue at most once.\<close>

function traverse_loop :: "memory_store \<Rightarrow> pystr list option \<Rightarrow> pystr \<Rightarrow> int \<Rightarrow> traversal \<Rightarrow> traversal" where
  "traverse_loop g edge_types direction max_depth tv =
     (case tv_frontier tv of
        [] \<Rightarrow> tv
      | (current, depth) # frontier \<Rightarrow>
          (let tv = tv\<lparr>tv_frontier := frontier\<rparr> in
           if max_depth \<le> int depth then traverse_loop g edge_types direction max_depth tv
           else traverse_loop g edge_types direction max_depth
                  (scan_edges g edge_types direction current depth tv)))"
  by pat_completeness auto
termination
proof (relation "measure (\<lambda>(g, _, _, _, tv). undiscovered g tv + length (tv_frontier tv))", goal_cases)
  case 1
  show ?case by simp
next
  case (2 g edge_types direction max_depth tv x frontier current depth tv')
  then show ?case by (auto simp: undiscovered_def)
next
  case (3 g edge_types direction max_depth tv x frontier current depth tv')
  then show ?case
    using scan_edges_work [of g edge_types direction current depth tv'] by (auto simp: undiscovered_def)
qed

declare traverse_loop.simps [simp del]

record traversal_result =
  tr_start_id :: pystr
  tr_backend :: pystr
  tr_nodes :: "graph_node list"
  tr_edges :: "graph_edge list"

fun check_labels :: "pystr list \<Rightarrow> unit result" where
  "check_labels [] = Inr ()"
| "check_labels (t # ts) = (case relationship_label t of Inl e \<Rightarrow> Inl e | Inr _ \<Rightarrow> check_labels ts)"

definition traverse ::
  "pystr \<Rightarrow> pystr list option \<Rightarrow> pystr \<Rightarrow> int \<Rightarrow> memory_store \<Rightarrow> traversal_result result" where
  "traverse start_id edge_types direction max_depth g =
     (case dict_get (gs_nodes g) start_id of
        None \<Rightarrow> Inl (KeyError (''node not found: '' @ start_id))
      | Some start \<Rightarrow>
          (case check_labels (case edge_types of None \<Rightarrow> [] | Some ts \<Rightarrow> ts) of
             Inl e \<Rightarrow> Inl e
           | Inr _ \<Rightarrow>
               (let tv = traverse_loop g edge_types direction max_depth
                  \<lparr>tv_nodes = [(start_id, start)], tv_edges = [], tv_seen = [], tv_frontier = [(start_id, 0)]\<rparr>
                in Inr \<lparr>tr_start_id = start_id, tr_backend = ''in_memory'', tr_nodes = dict_values (tv_nodes tv),
                        tr_edges = tv_edges tv\<rparr>)))"

section \<open>Semantic search and status\<close>

record semantic_hit =
  sh_node_id :: pystr
  sh_kind :: pystr
  sh_label :: pystr
  sh_score :: real

text \<open>\<open>round(score, 6)\<close>.\<close>

definition round6 :: "real \<Rightarrow> real" where
  "round6 x =
     (let y = x * 1000000; f = \<lfloor>y\<rfloor>; d = y - of_int f
      in of_int (if d < 1/2 then f else if 1/2 < d then f + 1 else if even f then f else f + 1) / 1000000)"

text \<open>\<open>self._nodes[node_id]\<close> of every embedding; a missing node is a \<open>KeyError\<close>.\<close>

fun score_nodes ::
  "memory_store \<Rightarrow> real list \<Rightarrow> pystr option \<Rightarrow> (real list) dict \<Rightarrow> semantic_hit list result" where
  "score_nodes g query_vec kind [] = Inr []"
| "score_nodes g query_vec kind ((node_id, vector) # others) =
     (case dict_get (gs_nodes g) node_id of
        None \<Rightarrow> Inl (KeyError node_id)
      | Some node \<Rightarrow>
          (case score_nodes g query_vec kind others of
             Inl e \<Rightarrow> Inl e
           | Inr hits \<Rightarrow>
               Inr (if or_text kind (gn_kind node) \<noteq> gn_kind node then hits
                    else \<lparr>sh_node_id = node_id, sh_kind = gn_kind node, sh_label = gn_label node,
                          sh_score = round6 (cosine_similarity query_vec vector)\<rparr> # hits)))"

definition semantic_search :: "pystr \<Rightarrow> pystr option \<Rightarrow> int \<Rightarrow> memory_store \<Rightarrow> semantic_hit list result" where
  "semantic_search query kind limit g =
     (case score_nodes g (embed_text (gs_digest g) query (gs_dimension g)) kind (gs_embeddings g) of
        Inl e \<Rightarrow> Inl e
      | Inr scored \<Rightarrow> Inr (take_int limit (sort_desc sh_score scored)))"

record store_readiness =
  rd_ready :: bool
  rd_backend :: pystr
  rd_database :: bool
  rd_age :: bool
  rd_pgvector :: bool
  rd_checked_at :: pystr

definition memory_readiness :: "'s world_scheme \<Rightarrow> store_readiness \<times> 's world_scheme" where
  "memory_readiness w =
     (let (t, w) = now w
      in (\<lparr>rd_ready = True, rd_backend = ''in_memory'', rd_database = False, rd_age = False,
           rd_pgvector = False, rd_checked_at = iso_text w t\<rparr>, w))"

record store_stats =
  ss_nodes :: nat
  ss_edges :: nat
  ss_concepts :: nat
  ss_embeddings :: nat

definition memory_stats :: "memory_store \<Rightarrow> store_stats" where
  "memory_stats g =
     \<lparr>ss_nodes = length (gs_nodes g), ss_edges = length (gs_edges g), ss_concepts = length (gs_concepts g),
      ss_embeddings = length (gs_embeddings g)\<rparr>"

end
