(* ===== verification/Graph_Traversal.thy ===== *)
theory Graph_Traversal
  imports GraphStore
begin

text \<open>
  The in-memory backend of \<open>src/sdp/graph_store.py\<close> does what its contract says: the traversal
  returns exactly the nodes within \<open>max_depth\<close> steps, edges are stored once per key, labels that pass
  are safe, and every embedding belongs to a node.
\<close>

section \<open>The abstract traversal\<close>

definition steps_to :: "memory_store \<Rightarrow> pystr list option \<Rightarrow> pystr \<Rightarrow> pystr \<Rightarrow> pystr set" where
  "steps_to g edge_types direction m =
     {n. \<exists>e \<in> set (gs_edges g). edge_allowed edge_types e \<and> neighbor_of direction m e = Some n}"

fun reach_within :: "memory_store \<Rightarrow> pystr list option \<Rightarrow> pystr \<Rightarrow> pystr \<Rightarrow> nat \<Rightarrow> pystr set" where
  "reach_within g edge_types direction start 0 = {start}"
| "reach_within g edge_types direction start (Suc d) =
     reach_within g edge_types direction start d
     \<union> (\<Union>m \<in> reach_within g edge_types direction start d. steps_to g edge_types direction m)"

lemma reach_within_mono: "d \<le> d' \<Longrightarrow> reach_within g ts dir s d \<subseteq> reach_within g ts dir s d'"
  by (induction rule: dec_induct) auto

lemma reach_within_closed:
  assumes closed: "\<forall>m \<in> reach_within g ts dir s k. steps_to g ts dir m \<subseteq> reach_within g ts dir s k" and le: "k \<le> d"
  shows "reach_within g ts dir s d = reach_within g ts dir s k"
  using le by (induction rule: dec_induct) (use closed in auto)

section \<open>One scan of the edges\<close>

definition seen_nodes :: "traversal \<Rightarrow> pystr set" where
  "seen_nodes tv = set (dict_keys (tv_nodes tv))"

text \<open>What the scan of a list of edges adds: the neighbours it meets, queued in a new batch.\<close>

definition met :: "pystr list option \<Rightarrow> pystr \<Rightarrow> pystr \<Rightarrow> graph_edge list \<Rightarrow> pystr set" where
  "met ts dir m es = {n. \<exists>e \<in> set es. edge_allowed ts e \<and> neighbor_of dir m e = Some n}"

lemma scan_edge_cases:
  "(seen_nodes (scan_edge nodes ts dir m depth e tv) = seen_nodes tv \<union> met ts dir m [e])
   \<and> (\<exists>new. tv_frontier (scan_edge nodes ts dir m depth e tv) = tv_frontier tv @ map (\<lambda>n. (n, depth + 1)) new
        \<and> set new = met ts dir m [e] - seen_nodes tv)"
proof (cases "edge_allowed ts e \<and> neighbor_of dir m e \<noteq> None")
  case False
  then show ?thesis by (auto simp: scan_edge_def met_def split: option.split intro: exI [of _ "[]"])
next
  case True
  then obtain n where n: "neighbor_of dir m e = Some n" "met ts dir m [e] = {n}" by (auto simp: met_def)
  show ?thesis
  proof (cases "dict_get (tv_nodes tv) n")
    case None
    then have "n \<notin> seen_nodes tv" by (simp add: seen_nodes_def dict_get_None_iff)
    then show ?thesis
      using True n None
      by (auto simp: scan_edge_def see_node_def Let_def seen_nodes_def keys_dict_set intro: exI [of _ "[n]"])
  next
    case (Some x)
    then have "n \<in> seen_nodes tv" using dict_get_None_iff [of "tv_nodes tv" n] by (simp add: seen_nodes_def)
    then show ?thesis
      using True n Some by (auto simp: scan_edge_def see_node_def seen_nodes_def intro: exI [of _ "[]"])
  qed
qed

lemma met_Cons: "met ts dir m (e # es) = met ts dir m [e] \<union> met ts dir m es"
  by (auto simp: met_def)

lemma fold_scan_edge:
  "(seen_nodes (fold (scan_edge nodes ts dir m depth) es tv) = seen_nodes tv \<union> met ts dir m es)
   \<and> (\<exists>new. tv_frontier (fold (scan_edge nodes ts dir m depth) es tv) = tv_frontier tv @ map (\<lambda>n. (n, depth + 1)) new
        \<and> set new = met ts dir m es - seen_nodes tv)"
proof (induction es arbitrary: tv)
  case Nil
  show ?case by (auto simp: met_def intro: exI [of _ "[]"])
next
  case (Cons e es)
  let ?tv = "scan_edge nodes ts dir m depth e tv"
  obtain new1 where 1: "seen_nodes ?tv = seen_nodes tv \<union> met ts dir m [e]"
    "tv_frontier ?tv = tv_frontier tv @ map (\<lambda>n. (n, depth + 1)) new1" "set new1 = met ts dir m [e] - seen_nodes tv"
    using scan_edge_cases [of nodes ts dir m depth e tv] by blast
  obtain new2 where 2: "seen_nodes (fold (scan_edge nodes ts dir m depth) es ?tv) = seen_nodes ?tv \<union> met ts dir m es"
    "tv_frontier (fold (scan_edge nodes ts dir m depth) es ?tv) = tv_frontier ?tv @ map (\<lambda>n. (n, depth + 1)) new2"
    "set new2 = met ts dir m es - seen_nodes ?tv"
    using Cons.IH [of ?tv] by blast
  have "tv_frontier (fold (scan_edge nodes ts dir m depth) (e # es) tv)
      = tv_frontier tv @ map (\<lambda>n. (n, depth + 1)) (new1 @ new2)"
    using 1 2 by simp
  moreover have "set (new1 @ new2) = met ts dir m (e # es) - seen_nodes tv"
    using 1 2 by (auto simp: met_Cons [of ts dir m e es])
  moreover have "seen_nodes (fold (scan_edge nodes ts dir m depth) (e # es) tv) = seen_nodes tv \<union> met ts dir m (e # es)"
    using 1 2 by (auto simp: met_Cons [of ts dir m e es])
  ultimately show ?case by blast
qed

lemma scan_edges_seen:
  "seen_nodes (scan_edges g ts dir m depth tv) = seen_nodes tv \<union> steps_to g ts dir m"
  "\<exists>new. tv_frontier (scan_edges g ts dir m depth tv) = tv_frontier tv @ map (\<lambda>n. (n, depth + 1)) new
     \<and> set new = steps_to g ts dir m - seen_nodes tv"
  using fold_scan_edge [of "gs_nodes g" ts dir m depth "gs_edges g" tv]
  by (auto simp: scan_edges_def met_def steps_to_def)

section \<open>The loop\<close>

text \<open>
  The queue holds nodes of the current level \<open>k\<close> and then nodes of the next; all nodes of level
  \<open>k\<close> are seen, and those already taken from the queue have had their neighbours seen.
\<close>

definition bfs_inv :: "memory_store \<Rightarrow> pystr list option \<Rightarrow> pystr \<Rightarrow> pystr \<Rightarrow> nat \<Rightarrow> traversal
   \<Rightarrow> nat \<Rightarrow> pystr list \<Rightarrow> pystr list \<Rightarrow> bool" where
  "bfs_inv g ts dir s maxd tv k now_level next_level \<longleftrightarrow>
     tv_frontier tv = map (\<lambda>n. (n, k)) now_level @ map (\<lambda>n. (n, Suc k)) next_level
   \<and> seen_nodes tv = reach_within g ts dir s k \<union> set next_level
   \<and> set now_level \<subseteq> reach_within g ts dir s k
   \<and> set next_level \<subseteq> reach_within g ts dir s (Suc k)
   \<and> (\<forall>m \<in> reach_within g ts dir s k - set now_level. k < maxd \<longrightarrow> steps_to g ts dir m \<subseteq> seen_nodes tv)
   \<and> k \<le> maxd \<and> (next_level \<noteq> [] \<longrightarrow> k < maxd)"

lemma seen_nodes_frontier [simp]: "seen_nodes (tv\<lparr>tv_frontier := f\<rparr>) = seen_nodes tv"
  by (simp add: seen_nodes_def)

lemma traverse_loop_correct:
  "bfs_inv g ts dir s (nat maxd) tv k now_level next_level \<Longrightarrow>
   seen_nodes (traverse_loop g ts dir maxd tv) = reach_within g ts dir s (nat maxd)"
proof (induction g ts dir maxd tv arbitrary: k now_level next_level rule: traverse_loop.induct)
  case (1 g ts dir maxd tv)
  note inv = "1.prems" [unfolded bfs_inv_def]
  consider (drained) "now_level = []" "next_level = []"
    | (shift) n B where "now_level = []" "next_level = n # B"
    | (level) a A where "now_level = a # A"
    by (cases now_level; cases next_level) auto
  then show ?case
  proof cases
    case drained
    then have empty: "tv_frontier tv = []" and seen: "seen_nodes tv = reach_within g ts dir s k" and k: "k \<le> nat maxd"
      using inv by auto
    have "reach_within g ts dir s (nat maxd) = reach_within g ts dir s k"
    proof (cases "k < nat maxd")
      case True
      then have "\<forall>m \<in> reach_within g ts dir s k. steps_to g ts dir m \<subseteq> reach_within g ts dir s k"
        using inv seen drained by auto
      then show ?thesis using k by (rule reach_within_closed)
    next
      case False
      then show ?thesis using k by simp
    qed
    then show ?thesis by (simp add: traverse_loop.simps [of g ts dir maxd tv] empty seen)
  next
    case shift
    have lt: "k < nat maxd" using inv shift by simp
    have seen: "seen_nodes tv = reach_within g ts dir s (Suc k)"
      using inv shift lt by auto
    have inv': "bfs_inv g ts dir s (nat maxd) tv (Suc k) next_level []"
      using inv shift lt seen unfolding bfs_inv_def by auto
    have f: "tv_frontier tv = (n, Suc k) # map (\<lambda>n. (n, Suc k)) B" using inv shift by simp
    show ?thesis
    proof (cases "maxd \<le> int (Suc k)")
      case True
      have "bfs_inv g ts dir s (nat maxd) (tv\<lparr>tv_frontier := map (\<lambda>n. (n, Suc k)) B\<rparr>) (Suc k) B []"
        using inv' True shift unfolding bfs_inv_def by auto
      from "1.IH" (1) [OF f _ _ True this] show ?thesis
        using f True by (simp add: traverse_loop.simps [of g ts dir maxd tv])
    next
      case False
      let ?tv = "tv\<lparr>tv_frontier := map (\<lambda>n. (n, Suc k)) B\<rparr>"
      obtain new where new: "tv_frontier (scan_edges g ts dir n (Suc k) ?tv) = tv_frontier ?tv @ map (\<lambda>n. (n, Suc k + 1)) new"
        "set new = steps_to g ts dir n - seen_nodes ?tv"
        using scan_edges_seen(2) [of g ts dir n "Suc k" ?tv] by blast
      have "bfs_inv g ts dir s (nat maxd) (scan_edges g ts dir n (Suc k) ?tv) (Suc k) B new"
        using inv' shift False new scan_edges_seen(1) [of g ts dir n "Suc k" ?tv] seen
        unfolding bfs_inv_def by auto
      from "1.IH" (2) [OF f _ _ False this] show ?thesis
        using f False by (simp add: traverse_loop.simps [of g ts dir maxd tv] Let_def)
    qed
  next
    case level
    have f: "tv_frontier tv = (a, k) # (map (\<lambda>n. (n, k)) A @ map (\<lambda>n. (n, Suc k)) next_level)"
      using inv level by simp
    let ?tv = "tv\<lparr>tv_frontier := map (\<lambda>n. (n, k)) A @ map (\<lambda>n. (n, Suc k)) next_level\<rparr>"
    show ?thesis
    proof (cases "maxd \<le> int k")
      case True
      have "bfs_inv g ts dir s (nat maxd) ?tv k A next_level"
        using inv level True unfolding bfs_inv_def by auto
      from "1.IH" (1) [OF f _ _ True this] show ?thesis
        using f True by (simp add: traverse_loop.simps [of g ts dir maxd tv])
    next
      case False
      obtain new where new: "tv_frontier (scan_edges g ts dir a k ?tv) = tv_frontier ?tv @ map (\<lambda>n. (n, k + 1)) new"
        "set new = steps_to g ts dir a - seen_nodes ?tv"
        using scan_edges_seen(2) [of g ts dir a k ?tv] by blast
      have seen: "seen_nodes (scan_edges g ts dir a k ?tv) = seen_nodes tv \<union> steps_to g ts dir a"
        using scan_edges_seen(1) [of g ts dir a k ?tv] by simp
      have closed: "steps_to g ts dir m \<subseteq> seen_nodes (scan_edges g ts dir a k ?tv)"
        if m: "m \<in> reach_within g ts dir s k - set A" "k < nat maxd" for m
      proof (cases "m = a")
        case True
        then show ?thesis using seen by simp
      next
        case False
        then have "m \<in> reach_within g ts dir s k - set now_level" using m level by simp
        then have "steps_to g ts dir m \<subseteq> seen_nodes tv" using inv m(2) by blast
        then show ?thesis using seen by blast
      qed
      have "bfs_inv g ts dir s (nat maxd) (scan_edges g ts dir a k ?tv) k A (next_level @ new)"
        unfolding bfs_inv_def
      proof (intro conjI)
        show "\<forall>m \<in> reach_within g ts dir s k - set A. k < nat maxd
            \<longrightarrow> steps_to g ts dir m \<subseteq> seen_nodes (scan_edges g ts dir a k ?tv)"
          using closed by blast
      qed (use inv level False new seen in auto)
      from "1.IH" (2) [OF f _ _ False this] show ?thesis
        using f False by (simp add: traverse_loop.simps [of g ts dir maxd tv] Let_def)
    qed
  qed
qed

section \<open>What the loop collects\<close>

definition tv_sound :: "memory_store \<Rightarrow> pystr list option \<Rightarrow> traversal \<Rightarrow> bool" where
  "tv_sound g ts tv \<longleftrightarrow> dict_ok (tv_nodes tv)
     \<and> (\<forall>(k, n) \<in> set (tv_nodes tv). gn_node_id n = k)
     \<and> map edge_key (tv_edges tv) = tv_seen tv \<and> distinct (tv_seen tv)
     \<and> fst ` set (tv_frontier tv) \<subseteq> seen_nodes tv
     \<and> (\<forall>e \<in> set (tv_edges tv). e \<in> set (gs_edges g) \<and> edge_allowed ts e
          \<and> ge_source_id e \<in> seen_nodes tv \<and> ge_target_id e \<in> seen_nodes tv)"

definition nodes_ok :: "graph_node dict \<Rightarrow> bool" where
  "nodes_ok nodes \<longleftrightarrow> dict_ok nodes \<and> (\<forall>(k, n) \<in> set nodes. gn_node_id n = k)"

lemma set_dict_set_subset: "set (dict_set k v d) \<subseteq> insert (k, v) (set d)"
  unfolding dict_set_def by (induction d) auto

lemma see_node_sound:
  assumes "nodes_ok nodes" "tv_sound g ts tv"
  shows "tv_sound g ts (see_node nodes depth n tv)"
    "seen_nodes (see_node nodes depth n tv) = insert n (seen_nodes tv)"
proof -
  have seen: "seen_nodes (see_node nodes depth n tv) = insert n (seen_nodes tv)"
    using dict_get_None_iff [of "tv_nodes tv" n]
    by (auto simp: see_node_def seen_nodes_def Let_def keys_dict_set)
  then show "seen_nodes (see_node nodes depth n tv) = insert n (seen_nodes tv)" .
  define node where "node = (case dict_get nodes n of
      Some node \<Rightarrow> node
    | None \<Rightarrow> \<lparr>gn_node_id = n, gn_kind = ''unknown'', gn_label = n, gn_properties = []\<rparr>)"
  have "gn_node_id node = n"
    using assms(1) by (auto simp: node_def nodes_ok_def dest: dict_get_Some_in split: option.splits)
  then have "\<forall>(k, x) \<in> set (dict_set n node (tv_nodes tv)). gn_node_id x = k"
    using assms(2) set_dict_set_subset [of n node "tv_nodes tv"] by (auto simp: tv_sound_def)
  then show "tv_sound g ts (see_node nodes depth n tv)"
    using assms(2) seen by (auto simp: tv_sound_def see_node_def Let_def seen_nodes_def node_def [symmetric])
qed

lemma see_edge_seen [simp]: "seen_nodes (see_edge e tv) = seen_nodes tv"
  by (simp add: seen_nodes_def)

lemma neighbor_ends:
  "neighbor_of dir m e = Some n \<Longrightarrow> {ge_source_id e, ge_target_id e} = {m, n}"
  by (auto simp: neighbor_of_def split: if_splits)

lemma scan_edge_sound:
  assumes nodes: "nodes_ok nodes" and tv: "tv_sound g ts tv" and m: "m \<in> seen_nodes tv"
    and e: "e \<in> set (gs_edges g)"
  shows "tv_sound g ts (scan_edge nodes ts dir m depth e tv)"
    "seen_nodes tv \<subseteq> seen_nodes (scan_edge nodes ts dir m depth e tv)"
proof -
  have "tv_sound g ts (see_node nodes depth n (see_edge e tv))"
    if a: "edge_allowed ts e" and n: "neighbor_of dir m e = Some n" for n
  proof -
    let ?t = "see_node nodes depth n tv"
    have s: "tv_sound g ts ?t" "seen_nodes ?t = insert n (seen_nodes tv)"
      using see_node_sound [OF nodes tv] by auto
    have swap: "see_node nodes depth n (see_edge e tv) = see_edge e ?t"
      by (auto simp: see_node_def see_edge_def Let_def)
    have "ge_source_id e \<in> seen_nodes ?t" "ge_target_id e \<in> seen_nodes ?t"
      using neighbor_ends [OF n] s(2) m by auto
    then show ?thesis
      using s(1) a e unfolding swap by (auto simp: tv_sound_def see_edge_def seen_nodes_def)
  qed
  then show "tv_sound g ts (scan_edge nodes ts dir m depth e tv)"
    using tv by (auto simp: scan_edge_def split: option.split)
  show "seen_nodes tv \<subseteq> seen_nodes (scan_edge nodes ts dir m depth e tv)"
    using scan_edge_cases [of nodes ts dir m depth e tv] by blast
qed

lemma scan_edges_sound:
  assumes "nodes_ok (gs_nodes g)" "tv_sound g ts tv" "m \<in> seen_nodes tv"
  shows "tv_sound g ts (scan_edges g ts dir m depth tv)"
proof -
  have "tv_sound g ts (fold (scan_edge (gs_nodes g) ts dir m depth) es tv)"
    if "set es \<subseteq> set (gs_edges g)" "tv_sound g ts tv" "m \<in> seen_nodes tv" for es
    using that
  proof (induction es arbitrary: tv)
    case (Cons e es)
    then show ?case
      using scan_edge_sound [OF assms(1) Cons.prems(2,3), of e dir depth] by auto
  qed simp
  then show ?thesis using assms by (simp add: scan_edges_def)
qed

lemma traverse_loop_sound:
  "nodes_ok (gs_nodes g) \<Longrightarrow> tv_sound g ts tv \<Longrightarrow> tv_sound g ts (traverse_loop g ts dir maxd tv)"
proof (induction g ts dir maxd tv rule: traverse_loop.induct)
  case (1 g ts dir maxd tv)
  show ?case
  proof (cases "tv_frontier tv")
    case Nil
    then show ?thesis using 1 by (simp add: traverse_loop.simps [of g ts dir maxd tv])
  next
    case (Cons x frontier)
    obtain m d where x: "x = (m, d)" by (cases x)
    let ?tv = "tv\<lparr>tv_frontier := frontier\<rparr>"
    have tv: "tv_sound g ts ?tv" "m \<in> seen_nodes ?tv"
      using 1 Cons x by (auto simp: tv_sound_def)
    show ?thesis
    proof (cases "maxd \<le> int d")
      case True
      from "1.IH" (1) [OF Cons x [symmetric] refl True "1.prems"(1) tv(1)] show ?thesis
        using Cons x True by (simp add: traverse_loop.simps [of g ts dir maxd tv])
    next
      case False
      from "1.IH" (2) [OF Cons x [symmetric] refl False "1.prems"(1) scan_edges_sound [OF "1.prems"(1) tv]] show ?thesis
        using Cons x False by (simp add: traverse_loop.simps [of g ts dir maxd tv] Let_def)
    qed
  qed
qed

section \<open>The store's invariant\<close>

definition store_ok :: "memory_store \<Rightarrow> bool" where
  "store_ok g \<longleftrightarrow> nodes_ok (gs_nodes g)
     \<and> dict_keys (gs_embeddings g) = dict_keys (gs_nodes g)
     \<and> distinct (map edge_key (gs_edges g))
     \<and> list_all (\<lambda>e. \<exists>l. relationship_label (ge_edge_type e) = Inr l) (gs_edges g)
     \<and> (\<forall>(a, c) \<in> set (gs_alias_to_concept g). dict_get (gs_concepts g) c \<noteq> None)"

lemma store_ok_empty: "store_ok (empty_store digest n)"
  by (simp add: store_ok_def empty_store_def nodes_ok_def dict_keys_def)

lemma dict_keys_set_eq:
  "dict_keys d = dict_keys e \<Longrightarrow> dict_keys (dict_set k v d) = dict_keys (dict_set k w e)"
proof (induction d arbitrary: e)
  case Nil
  then show ?case by (simp add: dict_keys_def dict_set_def)
next
  case (Cons x d)
  then obtain y e' where "e = y # e'" "fst y = fst x" "dict_keys d = dict_keys e'"
    by (cases e) (auto simp: dict_keys_def)
  with Cons.IH [of e'] show ?case
    by (cases x; cases y) (auto simp: dict_keys_def dict_set_def)
qed

lemma store_ok_upsert_node:
  assumes "store_ok g"
  shows "store_ok (snd (upsert_node k kind label properties content g))"
proof -
  have "nodes_ok (dict_set k n (gs_nodes g))" if "gn_node_id n = k" for n
    using assms that set_dict_set_subset [of k n "gs_nodes g"] by (auto simp: store_ok_def nodes_ok_def)
  then show ?thesis
    using assms by (simp add: store_ok_def upsert_node_def Let_def dict_keys_set_eq)
qed

lemma put_edge_keys:
  "map edge_key (snd (put_edge e es)) = (if edge_key e \<in> edge_key ` set es then map edge_key es
     else map edge_key es @ [edge_key e])"
  by (induction es) (auto simp: edge_key_def same_edge_def Let_def case_prod_unfold)

lemma put_edge_types:
  "ge_edge_type ` set (snd (put_edge e es)) = insert (ge_edge_type e) (ge_edge_type ` set es)"
  by (induction es) (auto simp: same_edge_def Let_def case_prod_unfold)

lemma store_ok_upsert_edge:
  assumes "store_ok g"
  shows "store_ok (snd (upsert_edge edge_type source target properties g))"
proof (cases "relationship_label edge_type")
  case (Inr l)
  let ?e = "\<lparr>ge_edge_type = edge_type, ge_source_id = source, ge_target_id = target, ge_properties = properties\<rparr>"
  have "distinct (map edge_key (snd (put_edge ?e (gs_edges g))))"
    using assms unfolding put_edge_keys by (auto simp: store_ok_def)
  moreover have "\<exists>l. relationship_label (ge_edge_type x) = Inr l" if "x \<in> set (snd (put_edge ?e (gs_edges g)))" for x
  proof -
    have "ge_edge_type x \<in> insert edge_type (ge_edge_type ` set (gs_edges g))"
      using that put_edge_types [of ?e "gs_edges g"] by auto
    then show ?thesis using assms Inr by (auto simp: store_ok_def list_all_iff)
  qed
  ultimately show ?thesis
    using assms Inr by (simp add: upsert_edge_def store_ok_def list_all_iff case_prod_unfold Let_def)
qed (use assms in \<open>simp add: upsert_edge_def\<close>)

lemma store_ok_upsert_edges:
  "store_ok g \<Longrightarrow> store_ok (snd (upsert_edges es g))"
proof (induction es g rule: upsert_edges.induct)
  case (2 t s d es g)
  obtain r g' where u: "upsert_edge t s d [] g = (r, g')" by (cases "upsert_edge t s d [] g")
  then have "store_ok g'" using store_ok_upsert_edge [OF "2.prems", of t s d "[]"] by simp
  then show ?case using u "2.IH" by (cases r) auto
qed simp

lemma dict_update_values:
  "set (dict_update d e) \<subseteq> set d \<union> set e"
proof (induction d e rule: dict_update.induct)
  case (2 d k v e)
  then show ?case using set_dict_set_subset [of k v d] by auto
qed simp

lemma store_ok_upsert_concept:
  assumes "store_ok g"
  shows "store_ok (snd (upsert_concept payload g))"
proof -
  let ?c = "strip (co_concept payload)"
  let ?r = "payload\<lparr>co_concept := ?c\<rparr>"
  let ?a = "dict_update (gs_alias_to_concept g)
      (map (\<lambda>a. (graph_normalize a, ?c)) (?c # co_aliases ?r @ co_multilingual ?r))"
  let ?g = "g\<lparr>gs_concepts := dict_set ?c ?r (gs_concepts g), gs_alias_to_concept := ?a\<rparr>"
  have "dict_get (dict_set ?c ?r (gs_concepts g)) c \<noteq> None" if "(a, c) \<in> set ?a" for a c
  proof -
    have "c = ?c \<or> (a, c) \<in> set (gs_alias_to_concept g)"
      using dict_update_values [of "gs_alias_to_concept g"
        "map (\<lambda>a. (graph_normalize a, ?c)) (?c # co_aliases ?r @ co_multilingual ?r)"] that by auto
    then show ?thesis using assms by (auto simp: dict_get_set store_ok_def)
  qed
  then have "store_ok ?g" using assms by (auto simp: store_ok_def)
  then show ?thesis
    by (auto simp: upsert_concept_def Let_def case_prod_unfold
        intro: store_ok_upsert_edges store_ok_upsert_node split: sum.split prod.split)
qed

inductive store_reachable :: "(pystr \<Rightarrow> nat list) \<Rightarrow> nat \<Rightarrow> memory_store \<Rightarrow> bool" for digest n where
  created: "store_reachable digest n (empty_store digest n)"
| node: "store_reachable digest n g \<Longrightarrow> store_reachable digest n (snd (upsert_node k kind label props content g))"
| edge: "store_reachable digest n g \<Longrightarrow> store_reachable digest n (snd (upsert_edge t s d props g))"
| concept: "store_reachable digest n g \<Longrightarrow> store_reachable digest n (snd (upsert_concept payload g))"

lemma store_reachable_ok: "store_reachable digest n g \<Longrightarrow> store_ok g"
  by (induction rule: store_reachable.induct)
     (simp_all add: store_ok_empty store_ok_upsert_node store_ok_upsert_edge store_ok_upsert_concept)

section \<open>Properties\<close>

lemma dict_values_ids:
  assumes "\<forall>(k, n) \<in> set d. gn_node_id n = k"
  shows "map gn_node_id (dict_values d) = dict_keys d"
  using assms by (auto simp: dict_values_def dict_keys_def)

lemma check_labels_error:
  "check_labels ts = Inl e \<Longrightarrow> \<exists>t \<in> set ts. relationship_label t = Inl e"
  by (induction ts) (auto split: sum.splits)

text \<open>
  C7.  On every store the operations can build, a traversal that returns gives each node within
  \<open>max_depth\<close> allowed steps of the start exactly once, and no other; each returned edge is a
  stored edge of an allowed type, occurs once, and connects two returned nodes.  It raises only
  for an unknown start node or a relationship type that is not an identifier.
\<close>

theorem traversal_exact:
  assumes reach: "store_reachable digest dimension g"
  shows "case traverse start ts dir max_depth g of
      Inl err \<Rightarrow> get_node start g = None \<and> err = KeyError (''node not found: '' @ start)
        \<or> (\<exists>t \<in> set (case ts of None \<Rightarrow> [] | Some xs \<Rightarrow> xs). relationship_label t = Inl err)
    | Inr r \<Rightarrow> gn_node_id ` set (tr_nodes r) = reach_within g ts dir start (nat max_depth)
        \<and> distinct (map gn_node_id (tr_nodes r)) \<and> distinct (map edge_key (tr_edges r))
        \<and> (\<forall>e \<in> set (tr_edges r). e \<in> set (gs_edges g) \<and> edge_allowed ts e
            \<and> {ge_source_id e, ge_target_id e} \<subseteq> gn_node_id ` set (tr_nodes r))"
proof (cases "dict_get (gs_nodes g) start")
  case None
  then show ?thesis by (simp add: traverse_def get_node_def)
next
  case (Some node)
  have ok: "nodes_ok (gs_nodes g)" using store_reachable_ok [OF reach] by (simp add: store_ok_def)
  show ?thesis
  proof (cases "check_labels (case ts of None \<Rightarrow> [] | Some xs \<Rightarrow> xs)")
    case (Inl e)
    then show ?thesis using Some check_labels_error [OF Inl] by (simp add: traverse_def)
  next
    case (Inr u)
    let ?tv = "\<lparr>tv_nodes = [(start, node)], tv_edges = [], tv_seen = [], tv_frontier = [(start, 0)]\<rparr>"
    let ?final = "traverse_loop g ts dir max_depth ?tv"
    have "gn_node_id node = start" using ok Some by (auto simp: nodes_ok_def dest: dict_get_Some_in)
    then have "tv_sound g ts ?tv" by (simp add: tv_sound_def dict_ok_def seen_nodes_def dict_keys_def)
    then have sound: "tv_sound g ts ?final" by (rule traverse_loop_sound [OF ok])
    have "bfs_inv g ts dir start (nat max_depth) ?tv 0 [start] []"
      by (simp add: bfs_inv_def seen_nodes_def dict_keys_def)
    then have seen: "seen_nodes ?final = reach_within g ts dir start (nat max_depth)"
      by (rule traverse_loop_correct)
    have ids: "map gn_node_id (dict_values (tv_nodes ?final)) = dict_keys (tv_nodes ?final)"
      using sound by (intro dict_values_ids) (simp add: tv_sound_def)
    then have "gn_node_id ` set (dict_values (tv_nodes ?final)) = seen_nodes ?final"
      by (metis list.set_map seen_nodes_def)
    then show ?thesis
      using Some Inr sound seen ids
      by (simp add: traverse_def tv_sound_def dict_ok_def dict_keys_def Let_def)
  qed
qed

definition sample_graph :: memory_store where
  "sample_graph = snd (upsert_edge ''related'' ''b'' ''c'' [] (snd (upsert_edge ''broader'' ''a'' ''b'' []
     (snd (upsert_node ''a'' ''concept'' None [] None (empty_store (\<lambda>_. [0, 0, 0, 0, 0]) 4))))))"

lemma sample_graph_reachable: "store_reachable (\<lambda>_. [0, 0, 0, 0, 0]) 4 sample_graph"
  unfolding sample_graph_def by (intro store_reachable.intros)

lemma sample_graph_parts:
  "gs_edges sample_graph = [\<lparr>ge_edge_type = ''broader'', ge_source_id = ''a'', ge_target_id = ''b'', ge_properties = []\<rparr>,
     \<lparr>ge_edge_type = ''related'', ge_source_id = ''b'', ge_target_id = ''c'', ge_properties = []\<rparr>]"
  "get_node ''a'' sample_graph \<noteq> None"
proof -
  have l: "relationship_label ''related'' = Inr ''RELATED''" "relationship_label ''broader'' = Inr ''BROADER''"
    by code_simp+
  show "gs_edges sample_graph = [\<lparr>ge_edge_type = ''broader'', ge_source_id = ''a'', ge_target_id = ''b'', ge_properties = []\<rparr>,
     \<lparr>ge_edge_type = ''related'', ge_source_id = ''b'', ge_target_id = ''c'', ge_properties = []\<rparr>]"
    "get_node ''a'' sample_graph \<noteq> None"
    by (simp_all add: sample_graph_def upsert_edge_def l upsert_node_def empty_store_def same_edge_def
        get_node_def dict_get_set Let_def)
qed

theorem traversal_exact_witness:
  "\<exists>r. traverse ''a'' None ''out'' 1 sample_graph = Inr r \<and> gn_node_id ` set (tr_nodes r) = {''a'', ''b''}"
proof -
  obtain node where node: "dict_get (gs_nodes sample_graph) ''a'' = Some node"
    using sample_graph_parts(2) by (auto simp: get_node_def)
  then obtain r where r: "traverse ''a'' None ''out'' 1 sample_graph = Inr r"
    by (simp add: traverse_def Let_def)
  have "gn_node_id ` set (tr_nodes r) = reach_within sample_graph None ''out'' ''a'' (nat 1)"
    using traversal_exact [OF sample_graph_reachable, of "''a''" None "''out''" 1] r by simp
  also have "\<dots> = {''a'', ''b''}"
    by (auto simp: steps_to_def sample_graph_parts neighbor_of_def edge_allowed_def)
  finally show ?thesis using r by blast
qed

lemma age_label_chars_ranges:
  "age_label_chars = map char_of [65..<91] @ map char_of [48..<58] @ ''_''"
  by code_simp

lemma char_of_range: "n \<le> 256 \<Longrightarrow> c \<in> set (map char_of [m..<n]) \<longleftrightarrow> m \<le> code c \<and> code c < n"
proof
  assume "n \<le> 256" and "c \<in> set (map char_of [m..<n])"
  then obtain k where "m \<le> k" "k < n" "c = char_of k" by auto
  then show "m \<le> code c \<and> code c < n" using \<open>n \<le> 256\<close> by simp
next
  assume "m \<le> code c \<and> code c < n"
  then have "code c \<in> set [m..<n]" by simp
  moreover have "c = char_of (code c)" by (simp add: code_def)
  ultimately show "c \<in> set (map char_of [m..<n])" by (metis image_eqI list.set_map)
qed

lemma in_alphabet: "c \<in> set age_label_chars \<longleftrightarrow> is_upper c \<or> is_digit c \<or> c = CHR ''_''"
proof -
  have "c \<in> set (map char_of [65..<91]) \<longleftrightarrow> is_upper c" "c \<in> set (map char_of [48..<58]) \<longleftrightarrow> is_digit c"
    using char_of_range [of 91 c 65] char_of_range [of 58 c 48] by (simp_all only: is_upper_def is_digit_def) linarith+
  then show ?thesis
    unfolding age_label_chars_ranges set_append Un_iff by (simp only: list.set insert_iff empty_iff) blast
qed

lemma to_upper_alphabet:
  assumes "ascii_letter c \<or> is_digit c \<or> c = CHR ''_''"
  shows "to_upper c \<in> set age_label_chars"
proof (cases "is_lower c")
  case True
  have "code c - 32 < 256" using code_less [of c] by linarith
  then have "code (to_upper c) = code c - 32" using True by (simp add: to_upper_def)
  moreover have "97 \<le> code c" "code c \<le> 122" using True by (simp_all add: is_lower_def)
  ultimately have "65 \<le> code (to_upper c)" "code (to_upper c) \<le> 90" by linarith+
  then have "is_upper (to_upper c)" by (simp add: is_upper_def)
  then show ?thesis by (simp add: in_alphabet)
next
  case False
  then show ?thesis using assms by (simp add: to_upper_def in_alphabet ascii_letter_def)
qed

lemma upper_identifier: "bare_identifier s \<Longrightarrow> set (upper s) \<subseteq> set age_label_chars"
  using to_upper_alphabet by (cases s) (auto simp: bare_identifier_def upper_def list_all_iff)

text \<open>
  A relationship label is given exactly to bare identifiers, as their upper-case form over
  the fixed alphabet; of the other texts, a bare identifier with a final line break raises
  \<open>KeyError\<close> instead of the documented \<open>ValueError\<close>.
\<close>

theorem relationship_label_safe:
  "case relationship_label s of
     Inr l \<Rightarrow> bare_identifier s \<and> l = upper s \<and> l \<noteq> [] \<and> set l \<subseteq> set age_label_chars
   | Inl (KeyError k) \<Rightarrow> (\<exists>t. s = t @ [CHR 0x0A] \<and> bare_identifier t \<and> k = [CHR 0x0A])
   | Inl err \<Rightarrow> err = ValueError ''invalid relationship type'' \<and> \<not> matches_age_identifier s"
proof -
  have nl: "\<not> bare_identifier s" if "s \<noteq> []" "last s = CHR 0x0A" for s
  proof
    assume "bare_identifier s"
    then have "\<forall>c \<in> set s. ascii_letter c \<or> is_digit c \<or> c = CHR ''_''"
      by (cases s) (auto simp: bare_identifier_def list_all_iff)
    moreover have "\<not> (ascii_letter (CHR 0x0A) \<or> is_digit (CHR 0x0A) \<or> CHR 0x0A = CHR ''_'')" by code_simp
    ultimately show False using that last_in_set by metis
  qed
  consider (good) "bare_identifier s" | (broken) t where "s = t @ [CHR 0x0A]" "bare_identifier t" "\<not> bare_identifier s"
    | (bad) "\<not> matches_age_identifier s"
    using nl by (metis append_butlast_last_id matches_age_identifier_def)
  then show ?thesis
  proof cases
    case good
    then have "find (\<lambda>c. c \<notin> set age_label_chars) (upper s) = None"
      using upper_identifier [of s] by (auto simp: find_None_iff)
    then show ?thesis
      using good upper_identifier [of s]
      by (auto simp: relationship_label_def matches_age_identifier_def bare_identifier_def upper_def split: list.splits)
  next
    case broken
    have "to_upper (CHR 0x0A) = CHR 0x0A" "CHR 0x0A \<notin> set age_label_chars" by code_simp+
    then have "find (\<lambda>c. c \<notin> set age_label_chars) (upper s) = Some (CHR 0x0A)"
    proof -
      have "find (\<lambda>c. c \<notin> set age_label_chars) (upper t) = None"
        using upper_identifier [OF broken(2)] by (auto simp: find_None_iff)
      then show ?thesis
        using broken(1) \<open>CHR 0x0A \<notin> set age_label_chars\<close> \<open>to_upper (CHR 0x0A) = CHR 0x0A\<close>
        by (simp add: upper_def find_append)
    qed
    then show ?thesis
      using broken by (simp add: relationship_label_def matches_age_identifier_def)
  next
    case bad
    then show ?thesis by (simp add: relationship_label_def)
  qed
qed

end
