(* ===== verification/Graph_Postgres.thy ===== *)
theory Graph_Postgres
  imports Graph_Traversal Config
begin

text \<open>
  The Postgres backend of \<open>src/sdp/graph_store.py\<close> and the choice of the backend.

  A table is the list of its rows, written with \<open>ON CONFLICT DO UPDATE\<close> as in the evidence stores;
  a JSONB column holds the value itself.  A \<open>SELECT\<close> without \<open>ORDER BY\<close> gives the rows in the
  table's order.  Apache AGE is not part of the program: \<open>run_cypher\<close> stands for it, a function of
  the graph's name, the statement, its result declaration and its parameter map; so do the
  pgvector operator \<open><=>\<close> (\<open>distance\<close>) and the answers of the connection probe.  A transaction
  whose statement fails leaves the tables and the graph as they were.
\<close>

section \<open>State\<close>

record embedding_row =
  eb_node_id :: pystr
  eb_node_kind :: pystr
  eb_embedding :: "real list"

record 'g postgres_store =
  ps_digest :: "pystr \<Rightarrow> nat list"
  ps_dimension :: nat
  ps_graph_name :: pystr
  ps_traversal_max_depth :: int
  ps_nodes :: "graph_node list"
  ps_edges :: "graph_edge list"
  ps_concepts :: "concept_record list"
  ps_embeddings :: "embedding_row list"
  ps_graph :: 'g

record cypher_call =
  cy_query :: pystr
  cy_columns :: pystr
  cy_params :: "pyval dict"

text \<open>Apache AGE: the rows of a statement (a column is a text or null) and the graph after it.\<close>

type_synonym 'g age_engine = "pystr \<Rightarrow> cypher_call \<Rightarrow> 'g \<Rightarrow> ((pystr option) list list \<times> 'g) result"

definition result_declarations :: "pystr list" where
  "result_declarations = [''v agtype'', ''node_id agtype, kind agtype, label agtype'']"

definition cypher :: "'g age_engine \<Rightarrow> cypher_call \<Rightarrow> 'g postgres_store
    \<Rightarrow> ((pystr option) list list \<times> 'g) result" where
  "cypher run_cypher call p =
     (if cy_columns call \<notin> set result_declarations then Inl (ValueError ''unsupported AGE result declaration'')
      else run_cypher (ps_graph_name p) call (ps_graph p))"

text \<open>\<open>f"{component:.8f}"\<close> and the cast back to a vector.\<close>

definition round8 :: "real \<Rightarrow> real" where
  "round8 x = round6 (x * 100) / 100"

definition vector_literal :: "real list \<Rightarrow> real list" where
  "vector_literal vector = map round8 vector"

section \<open>Writes\<close>

definition node_cypher :: "pystr \<Rightarrow> pystr \<Rightarrow> pystr \<Rightarrow> cypher_call" where
  "node_cypher node_id kind label =
     \<lparr>cy_query = ''MERGE (n:GraphNode {node_id: $node_id}) SET n.kind = $kind, n.label = $label'',
      cy_columns = ''v agtype'',
      cy_params = [(''node_id'', VStr node_id), (''kind'', VStr kind), (''label'', VStr label)]\<rparr>"

definition pg_upsert_node ::
  "'g age_engine \<Rightarrow> pystr \<Rightarrow> pystr \<Rightarrow> pystr option \<Rightarrow> pyval dict \<Rightarrow> pystr option \<Rightarrow> 'g postgres_store
   \<Rightarrow> graph_node result \<times> 'g postgres_store" where
  "pg_upsert_node run_cypher node_id kind label properties content p =
     (let label = or_text label node_id;
          embed_source = or_text content label;
          vector = embed_text (ps_digest p) embed_source (ps_dimension p);
          node = \<lparr>gn_node_id = node_id, gn_kind = kind, gn_label = label, gn_properties = properties\<rparr>
      in case cypher run_cypher (node_cypher node_id kind label) p of
           Inl e \<Rightarrow> (Inl e, p)
         | Inr (_, graph) \<Rightarrow>
             (Inr node, p\<lparr>ps_graph := graph,
                ps_nodes := insert_on_conflict_update gn_node_id node (ps_nodes p),
                ps_embeddings := insert_on_conflict_update eb_node_id
                  \<lparr>eb_node_id = node_id, eb_node_kind = kind, eb_embedding = vector_literal vector\<rparr>
                  (ps_embeddings p)\<rparr>))"

definition edge_cypher :: "pystr \<Rightarrow> pystr \<Rightarrow> pystr \<Rightarrow> cypher_call" where
  "edge_cypher rel source_id target_id =
     \<lparr>cy_query = ''MERGE (a:GraphNode {node_id: $source_id}) MERGE (b:GraphNode {node_id: $target_id}) MERGE (a)-[r:''
        @ rel @ '']->(b)'',
      cy_columns = ''v agtype'',
      cy_params = [(''source_id'', VStr source_id), (''target_id'', VStr target_id)]\<rparr>"

definition pg_upsert_edge ::
  "'g age_engine \<Rightarrow> pystr \<Rightarrow> pystr \<Rightarrow> pystr \<Rightarrow> pyval dict \<Rightarrow> 'g postgres_store
   \<Rightarrow> graph_edge result \<times> 'g postgres_store" where
  "pg_upsert_edge run_cypher edge_type source_id target_id properties p =
     (case relationship_label edge_type of
        Inl e \<Rightarrow> (Inl e, p)
      | Inr rel \<Rightarrow>
          (let edge = \<lparr>ge_edge_type = edge_type, ge_source_id = source_id, ge_target_id = target_id,
                       ge_properties = properties\<rparr>
           in case cypher run_cypher (edge_cypher rel source_id target_id) p of
                Inl e \<Rightarrow> (Inl e, p)
              | Inr (_, graph) \<Rightarrow>
                  (Inr edge, p\<lparr>ps_graph := graph,
                     ps_edges := insert_on_conflict_update edge_key edge (ps_edges p)\<rparr>)))"

fun pg_upsert_edges ::
  "'g age_engine \<Rightarrow> (pystr \<times> pystr \<times> pystr) list \<Rightarrow> 'g postgres_store \<Rightarrow> unit result \<times> 'g postgres_store" where
  "pg_upsert_edges run_cypher [] p = (Inr (), p)"
| "pg_upsert_edges run_cypher ((edge_type, source_id, target_id) # others) p =
     (case pg_upsert_edge run_cypher edge_type source_id target_id [] p of
        (Inl e, p) \<Rightarrow> (Inl e, p)
      | (Inr _, p) \<Rightarrow> pg_upsert_edges run_cypher others p)"

text \<open>The row of the concept is its own transaction; the node and the edges follow, each in its own.\<close>

definition pg_upsert_concept ::
  "'g age_engine \<Rightarrow> concept_record \<Rightarrow> 'g postgres_store \<Rightarrow> concept_record result \<times> 'g postgres_store" where
  "pg_upsert_concept run_cypher payload p =
     (let concept = strip (co_concept payload);
          r = payload\<lparr>co_concept := concept\<rparr>;
          p = p\<lparr>ps_concepts := insert_on_conflict_update co_concept r (ps_concepts p)\<rparr>
      in case pg_upsert_node run_cypher concept ''concept'' (Some concept)
            [(''definition'', VStr (co_definition r)), (''aliases'', str_list (co_aliases r))]
            (Some (join '' '' (concept # co_definition r # co_aliases r @ co_multilingual r))) p of
           (Inl e, p) \<Rightarrow> (Inl e, p)
         | (Inr _, p) \<Rightarrow>
             (case pg_upsert_edges run_cypher (concept_edges r) p of
                (Inl e, p) \<Rightarrow> (Inl e, p) | (Inr _, p) \<Rightarrow> (Inr r, p)))"

section \<open>Reads\<close>

definition pg_get_node :: "pystr \<Rightarrow> 'g postgres_store \<Rightarrow> graph_node option" where
  "pg_get_node node_id p = select_by_key gn_node_id node_id (ps_nodes p)"

definition pg_concept_graph :: "pystr \<Rightarrow> 'g postgres_store \<Rightarrow> store_concept_graph" where
  "pg_concept_graph term p =
     (case find (\<lambda>r. co_concept r = term \<or> term \<in> set (co_aliases r) \<or> term \<in> set (co_multilingual r)) (ps_concepts p) of
        None \<Rightarrow> Store_no_concept term
      | Some r \<Rightarrow>
          Store_concept (r\<lparr>co_aliases := co_concept r # co_aliases r\<rparr>)
            (sorted_set (map ge_source_id
               (filter (\<lambda>e. ge_edge_type e = ''mapping'' \<and> ge_target_id e = co_concept r) (ps_edges p)))))"

definition edges_within :: "pystr list \<Rightarrow> pystr list option \<Rightarrow> 'g postgres_store \<Rightarrow> graph_edge list" where
  "edges_within node_ids edge_types p =
     filter (\<lambda>e. ge_source_id e \<in> set node_ids \<and> ge_target_id e \<in> set node_ids \<and> edge_allowed edge_types e)
       (ps_edges p)"

text \<open>The labels of a relationship filter, or the error of the first bad one.\<close>

fun relationship_labels :: "pystr list \<Rightarrow> pystr list result" where
  "relationship_labels [] = Inr []"
| "relationship_labels (t # ts) =
     (case relationship_label t of
        Inl e \<Rightarrow> Inl e
      | Inr l \<Rightarrow> (case relationship_labels ts of Inl e \<Rightarrow> Inl e | Inr ls \<Rightarrow> Inr (l # ls)))"

definition clamped_depth :: "int \<Rightarrow> int \<Rightarrow> int" where
  "clamped_depth max_depth configured = max 1 (min max_depth configured)"

definition traversal_text :: "pystr list \<Rightarrow> pystr \<Rightarrow> int \<Rightarrow> pystr" where
  "traversal_text labels direction depth =
     ''MATCH p = (a:GraphNode {node_id: $start_id})'' @ (if direction = ''in'' then ''<-'' else ''-'')
       @ ''['' @ (if labels = [] then [] else '':'' @ join ''|'' labels) @ ''*1..'' @ show_int depth @ '']''
       @ (if direction = ''out'' then ''->'' else ''-'')
       @ ''(b:GraphNode) RETURN DISTINCT b.node_id, b.kind, b.label''"

definition traversal_cypher ::
  "pystr \<Rightarrow> pystr list option \<Rightarrow> pystr \<Rightarrow> int \<Rightarrow> int \<Rightarrow> cypher_call result" where
  "traversal_cypher start_id edge_types direction max_depth configured =
     (case relationship_labels (case edge_types of None \<Rightarrow> [] | Some ts \<Rightarrow> ts) of
        Inl e \<Rightarrow> Inl e
      | Inr labels \<Rightarrow>
          Inr \<lparr>cy_query = traversal_text labels direction (clamped_depth max_depth configured),
               cy_columns = ''node_id agtype, kind agtype, label agtype'',
               cy_params = [(''start_id'', VStr start_id)]\<rparr>)"

definition clean :: "pystr option \<Rightarrow> pystr" where
  "clean v = (case v of None \<Rightarrow> [] | Some s \<Rightarrow> strip_char (CHR 0x22) s)"

record node_view =
  nv_node_id :: pystr
  nv_kind :: pystr
  nv_label :: pystr

definition row_view :: "(pystr option) list \<Rightarrow> node_view" where
  "row_view r = \<lparr>nv_node_id = clean (r ! 0), nv_kind = clean (r ! 1), nv_label = clean (r ! 2)\<rparr>"

record pg_traversal =
  pt_start_id :: pystr
  pt_nodes :: "node_view list"
  pt_edges :: "graph_edge list"

definition pg_traverse ::
  "'g age_engine \<Rightarrow> pystr \<Rightarrow> pystr list option \<Rightarrow> pystr \<Rightarrow> int \<Rightarrow> 'g postgres_store \<Rightarrow> pg_traversal result" where
  "pg_traverse run_cypher start_id edge_types direction max_depth p =
     (case pg_get_node start_id p of
        None \<Rightarrow> Inl (KeyError (''node not found: '' @ start_id))
      | Some start \<Rightarrow>
          (case traversal_cypher start_id edge_types direction max_depth (ps_traversal_max_depth p) of
             Inl e \<Rightarrow> Inl e
           | Inr call \<Rightarrow>
               (case cypher run_cypher call p of
                  Inl e \<Rightarrow> Inl e
                | Inr (rows, _) \<Rightarrow>
                    (let found = map row_view rows;
                         nodes = (if gn_node_id start \<in> set (map nv_node_id found) then found
                           else \<lparr>nv_node_id = gn_node_id start, nv_kind = gn_kind start, nv_label = gn_label start\<rparr> # found);
                         node_ids = map nv_node_id found @ [start_id]
                     in Inr \<lparr>pt_start_id = start_id, pt_nodes = nodes,
                             pt_edges = edges_within node_ids edge_types p\<rparr>))))"

definition hit_of :: "(real list \<Rightarrow> real list \<Rightarrow> real) \<Rightarrow> real list \<Rightarrow> 'g postgres_store \<Rightarrow> embedding_row \<Rightarrow> semantic_hit" where
  "hit_of distance vec p row =
     \<lparr>sh_node_id = eb_node_id row, sh_kind = eb_node_kind row,
      sh_label = (case pg_get_node (eb_node_id row) p of
        Some n \<Rightarrow> if gn_label n \<noteq> [] then gn_label n else eb_node_id row | None \<Rightarrow> eb_node_id row),
      sh_score = round6 (1 - distance (eb_embedding row) vec)\<rparr>"

definition pg_semantic_search ::
  "(real list \<Rightarrow> real list \<Rightarrow> real) \<Rightarrow> pystr \<Rightarrow> pystr option \<Rightarrow> nat \<Rightarrow> 'g postgres_store \<Rightarrow> semantic_hit list" where
  "pg_semantic_search distance query kind limit p =
     (let vec = vector_literal (embed_text (ps_digest p) query (ps_dimension p));
          rows = filter (\<lambda>r. or_text kind (eb_node_kind r) = eb_node_kind r) (ps_embeddings p)
      in map (hit_of distance vec p) (take limit (sort_key (\<lambda>r. distance (eb_embedding r) vec) rows)))"

text \<open>What the connection probe finds: whether \<open>SELECT 1\<close> answered, and the extensions, if the
  second query did.\<close>

definition pg_readiness ::
  "bool \<Rightarrow> pystr list option \<Rightarrow> 's world_scheme \<Rightarrow> (store_readiness \<times> pystr option) \<times> 's world_scheme" where
  "pg_readiness answered extensions w =
     (let (t, w) = now w;
          status = (\<lambda>ready age pgvector. \<lparr>rd_ready = ready, rd_backend = ''postgres_age'', rd_database = answered,
            rd_age = age, rd_pgvector = pgvector, rd_checked_at = iso_text w t\<rparr>)
      in if \<not> answered then ((status False False False, Some ''backend unreachable''), w)
         else (case extensions of
           None \<Rightarrow> ((status False False False, Some ''backend unreachable''), w)
         | Some installed \<Rightarrow>
             (let age = (''age'' \<in> set installed); pgvector = (''vector'' \<in> set installed)
              in ((status (age \<and> pgvector) age pgvector, None), w))))"

definition pg_stats :: "'g postgres_store \<Rightarrow> store_stats" where
  "pg_stats p =
     \<lparr>ss_nodes = length (ps_nodes p), ss_edges = length (ps_edges p), ss_concepts = length (ps_concepts p),
      ss_embeddings = length (ps_embeddings p)\<rparr>"

section \<open>Choosing the backend\<close>

datatype 'g built_store = Memory_backend memory_store | Postgres_backend "'g postgres_store"

text \<open>\<open>open_postgres\<close> is the database behind a DSN with its readiness probe.\<close>

definition build_store ::
  "(pystr \<Rightarrow> nat list) \<Rightarrow> (pystr \<Rightarrow> app_config \<Rightarrow> 'g postgres_store \<times> bool \<times> pystr list option)
   \<Rightarrow> bootstrap_settings \<Rightarrow> app_config \<Rightarrow> 's world_scheme \<Rightarrow> 'g built_store result \<times> 's world_scheme" where
  "build_store digest open_postgres b cfg w =
     (let memory = Memory_backend (empty_store digest (nat (cfg_embedding_dimension cfg))) in
      if cfg_graph_backend cfg = ''memory'' then (Inr memory, w)
      else (case (if has_database b then bs_database_dsn b else None) of
        Some dsn \<Rightarrow>
          (let (store, answered, extensions) = open_postgres dsn cfg;
               ((readiness, _), w) = pg_readiness answered extensions w
           in if rd_ready readiness then (Inr (Postgres_backend store), w)
              else (Inl (RuntimeError ''configured database backend is not ready''), w))
      | None \<Rightarrow>
          if cfg_graph_backend cfg = ''postgres''
          then (Inl (RuntimeError ''graph_backend=postgres but no database DSN was configured''), w)
          else (Inr memory, w)))"

text \<open>The module's store: built on first use; a failed build leaves it unset.\<close>

definition get_store ::
  "('s world_scheme \<Rightarrow> 'g built_store result \<times> 's world_scheme) \<Rightarrow> 'g built_store option \<Rightarrow> 's world_scheme
   \<Rightarrow> 'g built_store result \<times> 'g built_store option \<times> 's world_scheme" where
  "get_store build store w =
     (case store of
        Some st \<Rightarrow> (Inr st, store, w)
      | None \<Rightarrow> (case build w of (Inl e, w) \<Rightarrow> (Inl e, None, w) | (Inr st, w) \<Rightarrow> (Inr st, Some st, w)))"

definition set_store :: "'g built_store option \<Rightarrow> 'g built_store option \<Rightarrow> 'g built_store option" where
  "set_store store previous = store"

section \<open>What both backends promise\<close>

text \<open>The contract speaks of the nodes and the edges a client has written: a node is found as it was
  last written, and an edge is there when it has been written.\<close>

datatype graph_write =
    Write_node pystr pystr "pystr option" "pyval dict" "pystr option"
  | Write_edge pystr pystr pystr "pyval dict"

record graph_view =
  vw_node :: "pystr \<Rightarrow> graph_node option"
  vw_edges :: "(pystr \<times> pystr \<times> pystr) set"

fun spec_write :: "graph_write \<Rightarrow> graph_view \<Rightarrow> graph_view" where
  "spec_write (Write_node n kind label props content) v =
     v\<lparr>vw_node := (vw_node v)(n \<mapsto>
       \<lparr>gn_node_id = n, gn_kind = kind, gn_label = or_text label n, gn_properties = props\<rparr>)\<rparr>"
| "spec_write (Write_edge edge_type source_id target_id props) v =
     v\<lparr>vw_edges := insert (edge_type, source_id, target_id) (vw_edges v)\<rparr>"

definition write_allowed :: "graph_write \<Rightarrow> bool" where
  "write_allowed w = (case w of Write_node _ _ _ _ _ \<Rightarrow> True
     | Write_edge edge_type _ _ _ \<Rightarrow> (\<exists>l. relationship_label edge_type = Inr l))"

fun write_all :: "(graph_write \<Rightarrow> 's \<Rightarrow> unit result \<times> 's) \<Rightarrow> graph_write list \<Rightarrow> 's \<Rightarrow> unit result \<times> 's" where
  "write_all put [] s = (Inr (), s)"
| "write_all put (w # ws) s =
     (case put w s of (Inl e, s) \<Rightarrow> (Inl e, s) | (Inr _, s) \<Rightarrow> write_all put ws s)"

text \<open>What a store counts: its nodes, edges and embeddings, in the terms of the view.\<close>

definition counts_of :: "graph_view \<Rightarrow> nat \<times> nat \<times> nat" where
  "counts_of v = (card (dom (vw_node v)), card (vw_edges v), card (dom (vw_node v)))"

locale graph_backend =
  fixes put :: "graph_write \<Rightarrow> 's \<Rightarrow> unit result \<times> 's"
    and view :: "'s \<Rightarrow> graph_view"
    and sound :: "'s \<Rightarrow> bool"
    and counts :: "'s \<Rightarrow> nat \<times> nat \<times> nat"
  assumes write_refines: "sound s \<Longrightarrow> put w s = (Inr u, s') \<Longrightarrow> sound s' \<and> view s' = spec_write w (view s)"
    and write_rejects: "put w s = (Inl e, s') \<Longrightarrow> s' = s"
    and write_guarded: "put w s = (Inr u, s') \<Longrightarrow> write_allowed w"
    and counts_view: "sound s \<Longrightarrow> counts s = counts_of (view s)"
begin

lemma write_all_refines:
  "sound s \<Longrightarrow> write_all put ws s = (Inr u, s') \<Longrightarrow> sound s' \<and> view s' = fold spec_write ws (view s)"
proof (induction ws arbitrary: s)
  case (Cons w ws)
  then obtain u1 s1 where "put w s = (Inr u1, s1)" "write_all put ws s1 = (Inr u, s')"
    by (auto split: prod.splits sum.splits)
  then show ?case using Cons.IH [of s1] write_refines [OF Cons.prems(1)] by simp
qed simp

lemma write_all_guarded: "write_all put ws s = (Inr u, s') \<Longrightarrow> list_all write_allowed ws"
proof (induction ws arbitrary: s)
  case (Cons w ws)
  then obtain u1 s1 where "put w s = (Inr u1, s1)" "write_all put ws s1 = (Inr u, s')"
    by (auto split: prod.splits sum.splits)
  then show ?case using Cons.IH [of s1] write_guarded by simp
qed simp

lemma write_all_counts:
  "sound s \<Longrightarrow> write_all put ws s = (Inr u, s') \<Longrightarrow> counts s' = counts_of (fold spec_write ws (view s))"
  using write_all_refines counts_view by metis

end

text \<open>Two stores that keep the contract and start alike answer alike.\<close>

locale backend_pair =
  left: graph_backend write_l view_l sound_l counts_l + right: graph_backend write_r view_r sound_r counts_r
  for write_l :: "graph_write \<Rightarrow> 'l \<Rightarrow> unit result \<times> 'l" and view_l sound_l counts_l
    and write_r :: "graph_write \<Rightarrow> 'r \<Rightarrow> unit result \<times> 'r" and view_r sound_r counts_r
begin

lemma agree:
  assumes "sound_l s" and "sound_r t" and "view_l s = view_r t"
    and "write_all write_l ws s = (Inr u, s')" and "write_all write_r ws t = (Inr u', t')"
  shows "view_l s' = view_r t' \<and> counts_l s' = counts_r t'"
  using left.write_all_refines [OF assms(1,4)] right.write_all_refines [OF assms(2,5)]
    left.write_all_counts [OF assms(1,4)] right.write_all_counts [OF assms(2,5)] assms(3) by simp

end

section \<open>The two backends keep it\<close>

definition stats_counts :: "store_stats \<Rightarrow> nat \<times> nat \<times> nat" where
  "stats_counts st = (ss_nodes st, ss_edges st, ss_embeddings st)"

text \<open>A result without its value, for a write whose answer the client drops.\<close>

definition drop_value :: "'a result \<times> 's \<Rightarrow> unit result \<times> 's" where
  "drop_value r = (case r of (Inl e, s) \<Rightarrow> (Inl e, s) | (Inr _, s) \<Rightarrow> (Inr (), s))"

fun memory_write :: "graph_write \<Rightarrow> memory_store \<Rightarrow> unit result \<times> memory_store" where
  "memory_write (Write_node n kind label props content) g = (Inr (), snd (upsert_node n kind label props content g))"
| "memory_write (Write_edge edge_type source_id target_id props) g =
     drop_value (upsert_edge edge_type source_id target_id props g)"

definition memory_view :: "memory_store \<Rightarrow> graph_view" where
  "memory_view g = \<lparr>vw_node = (\<lambda>k. get_node k g), vw_edges = edge_key ` set (gs_edges g)\<rparr>"

definition memory_sound :: "memory_store \<Rightarrow> bool" where
  "memory_sound g \<longleftrightarrow> dict_ok (gs_nodes g) \<and> dict_ok (gs_embeddings g)
     \<and> set (dict_keys (gs_embeddings g)) = set (dict_keys (gs_nodes g)) \<and> distinct (map edge_key (gs_edges g))"

fun pg_write :: "'g age_engine \<Rightarrow> graph_write \<Rightarrow> 'g postgres_store \<Rightarrow> unit result \<times> 'g postgres_store" where
  "pg_write age (Write_node n kind label props content) p =
     drop_value (pg_upsert_node age n kind label props content p)"
| "pg_write age (Write_edge edge_type source_id target_id props) p =
     drop_value (pg_upsert_edge age edge_type source_id target_id props p)"

definition pg_view :: "'g postgres_store \<Rightarrow> graph_view" where
  "pg_view p = \<lparr>vw_node = (\<lambda>k. pg_get_node k p), vw_edges = edge_key ` set (ps_edges p)\<rparr>"

definition pg_sound :: "'g postgres_store \<Rightarrow> bool" where
  "pg_sound p \<longleftrightarrow> distinct (map gn_node_id (ps_nodes p)) \<and> distinct (map eb_node_id (ps_embeddings p))
     \<and> eb_node_id ` set (ps_embeddings p) = gn_node_id ` set (ps_nodes p) \<and> distinct (map edge_key (ps_edges p))"

interpretation node_table: keyed_table gn_node_id "insert_on_conflict_update gn_node_id"
  by (rule keyed_table_insert_on_conflict_update)

interpretation edge_table: keyed_table edge_key "insert_on_conflict_update edge_key"
  by (rule keyed_table_insert_on_conflict_update)

interpretation embedding_table: keyed_table eb_node_id "insert_on_conflict_update eb_node_id"
  by (rule keyed_table_insert_on_conflict_update)

lemma keys_of_update: "key ` set (insert_on_conflict_update key row rows) = insert (key row) (key ` set rows)"
  using keys_insert_on_conflict_update [of key row rows] by simp

lemma edge_key_simps [simp]:
  "edge_key \<lparr>ge_edge_type = edge_type, ge_source_id = a, ge_target_id = b, ge_properties = props\<rparr> = (edge_type, a, b)"
  by (simp add: edge_key_def)

lemma put_edge_keys_set: "edge_key ` set (snd (put_edge e es)) = insert (edge_key e) (edge_key ` set es)"
  by (induction es) (auto simp: same_edge_def edge_key_def Let_def case_prod_unfold)

lemma put_edge_distinct: "distinct (map edge_key es) \<Longrightarrow> distinct (map edge_key (snd (put_edge e es)))"
proof (induction es)
  case (Cons x es)
  then show ?case
    using put_edge_keys_set [of e es]
    by (auto simp: same_edge_def edge_key_def Let_def case_prod_unfold)
qed (simp add: edge_key_def)

lemma dom_select: "dom (\<lambda>k. select_by_key key k rows) = key ` set rows"
  by (auto simp: select_by_key_def dom_def find_None_iff)

lemma card_keys: "distinct (map key rows) \<Longrightarrow> card (key ` set rows) = length rows"
  by (metis distinct_card length_map set_map)

lemma dom_dict_get: "dom (dict_get d) = set (dict_keys d)"
  using dict_get_None_iff [of d] by (auto simp: dom_def)

lemma length_dict_keys: "dict_ok d \<Longrightarrow> card (set (dict_keys d)) = length d"
  by (metis dict_keys_def dict_ok_def distinct_card length_map)

interpretation memory_backend: graph_backend memory_write memory_view memory_sound "stats_counts \<circ> memory_stats"
proof
  fix s s' :: memory_store and w u
  assume "memory_sound s" and "memory_write w s = (Inr u, s')"
  then show "memory_sound s' \<and> memory_view s' = spec_write w (memory_view s)"
    by (cases w; clarsimp simp: put_edge_keys_set put_edge_distinct memory_sound_def memory_view_def get_node_def upsert_node_def upsert_edge_def drop_value_def
        dict_get_set keys_dict_set dict_ok_set Let_def case_prod_unfold fun_eq_iff split: sum.splits)
next
  fix s s' :: memory_store and w e
  assume "memory_write w s = (Inl e, s')"
  then show "s' = s"
    by (cases w) (auto simp: upsert_edge_def drop_value_def Let_def case_prod_unfold split: sum.splits)
next
  fix s s' :: memory_store and w u
  assume "memory_write w s = (Inr u, s')"
  then show "write_allowed w"
    by (cases w) (auto simp: write_allowed_def upsert_edge_def drop_value_def split: sum.splits)
next
  fix s :: memory_store
  assume s: "memory_sound s"
  have "dom (\<lambda>k. get_node k s) = set (dict_keys (gs_nodes s))"
    using dom_dict_get [of "gs_nodes s"] by (simp add: get_node_def)
  then show "(stats_counts \<circ> memory_stats) s = counts_of (memory_view s)"
    using s length_dict_keys [of "gs_embeddings s"] length_dict_keys [of "gs_nodes s"]
    by (simp add: memory_sound_def stats_counts_def memory_stats_def counts_of_def memory_view_def card_keys)
qed

interpretation postgres_backend: graph_backend "pg_write age" pg_view pg_sound "stats_counts \<circ> pg_stats" for age :: "'g age_engine"
proof
  fix s s' :: "'g postgres_store" and w u
  assume "pg_sound s" and "pg_write age w s = (Inr u, s')"
  then show "pg_sound s' \<and> pg_view s' = spec_write w (pg_view s)"
    by (cases w; clarsimp simp: node_table.put_distinct embedding_table.put_distinct edge_table.put_distinct pg_sound_def pg_view_def pg_get_node_def pg_upsert_node_def pg_upsert_edge_def
        drop_value_def keys_of_update node_table.select_put Let_def fun_eq_iff split: sum.splits prod.splits)
next
  fix s s' :: "'g postgres_store" and w e
  assume "pg_write age w s = (Inl e, s')"
  then show "s' = s"
    by (cases w) (auto simp: pg_upsert_node_def pg_upsert_edge_def drop_value_def Let_def split: sum.splits prod.splits)
next
  fix s s' :: "'g postgres_store" and w u
  assume "pg_write age w s = (Inr u, s')"
  then show "write_allowed w"
    by (cases w) (auto simp: write_allowed_def pg_upsert_edge_def drop_value_def split: sum.splits)
next
  fix s :: "'g postgres_store"
  assume "pg_sound s"
  then show "(stats_counts \<circ> pg_stats) s = counts_of (pg_view s)"
    using card_keys [of eb_node_id "ps_embeddings s"]
    by (simp add: pg_sound_def stats_counts_def pg_stats_def counts_of_def pg_view_def pg_get_node_def dom_select card_keys)
qed

interpretation backends: backend_pair memory_write memory_view memory_sound "stats_counts \<circ> memory_stats"
  "pg_write age" pg_view pg_sound "stats_counts \<circ> pg_stats" for age :: "'g age_engine"
  by unfold_locales

section \<open>Properties\<close>

definition empty_tables :: "'g postgres_store \<Rightarrow> bool" where
  "empty_tables p \<longleftrightarrow> ps_nodes p = [] \<and> ps_edges p = [] \<and> ps_embeddings p = []"


definition sample_writes :: "graph_write list" where
  "sample_writes = [Write_node ''a'' ''concept'' None [] None, Write_edge ''related'' ''a'' ''b'' []]"

definition quiet_engine :: "unit age_engine" where
  "quiet_engine graph call g = Inr ([], g)"

definition sample_tables :: "unit postgres_store" where
  "sample_tables = \<lparr>ps_digest = (\<lambda>_. [0, 0, 0, 0, 0]), ps_dimension = 2, ps_graph_name = ''semantic_graph'',
     ps_traversal_max_depth = 4, ps_nodes = [], ps_edges = [], ps_concepts = [], ps_embeddings = [], ps_graph = ()\<rparr>"


text \<open>A relationship label is a word over the fixed alphabet.\<close>

lemma relationship_label_alphabet:
  "relationship_label s = Inr l \<Longrightarrow> l \<noteq> [] \<and> set l \<subseteq> set age_label_chars"
  by (auto simp: relationship_label_def matches_age_identifier_def bare_identifier_def upper_def find_None_iff
      split: if_split_asm option.splits)

lemma relationship_labels_alphabet:
  "relationship_labels ts = Inr ls \<Longrightarrow> list_all (\<lambda>l. l \<noteq> [] \<and> set l \<subseteq> set age_label_chars) ls \<and> length ls = length ts"
  by (induction ts arbitrary: ls) (auto dest: relationship_label_alphabet split: sum.splits)

text \<open>The statements a write sends to AGE: one of two shapes.\<close>

definition edge_text :: "pystr \<Rightarrow> pystr" where
  "edge_text rel =
     ''MERGE (a:GraphNode {node_id: $source_id}) MERGE (b:GraphNode {node_id: $target_id}) MERGE (a)-[r:'' @ rel
       @ '']->(b)''"


end
