(* ===== verification/Graph_Seed.thy ===== *)
theory Graph_Seed
  imports Graph_Postgres Ontology
begin

text \<open>
  The graph store as its clients see it, whichever backend is active (the class \<open>GraphStore\<close> of
  \<open>src/sdp/graph_store.py\<close>), and the seed that ports the catalog and the ontology into it
  (\<open>src/sdp/seed.py\<close>).
\<close>

section \<open>The active backend\<close>

definition on_store ::
  "(memory_store \<Rightarrow> 'a result \<times> memory_store) \<Rightarrow> ('g postgres_store \<Rightarrow> 'a result \<times> 'g postgres_store)
   \<Rightarrow> 'g built_store \<Rightarrow> 'a result \<times> 'g built_store" where
  "on_store f g st =
     (case st of
        Memory_backend m \<Rightarrow> map_prod id Memory_backend (f m)
      | Postgres_backend p \<Rightarrow> map_prod id Postgres_backend (g p))"

definition store_upsert_node ::
  "'g age_engine \<Rightarrow> pystr \<Rightarrow> pystr \<Rightarrow> pystr option \<Rightarrow> pyval dict \<Rightarrow> pystr option \<Rightarrow> 'g built_store
   \<Rightarrow> graph_node result \<times> 'g built_store" where
  "store_upsert_node age node_id kind label properties content =
     on_store (\<lambda>m. map_prod Inr id (upsert_node node_id kind label properties content m))
       (pg_upsert_node age node_id kind label properties content)"

definition store_upsert_edge ::
  "'g age_engine \<Rightarrow> pystr \<Rightarrow> pystr \<Rightarrow> pystr \<Rightarrow> pyval dict \<Rightarrow> 'g built_store \<Rightarrow> graph_edge result \<times> 'g built_store" where
  "store_upsert_edge age edge_type source_id target_id properties =
     on_store (upsert_edge edge_type source_id target_id properties)
       (pg_upsert_edge age edge_type source_id target_id properties)"

definition store_upsert_concept ::
  "'g age_engine \<Rightarrow> concept_record \<Rightarrow> 'g built_store \<Rightarrow> concept_record result \<times> 'g built_store" where
  "store_upsert_concept age payload = on_store (upsert_concept payload) (pg_upsert_concept age payload)"

definition store_get_node :: "pystr \<Rightarrow> 'g built_store \<Rightarrow> graph_node option" where
  "store_get_node node_id st =
     (case st of Memory_backend m \<Rightarrow> get_node node_id m | Postgres_backend p \<Rightarrow> pg_get_node node_id p)"

definition store_concept_graph_at :: "pystr \<Rightarrow> 'g built_store \<Rightarrow> store_concept_graph" where
  "store_concept_graph_at term st =
     (case st of Memory_backend m \<Rightarrow> store_concept_graph_of term m | Postgres_backend p \<Rightarrow> pg_concept_graph term p)"

datatype store_traversal = Memory_traversal traversal_result | Postgres_traversal pg_traversal

definition store_traverse ::
  "'g age_engine \<Rightarrow> pystr \<Rightarrow> pystr list option \<Rightarrow> pystr \<Rightarrow> int \<Rightarrow> 'g built_store \<Rightarrow> store_traversal result" where
  "store_traverse age start_id edge_types direction max_depth st =
     (case st of
        Memory_backend m \<Rightarrow> map_sum id Memory_traversal (traverse start_id edge_types direction max_depth m)
      | Postgres_backend p \<Rightarrow> map_sum id Postgres_traversal (pg_traverse age start_id edge_types direction max_depth p))"

definition store_semantic_search ::
  "(real list \<Rightarrow> real list \<Rightarrow> real) \<Rightarrow> pystr \<Rightarrow> pystr option \<Rightarrow> int \<Rightarrow> 'g built_store \<Rightarrow> semantic_hit list result" where
  "store_semantic_search distance query kind limit st =
     (case st of
        Memory_backend m \<Rightarrow> semantic_search query kind limit m
      | Postgres_backend p \<Rightarrow> Inr (pg_semantic_search distance query kind (nat limit) p))"

definition store_stats_of :: "'g built_store \<Rightarrow> store_stats" where
  "store_stats_of st = (case st of Memory_backend m \<Rightarrow> memory_stats m | Postgres_backend p \<Rightarrow> pg_stats p)"

section \<open>The seed\<close>

text \<open>What the seed asks of the store, one call after the other.\<close>

datatype seed_call =
    Seed_concept concept_record
  | Seed_node pystr pystr "pystr option" "pyval dict" "pystr option"
  | Seed_edge pystr pystr pystr "pyval dict"

definition concept_call :: "pystr \<times> concept_metadata \<Rightarrow> seed_call" where
  "concept_call cm = (case cm of (concept, m) \<Rightarrow>
     Seed_concept \<lparr>co_concept = concept, co_definition = cm_definition m, co_aliases = cm_aliases m,
       co_broader = cm_broader m, co_narrower = cm_narrower m, co_related = cm_related m,
       co_multilingual = cm_multilingual m\<rparr>)"

definition dataset_node_call :: "dataset \<Rightarrow> seed_call" where
  "dataset_node_call ds =
     Seed_node (ds_id ds) ''dataset'' (Some (ds_title ds))
       [(''domain'', VStr (ds_domain ds)), (''owner'', VStr (ds_owner ds)), (''steward'', VStr (ds_steward ds)),
        (''tags'', str_list (ds_tags ds)), (''terms'', str_list (ds_terms ds)),
        (''sensitivity'', VStr (ds_sensitivity ds)), (''status'', VStr (ds_status ds))]
       (Some (join '' '' ([ds_title ds, ds_description ds, ds_domain ds] @ ds_tags ds @ ds_terms ds)))"

definition column_calls :: "dataset \<Rightarrow> column_metadata \<Rightarrow> seed_call list" where
  "column_calls ds column =
     (let column_id = ds_id ds @ '':'' @ col_name column in
      [Seed_node column_id ''column'' (Some (col_name column))
         [(''datatype'', VStr (col_datatype column)), (''pii'', VBool (col_pii column))]
         (Some (col_name column @ '' '' @ col_datatype column)),
       Seed_edge ''has_column'' (ds_id ds) column_id []])"

definition dataset_calls :: "dataset \<Rightarrow> seed_call list" where
  "dataset_calls ds =
     dataset_node_call ds # concat (map (column_calls ds) (ds_schema ds))
     @ map (\<lambda>term. Seed_edge ''mapping'' (ds_id ds) term [(''origin'', VStr ''term'')]) (ds_terms ds)
     @ map (\<lambda>m. Seed_edge ''mapping'' (ds_id ds) (map_concept m)
         [(''origin'', VStr ''business_mapping''), (''status'', VStr (map_status m))]) (ds_mappings ds)
     @ map (\<lambda>upstream. Seed_edge ''lineage'' upstream (ds_id ds) [(''kind'', VStr ''input'')]) (ds_lineage_inputs ds)
     @ map (\<lambda>downstream. Seed_edge ''lineage'' (ds_id ds) downstream [(''kind'', VStr ''output'')]) (ds_lineage_outputs ds)
     @ map (\<lambda>related. Seed_edge ''related_dataset'' (ds_id ds) related []) (ds_related_datasets ds)"

definition seed_calls :: "'s catalog_state_scheme \<Rightarrow> seed_call list" where
  "seed_calls s = map concept_call concept_definitions @ concat (map dataset_calls (list_datasets s))"

fun run_seed_call :: "'g age_engine \<Rightarrow> seed_call \<Rightarrow> 'g built_store \<Rightarrow> unit result \<times> 'g built_store" where
  "run_seed_call age (Seed_concept r) st = drop_value (store_upsert_concept age r st)"
| "run_seed_call age (Seed_node n kind label props content) st =
     drop_value (store_upsert_node age n kind label props content st)"
| "run_seed_call age (Seed_edge edge_type a b props) st = drop_value (store_upsert_edge age edge_type a b props st)"

fun run_seed_calls :: "'g age_engine \<Rightarrow> seed_call list \<Rightarrow> 'g built_store \<Rightarrow> unit result \<times> 'g built_store" where
  "run_seed_calls age [] st = (Inr (), st)"
| "run_seed_calls age (c # cs) st =
     (case run_seed_call age c st of (Inl e, st) \<Rightarrow> (Inl e, st) | (Inr _, st) \<Rightarrow> run_seed_calls age cs st)"

definition seed_store ::
  "'g age_engine \<Rightarrow> 's catalog_state_scheme \<Rightarrow> 'g built_store \<Rightarrow> store_stats result \<times> 'g built_store" where
  "seed_store age s st =
     (case run_seed_calls age (seed_calls s) st of
        (Inl e, st) \<Rightarrow> (Inl e, st) | (Inr _, st) \<Rightarrow> (Inr (store_stats_of st), st))"

section \<open>Seeding as writes\<close>

text \<open>The nodes and edges of a call; the concepts' node differs between the backends in one property.\<close>

definition concept_properties :: "bool \<Rightarrow> concept_record \<Rightarrow> pyval dict" where
  "concept_properties in_memory r =
     [(''definition'', VStr (co_definition r)), (''aliases'', str_list (co_aliases r))]
     @ (if in_memory then [(''multilingual'', str_list (co_multilingual r))] else [])"

fun writes_of :: "bool \<Rightarrow> seed_call \<Rightarrow> graph_write list" where
  "writes_of in_memory (Seed_concept r) =
     (let concept = strip (co_concept r); r = r\<lparr>co_concept := concept\<rparr> in
      Write_node concept ''concept'' (Some concept) (concept_properties in_memory r)
        (Some (join '' '' (concept # co_definition r # co_aliases r @ co_multilingual r)))
      # map (\<lambda>(t, a, b). Write_edge t a b []) (concept_edges r))"
| "writes_of in_memory (Seed_node n kind label props content) = [Write_node n kind label props content]"
| "writes_of in_memory (Seed_edge t a b props) = [Write_edge t a b props]"

fun concepts_of :: "seed_call \<Rightarrow> pystr list" where
  "concepts_of (Seed_concept r) = [strip (co_concept r)]"
| "concepts_of _ = []"

text \<open>Writing twice is writing once, in the abstract graph.\<close>

fun last_node :: "graph_write list \<Rightarrow> pystr \<Rightarrow> graph_node option" where
  "last_node [] k = None"
| "last_node (w # ws) k =
     (case last_node ws k of
        Some n \<Rightarrow> Some n
      | None \<Rightarrow> (case w of
          Write_node n kind label props _ \<Rightarrow> if n = k
            then Some \<lparr>gn_node_id = n, gn_kind = kind, gn_label = or_text label n, gn_properties = props\<rparr> else None
        | _ \<Rightarrow> None))"

fun edges_written :: "graph_write list \<Rightarrow> (pystr \<times> pystr \<times> pystr) set" where
  "edges_written [] = {}"
| "edges_written (Write_edge t a b _ # ws) = insert (t, a, b) (edges_written ws)"
| "edges_written (Write_node _ _ _ _ _ # ws) = edges_written ws"

lemma fold_spec_write:
  "vw_node (fold spec_write ws v) = (\<lambda>k. case last_node ws k of Some n \<Rightarrow> Some n | None \<Rightarrow> vw_node v k)"
  "vw_edges (fold spec_write ws v) = edges_written ws \<union> vw_edges v"
proof (induction ws arbitrary: v)
  case (Cons w ws)
  { case 1 then show ?case using Cons.IH by (cases w) (auto simp: fun_eq_iff split: option.split) }
  { case 2 then show ?case using Cons.IH by (cases w) auto }
qed simp_all

lemma spec_write_twice: "fold spec_write ws (fold spec_write ws v) = fold spec_write ws v"
  by (rule graph_view.equality) (auto simp: fold_spec_write fun_eq_iff split: option.split)

section \<open>The view of the active backend\<close>

definition store_view :: "'g built_store \<Rightarrow> graph_view" where
  "store_view st = (case st of Memory_backend m \<Rightarrow> memory_view m | Postgres_backend p \<Rightarrow> pg_view p)"

definition concept_keys :: "'g built_store \<Rightarrow> pystr list" where
  "concept_keys st = (case st of
     Memory_backend m \<Rightarrow> dict_keys (gs_concepts m) | Postgres_backend p \<Rightarrow> map co_concept (ps_concepts p))"

definition store_sound :: "'g built_store \<Rightarrow> bool" where
  "store_sound st \<longleftrightarrow> distinct (concept_keys st)
     \<and> (case st of Memory_backend m \<Rightarrow> memory_sound m | Postgres_backend p \<Rightarrow> pg_sound p)"

definition in_memory :: "'g built_store \<Rightarrow> bool" where
  "in_memory st = (case st of Memory_backend _ \<Rightarrow> True | Postgres_backend _ \<Rightarrow> False)"

interpretation concept_table: keyed_table co_concept "insert_on_conflict_update co_concept"
  by (rule keyed_table_insert_on_conflict_update)

text \<open>The edges of a concept are writes.\<close>

lemma upsert_edges_writes:
  "upsert_edges es m = write_all memory_write (map (\<lambda>(t, a, b). Write_edge t a b []) es) m"
  by (induction es arbitrary: m) (auto simp: drop_value_def split: prod.split sum.split)

lemma pg_upsert_edges_writes:
  "pg_upsert_edges age es p = write_all (pg_write age) (map (\<lambda>(t, a, b). Write_edge t a b []) es) p"
  by (induction es arbitrary: p) (auto simp: drop_value_def split: prod.split sum.split)

lemma memory_view_concepts [simp]:
  "memory_view (m\<lparr>gs_concepts := c, gs_alias_to_concept := a\<rparr>) = memory_view m"
  "memory_sound (m\<lparr>gs_concepts := c, gs_alias_to_concept := a\<rparr>) = memory_sound m"
  by (simp_all add: memory_view_def memory_sound_def get_node_def)

lemma pg_view_concepts [simp]:
  "pg_view (p\<lparr>ps_concepts := c\<rparr>) = pg_view p" "pg_sound (p\<lparr>ps_concepts := c\<rparr>) = pg_sound p"
  by (simp_all add: pg_view_def pg_sound_def pg_get_node_def)

lemma drop_value_result:
  "drop_value (case x of (Inl e, s) \<Rightarrow> (Inl e, s) | (Inr _, s) \<Rightarrow> (Inr r, s)) = (x :: unit result \<times> 's)"
  by (simp add: drop_value_def split: prod.split sum.split)

text \<open>A concept is upserted by writing its row and then its node and edges.\<close>

lemma upsert_concept_writes:
  "drop_value (upsert_concept r m) =
     write_all memory_write (writes_of True (Seed_concept r))
       (m\<lparr>gs_concepts := dict_set (strip (co_concept r)) (r\<lparr>co_concept := strip (co_concept r)\<rparr>) (gs_concepts m),
          gs_alias_to_concept := dict_update (gs_alias_to_concept m)
            (map (\<lambda>a. (graph_normalize a, strip (co_concept r))) (strip (co_concept r) # co_aliases r @ co_multilingual r))\<rparr>)"
  by (simp add: upsert_concept_def Let_def concept_properties_def upsert_edges_writes drop_value_result
      split: prod.split)

lemma pg_upsert_concept_writes:
  "drop_value (pg_upsert_concept age r p) =
     write_all (pg_write age) (writes_of False (Seed_concept r))
       (p\<lparr>ps_concepts := insert_on_conflict_update co_concept (r\<lparr>co_concept := strip (co_concept r)\<rparr>) (ps_concepts p)\<rparr>)"
  by (auto simp: pg_upsert_concept_def Let_def concept_properties_def pg_upsert_edges_writes drop_value_result
      drop_value_def split: prod.split sum.split)

text \<open>Writes keep the concepts' rows and, in memory, always succeed under a good edge type.\<close>

lemma memory_write_keeps: "gs_concepts (snd (memory_write w m)) = gs_concepts m"
  by (cases w) (auto simp: upsert_node_def upsert_edge_def drop_value_def Let_def split: prod.splits sum.splits)

lemma memory_writes_keep: "write_all memory_write ws m = (r, m') \<Longrightarrow> gs_concepts m' = gs_concepts m"
proof (induction ws arbitrary: m)
  case (Cons w ws)
  then show ?case using memory_write_keeps [of w m] by (auto split: prod.splits sum.splits)
qed simp

lemma pg_write_keeps: "ps_concepts (snd (pg_write age w p)) = ps_concepts p"
  by (cases w) (auto simp: pg_upsert_node_def pg_upsert_edge_def drop_value_def Let_def split: prod.splits sum.splits)

lemma pg_writes_keep: "write_all (pg_write age) ws p = (r, p') \<Longrightarrow> ps_concepts p' = ps_concepts p"
proof (induction ws arbitrary: p)
  case (Cons w ws)
  then show ?case using pg_write_keeps [of age w p] by (auto split: prod.splits sum.splits)
qed simp

lemma memory_write_succeeds: "write_allowed w \<Longrightarrow> \<exists>m'. memory_write w m = (Inr (), m')"
  by (cases w) (auto simp: write_allowed_def upsert_edge_def drop_value_def Let_def case_prod_unfold)

lemma memory_writes_succeed: "list_all write_allowed ws \<Longrightarrow> \<exists>m'. write_all memory_write ws m = (Inr (), m')"
proof (induction ws arbitrary: m)
  case (Cons w ws)
  then show ?case using memory_write_succeeds [of w m] by auto
qed simp

text \<open>The row of a concept, stored before its node and edges.\<close>

fun memory_row :: "seed_call \<Rightarrow> memory_store \<Rightarrow> memory_store" where
  "memory_row (Seed_concept r) m =
     m\<lparr>gs_concepts := dict_set (strip (co_concept r)) (r\<lparr>co_concept := strip (co_concept r)\<rparr>) (gs_concepts m),
       gs_alias_to_concept := dict_update (gs_alias_to_concept m)
         (map (\<lambda>a. (graph_normalize a, strip (co_concept r))) (strip (co_concept r) # co_aliases r @ co_multilingual r))\<rparr>"
| "memory_row _ m = m"

fun pg_row :: "seed_call \<Rightarrow> 'g postgres_store \<Rightarrow> 'g postgres_store" where
  "pg_row (Seed_concept r) p =
     p\<lparr>ps_concepts := insert_on_conflict_update co_concept (r\<lparr>co_concept := strip (co_concept r)\<rparr>) (ps_concepts p)\<rparr>"
| "pg_row _ p = p"

lemma drop_on_store:
  "drop_value (on_store f g (Memory_backend m)) = map_prod id Memory_backend (drop_value (f m))"
  "drop_value (on_store f g (Postgres_backend p)) = map_prod id Postgres_backend (drop_value (g p))"
  by (simp_all add: on_store_def drop_value_def split: prod.split sum.split)

lemma write_all_single: "write_all put [w] s = put w s"
  by (simp split: prod.split sum.split)

lemma run_seed_call_memory:
  "run_seed_call age c (Memory_backend m)
     = map_prod id Memory_backend (write_all memory_write (writes_of True c) (memory_row c m))"
proof (cases c)
  case (Seed_concept r)
  then show ?thesis by (simp only: run_seed_call.simps store_upsert_concept_def drop_on_store upsert_concept_writes memory_row.simps)
next
  case Seed_node
  then show ?thesis
    by (simp only: run_seed_call.simps store_upsert_node_def drop_on_store memory_row.simps writes_of.simps write_all_single memory_write.simps)
       (simp add: drop_value_def case_prod_unfold)
next
  case Seed_edge
  then show ?thesis
    by (simp only: run_seed_call.simps store_upsert_edge_def drop_on_store memory_row.simps writes_of.simps write_all_single memory_write.simps)
qed

lemma run_seed_call_postgres:
  "run_seed_call age c (Postgres_backend p)
     = map_prod id Postgres_backend (write_all (pg_write age) (writes_of False c) (pg_row c p))"
proof (cases c)
  case (Seed_concept r)
  then show ?thesis by (simp only: run_seed_call.simps store_upsert_concept_def drop_on_store pg_upsert_concept_writes pg_row.simps)
next
  case Seed_node
  then show ?thesis
    by (simp only: run_seed_call.simps store_upsert_node_def drop_on_store pg_row.simps writes_of.simps write_all_single pg_write.simps)
next
  case Seed_edge
  then show ?thesis
    by (simp only: run_seed_call.simps store_upsert_edge_def drop_on_store pg_row.simps writes_of.simps write_all_single pg_write.simps)
qed

lemma memory_row_keeps:
  "memory_sound (memory_row c m) = memory_sound m" "memory_view (memory_row c m) = memory_view m"
  "dict_ok (gs_concepts m) \<Longrightarrow> dict_ok (gs_concepts (memory_row c m))"
  "set (dict_keys (gs_concepts (memory_row c m))) = set (concepts_of c) \<union> set (dict_keys (gs_concepts m))"
  by (cases c; simp add: keys_dict_set)+

lemma pg_row_keeps:
  "pg_sound (pg_row c p) = pg_sound p" "pg_view (pg_row c p) = pg_view p"
  "distinct (map co_concept (ps_concepts p)) \<Longrightarrow> distinct (map co_concept (ps_concepts (pg_row c p)))"
  "co_concept ` set (ps_concepts (pg_row c p)) = set (concepts_of c) \<union> co_concept ` set (ps_concepts p)"
  by (cases c; simp add: keys_of_update concept_table.put_distinct)+

text \<open>One call of the seed: its writes, and the row of a concept.\<close>

lemma run_seed_call_refines:
  assumes sound: "store_sound st" and run: "run_seed_call age c st = (Inr u, st')"
  shows "store_sound st' \<and> in_memory st' = in_memory st
    \<and> store_view st' = fold spec_write (writes_of (in_memory st) c) (store_view st)
    \<and> set (concept_keys st') = set (concepts_of c) \<union> set (concept_keys st)"
proof (cases st)
  case (Memory_backend m)
  obtain m' where m': "write_all memory_write (writes_of True c) (memory_row c m) = (Inr u, m')" "st' = Memory_backend m'"
    using run unfolding Memory_backend run_seed_call_memory
    by (cases "write_all memory_write (writes_of True c) (memory_row c m)") auto
  have sound': "memory_sound (memory_row c m)" "dict_ok (gs_concepts m)"
    using sound Memory_backend by (simp_all add: store_sound_def memory_row_keeps concept_keys_def dict_ok_def dict_keys_def)
  show ?thesis
    using memory_backend.write_all_refines [OF sound'(1) m'(1)] memory_writes_keep [OF m'(1)]
      memory_row_keeps(3) [OF sound'(2), of c] memory_row_keeps(4) [of c m]
    by (simp add: Memory_backend m'(2) store_sound_def store_view_def in_memory_def concept_keys_def memory_row_keeps(2)
        dict_ok_def flip: dict_keys_def)
next
  case (Postgres_backend p)
  obtain p' where p': "write_all (pg_write age) (writes_of False c) (pg_row c p) = (Inr u, p')" "st' = Postgres_backend p'"
    using run unfolding Postgres_backend run_seed_call_postgres
    by (cases "write_all (pg_write age) (writes_of False c) (pg_row c p)") auto
  have sound': "pg_sound (pg_row c p)" "distinct (map co_concept (ps_concepts p))"
    using sound Postgres_backend by (simp_all add: store_sound_def pg_row_keeps concept_keys_def)
  show ?thesis
    using postgres_backend.write_all_refines [OF sound'(1) p'(1)] pg_writes_keep [OF p'(1)]
      pg_row_keeps(3) [OF sound'(2), of c] pg_row_keeps(4) [of c p]
    by (simp add: Postgres_backend p'(2) store_sound_def store_view_def in_memory_def concept_keys_def pg_row_keeps(2))
qed

lemma run_seed_calls_refines:
  "store_sound st \<Longrightarrow> run_seed_calls age cs st = (Inr u, st') \<Longrightarrow> store_sound st' \<and> in_memory st' = in_memory st
    \<and> store_view st' = fold spec_write (concat (map (writes_of (in_memory st)) cs)) (store_view st)
    \<and> set (concept_keys st') = set (concat (map concepts_of cs)) \<union> set (concept_keys st)"
proof (induction cs arbitrary: st)
  case (Cons c cs)
  then obtain u1 st1 where first: "run_seed_call age c st = (Inr u1, st1)" "run_seed_calls age cs st1 = (Inr u, st')"
    by (auto split: prod.splits sum.splits)
  from run_seed_call_refines [OF Cons.prems(1) first(1)] Cons.IH [OF _ first(2)] show ?case by auto
qed simp

definition seed_call_allowed :: "seed_call \<Rightarrow> bool" where
  "seed_call_allowed c \<longleftrightarrow> list_all write_allowed (writes_of True c)"

lemma run_seed_calls_memory:
  "list_all seed_call_allowed cs \<Longrightarrow> \<exists>m'. run_seed_calls age cs (Memory_backend m) = (Inr (), Memory_backend m')"
proof (induction cs arbitrary: m)
  case (Cons c cs)
  obtain m' where "write_all memory_write (writes_of True c) (memory_row c m) = (Inr (), m')"
    using Cons.prems memory_writes_succeed [of "writes_of True c"] by (auto simp: seed_call_allowed_def)
  then show ?case using Cons by (simp add: run_seed_call_memory)
qed simp

lemma seed_labels:
  "relationship_label ''broader'' = Inr ''BROADER''" "relationship_label ''narrower'' = Inr ''NARROWER''"
  "relationship_label ''related'' = Inr ''RELATED''" "relationship_label ''has_column'' = Inr ''HAS_COLUMN''"
  "relationship_label ''mapping'' = Inr ''MAPPING''" "relationship_label ''lineage'' = Inr ''LINEAGE''"
  "relationship_label ''related_dataset'' = Inr ''RELATED_DATASET''"
  by code_simp+

lemma seed_calls_allowed: "list_all seed_call_allowed (seed_calls s)"
proof -
  have concept: "seed_call_allowed (Seed_concept r)" for r
    by (auto simp: seed_call_allowed_def Let_def write_allowed_def concept_edges_def list_all_iff seed_labels
        split: option.split)
  have columns: "list_all seed_call_allowed (column_calls ds c)" for ds c
    by (simp add: column_calls_def Let_def seed_call_allowed_def write_allowed_def seed_labels)
  have "list_all seed_call_allowed (dataset_calls ds)" for ds
    using columns [of ds]
    by (auto simp: dataset_calls_def dataset_node_call_def list_all_iff, simp_all add: seed_call_allowed_def write_allowed_def seed_labels)
  then show ?thesis using concept by (auto simp: seed_calls_def list_all_iff concept_call_def)
qed

lemma stats_by_view:
  assumes "store_sound st"
  shows "stats_counts (store_stats_of st) = counts_of (store_view st)"
    "ss_concepts (store_stats_of st) = card (set (concept_keys st))"
proof -
  show "stats_counts (store_stats_of st) = counts_of (store_view st)"
    using assms
    by (cases st) (simp_all add: store_sound_def store_stats_of_def store_view_def
        memory_backend.counts_view [unfolded o_def] postgres_backend.counts_view [unfolded o_def])
  have "ss_concepts (store_stats_of st) = length (concept_keys st)"
    by (cases st) (simp_all add: store_stats_of_def memory_stats_def pg_stats_def concept_keys_def dict_keys_def)
  then show "ss_concepts (store_stats_of st) = card (set (concept_keys st))"
    using assms distinct_card by (fastforce simp: store_sound_def)
qed

lemma same_stats: "stats_counts a = stats_counts b \<Longrightarrow> ss_concepts a = ss_concepts b \<Longrightarrow> a = (b :: store_stats)"
  by (simp add: stats_counts_def)

text \<open>
  C34.  Seeding is idempotent on either backend: after one seeding, a second one leaves the same nodes and
  edges and reports the same statistics, and only the database can make it fail.
\<close>

theorem seed_idempotent:
  assumes sound: "store_sound st" and first: "seed_store age s st = (Inr stats, st1)"
  shows "case seed_store age s st1 of
     (Inl e, st2) \<Rightarrow> \<not> in_memory st
   | (Inr stats', st2) \<Rightarrow> stats' = stats \<and> in_memory st2 = in_memory st
       \<and> vw_node (store_view st2) = vw_node (store_view st1) \<and> vw_edges (store_view st2) = vw_edges (store_view st1)"
proof -
  let ?ws = "concat (map (writes_of (in_memory st)) (seed_calls s))"
  obtain u where u: "run_seed_calls age (seed_calls s) st = (Inr u, st1)" "stats = store_stats_of st1"
    using first by (auto simp: seed_store_def split: prod.splits sum.splits)
  note one = run_seed_calls_refines [OF sound u(1)]
  show ?thesis
  proof (cases "run_seed_calls age (seed_calls s) st1")
    case (Pair r st2)
    show ?thesis
    proof (cases r)
      case (Inl e)
      have "\<not> in_memory st1"
      proof
        assume "in_memory st1"
        then obtain m where "st1 = Memory_backend m" by (cases st1) (simp_all add: in_memory_def)
        with run_seed_calls_memory [OF seed_calls_allowed, of age s m] Pair Inl show False by simp
      qed
      then show ?thesis using one Pair Inl by (simp add: seed_store_def)
    next
      case (Inr u')
      note two = run_seed_calls_refines [OF conjunct1 [OF one] Pair [unfolded Inr]]
      have view: "store_view st2 = store_view st1" using one two spec_write_twice by simp
      have "set (concept_keys st2) = set (concept_keys st1)" using one two by auto
      then have "store_stats_of st2 = store_stats_of st1"
        using stats_by_view [of st1] stats_by_view [of st2] one two view by (intro same_stats) simp_all
      then show ?thesis using one two view Pair Inr u(2) by (simp add: seed_store_def)
    qed
  qed
qed

theorem seed_idempotent_witness:
  "\<exists>stats st1 st2. seed_store quiet_engine sample_ontology (Memory_backend (empty_store (\<lambda>_. [0, 0, 0, 0, 0]) 2)) = (Inr stats, st1)
     \<and> seed_store quiet_engine sample_ontology st1 = (Inr stats, st2) \<and> 5 \<le> ss_concepts stats"
proof -
  let ?st = "Memory_backend (empty_store (\<lambda>_. [0, 0, 0, 0, 0]) 2) :: unit built_store"
  obtain m1 where m1: "run_seed_calls quiet_engine (seed_calls sample_ontology) ?st = (Inr (), Memory_backend m1)"
    using run_seed_calls_memory [OF seed_calls_allowed] by blast
  obtain m2 where m2: "run_seed_calls quiet_engine (seed_calls sample_ontology) (Memory_backend m1) = (Inr (), Memory_backend m2)"
    using run_seed_calls_memory [OF seed_calls_allowed] by blast
  have sound: "store_sound ?st"
    by (simp add: store_sound_def concept_keys_def memory_sound_def empty_store_def dict_keys_def)
  have first: "seed_store quiet_engine sample_ontology ?st = (Inr (memory_stats m1), Memory_backend m1)"
    and second: "seed_store quiet_engine sample_ontology (Memory_backend m1) = (Inr (memory_stats m2), Memory_backend m2)"
    using m1 m2 by (simp_all add: seed_store_def store_stats_of_def)
  have "memory_stats m2 = memory_stats m1"
    using seed_idempotent [OF sound first] second by simp
  moreover have "5 \<le> ss_concepts (memory_stats m1)"
  proof -
    note one = run_seed_calls_refines [OF sound m1]
    have "set (concat (map concepts_of (seed_calls sample_ontology))) \<supseteq> set (map (strip \<circ> fst) concept_definitions)"
      by (auto simp: seed_calls_def concept_call_def)
    then have "card (set (map (strip \<circ> fst) concept_definitions)) \<le> card (set (concept_keys (Memory_backend m1 :: unit built_store)))"
      using one by (intro card_mono) auto
    moreover have "card (set (map (strip \<circ> fst) concept_definitions)) = 5" by code_simp
    ultimately show ?thesis using stats_by_view(2) [of "Memory_backend m1 :: unit built_store"] one by (simp add: store_stats_of_def)
  qed
  ultimately show ?thesis using first second by metis
qed

end
