(* ===== verification/Api_Graph.thy ===== *)
theory Api_Graph
  imports Api_Catalog Graph_Seed
begin

text \<open>
  The graph, ontology, identity and health endpoints of the HTTP API (\<open>src/sdp/api.py\<close>), over the
  state of the whole portal: the catalog and its evidence, the ontology patches, the observations
  and the active graph store.  The request models of \<open>src/sdp/graph_models.py\<close> are records with their
  field constraints; a request that breaks one is answered with 422.
\<close>

section \<open>The portal\<close>

record 'g api_state = portal_state +
  api_store :: "'g built_store option"

text \<open>What lies outside the program: the environment, the identity provider's library, the
  database and its graph engine, the log sink, and pydantic's parsers.\<close>

record 'g platform =
  pf_env :: process_env
  pf_oidc :: oidc_environment
  pf_jwt :: jwt_library
  pf_digest :: "pystr \<Rightarrow> nat list"
  pf_open_postgres :: "pystr \<Rightarrow> app_config \<Rightarrow> 'g postgres_store \<times> bool \<times> pystr list option"
  pf_probe :: "'g postgres_store \<Rightarrow> bool \<times> pystr list option"
  pf_age :: "'g age_engine"
  pf_distance :: "real list \<Rightarrow> real list \<Rightarrow> real"
  pf_bootstrap :: bootstrap_settings
  pf_config :: app_config
  pf_sink :: sink
  pf_parse_create :: "pyval dict \<Rightarrow> pystr + dataset_create_request"
  pf_parse_patch :: "pyval dict \<Rightarrow> pystr + dataset_patch_request"
  pf_parse_draft :: "pyval dict \<Rightarrow> pystr + query_draft_request"
  pf_parse_query :: "pyval dict \<Rightarrow> pystr + query_execution_request"

definition with_store ::
  "'g platform \<Rightarrow> ('g built_store \<Rightarrow> ('g, 's) api_state_scheme \<Rightarrow> 'a result \<times> ('g, 's) api_state_scheme)
   \<Rightarrow> ('g, 's) api_state_scheme \<Rightarrow> 'a result \<times> ('g, 's) api_state_scheme" where
  "with_store pf body s =
     (let (r, st, s) = get_store (build_store (pf_digest pf) (pf_open_postgres pf) (pf_bootstrap pf) (pf_config pf))
            (api_store s) s;
          s = s\<lparr>api_store := st\<rparr>
      in case r of Inl e \<Rightarrow> (Inl e, s) | Inr store \<Rightarrow> body store s)"

definition writing_store ::
  "'g platform \<Rightarrow> ('g built_store \<Rightarrow> 'a result \<times> 'g built_store) \<Rightarrow> ('g, 's) api_state_scheme
   \<Rightarrow> 'a result \<times> ('g, 's) api_state_scheme" where
  "writing_store pf f = with_store pf (\<lambda>st s. let (r, st) = f st in (r, s\<lparr>api_store := Some st\<rparr>))"

definition reading_store ::
  "'g platform \<Rightarrow> ('g built_store \<Rightarrow> 'a result) \<Rightarrow> ('g, 's) api_state_scheme
   \<Rightarrow> 'a result \<times> ('g, 's) api_state_scheme" where
  "reading_store pf f = with_store pf (\<lambda>st s. (f st, s))"

text \<open>The seeding of the active store, at import and again at startup: no exception gets out, but a
  failed seeding leaves what it has written.\<close>

definition bootstrap_graph_engine :: "'g platform \<Rightarrow> ('g, 's) api_state_scheme \<Rightarrow> ('g, 's) api_state_scheme" where
  "bootstrap_graph_engine pf s = snd (writing_store pf (seed_store (pf_age pf) s) s)"

section \<open>Graph writes\<close>

record graph_node_request =
  gq_node_id :: pystr
  gq_kind :: pystr
  gq_label :: "pystr option"
  gq_properties :: "pyval dict"
  gq_text :: "pystr option"
  gq_actor :: pystr

definition node_request_valid :: "graph_node_request \<Rightarrow> bool" where
  "node_request_valid q \<longleftrightarrow> gq_node_id q \<noteq> [] \<and> gq_kind q \<noteq> []"

record graph_edge_request =
  eq_edge_type :: pystr
  eq_source_id :: pystr
  eq_target_id :: pystr
  eq_properties :: "pyval dict"
  eq_actor :: pystr

definition edge_request_valid :: "graph_edge_request \<Rightarrow> bool" where
  "edge_request_valid q \<longleftrightarrow> eq_edge_type q \<noteq> [] \<and> eq_source_id q \<noteq> [] \<and> eq_target_id q \<noteq> []"

record ontology_concept_request =
  cq_concept :: concept_record
  cq_actor :: pystr

definition concept_request_valid :: "ontology_concept_request \<Rightarrow> bool" where
  "concept_request_valid q \<longleftrightarrow> co_concept (cq_concept q) \<noteq> []"

definition invalid :: "'s \<Rightarrow> 'a result \<times> 's" where
  "invalid s = (Inl unprocessable, s)"

definition authorize_graph_write ::
  "pystr \<Rightarrow> pystr \<Rightarrow> (policy_decision \<Rightarrow> 's catalog_state_scheme \<Rightarrow> 'a result \<times> 's catalog_state_scheme)
   \<Rightarrow> 's catalog_state_scheme \<Rightarrow> 'a result \<times> 's catalog_state_scheme" where
  "authorize_graph_write actor resource = authorized actor resource ''create'' ''graph''"

definition authorize_graph_read ::
  "pystr \<Rightarrow> pystr \<Rightarrow> (policy_decision \<Rightarrow> 's catalog_state_scheme \<Rightarrow> 'a result \<times> 's catalog_state_scheme)
   \<Rightarrow> 's catalog_state_scheme \<Rightarrow> 'a result \<times> 's catalog_state_scheme" where
  "authorize_graph_read actor resource = authorized actor resource ''search'' ''graph''"

definition ingest_concept ::
  "'g platform \<Rightarrow> ontology_concept_request \<Rightarrow> ('g, 's) api_state_scheme
   \<Rightarrow> concept_record result \<times> ('g, 's) api_state_scheme" where
  "ingest_concept pf q s =
     (if \<not> concept_request_valid q then invalid s
      else authorize_graph_write (cq_actor q) (co_concept (cq_concept q))
        (\<lambda>_. writing_store pf (store_upsert_concept (pf_age pf) (cq_concept q))) s)"

definition ingest_graph_node ::
  "'g platform \<Rightarrow> graph_node_request \<Rightarrow> ('g, 's) api_state_scheme \<Rightarrow> graph_node result \<times> ('g, 's) api_state_scheme" where
  "ingest_graph_node pf q s =
     (if \<not> node_request_valid q then invalid s
      else authorize_graph_write (gq_actor q) (gq_node_id q)
        (\<lambda>_. writing_store pf (store_upsert_node (pf_age pf) (gq_node_id q) (gq_kind q) (gq_label q)
           (gq_properties q) (gq_text q))) s)"

definition ingest_graph_edge ::
  "'g platform \<Rightarrow> graph_edge_request \<Rightarrow> ('g, 's) api_state_scheme \<Rightarrow> graph_edge result \<times> ('g, 's) api_state_scheme" where
  "ingest_graph_edge pf q s =
     (if \<not> edge_request_valid q then invalid s
      else authorize_graph_write (eq_actor q) (eq_source_id q)
        (\<lambda>_ s. catching value_400 (writing_store pf (store_upsert_edge (pf_age pf) (eq_edge_type q) (eq_source_id q)
           (eq_target_id q) (eq_properties q)) s)) s)"

section \<open>Graph reads\<close>

definition get_graph_node :: "'g platform \<Rightarrow> pystr \<Rightarrow> ('g, 's) api_state_scheme \<Rightarrow> graph_node result \<times> ('g, 's) api_state_scheme" where
  "get_graph_node pf node_id = reading_store pf (\<lambda>st.
     case store_get_node node_id st of None \<Rightarrow> Inl (http 404 ''node not found'') | Some n \<Rightarrow> Inr n)"

record graph_traversal_request =
  tq_start_id :: pystr
  tq_edge_types :: "pystr list option"
  tq_direction :: pystr
  tq_max_depth :: int
  tq_actor :: pystr

text \<open>The pattern \<open>^(out|in|both)$\<close>: pydantic's engine matches the dollar at the very end only.\<close>

definition traversal_request_valid :: "graph_traversal_request \<Rightarrow> bool" where
  "traversal_request_valid q \<longleftrightarrow> tq_start_id q \<noteq> [] \<and> tq_direction q \<in> {''out'', ''in'', ''both''}
     \<and> 1 \<le> tq_max_depth q \<and> tq_max_depth q \<le> 6"

definition graph_query ::
  "'g platform \<Rightarrow> graph_traversal_request \<Rightarrow> ('g, 's) api_state_scheme
   \<Rightarrow> store_traversal result \<times> ('g, 's) api_state_scheme" where
  "graph_query pf q s =
     (if \<not> traversal_request_valid q then invalid s
      else authorize_graph_read (tq_actor q) (tq_start_id q)
        (\<lambda>_ s. catching (value_400 \<circ> key_404)
           (reading_store pf (store_traverse (pf_age pf) (tq_start_id q) (tq_edge_types q) (tq_direction q) (tq_max_depth q)) s)) s)"

record semantic_search_request =
  zq_query :: pystr
  zq_kind :: "pystr option"
  zq_limit :: int
  zq_actor :: pystr

definition search_request_valid :: "semantic_search_request \<Rightarrow> bool" where
  "search_request_valid q \<longleftrightarrow> zq_query q \<noteq> [] \<and> 1 \<le> zq_limit q \<and> zq_limit q \<le> 50"

definition semantic_search_endpoint ::
  "'g platform \<Rightarrow> semantic_search_request \<Rightarrow> ('g, 's) api_state_scheme
   \<Rightarrow> (pystr \<times> nat \<times> semantic_hit list) result \<times> ('g, 's) api_state_scheme" where
  "semantic_search_endpoint pf q s =
     (if \<not> search_request_valid q then invalid s
      else authorize_graph_read (zq_actor q) ''graph''
        (\<lambda>_. reading_store pf (\<lambda>st. map_sum id (\<lambda>results. (zq_query q, length results, results))
           (store_semantic_search (pf_distance pf) (zq_query q) (zq_kind q) (zq_limit q) st))) s)"

definition store_readiness_of ::
  "'g platform \<Rightarrow> 'g built_store \<Rightarrow> 's world_scheme \<Rightarrow> (store_readiness \<times> pystr option) \<times> 's world_scheme" where
  "store_readiness_of pf st s =
     (case st of
        Memory_backend _ \<Rightarrow> (let (r, s) = memory_readiness s in ((r, None), s))
      | Postgres_backend p \<Rightarrow> (let (answered, extensions) = pf_probe pf p in pg_readiness answered extensions s))"

definition graph_stats ::
  "'g platform \<Rightarrow> ('g, 's) api_state_scheme \<Rightarrow> (pystr \<times> store_stats) result \<times> ('g, 's) api_state_scheme" where
  "graph_stats pf = with_store pf (\<lambda>st s.
     let ((readiness, _), s) = store_readiness_of pf st s in (Inr (rd_backend readiness, store_stats_of st), s))"

section \<open>Health\<close>

record health_report =
  hl_status :: pystr
  hl_config_source :: pystr
  hl_store :: "store_readiness option"
  hl_error :: "pystr option"
  hl_stats :: "store_stats option"
  hl_at :: pystr

definition health :: "'s world_scheme \<Rightarrow> (pystr \<times> pystr) result \<times> 's world_scheme" where
  "health s = (let (t, s) = now s in (Inr (''ok'', iso_text s t), s))"

text \<open>The response with its status code: 200, or 503 when the store is not ready or cannot be built.\<close>

definition healthz :: "'g platform \<Rightarrow> ('g, 's) api_state_scheme \<Rightarrow> (int \<times> health_report) \<times> ('g, 's) api_state_scheme" where
  "healthz pf s =
     (let (r, s) = with_store pf (\<lambda>st s. let (probe, s) = store_readiness_of pf st s in
            (Inr (probe, if rd_ready (fst probe) then Some (store_stats_of st) else None), s)) s;
          (t, s) = now s;
          (readiness, problem, stats) = (case r of
            Inr ((readiness, problem), stats) \<Rightarrow> (Some readiness, problem, stats)
          | Inl _ \<Rightarrow> (None, Some ''backend unreachable'', None));
          ready = (case readiness of Some rd \<Rightarrow> rd_ready rd | None \<Rightarrow> False)
      in ((if ready then 200 else 503,
           \<lparr>hl_status = (if ready then ''ready'' else ''unavailable''), hl_config_source = cfg_source (pf_config pf),
            hl_store = readiness, hl_error = problem, hl_stats = stats, hl_at = iso_text s t\<rparr>), s))"

section \<open>Ontology\<close>

definition resolve_terms_endpoint ::
  "pystr dict \<Rightarrow> 's ontology_state_scheme \<Rightarrow> (pystr \<times> resolution list) result" where
  "resolve_terms_endpoint payload s =
     (let text = text_or payload ''text'' [] in
      if text = [] then Inl (http 400 ''question text required'')
      else map_sum id (Pair text) (resolve_terms text s))"

definition concept_detail :: "pystr \<Rightarrow> 's ontology_state_scheme \<Rightarrow> concept_assets_result result" where
  "concept_detail concept s = Inr (concept_assets concept s)"

definition ontology_concepts :: "'s \<Rightarrow> (nat \<times> pystr list) result" where
  "ontology_concepts s = Inr (length list_concepts, list_concepts)"

definition ontology_search :: "pystr \<Rightarrow> 's \<Rightarrow> (pystr \<times> nat \<times> concept_term list) result" where
  "ontology_search q s =
     checked (q \<noteq> []) (let matches = search_concepts q in Inr (q, length matches, matches))"

definition ontology_patches_endpoint :: "pystr option \<Rightarrow> 's ontology_state_scheme \<Rightarrow> (nat \<times> ontology_patch list) result" where
  "ontology_patches_endpoint status s = (let patches = list_patches status s in Inr (length patches, patches))"

definition ontology_patch_create ::
  "pystr dict \<Rightarrow> 's ontology_state_scheme \<Rightarrow> ontology_patch result \<times> 's ontology_state_scheme" where
  "ontology_patch_create payload s =
     (let concept = strip (text_or payload ''concept'' []); suggestion = strip (text_or payload ''suggestion'' []) in
      if concept = [] \<or> suggestion = [] then (Inl (http 400 ''concept and suggestion are required''), s)
      else map_prod Inr id (propose_patch concept suggestion (text_or payload ''requestor'' ''anonymous'') s))"

definition ontology_patch_review ::
  "pystr \<Rightarrow> pystr dict \<Rightarrow> 's ontology_state_scheme \<Rightarrow> ontology_patch result \<times> 's ontology_state_scheme" where
  "ontology_patch_review patch_id payload s =
     catching (value_400 \<circ> key_404)
       (review_patch patch_id (text_or payload ''decision'' []) (text_or payload ''reviewer'' ''anonymous'')
          (text_or payload ''comment'' []) s)"

text \<open>The store's answer, or the ontology's own when the store has no such concept.\<close>

definition ontology_term_graph ::
  "'g platform \<Rightarrow> pystr \<Rightarrow> ('g, 's) api_state_scheme
   \<Rightarrow> (store_concept_graph + concept_graph_result) result \<times> ('g, 's) api_state_scheme" where
  "ontology_term_graph pf term = reading_store pf (\<lambda>st.
     case store_concept_graph_at term st of
       Store_no_concept _ \<Rightarrow> Inr (Inr (concept_graph term))
     | found \<Rightarrow> Inr (Inl found))"

datatype search_answer =
    No_term pystr pystr pystr
  | Term_found pystr pystr pystr pystr policy_decision concept_assets_result

definition llm_search ::
  "pystr dict \<Rightarrow> 's ontology_state_scheme \<Rightarrow> search_answer result \<times> 's ontology_state_scheme" where
  "llm_search payload s =
     (let query = text_or payload ''question'' [] in
      if query = [] then (Inl (http 400 ''question is required''), s)
      else (let user = text_or payload ''user'' ''anonymous''; purpose = text_or payload ''purpose'' ''analysis'' in
        case resolve_terms query s of
          Inl e \<Rightarrow> (Inl e, s)
        | Inr [] \<Rightarrow> (Inr (No_term query user purpose), s)
        | Inr (best # _) \<Rightarrow>
            (let (decision, s) = evaluate user ''catalog'' ''discover'' purpose s in
             (Inr (Term_found query (rs_term best) user purpose decision (concept_assets (rs_term best) s)), s))))"

end
