(* ===== verification/Design_Tokens.thy ===== *)
theory Design_Tokens
  imports Prelude
begin

text \<open>
  The design tokens (\<open>src/sdp/design_tokens.py\<close>): the three tiers and the high-contrast overrides, the
  expansion of \<open>var(...)\<close> references with its bound on cyclic aliases, and the rendered style blocks.
\<close>

section \<open>The tables\<close>

definition primitive_tokens :: "pystr dict" where
  "primitive_tokens = [
    (''--sdp-color-white'', ''#ffffff''), (''--sdp-color-gray-50'', ''#f7f9fc''),
    (''--sdp-color-gray-75'', ''#eef3f8''), (''--sdp-color-gray-100'', ''#eef2f6''),
    (''--sdp-color-gray-150'', ''#dce5ee''), (''--sdp-color-gray-200'', ''#d8dee8''),
    (''--sdp-color-gray-500'', ''#5b6778''), (''--sdp-color-gray-900'', ''#17202a''),
    (''--sdp-color-teal-700'', ''#0f766e''), (''--sdp-color-primary-5'', ''#f0fdfa''),
    (''--sdp-color-primary-10'', ''#ccfbf1''), (''--sdp-color-primary-20'', ''#99f6e4''),
    (''--sdp-color-primary-30'', ''#5eead4''), (''--sdp-color-primary-40'', ''#2dd4bf''),
    (''--sdp-color-primary-50'', ''#14b8a6''), (''--sdp-color-primary-60'', ''#0d9488''),
    (''--sdp-color-primary-70'', ''#0f766e''), (''--sdp-color-primary-80'', ''#115e59''),
    (''--sdp-color-primary-90'', ''#134e4a''), (''--sdp-color-primary-95'', ''#042f2e''),
    (''--sdp-color-green-50'', ''#eff8f0''), (''--sdp-color-green-200'', ''#bbd7c0''),
    (''--sdp-color-green-600'', ''#166534''), (''--sdp-color-amber-50'', ''#fff8e7''),
    (''--sdp-color-amber-200'', ''#e7cf96''), (''--sdp-color-amber-700'', ''#a16207''),
    (''--sdp-space-2'', ''2px''), (''--sdp-space-3'', ''3px''), (''--sdp-space-4'', ''4px''),
    (''--sdp-space-6'', ''6px''), (''--sdp-space-8'', ''8px''), (''--sdp-space-9'', ''9px''),
    (''--sdp-space-10'', ''10px''), (''--sdp-space-12'', ''12px''), (''--sdp-space-14'', ''14px''),
    (''--sdp-space-16'', ''16px''), (''--sdp-space-18'', ''18px''), (''--sdp-space-20'', ''20px''),
    (''--sdp-space-24'', ''24px''), (''--sdp-space-28'', ''28px''), (''--sdp-space-0'', ''0''),
    (''--sdp-space-32'', ''32px''), (''--sdp-space-40'', ''40px''), (''--sdp-space-48'', ''48px''),
    (''--sdp-space-64'', ''64px''), (''--sdp-radius-0'', ''0''), (''--sdp-radius-2'', ''2px''),
    (''--sdp-radius-4'', ''4px''), (''--sdp-radius-6'', ''6px''), (''--sdp-radius-8'', ''8px''),
    (''--sdp-radius-12'', ''12px''), (''--sdp-radius-pill'', ''999px''),
    (''--sdp-font-size-11'', ''11px''), (''--sdp-font-size-12'', ''12px''),
    (''--sdp-font-size-13'', ''13px''), (''--sdp-font-size-14'', ''14px''),
    (''--sdp-font-size-15'', ''15px''), (''--sdp-font-size-22'', ''22px''),
    (''--sdp-font-size-24'', ''24px''), (''--sdp-font-weight-medium'', ''650''),
    (''--sdp-font-weight-bold'', ''700''), (''--sdp-font-weight-heavy'', ''750''),
    (''--sdp-line-height-normal'', ''1.5'')]"

definition semantic_tokens :: "pystr dict" where
  "semantic_tokens = [
    (''--sdp-color-text-primary'', ''var(--sdp-color-gray-900)''),
    (''--sdp-color-text-muted'', ''var(--sdp-color-gray-500)''),
    (''--sdp-color-surface-default'', ''var(--sdp-color-white)''),
    (''--sdp-color-surface-muted'', ''var(--sdp-color-gray-50)''),
    (''--sdp-color-surface-strong'', ''var(--sdp-color-gray-75)''),
    (''--sdp-color-background-canvas'', ''var(--sdp-color-gray-100)''),
    (''--sdp-color-border-default'', ''var(--sdp-color-gray-200)''),
    (''--sdp-color-border-muted'', ''var(--sdp-color-gray-150)''),
    (''--sdp-color-interaction-primary'', ''var(--sdp-color-teal-700)''),
    (''--sdp-color-focus-ring'', ''var(--sdp-color-teal-700)''),
    (''--sdp-color-status-success-fg'', ''var(--sdp-color-green-600)''),
    (''--sdp-color-status-success-border'', ''var(--sdp-color-green-200)''),
    (''--sdp-color-status-success-bg'', ''var(--sdp-color-green-50)''),
    (''--sdp-color-status-warning-fg'', ''var(--sdp-color-amber-700)''),
    (''--sdp-color-status-warning-border'', ''var(--sdp-color-amber-200)''),
    (''--sdp-color-status-warning-bg'', ''var(--sdp-color-amber-50)''),
    (''--sdp-radius-control'', ''var(--sdp-radius-6)''),
    (''--sdp-radius-surface'', ''var(--sdp-radius-8)''),
    (''--sdp-radius-track'', ''var(--sdp-radius-pill)''),
    (''--sdp-radius-xs'', ''var(--sdp-radius-2)''), (''--sdp-radius-sm'', ''var(--sdp-radius-4)''),
    (''--sdp-radius-md'', ''var(--sdp-radius-6)''), (''--sdp-radius-lg'', ''var(--sdp-radius-8)''),
    (''--sdp-radius-xl'', ''var(--sdp-radius-12)''),
    (''--sdp-radius-full'', ''var(--sdp-radius-pill)''),
    (''--sdp-color-brand-primary'', ''var(--sdp-color-primary-70)''),
    (''--sdp-color-text-inverse'', ''var(--sdp-color-white)''),
    (''--sdp-color-text-disabled'', ''var(--sdp-color-gray-500)''),
    (''--sdp-color-background-inverse'', ''var(--sdp-color-gray-900)''),
    (''--sdp-color-border-strong'', ''var(--sdp-color-gray-500)'')]"

definition component_tokens :: "pystr dict" where
  "component_tokens = [
    (''--sdp-badge-success-fg'', ''var(--sdp-color-status-success-fg)''),
    (''--sdp-badge-success-border'', ''var(--sdp-color-status-success-border)''),
    (''--sdp-badge-success-bg'', ''var(--sdp-color-status-success-bg)''),
    (''--sdp-badge-warning-fg'', ''var(--sdp-color-status-warning-fg)''),
    (''--sdp-badge-warning-border'', ''var(--sdp-color-status-warning-border)''),
    (''--sdp-badge-warning-bg'', ''var(--sdp-color-status-warning-bg)'')]"

definition high_contrast :: "pystr dict" where
  "high_contrast = [
    (''--sdp-color-text-primary'', ''var(--sdp-color-gray-900)''),
    (''--sdp-color-text-muted'', ''var(--sdp-color-gray-900)''),
    (''--sdp-color-border-default'', ''var(--sdp-color-gray-900)''),
    (''--sdp-color-border-muted'', ''var(--sdp-color-gray-900)''),
    (''--sdp-color-interaction-primary'', ''var(--sdp-color-primary-95)''),
    (''--sdp-color-focus-ring'', ''var(--sdp-color-primary-95)''),
    (''--sdp-color-status-success-fg'', ''var(--sdp-color-green-600)''),
    (''--sdp-color-status-warning-fg'', ''var(--sdp-color-amber-700)'')]"

definition token_tiers :: "(pystr \<times> pystr dict) list" where
  "token_tiers =
     [(''primitive'', primitive_tokens), (''semantic'', semantic_tokens), (''component'', component_tokens)]"

definition all_tokens :: "pystr dict" where
  "all_tokens = fold (\<lambda>(_, tier) merged. dict_update merged tier) token_tiers []"

section \<open>Expanding references\<close>

text \<open>\<open>value.index(sub)\<close>, where there is one.\<close>

fun text_index :: "pystr \<Rightarrow> pystr \<Rightarrow> nat option" where
  "text_index sub s =
     (if startswith s sub then Some 0
      else (case s of [] \<Rightarrow> None | _ # cs \<Rightarrow> map_option Suc (text_index sub cs)))"

declare text_index.simps [simp del]

text \<open>One turn of the loop: the first reference of a value is replaced by the token it names.  Without a
  reference there is nothing to do; a reference without its closing parenthesis, or to no token, raises.\<close>

definition expand_token :: "pystr dict \<Rightarrow> pystr \<Rightarrow> pystr result option" where
  "expand_token tokens value =
     (case text_index ''var('' value of
        None \<Rightarrow> None
      | Some start \<Rightarrow>
          (case text_index '')'' (drop start value) of
             None \<Rightarrow> Some (Inl (ValueError ''substring not found''))
           | Some n \<Rightarrow>
               (let name = strip (take (n - 4) (drop (start + 4) value)) in
                case dict_get tokens name of
                  None \<Rightarrow> Some (Inl (KeyError (''undefined design token: '' @ name)))
                | Some v \<Rightarrow> Some (Inr (take start value @ v @ drop (start + n + 1) value)))))"

text \<open>The message quotes the value as \<open>repr\<close> does where nothing has to be escaped.\<close>

definition cyclic_reference :: "pystr \<Rightarrow> py_exn" where
  "cyclic_reference value =
     RuntimeError (''cyclic design token reference near: '' @ CHR 0x27 # value @ [CHR 0x27])"

function resolve_loop :: "pystr dict \<Rightarrow> nat \<Rightarrow> pystr \<Rightarrow> pystr result" where
  "resolve_loop tokens seen value =
     (case expand_token tokens value of
        None \<Rightarrow> Inr value
      | Some (Inl e) \<Rightarrow> Inl e
      | Some (Inr value) \<Rightarrow>
          if 100 < Suc seen then Inl (cyclic_reference value) else resolve_loop tokens (Suc seen) value)"
  by pat_completeness auto

termination
  by (relation "measure (\<lambda>(tokens, seen, value). 101 - seen)") auto

declare resolve_loop.simps [simp del]

definition resolve_value :: "pystr \<Rightarrow> pystr dict option \<Rightarrow> pystr result" where
  "resolve_value value tokens = resolve_loop (case tokens of None \<Rightarrow> all_tokens | Some t \<Rightarrow> t) 0 value"

definition flatten_tokens :: "pystr dict result" where
  "flatten_tokens =
     collect_results (\<lambda>(name, authored). map_sum id (Pair name) (resolve_value authored (Some all_tokens))) all_tokens"

section \<open>The style blocks\<close>

definition declaration_line :: "pystr \<Rightarrow> pystr \<times> pystr \<Rightarrow> pystr" where
  "declaration_line indent token = indent @ fst token @ '': '' @ snd token @ '';''"

definition tier_heading :: "pystr \<Rightarrow> pystr" where
  "tier_heading tier =
     (if tier = ''primitive'' then ''/* tier 1: primitive tokens */''
      else if tier = ''semantic'' then ''/* tier 2: semantic tokens */''
      else ''/* tier 3: component tokens */'')"

definition root_css_variables :: "pystr \<Rightarrow> pystr" where
  "root_css_variables indent =
     join [CHR 0x0A]
       (['':root {'', indent @ ''color-scheme: light;'']
        @ concat (map (\<lambda>(name, tier). (indent @ tier_heading name) # map (declaration_line indent) tier) token_tiers)
        @ [''    }''])"

definition high_contrast_css :: "pystr \<Rightarrow> pystr \<Rightarrow> pystr" where
  "high_contrast_css selector indent =
     join [CHR 0x0A]
       ([selector @ '' {'', indent @ ''/* KRDS high contrast overrides */'']
        @ map (declaration_line indent) high_contrast @ [''    }''])"

section \<open>How far an expansion goes\<close>

definition expands :: "pystr dict \<Rightarrow> pystr \<Rightarrow> pystr \<Rightarrow> bool" where
  "expands tokens value value' \<longleftrightarrow> expand_token tokens value = Some (Inr value')"

lemma resolve_loop_ends:
  "seen \<le> 100 \<Longrightarrow>
   case resolve_loop tokens seen w of
     Inr v \<Rightarrow> expand_token tokens v = None \<and> (\<exists>n. n \<le> 100 - seen \<and> (expands tokens ^^ n) w v)
   | Inl e \<Rightarrow> (\<exists>n v. n \<le> 100 - seen \<and> (expands tokens ^^ n) w v \<and> expand_token tokens v = Some (Inl e))
       \<or> (\<exists>v. (expands tokens ^^ (101 - seen)) w v \<and> e = cyclic_reference v)"
proof (induction tokens seen w rule: resolve_loop.induct)
  case (1 tokens seen w)
  show ?case
  proof (cases "expand_token tokens w")
    case None
    then show ?thesis by (simp add: resolve_loop.simps [of tokens seen w] exI [of _ 0])
  next
    case (Some r)
    show ?thesis
    proof (cases r)
      case (Inl e)
      then show ?thesis using Some
        by (simp add: resolve_loop.simps [of tokens seen w]) (metis le0 relpowp_0_I)
    next
      case (Inr w')
      then have step: "expands tokens w w'" using Some by (simp add: expands_def)
      show ?thesis
      proof (cases "seen = 100")
        case True
        then have "101 - seen = Suc 0" by simp
        with True show ?thesis using Some Inr step
          by (auto simp: resolve_loop.simps [of tokens 100 w] relcompp_apply)
      next
        case False
        then have seen: "Suc seen \<le> 100" "100 - seen = Suc (100 - Suc seen)" "101 - seen = Suc (101 - Suc seen)"
          using "1.prems" by auto
        have unfold: "resolve_loop tokens seen w = resolve_loop tokens (Suc seen) w'"
          using Some Inr seen(1) by (simp add: resolve_loop.simps [of tokens seen w])
        have longer: "(expands tokens ^^ Suc n) w v" if "(expands tokens ^^ n) w' v" for n v
          using step that by (rule relpowp_Suc_I2)
        note ih = "1.IH" [OF Some Inr _ seen(1)]
        show ?thesis
        proof (cases "resolve_loop tokens (Suc seen) w'")
          case (Inr v)
          then obtain n where "n \<le> 100 - Suc seen" "(expands tokens ^^ n) w' v" "expand_token tokens v = None"
            using ih False "1.prems" by auto
          then show ?thesis using longer Inr seen(2) unfold by (auto intro!: exI [of _ "Suc n"])
        next
          case (Inl e)
          then consider n v where "n \<le> 100 - Suc seen" "(expands tokens ^^ n) w' v" "expand_token tokens v = Some (Inl e)"
            | v where "(expands tokens ^^ (101 - Suc seen)) w' v" "e = cyclic_reference v"
            using ih False "1.prems" by auto
          then show ?thesis
          proof cases
            case 1
            then have "Suc n \<le> 100 - seen" "(expands tokens ^^ Suc n) w v" using longer seen(2) by auto
            then show ?thesis using 1(3) Inl unfold by (simp del: relpowp.simps) blast
          next
            case 2
            then have "(expands tokens ^^ (101 - seen)) w v" using longer unfolding seen(3) by blast
            then show ?thesis using 2(2) Inl unfold by auto
          qed
        qed
      qed
    qed
  qed
qed

section \<open>The shipped tokens\<close>

text \<open>A value that is one alias is replaced by the value of its token.\<close>

definition alias_of :: "pystr \<Rightarrow> pystr" where
  "alias_of name = ''var('' @ name @ '')''"

definition plain_name :: "pystr \<Rightarrow> bool" where
  "plain_name name \<longleftrightarrow> CHR '')'' \<notin> set name \<and> strip name = name"

lemma text_index_found: "startswith s sub \<Longrightarrow> text_index sub s = Some 0"
  by (simp add: text_index.simps [of sub s])

lemma text_index_char: "c \<notin> set s \<Longrightarrow> text_index [c] (s @ c # t) = Some (length s)"
  by (induction s) (auto simp: text_index.simps [of "[c]" "_ # _"] startswith_def)

lemma expand_alias:
  assumes "plain_name name"
  shows "expand_token tokens (alias_of name) =
    Some (case dict_get tokens name of
        None \<Rightarrow> Inl (KeyError (''undefined design token: '' @ name)) | Some v \<Rightarrow> Inr v)"
proof -
  have "text_index ''var('' (alias_of name) = Some 0"
    by (rule text_index_found) (simp add: alias_of_def startswith_def)
  moreover have "text_index '')'' (alias_of name) = Some (length name + 4)"
    using text_index_char [of "CHR '')''" "''var('' @ name" "[]"] assms by (simp add: alias_of_def plain_name_def)
  ultimately show ?thesis
    using assms by (simp add: expand_token_def alias_of_def plain_name_def Let_def split: option.split)
qed

lemma resolve_alias:
  assumes "plain_name name" "dict_get tokens name = Some v" "seen < 100"
  shows "resolve_loop tokens seen (alias_of name) = resolve_loop tokens (Suc seen) v"
  using assms by (simp add: resolve_loop.simps [of tokens seen "alias_of name"] expand_alias)

lemma resolve_literal: "text_index ''var('' v = None \<Longrightarrow> resolve_loop tokens seen v = Inr v"
  by (simp add: resolve_loop.simps [of tokens seen v] expand_token_def)

text \<open>The tiers, checked by evaluation: no name occurs twice, primitives are literals, and every other
  value is one alias of a token of the tier below.\<close>

definition aliases_into :: "pystr dict \<Rightarrow> pystr dict \<Rightarrow> bool" where
  "aliases_into lower_tier tier \<longleftrightarrow> list_all (\<lambda>(_, v). v \<in> set (map (alias_of \<circ> fst) lower_tier)) tier"

definition name_code :: "pystr \<Rightarrow> int" where
  "name_code s = fold (\<lambda>c n. (n * 31 + of_char c) mod 65521) s 7"

lemma tokens_distinct: "distinct (map fst (primitive_tokens @ semantic_tokens @ component_tokens))"
proof -
  have "distinct (map name_code (map fst (primitive_tokens @ semantic_tokens @ component_tokens)))" by code_simp
  then show ?thesis by (simp only: distinct_map)
qed

lemma primitives_literal: "list_all (\<lambda>(n, v). plain_name n \<and> text_index ''var('' v = None) primitive_tokens"
  by code_simp

lemma semantic_names: "list_all (\<lambda>(n, v). plain_name n) semantic_tokens"
  by code_simp

lemma tiers_alias:
  "aliases_into primitive_tokens semantic_tokens" "aliases_into semantic_tokens component_tokens"
  "aliases_into primitive_tokens high_contrast"
  by code_simp+

lemma high_contrast_names: "list_all (\<lambda>(n, _). n \<in> set (map fst semantic_tokens)) high_contrast"
  by code_simp

lemma all_tokens_append: "all_tokens = primitive_tokens @ semantic_tokens @ component_tokens"
proof -
  have p: "distinct (map fst primitive_tokens)" and ps: "distinct (map fst (primitive_tokens @ semantic_tokens))"
    using tokens_distinct by auto
  have "all_tokens = dict_update (dict_update (dict_update [] primitive_tokens) semantic_tokens) component_tokens"
    by (simp add: all_tokens_def token_tiers_def)
  also have "\<dots> = (primitive_tokens @ semantic_tokens) @ component_tokens"
    using p ps tokens_distinct by (simp only: dict_update_disjoint append_Nil append_assoc)
  finally show ?thesis by simp
qed

lemma all_tokens_get: "(n, v) \<in> set all_tokens \<Longrightarrow> dict_get all_tokens n = Some v"
  using tokens_distinct map_of_is_SomeI [of all_tokens n v] by (simp only: dict_get_def all_tokens_append)

text \<open>What the aliases of a tier lead to, from what those of the tier below lead to.\<close>

definition to_primitive :: "pystr dict \<Rightarrow> nat \<Rightarrow> bool" where
  "to_primitive tier depth \<longleftrightarrow>
     (\<forall>(n, v) \<in> set tier. \<forall>seen. seen + depth \<le> 100 \<longrightarrow>
        (\<exists>p \<in> set (dict_values primitive_tokens). resolve_loop all_tokens seen v = Inr p))"

lemma to_primitive_primitives: "to_primitive primitive_tokens 0"
  unfolding to_primitive_def
proof clarify
  fix n v and seen :: nat
  assume v: "(n, v) \<in> set primitive_tokens"
  then have "resolve_loop all_tokens seen v = Inr v"
    using primitives_literal by (auto simp: list_all_iff intro: resolve_literal)
  moreover have "v \<in> set (dict_values primitive_tokens)" using v by (force simp: dict_values_def)
  ultimately show "\<exists>p \<in> set (dict_values primitive_tokens). resolve_loop all_tokens seen v = Inr p" by blast
qed

lemma to_primitive_step:
  assumes lower: "to_primitive tier depth" and refs: "aliases_into tier next_tier"
    and names: "list_all (\<lambda>(n, v). plain_name n) tier" and sub: "set tier \<subseteq> set all_tokens"
  shows "to_primitive next_tier (Suc depth)"
  unfolding to_primitive_def
proof clarify
  fix n v and seen :: nat
  assume "(n, v) \<in> set next_tier" and seen: "seen + Suc depth \<le> 100"
  then obtain m w where m: "(m, w) \<in> set tier" "v = alias_of m"
    using refs by (auto simp: aliases_into_def list_all_iff)
  then have "plain_name m" "dict_get all_tokens m = Some w"
    using names sub by (auto simp: list_all_iff intro: all_tokens_get)
  then have "resolve_loop all_tokens seen v = resolve_loop all_tokens (Suc seen) w"
    using seen m(2) by (simp add: resolve_alias)
  moreover have "\<exists>p \<in> set (dict_values primitive_tokens). resolve_loop all_tokens (Suc seen) w = Inr p"
    using lower m(1) seen by (fastforce simp: to_primitive_def)
  ultimately show "\<exists>p \<in> set (dict_values primitive_tokens). resolve_loop all_tokens seen v = Inr p" by simp
qed

lemma tiers_to_primitive:
  "to_primitive semantic_tokens 1" "to_primitive component_tokens 2" "to_primitive high_contrast 1"
proof -
  have names: "list_all (\<lambda>(n, v). plain_name n) primitive_tokens" using primitives_literal by (auto simp: list_all_iff)
  have subs: "set primitive_tokens \<subseteq> set all_tokens" "set semantic_tokens \<subseteq> set all_tokens"
    by (auto simp: all_tokens_append)
  note step = to_primitive_step [OF to_primitive_primitives _ names subs(1)]
  show semantic: "to_primitive semantic_tokens 1" using step [OF tiers_alias(1)] by simp
  show "to_primitive high_contrast 1" using step [OF tiers_alias(3)] by simp
  show "to_primitive component_tokens 2"
    using to_primitive_step [OF semantic tiers_alias(2) semantic_names subs(2)] by (simp add: numeral_2_eq_2)
qed

section \<open>Properties\<close>

lemma text_index_None_iff: "text_index sub s = None \<longleftrightarrow> \<not> contains sub s"
proof (induction s)
  case Nil
  show ?case by (auto simp: text_index.simps [of sub "[]"] startswith_def contains_def)
next
  case (Cons c s)
  then show ?case
    by (auto simp: text_index.simps [of sub "c # s"] startswith_def contains_def sublist_Cons_right)
qed

text \<open>
  C38.  Expanding a value always ends, whatever the tokens: with a value that has no reference left,
  after at most 100 replacements; with the exception of the first replacement that cannot be made; or,
  when the aliases run in a circle, with the error after the 101st replacement.
\<close>

theorem resolve_value_ends:
  "case resolve_value authored (Some tokens) of
     Inr v \<Rightarrow> \<not> contains ''var('' v \<and> (\<exists>n. n \<le> 100 \<and> (expands tokens ^^ n) authored v)
   | Inl e \<Rightarrow> (\<exists>n v. n \<le> 100 \<and> (expands tokens ^^ n) authored v \<and> expand_token tokens v = Some (Inl e))
       \<or> (\<exists>v. (expands tokens ^^ 101) authored v \<and> e = cyclic_reference v)"
proof -
  have "expand_token tokens v = None \<Longrightarrow> \<not> contains ''var('' v" for v
    using text_index_None_iff [of "''var(''" v] by (auto simp: expand_token_def Let_def split: option.splits)
  then show ?thesis
    using resolve_loop_ends [of 0 tokens authored] by (auto simp: resolve_value_def simp del: relpowp.simps split: sum.splits)
qed


end
