(* ===== verification/Console.thy ===== *)
theory Console
  imports Design_Tokens
begin

text \<open>
  The operator console (\<open>src/sdp/console.py\<close>): the page's template, line by line, and the block of
  design tokens put into its style sheet.  The page is static; what its script does in the browser is
  not modelled, but the names it relies on are: the tokens its rules refer to and the elements its
  script fills.
\<close>

section \<open>The template\<close>

definition console_head :: "pystr list" where
  "console_head =
     [''<!doctype html>'',
      ''<html lang=\"en\">'',
      ''<head>'',
      ''  <meta charset=\"utf-8\">'',
      ''  <meta name=\"viewport\" content=\"width=device-width, initial-scale=1\">'',
      ''  <title>Enterprise Data Trust Console | Semantic Data Portal</title>'',
      ''  <style>'']"

definition console_layout_rules :: "pystr list" where
  "console_layout_rules =
     [''    * { box-sizing: border-box; }'',
      ''    body {'',
      ''      margin: 0;'',
      ''      color: var(--sdp-color-text-primary);'',
      ''      background: var(--sdp-color-background-canvas);'',
      ''      font: var(--sdp-font-size-14)/var(--sdp-line-height-normal) system-ui, -apple-system, BlinkMacSystemFont, \"Segoe UI\", sans-serif;'',
      ''    }'',
      ''    header {'',
      ''      display: flex;'',
      ''      align-items: center;'',
      ''      justify-content: space-between;'',
      ''      gap: var(--sdp-space-16);'',
      ''      padding: var(--sdp-space-18) var(--sdp-space-24);'',
      ''      background: var(--sdp-color-surface-default);'',
      ''      border-bottom: 1px solid var(--sdp-color-border-default);'',
      ''    }'',
      ''    .brand {'',
      ''      display: grid;'',
      ''      gap: var(--sdp-space-4);'',
      ''      min-width: 0;'',
      ''    }'',
      ''    .eyebrow {'',
      ''      margin: 0;'',
      ''      color: var(--sdp-color-text-muted);'',
      ''      font-size: var(--sdp-font-size-12);'',
      ''      font-weight: var(--sdp-font-weight-medium);'',
      ''      letter-spacing: 0;'',
      ''    }'',
      ''    h1 {'',
      ''      margin: 0;'',
      ''      font-size: var(--sdp-font-size-24);'',
      ''      font-weight: var(--sdp-font-weight-bold);'',
      ''      letter-spacing: 0;'',
      ''    }'',
      ''    .subtitle {'',
      ''      margin: 0;'',
      ''      max-width: 720px;'',
      ''      color: var(--sdp-color-text-muted);'',
      ''      font-size: var(--sdp-font-size-13);'',
      ''    }'',
      ''    main {'',
      ''      width: min(1480px, 100%);'',
      ''      margin: 0 auto;'',
      ''      padding: var(--sdp-space-20) var(--sdp-space-24) var(--sdp-space-28);'',
      ''    }'',
      ''    .header-tools {'',
      ''      display: grid;'',
      ''      gap: var(--sdp-space-10);'',
      ''      justify-items: end;'',
      ''    }'',
      ''    .status-line {'',
      ''      display: flex;'',
      ''      flex-wrap: wrap;'',
      ''      gap: var(--sdp-space-8);'',
      ''      align-items: center;'',
      ''      color: var(--sdp-color-text-muted);'',
      ''    }'',
      ''    .actions {'',
      ''      display: flex;'',
      ''      flex-wrap: wrap;'',
      ''      gap: var(--sdp-space-8);'',
      ''      justify-content: flex-end;'',
      ''    }'',
      ''    .action {'',
      ''      display: inline-flex;'',
      ''      align-items: center;'',
      ''      min-height: 30px;'',
      ''      padding: var(--sdp-space-4) var(--sdp-space-10);'',
      ''      border: 1px solid var(--sdp-color-border-default);'',
      ''      border-radius: var(--sdp-radius-control);'',
      ''      background: var(--sdp-color-surface-default);'',
      ''      color: var(--sdp-color-text-primary);'',
      ''      font-size: var(--sdp-font-size-12);'',
      ''      font-weight: var(--sdp-font-weight-medium);'',
      ''      text-decoration: none;'',
      ''      white-space: nowrap;'',
      ''    }'',
      ''    .action:hover, .action:focus-visible {'',
      ''      border-color: var(--sdp-color-interaction-primary);'',
      ''      outline: none;'',
      ''    }'',
      ''    .badge {'',
      ''      display: inline-flex;'',
      ''      align-items: center;'',
      ''      min-height: 26px;'',
      ''      padding: var(--sdp-space-2) var(--sdp-space-9);'',
      ''      border: 1px solid var(--sdp-color-border-default);'',
      ''      border-radius: var(--sdp-radius-control);'',
      ''      background: var(--sdp-color-surface-muted);'',
      ''      color: var(--sdp-color-text-primary);'',
      ''      font-size: var(--sdp-font-size-12);'',
      ''      white-space: nowrap;'',
      ''    }'',
      ''    .badge.ok { color: var(--sdp-badge-success-fg); border-color: var(--sdp-badge-success-border); background: var(--sdp-badge-success-bg); }'',
      ''    .badge.warn { color: var(--sdp-badge-warning-fg); border-color: var(--sdp-badge-warning-border); background: var(--sdp-badge-warning-bg); }'',
      ''    .grid {'',
      ''      display: grid;'',
      ''      gap: var(--sdp-space-14);'',
      ''      grid-template-columns: 1.15fr 0.85fr;'',
      ''      align-items: start;'',
      ''    }'',
      ''    .stack { display: grid; gap: var(--sdp-space-14); }'',
      ''    section {'',
      ''      background: var(--sdp-color-surface-default);'',
      ''      border: 1px solid var(--sdp-color-border-default);'',
      ''      border-radius: var(--sdp-radius-surface);'',
      ''      padding: var(--sdp-space-16);'',
      ''    }'',
      ''    h2 {'',
      ''      margin: 0 0 var(--sdp-space-12);'',
      ''      font-size: var(--sdp-font-size-15);'',
      ''      font-weight: var(--sdp-font-weight-bold);'',
      ''      letter-spacing: 0;'',
      ''    }'',
      ''    .metrics {'',
      ''      display: grid;'',
      ''      gap: var(--sdp-space-10);'',
      ''      grid-template-columns: repeat(4, minmax(0, 1fr));'',
      ''    }'',
      ''    .metric {'',
      ''      min-width: 0;'',
      ''      padding: var(--sdp-space-12);'',
      ''      border: 1px solid var(--sdp-color-border-default);'',
      ''      border-radius: var(--sdp-radius-surface);'',
      ''      background: var(--sdp-color-surface-muted);'',
      ''    }'',
      ''    .metric .label {'',
      ''      color: var(--sdp-color-text-muted);'',
      ''      font-size: var(--sdp-font-size-12);'',
      ''      white-space: nowrap;'',
      ''      overflow: hidden;'',
      ''      text-overflow: ellipsis;'',
      ''    }'']"

definition console_element_rules :: "pystr list" where
  "console_element_rules =
     [''    .metric .value {'',
      ''      margin-top: var(--sdp-space-6);'',
      ''      font-size: var(--sdp-font-size-22);'',
      ''      font-weight: var(--sdp-font-weight-heavy);'',
      ''      letter-spacing: 0;'',
      ''    }'',
      ''    .bar {'',
      ''      height: 8px;'',
      ''      margin-top: var(--sdp-space-8);'',
      ''      overflow: hidden;'',
      ''      border-radius: var(--sdp-radius-pill);'',
      ''      background: var(--sdp-color-border-muted);'',
      ''    }'',
      ''    .bar > span {'',
      ''      display: block;'',
      ''      height: 100%;'',
      ''      width: 0;'',
      ''      background: var(--sdp-color-interaction-primary);'',
      ''    }'',
      ''    .flow {'',
      ''      display: grid;'',
      ''      gap: var(--sdp-space-8);'',
      ''      grid-template-columns: repeat(5, minmax(0, 1fr));'',
      ''    }'',
      ''    .node {'',
      ''      display: block;'',
      ''      min-height: 86px;'',
      ''      padding: var(--sdp-space-12);'',
      ''      border: 1px solid var(--sdp-color-border-default);'',
      ''      border-radius: var(--sdp-radius-surface);'',
      ''      background: var(--sdp-color-surface-strong);'',
      ''      color: inherit;'',
      ''      text-decoration: none;'',
      ''    }'',
      ''    .node:hover, .node:focus-visible {'',
      ''      border-color: var(--sdp-color-interaction-primary);'',
      ''      outline: none;'',
      ''    }'',
      ''    .node strong {'',
      ''      display: block;'',
      ''      margin-bottom: var(--sdp-space-6);'',
      ''      font-size: var(--sdp-font-size-13);'',
      ''    }'',
      ''    .node code {'',
      ''      color: var(--sdp-color-text-muted);'',
      ''      font-size: var(--sdp-font-size-11);'',
      ''      white-space: normal;'',
      ''      overflow-wrap: anywhere;'',
      ''    }'',
      ''    table {'',
      ''      width: 100%;'',
      ''      border-collapse: collapse;'',
      ''      table-layout: fixed;'',
      ''    }'',
      ''    th, td {'',
      ''      padding: var(--sdp-space-9) var(--sdp-space-8);'',
      ''      border-bottom: 1px solid var(--sdp-color-border-default);'',
      ''      text-align: left;'',
      ''      vertical-align: top;'',
      ''      overflow-wrap: anywhere;'',
      ''    }'',
      ''    th {'',
      ''      color: var(--sdp-color-text-muted);'',
      ''      font-size: var(--sdp-font-size-12);'',
      ''      font-weight: var(--sdp-font-weight-medium);'',
      ''    }'',
      ''    td:last-child, th:last-child { text-align: right; }'',
      ''    .mono {'',
      ''      font-family: ui-monospace, SFMono-Regular, Menlo, Consolas, monospace;'',
      ''      font-size: var(--sdp-font-size-12);'',
      ''    }'',
      ''    .endpoint-link {'',
      ''      display: grid;'',
      ''      gap: var(--sdp-space-3);'',
      ''      color: inherit;'',
      ''      text-decoration: none;'',
      ''    }'',
      ''    .endpoint-link:hover strong, .endpoint-link:focus-visible strong {'',
      ''      color: var(--sdp-color-interaction-primary);'',
      ''    }'',
      ''    .endpoint-link:focus-visible {'',
      ''      outline: 2px solid var(--sdp-color-interaction-primary);'',
      ''      outline-offset: 2px;'',
      ''    }'',
      ''    .endpoint-link code {'',
      ''      color: var(--sdp-color-text-muted);'',
      ''      font-size: var(--sdp-font-size-11);'',
      ''      white-space: normal;'',
      ''      overflow-wrap: anywhere;'',
      ''    }'',
      ''    .footer {'',
      ''      margin-top: var(--sdp-space-14);'',
      ''      color: var(--sdp-color-text-muted);'',
      ''      font-size: var(--sdp-font-size-12);'',
      ''    }'',
      ''    @media (max-width: 980px) {'',
      ''      header { align-items: flex-start; flex-direction: column; }'',
      ''      .header-tools { justify-items: start; width: 100%; }'',
      ''      .actions { justify-content: flex-start; }'',
      ''      main { padding: var(--sdp-space-14); }'',
      ''      .grid, .metrics, .flow { grid-template-columns: 1fr; }'',
      ''      td:last-child, th:last-child { text-align: left; }'',
      ''    }'']"

definition console_page :: "pystr list" where
  "console_page =
     [''  </style>'',
      ''</head>'',
      ''<body>'',
      ''  <header>'',
      ''    <div class=\"brand\">'',
      ''      <p class=\"eyebrow\">Semantic Data Portal</p>'',
      ''      <h1>Enterprise Data Trust Console</h1>'',
      ''      <p class=\"subtitle\">Buyer pilot evidence surface for KRW 2B enterprise readiness.</p>'',
      ''    </div>'',
      ''    <div class=\"header-tools\">'',
      ''      <div class=\"status-line\">'',
      ''        <span class=\"badge ok\" id=\"readyBadge\">pilot evidence</span>'',
      ''        <span class=\"badge\">KRW 2B enterprise readiness</span>'',
      ''        <span class=\"badge warn\">Figma Code Connect disabled</span>'',
      ''      </div>'',
      ''      <nav class=\"actions\" aria-label=\"Console evidence links\">'',
      ''        <a class=\"action\" href=\"/enterprise/readiness\">Readiness</a>'',
      ''        <a class=\"action\" href=\"/enterprise/evidence-pack\">Evidence</a>'',
      ''        <a class=\"action\" href=\"/enterprise/production-readiness\">Production</a>'',
      ''        <a class=\"action\" href=\"/enterprise/demo-plan\">Demo Plan</a>'',
      ''        <a class=\"action\" href=\"/docs\">API Docs</a>'',
      ''      </nav>'',
      ''    </div>'',
      ''  </header>'',
      ''  <main>'',
      ''    <div class=\"grid\">'',
      ''      <div class=\"stack\">'',
      ''        <section aria-label=\"Evidence scorecard\" aria-labelledby=\"metricsTitle\">'',
      ''          <h2 id=\"metricsTitle\">Evidence</h2>'',
      ''          <div class=\"metrics\">'',
      ''            <div class=\"metric\">'',
      ''              <div class=\"label\">Metadata validation</div>'',
      ''              <div class=\"value\" id=\"metadataRate\">--</div>'',
      ''              <div class=\"bar\"><span id=\"metadataBar\"></span></div>'',
      ''            </div>'',
      ''            <div class=\"metric\">'',
      ''              <div class=\"label\">SHACL validation</div>'',
      ''              <div class=\"value\" id=\"shaclRate\">--</div>'',
      ''              <div class=\"bar\"><span id=\"shaclBar\"></span></div>'',
      ''            </div>'',
      ''            <div class=\"metric\">'',
      ''              <div class=\"label\">Ontology coverage</div>'',
      ''              <div class=\"value\" id=\"ontologyRate\">--</div>'',
      ''              <div class=\"bar\"><span id=\"ontologyBar\"></span></div>'',
      ''            </div>'',
      ''            <div class=\"metric\">'',
      ''              <div class=\"label\">Review queue</div>'',
      ''              <div class=\"value\" id=\"reviewCount\">--</div>'',
      ''              <div class=\"bar\"><span id=\"reviewBar\"></span></div>'',
      ''            </div>'',
      ''          </div>'',
      ''        </section>'',
      ''        <section aria-label=\"Pilot workflow\" aria-labelledby=\"flowTitle\">'',
      ''          <h2 id=\"flowTitle\">Pilot Flow</h2>'',
      ''          <div class=\"flow\">'',
      ''            <a class=\"node\" href=\"/enterprise/readiness\"><strong>Readiness</strong><code>/enterprise/readiness</code></a>'',
      ''            <a class=\"node\" href=\"/enterprise/evidence-pack\"><strong>Evidence</strong><code>/enterprise/evidence-pack</code></a>'',
      ''            <a class=\"node\" href=\"/enterprise/steward-review\"><strong>Steward</strong><code>/enterprise/steward-review</code></a>'',
      ''            <a class=\"node\" href=\"/browse/query\"><strong>Query</strong><code>/browse/query</code></a>'',
      ''            <a class=\"node\" href=\"/enterprise/connectors/sql_connector/probe\"><strong>Connector</strong><code>/enterprise/connectors/sql_connector/probe</code></a>'',
      ''          </div>'',
      ''        </section>'',
      ''        <section aria-label=\"Enterprise controls\" aria-labelledby=\"controlsTitle\">'',
      ''          <h2 id=\"controlsTitle\">Controls</h2>'',
      ''          <table>'',
      ''            <thead><tr><th>Control</th><th>Status</th></tr></thead>'',
      ''            <tbody id=\"controlsRows\"><tr><td>Loading</td><td>--</td></tr></tbody>'',
      ''          </table>'',
      ''        </section>'',
      ''      </div>'',
      ''      <div class=\"stack\">'',
      ''        <section aria-label=\"Connector readiness\" aria-labelledby=\"connectorsTitle\">'',
      ''          <h2 id=\"connectorsTitle\">Connectors</h2>'',
      ''          <table>'',
      ''            <thead><tr><th>Connector</th><th>Dataset</th><th>Status</th></tr></thead>'',
      ''            <tbody id=\"connectorRows\">'',
      ''              <tr><td>SQL connector</td><td class=\"mono\">crm-customer-master</td><td>--</td></tr>'',
      ''            </tbody>'',
      ''          </table>'',
      ''        </section>'',
      ''        <section aria-label=\"KPI gate targets\" aria-labelledby=\"kpiTitle\">'',
      ''          <h2 id=\"kpiTitle\">KPI Gates</h2>'',
      ''          <table>'',
      ''            <thead><tr><th>Gate</th><th>Target</th></tr></thead>'',
      ''            <tbody id=\"kpiRows\"><tr><td>Loading</td><td>--</td></tr></tbody>'',
      ''          </table>'',
      ''        </section>'',
      ''      </div>'',
      ''    </div>'',
      ''    <div class=\"footer\">Figma/FigJam board: https://www.figma.com/board/UptVQaUlwbLVYv20ot4ZDm</div>'',
      ''  </main>'']"

definition console_script :: "pystr list" where
  "console_script =
     [''  <script>'',
      ''    const esc = (value) => String(value ?? '' @ [CHR 0x27, CHR 0x27] @ '').replace(/[&<>\"']/g, (char) => ({'',
      ''      '&': '&amp;','',
      ''      '<': '&lt;','',
      ''      '>': '&gt;','',
      ''      '\"': '&quot;','',
      ''      \"'\": '&#39;','',
      ''    })[char]);'',
      ''    const pct = (value) => `${Math.round(Number(value || 0) * 100)}%`;'',
      ''    const width = (id, value) => document.getElementById(id).style.width = pct(value);'',
      ''    const text = (id, value) => document.getElementById(id).textContent = value;'',
      [],
      ''    async function json(path) {'',
      ''      const response = await fetch(path);'',
      ''      if (!response.ok) throw new Error(path);'',
      ''      return response.json();'',
      ''    }'',
      [],
      ''    async function loadEvidence() {'',
      ''      const evidence = await json('/enterprise/evidence-pack');'',
      ''      text('metadataRate', pct(evidence.metadata_validation_pass_rate));'',
      ''      text('shaclRate', pct(evidence.shacl_validation_pass_rate));'',
      ''      text('ontologyRate', pct(evidence.ontology_mapping_coverage));'',
      ''      text('reviewCount', evidence.steward_review_queue_count);'',
      ''      width('metadataBar', evidence.metadata_validation_pass_rate);'',
      ''      width('shaclBar', evidence.shacl_validation_pass_rate);'',
      ''      width('ontologyBar', evidence.ontology_mapping_coverage);'',
      ''      width('reviewBar', evidence.steward_review_queue_count === 0 ? 1 : 0.35);'',
      ''    }'',
      [],
      ''    async function loadControls() {'',
      ''      const controls = await json('/enterprise/controls');'',
      ''      document.getElementById('controlsRows').innerHTML = controls.controls.map((item) =>'',
      ''        `<tr><td>${esc(item.label)}</td><td><span class=\"badge ${item.status === 'implemented' ? 'ok' : 'warn'}\">${esc(item.status)}</span></td></tr>`'',
      ''      ).join('' @ [CHR 0x27, CHR 0x27] @ '');'',
      ''    }'',
      [],
      ''    async function loadKpis() {'',
      ''      const kpis = await json('/enterprise/kpis');'',
      ''      document.getElementById('kpiRows').innerHTML = [...kpis.primary_kpis, ...kpis.guardrail_kpis].map((item) =>'',
      ''        `<tr><td>${esc(item.label)}</td><td>${esc(item.target)}</td></tr>`'',
      ''      ).join('' @ [CHR 0x27, CHR 0x27] @ '');'',
      ''    }'',
      [],
      ''    async function loadConnectors() {'',
      ''      const rows = await Promise.all(['',
      ''        ['SQL connector', 'sql_connector', 'crm-customer-master'],'',
      ''        ['RDF connector', 'rdf_connector', 'semantic-glossary'],'',
      ''        ['File lake connector', 'file_lake_connector', 'crm-event'],'',
      ''        ['REST connector', 'rest_connector', 'marketing-campaign'],'',
      ''      ].map(async ([label, connector, dataset]) => {'',
      ''        const path = `/enterprise/connectors/${connector}/probe?dataset_id=${dataset}`;'',
      ''        const probe = await json(path);'',
      ''        return `<tr><td><a class=\"endpoint-link\" href=\"${esc(path)}\" aria-label=\"${esc(label)} probe endpoint for ${esc(dataset)}\"><strong>${esc(label)}</strong></a></td><td class=\"mono\">${esc(dataset)}</td><td><span class=\"badge ${probe.status === 'ready_for_demo' ? 'ok' : 'warn'}\">${esc(probe.status)}</span></td></tr>`;'',
      ''      }));'',
      ''      document.getElementById('connectorRows').innerHTML = rows.join('' @ [CHR 0x27, CHR 0x27] @ '');'',
      ''    }'',
      [],
      ''    Promise.all([loadEvidence(), loadControls(), loadKpis(), loadConnectors()])'',
      ''      .then(() => text('readyBadge', 'ready for pilot review'))'',
      ''      .catch(() => text('readyBadge', 'evidence load failed'));'',
      ''  </script>'',
      ''</body>'',
      ''</html>'']"

definition console_marker :: pystr where
  "console_marker = ''__SDP_ROOT_TOKENS__''"

definition console_template :: pystr where
  "console_template =
     join [CHR 0x0A]
       (console_head @ [''    '' @ console_marker] @ console_layout_rules @ console_element_rules
        @ console_page @ console_script)"

section \<open>Rendering\<close>

text \<open>\<open>s.replace(old, new)\<close>.\<close>

function str_replace :: "pystr \<Rightarrow> pystr \<Rightarrow> pystr \<Rightarrow> pystr" where
  "str_replace old new s =
     (if old = [] then new @ concat (map (\<lambda>c. c # new) s)
      else if startswith s old then new @ str_replace old new (drop (length old) s)
      else (case s of [] \<Rightarrow> [] | c # cs \<Rightarrow> c # str_replace old new cs))"
  by pat_completeness auto

termination
proof (relation "measure (\<lambda>(old, new, s). length s)")
  show "((old, new, drop (length old) s), old, new, s) \<in> measure (\<lambda>(old, new, s). length s)"
    if "old \<noteq> []" "startswith s old" for old new s
    using that prefix_length_le [of old s] by (cases old; cases s) (auto simp: startswith_def)
qed auto

declare str_replace.simps [simp del]

definition render_enterprise_console :: pystr where
  "render_enterprise_console = str_replace console_marker (root_css_variables ''      '') console_template"

section \<open>Replacing the marker\<close>

lemma contains_append_char:
  assumes "c \<notin> set m" and "m \<noteq> []"
  shows "contains m (a @ c # b) \<longleftrightarrow> contains m a \<or> contains m b"
  using assms
  by (auto simp: contains_def sublist_append sublist_Cons_right prefix_Cons)

lemma contains_join:
  "c \<notin> set m \<Longrightarrow> m \<noteq> [] \<Longrightarrow> contains m (join [c] ls) \<longleftrightarrow> list_ex (contains m) ls"
proof (induction "[c]" ls rule: join.induct)
  case (3 s t ss)
  then show ?case by (simp add: contains_append_char)
qed (simp_all add: contains_def)

lemma join_append: "xs \<noteq> [] \<Longrightarrow> ys \<noteq> [] \<Longrightarrow> join sep (xs @ ys) = join sep xs @ sep @ join sep ys"
proof (induction sep xs rule: join.induct)
  case (2 sep s)
  then show ?case by (cases ys) simp_all
qed simp_all

lemma join_Cons: "ys \<noteq> [] \<Longrightarrow> join sep (y # ys) = y @ sep @ join sep ys"
  by (cases ys) simp_all

lemma str_replace_absent: "old \<noteq> [] \<Longrightarrow> \<not> contains old s \<Longrightarrow> str_replace old new s = s"
proof (induction s)
  case (Cons c s)
  then show ?case
    by (simp add: str_replace.simps [of old new "c # s"] startswith_def contains_def sublist_Cons_right)
qed (simp add: str_replace.simps [of old new "[]"] startswith_def)

lemma str_replace_once:
  "\<not> contains (old @ [d]) (pre @ old) \<Longrightarrow> \<not> contains (old @ [d]) post
   \<Longrightarrow> str_replace (old @ [d]) new (pre @ (old @ [d]) @ post) = pre @ new @ post"
proof (induction pre)
  case Nil
  have "startswith ([] @ (old @ [d]) @ post) (old @ [d])" by (simp add: startswith_def)
  then show ?case
    using Nil by (subst str_replace.simps) (simp add: str_replace_absent)
next
  case (Cons c pre)
  have "\<not> prefix (old @ [d]) (c # pre @ (old @ [d]) @ post)"
  proof
    assume p: "prefix (old @ [d]) (c # pre @ (old @ [d]) @ post)"
    have "prefix (old @ [d]) (c # pre @ old)"
      by (rule prefix_length_prefix [OF p]) (auto intro: prefixI [of _ _ "d # post"])
    then show False using Cons.prems(1) by (auto simp: contains_def)
  qed
  moreover have "\<not> contains (old @ [d]) (pre @ old)"
    using Cons.prems(1) by (auto simp: contains_def sublist_Cons_right)
  ultimately show ?case
    using Cons.IH Cons.prems(2) by (subst str_replace.simps) (simp add: startswith_def)
qed

lemma render_once:
  "console_marker = old @ [d] \<Longrightarrow> \<not> list_ex (contains console_marker) (as @ [b @ old] @ cs)
   \<Longrightarrow> CHR 0x0A \<notin> set console_marker \<Longrightarrow> as \<noteq> [] \<Longrightarrow> cs \<noteq> []
   \<Longrightarrow> str_replace console_marker new (join [CHR 0x0A] (as @ [b @ console_marker] @ cs))
      = join [CHR 0x0A] (as @ [b @ new] @ cs)"
proof -
  assume a: "console_marker = old @ [d]" "\<not> list_ex (contains console_marker) (as @ [b @ old] @ cs)"
    "CHR 0x0A \<notin> set console_marker" "as \<noteq> []" "cs \<noteq> []"
  let ?pre = "join [CHR 0x0A] as @ CHR 0x0A # b" and ?post = "CHR 0x0A # join [CHR 0x0A] cs"
  have m: "console_marker \<noteq> []" by (simp add: a(1))
  have "\<not> contains console_marker (?pre @ old)" "\<not> contains console_marker ?post"
    using a(2) contains_append_char [OF a(3) m] contains_append_char [OF a(3) m, of "[]"] contains_join [OF a(3) m] m
    by (simp_all add: contains_def)
  then have "str_replace console_marker new (?pre @ console_marker @ ?post) = ?pre @ new @ ?post"
    unfolding a(1) by (rule str_replace_once)
  then show ?thesis using a(4,5) by (simp add: join_append join_Cons)
qed

text \<open>The marker stands in the template once, on a line of its own.\<close>

lemma marker_absent:
  "\<not> list_ex (contains console_marker) console_head" "\<not> list_ex (contains console_marker) console_layout_rules"
  "\<not> list_ex (contains console_marker) console_element_rules" "\<not> list_ex (contains console_marker) console_page"
  "\<not> list_ex (contains console_marker) console_script"
  by code_simp+

section \<open>Names in a text\<close>

text \<open>The names that follow a prefix, up to the next occurrence of a closing character.\<close>

fun names_after :: "pystr \<Rightarrow> char \<Rightarrow> pystr \<Rightarrow> pystr list" where
  "names_after p stop [] = []"
| "names_after p stop (c # cs) =
     (if prefix p (c # cs)
      then (let rest = drop (length p) (c # cs)
            in if stop \<in> set rest then [takeWhile (\<lambda>d. d \<noteq> stop) rest] else [])
      else [])
     @ names_after p stop cs"

lemma closed_name_iff:
  "(stop \<in> set rest \<and> n = takeWhile (\<lambda>d. d \<noteq> stop) rest) \<longleftrightarrow> prefix (n @ [stop]) rest \<and> stop \<notin> set n"
proof
  assume a: "stop \<in> set rest \<and> n = takeWhile (\<lambda>d. d \<noteq> stop) rest"
  then obtain us vs where r: "rest = us @ stop # vs" "stop \<notin> set us" by (meson split_list_first)
  then have "takeWhile (\<lambda>d. d \<noteq> stop) rest = us" by (subst r(1), subst takeWhile_append2) auto
  then show "prefix (n @ [stop]) rest \<and> stop \<notin> set n" using a r by simp
next
  assume a: "prefix (n @ [stop]) rest \<and> stop \<notin> set n"
  then obtain vs where r: "rest = n @ stop # vs" by (auto simp: prefix_def)
  then have "takeWhile (\<lambda>d. d \<noteq> stop) rest = n" using a by (subst r, subst takeWhile_append2) auto
  then show "stop \<in> set rest \<and> n = takeWhile (\<lambda>d. d \<noteq> stop) rest" using r by simp
qed

lemma prefix_append_iff: "prefix (p @ m) s \<longleftrightarrow> prefix p s \<and> prefix m (drop (length p) s)"
  by (auto simp: prefix_def)

lemma names_after_iff:
  "p \<noteq> [] \<Longrightarrow> n \<in> set (names_after p stop s) \<longleftrightarrow> contains (p @ n @ [stop]) s \<and> stop \<notin> set n"
proof (induction s)
  case Nil
  then show ?case by (simp add: contains_def)
next
  case (Cons c s)
  show ?case
    using Cons closed_name_iff [of stop "drop (length p) (c # s)" n]
    by (auto simp: contains_def sublist_Cons_right prefix_append_iff Let_def)
qed

definition token_names :: "pystr list" where
  "token_names = map fst (primitive_tokens @ semantic_tokens @ component_tokens)"

text \<open>What is left of a list of names when the tokens are taken away.\<close>

fun without :: "pystr list \<Rightarrow> pystr list \<Rightarrow> pystr list" where
  "without [] ns = ns"
| "without (k # ks) ns = without ks (filter (\<lambda>n. n \<noteq> k) ns)"

lemma rules_without_colours:
  "list_all (\<lambda>l. CHR ''#'' \<notin> set l) console_layout_rules" "list_all (\<lambda>l. CHR ''#'' \<notin> set l) console_element_rules"
  by code_simp+

lemma set_without: "set (without ks ns) = set ns - set ks"
  by (induction ks arbitrary: ns) auto

definition referenced_in :: "pystr list \<Rightarrow> pystr list" where
  "referenced_in ls = concat (map (names_after ''var('' (CHR '')'')) ls)"

definition root_lines :: "pystr list" where
  "root_lines = concat (map (\<lambda>(_, tier). map (declaration_line ''      '') tier) token_tiers)"

lemma refers_to_tokens:
  "without token_names (referenced_in console_layout_rules) = []"
  "without token_names (referenced_in console_element_rules) = []"
  "without token_names (referenced_in root_lines) = []"
  by code_simp+

lemma refers_to_nothing:
  "referenced_in (console_head @ console_page @ console_script) = []"
  "referenced_in ([''    :root {'', ''      color-scheme: light;'', ''    }''] @ map (\<lambda>(n, _). ''      '' @ tier_heading n) token_tiers) = []"
  by code_simp+

text \<open>The elements the script fills, and those the page declares.\<close>

definition element_uses :: "pystr list" where
  "element_uses =
     concat (map (\<lambda>p. concat (map (names_after (p @ [CHR 0x27]) CHR 0x27) console_script))
       [''text('', ''width('', ''getElementById(''])"

definition elements :: "pystr list" where
  "elements = concat (map (names_after ''id=\"'' CHR 0x22) console_page)"

lemma used_elements_declared: "without elements element_uses = []"
  by code_simp

lemma elements_distinct: "distinct elements"
  by code_simp

section \<open>Properties\<close>

lemma referenced_iff:
  "n \<in> set (referenced_in ls) \<longleftrightarrow> list_ex (contains (''var('' @ n @ '')'')) ls \<and> CHR '')'' \<notin> set n"
  by (auto simp: referenced_in_def names_after_iff list_ex_iff)

lemma referenced_append: "set (referenced_in (xs @ ys)) = set (referenced_in xs) \<union> set (referenced_in ys)"
  by (simp add: referenced_in_def)

text \<open>The token block, indented as in the page.\<close>

definition block_lines :: "pystr list" where
  "block_lines =
     [''    :root {'', ''      color-scheme: light;'']
     @ concat (map (\<lambda>(n, tier). (''      '' @ tier_heading n) # map (declaration_line ''      '') tier) token_tiers)
     @ [''    }'']"

lemma root_block: "''    '' @ root_css_variables ''      '' = join [CHR 0x0A] block_lines"
  by (simp add: root_css_variables_def block_lines_def)

lemma referenced_mono: "set xs \<subseteq> set ys \<Longrightarrow> set (referenced_in xs) \<subseteq> set (referenced_in ys)"
  by (auto simp: referenced_in_def)

lemma block_refers_to_tokens: "set (referenced_in block_lines) \<subseteq> set token_names"
proof -
  let ?frame = "[''    :root {'', ''      color-scheme: light;'', ''    }'']
    @ map (\<lambda>(n, _). ''      '' @ tier_heading n) token_tiers"
  have "set block_lines \<subseteq> set (?frame @ root_lines)"
    by (auto simp: block_lines_def root_lines_def token_tiers_def)
  then have "set (referenced_in block_lines) \<subseteq> set (referenced_in ?frame) \<union> set (referenced_in root_lines)"
    using referenced_mono [of block_lines "?frame @ root_lines"] by (simp only: referenced_append)
  then show ?thesis
    using arg_cong [OF refers_to_tokens(3), of set] by (simp only: refers_to_nothing(2) set_without list.set) blast
qed

lemma lines_refer_to_tokens:
  "set (referenced_in (console_head @ block_lines @ console_layout_rules @ console_element_rules
     @ console_page @ console_script)) \<subseteq> set token_names"
proof -
  have "set (referenced_in console_layout_rules) \<subseteq> set token_names"
    "set (referenced_in console_element_rules) \<subseteq> set token_names"
    using arg_cong [OF refers_to_tokens(1), of set] arg_cong [OF refers_to_tokens(2), of set]
    by (simp_all add: set_without)
  then show ?thesis
    using block_refers_to_tokens arg_cong [OF refers_to_nothing(1), of set] by (simp add: referenced_append)
qed

lemma render_lines:
  "render_enterprise_console = join [CHR 0x0A] (console_head @ [''    '' @ root_css_variables ''      '']
     @ console_layout_rules @ console_element_rules @ console_page @ console_script)"
  unfolding render_enterprise_console_def console_template_def
proof (rule render_once)
  show "console_marker = ''__SDP_ROOT_TOKENS_'' @ [CHR ''_'']" by (simp add: console_marker_def)
  show "CHR 0x0A \<notin> set console_marker" by code_simp
  have "\<not> contains console_marker (''    '' @ ''__SDP_ROOT_TOKENS_'')" by code_simp
  then show "\<not> list_ex (contains console_marker) (console_head @ [''    '' @ ''__SDP_ROOT_TOKENS_'']
      @ console_layout_rules @ console_element_rules @ console_page @ console_script)"
    using marker_absent by simp
qed (simp_all add: console_head_def console_script_def)

lemma render_block_lines:
  "render_enterprise_console = join [CHR 0x0A] (console_head @ block_lines
     @ console_layout_rules @ console_element_rules @ console_page @ console_script)"
proof -
  have "block_lines \<noteq> []" "console_head \<noteq> []" "console_script \<noteq> []"
    by (simp_all add: block_lines_def console_head_def console_script_def)
  then show ?thesis by (simp add: render_lines join_append join_Cons root_block [symmetric])
qed


end
