(* ===== verification/Api.thy ===== *)
theory Api
  imports Api_Graph Console
begin

text \<open>
  The HTTP API as a whole (\<open>src/sdp/api.py\<close>): the identity and governance endpoints, the table of
  routes and the middleware around it.  The path \<open>/api/v1/browse/query\<close> is served by the same function
  as \<open>/browse/query\<close> and has no route of its own here.
\<close>

section \<open>Identity\<close>

definition text_option :: "pyval \<Rightarrow> pystr option" where
  "text_option v = (case v of VStr s \<Rightarrow> Some s | _ \<Rightarrow> None)"

text \<open>An optional object of the payload: absent or null, an object, or something else.\<close>

definition object_at :: "pyval dict \<Rightarrow> pystr \<Rightarrow> (pyval dict) option result" where
  "object_at payload k =
     (case get_or_none payload k of
        VNone \<Rightarrow> Inr None
      | VDict d \<Rightarrow> Inr (Some d)
      | _ \<Rightarrow> Inl (http 400 (k @ '' must be an object'')))"

text \<open>A role map from a JSON object, as its annotation has it: lists of role names.\<close>

definition role_map_of :: "pyval dict \<Rightarrow> (pystr list) dict" where
  "role_map_of d = map (\<lambda>(group, roles). (group, text_items roles)) d"

record oidc_preview =
  op_actor_context :: actor_context
  op_groups :: pyval
  op_ignored_role_claims :: "pystr list"

definition groups_of :: "pyval dict \<Rightarrow> pyval" where
  "groups_of claims = value_or claims ''groups'' (VList [])"

definition enterprise_oidc_preview ::
  "oidc_environment \<Rightarrow> pyval dict \<Rightarrow> 's world_scheme \<Rightarrow> oidc_preview result \<times> 's world_scheme" where
  "enterprise_oidc_preview env payload w =
     (case value_or payload ''claims'' (VDict payload) of
        VDict claims \<Rightarrow>
          (case object_at payload ''role_map'' of
             Inl e \<Rightarrow> (Inl e, w)
           | Inr role_map \<Rightarrow>
               (case catching value_400 (resolve_oidc_actor_context env claims (map_option role_map_of role_map) w) of
                  (Inl e, w) \<Rightarrow> (Inl e, w)
                | (Inr context, w) \<Rightarrow>
                    (Inr \<lparr>op_actor_context = context, op_groups = groups_of claims,
                       op_ignored_role_claims = oidc_role_claims w claims\<rparr>, w)))
      | _ \<Rightarrow> (Inl (http 400 ''claims must be an object''), w))"

record oidc_verification =
  ov_actor_context :: actor_context
  ov_issuer :: pyval
  ov_audience :: pyval
  ov_groups :: pyval
  ov_ignored_role_claims :: "pystr list"

definition enterprise_oidc_verify ::
  "oidc_environment \<Rightarrow> jwt_library \<Rightarrow> pyval dict \<Rightarrow> 's world_scheme \<Rightarrow> oidc_verification result \<times> 's world_scheme" where
  "enterprise_oidc_verify env lib payload w =
     (case text_option (get_or_none payload ''token'') of
        Some (c # cs) \<Rightarrow>
          (case object_at payload ''jwks'' of
             Inl e \<Rightarrow> (Inl e, w)
           | Inr jwks \<Rightarrow>
               (case object_at payload ''role_map'' of
                  Inl e \<Rightarrow> (Inl e, w)
                | Inr role_map \<Rightarrow>
                    (case catching value_400
                       (verify_oidc_jwks_token env lib (c # cs) (text_option (get_or_none payload ''issuer''))
                          (text_option (get_or_none payload ''audience'')) (map_option VDict jwks)
                          (map_option role_map_of role_map) w) of
                       (Inl e, w) \<Rightarrow> (Inl e, w)
                     | (Inr (context, claims), w) \<Rightarrow>
                         (Inr \<lparr>ov_actor_context = context, ov_issuer = get_or_none claims ''iss'',
                            ov_audience = get_or_none claims ''aud'', ov_groups = groups_of claims,
                            ov_ignored_role_claims = oidc_role_claims w claims\<rparr>, w))))
      | _ \<Rightarrow> (Inl (http 400 ''token is required''), w))"

section \<open>Governance\<close>

definition enterprise_console :: "'s \<Rightarrow> pystr result" where
  "enterprise_console _ = Inr render_enterprise_console"

definition enterprise_demo_plan ::
  "pystr \<Rightarrow> pystr list option \<Rightarrow> 's world_scheme \<Rightarrow> activation_plan result \<times> 's world_scheme" where
  "enterprise_demo_plan domain connector w =
     (if domain = [] then invalid w
      else catching value_400 (buyer_demo_activation_plan domain connector w))"

definition enterprise_connector_probe ::
  "process_env \<Rightarrow> pystr \<Rightarrow> pystr \<Rightarrow> 's catalog_state_scheme \<Rightarrow> connector_probe_result result" where
  "enterprise_connector_probe env connector_id dataset_id s =
     checked (dataset_id \<noteq> [])
       (map_sum (dataset_404 \<circ> value_400) id (connector_probe env connector_id dataset_id s))"

section \<open>Routes\<close>

datatype governance_call =
    Health | Metrics | Healthz | Enterprise_console | Enterprise_readiness | Enterprise_demo_plan pystr "pystr list option"
  | Enterprise_kpis | Enterprise_controls | Enterprise_rbac | Enterprise_observability | Enterprise_production
  | Enterprise_evidence_pack | Enterprise_shacl | Enterprise_steward_review
  | Oidc_preview "pyval dict" | Oidc_verify "pyval dict" | Connector_probe pystr pystr

datatype catalog_read =
    Catalog_search pystr search_filters int | Catalog_facets "pystr option" pystr | Datasets
  | Dataset_detail pystr | Dataset_jsonld pystr | Dataset_semantics pystr | Dataset_history pystr
  | Dataset_versions pystr | Dataset_joins pystr int | Dataset_profile pystr | Dataset_diff pystr pystr pystr
  | Dataset_validate pystr | Dataset_lineage pystr | Dataset_related pystr | Dataset_audit pystr int
  | Audit_events int "pystr option" | Decisions int "pystr option"

datatype catalog_change =
    Create "pyval dict" | Publish_dataset pystr "pyval dict" | Patch_dataset pystr "pyval dict"
  | Deprecate_dataset pystr "pystr dict"

datatype access_call =
    Decide "pystr dict" | Browse_schema pystr pystr pystr | Browse_preview pystr "pyval dict"
  | Llm_search "pystr dict" | Draft_query "pyval dict" | Browse_query "pyval dict"

datatype ontology_call =
    Ontology_resolve "pystr dict" | Ontology_concept pystr | Ontology_concepts | Ontology_search pystr
  | Ontology_patches "pystr option" | Propose "pystr dict" | Review pystr "pystr dict" | Term_graph pystr

datatype graph_call =
    Ingest_concept ontology_concept_request | Ingest_node graph_node_request | Ingest_edge graph_edge_request
  | Graph_node pystr | Graph_query graph_traversal_request | Semantic_search semantic_search_request | Graph_stats

datatype request =
    Governance governance_call
  | Catalog_read catalog_read
  | Catalog_change catalog_change
  | Access_call access_call
  | Ontology_call ontology_call
  | Graph_call graph_call

text \<open>The answer to a request, as far as its status goes, and the state it leaves: an
  \<open>HTTPException\<close> is a response, any other exception goes on to the server.\<close>

definition answer :: "'a result \<times> 's \<Rightarrow> int result \<times> 's" where
  "answer = map_prod (\<lambda>r. case r of Inr _ \<Rightarrow> Inr 200 | Inl (HTTPException n _) \<Rightarrow> Inr n | Inl e \<Rightarrow> Inl e) id"

fun route_governance :: "'g platform \<Rightarrow> governance_call \<Rightarrow> ('g, 's) api_state_scheme \<Rightarrow> int result \<times> ('g, 's) api_state_scheme" where
  "route_governance pf Health s = answer (health s)"
| "route_governance pf Metrics s = answer (reading (\<lambda>s. Inr (prometheus_metrics_text (pf_env pf) s)) s)"
| "route_governance pf Healthz s = map_prod (Inr \<circ> fst) id (healthz pf s)"
| "route_governance pf Enterprise_console s = answer (reading enterprise_console s)"
| "route_governance pf Enterprise_readiness s = answer (reading (\<lambda>_. Inr enterprise_readiness_manifest) s)"
| "route_governance pf (Enterprise_demo_plan domain connector) s = answer (enterprise_demo_plan domain connector s)"
| "route_governance pf Enterprise_kpis s = answer (reading (\<lambda>_. Inr enterprise_kpi_framework) s)"
| "route_governance pf Enterprise_controls s = answer (reading (\<lambda>_. Inr enterprise_controls_manifest) s)"
| "route_governance pf Enterprise_rbac s = answer (reading (\<lambda>_. Inr enterprise_rbac_matrix) s)"
| "route_governance pf Enterprise_observability s = answer (reading (\<lambda>s. Inr (build_observability_manifest (pf_env pf) s)) s)"
| "route_governance pf Enterprise_production s = answer (reading (\<lambda>_. Inr enterprise_production_readiness_manifest) s)"
| "route_governance pf Enterprise_evidence_pack s = answer (build_enterprise_evidence_pack s)"
| "route_governance pf Enterprise_shacl s = answer (reading enterprise_shacl_validation_summary s)"
| "route_governance pf Enterprise_steward_review s = answer (reading build_steward_review_summary s)"
| "route_governance pf (Oidc_preview payload) s = answer (enterprise_oidc_preview (pf_oidc pf) payload s)"
| "route_governance pf (Oidc_verify payload) s = answer (enterprise_oidc_verify (pf_oidc pf) (pf_jwt pf) payload s)"
| "route_governance pf (Connector_probe c k) s = answer (reading (enterprise_connector_probe (pf_env pf) c k) s)"

fun route_catalog :: "'g platform \<Rightarrow> catalog_read \<Rightarrow> ('g, 's) api_state_scheme \<Rightarrow> int result \<times> ('g, 's) api_state_scheme" where
  "route_catalog pf (Catalog_search q f limit) s = answer (reading (catalog_search q f limit) s)"
| "route_catalog pf (Catalog_facets q field) s = answer (reading (catalog_facets q field) s)"
| "route_catalog pf Datasets s = answer (reading list_datasets_endpoint s)"
| "route_catalog pf (Dataset_detail k) s = answer (reading (dataset_detail k) s)"
| "route_catalog pf (Dataset_jsonld k) s = answer (reading (dataset_jsonld k) s)"
| "route_catalog pf (Dataset_semantics k) s = answer (reading (catalog_dataset_semantic_validation k) s)"
| "route_catalog pf (Dataset_history k) s = answer (reading (catalog_dataset_schema_history k) s)"
| "route_catalog pf (Dataset_versions k) s = answer (reading (catalog_dataset_schema_versions k) s)"
| "route_catalog pf (Dataset_joins k limit) s = answer (reading (catalog_dataset_join_candidates k limit) s)"
| "route_catalog pf (Dataset_profile k) s = answer (reading (catalog_dataset_profile k) s)"
| "route_catalog pf (Dataset_diff k from_version to_version) s = answer (reading (catalog_dataset_schema_diff k from_version to_version) s)"
| "route_catalog pf (Dataset_validate k) s = answer (reading (validate_endpoint k) s)"
| "route_catalog pf (Dataset_lineage k) s = answer (reading (dataset_lineage k) s)"
| "route_catalog pf (Dataset_related k) s = answer (reading (dataset_related k) s)"
| "route_catalog pf (Dataset_audit k limit) s = answer (reading (dataset_audit_events k limit) s)"
| "route_catalog pf (Audit_events limit resource) s = answer (reading (list_events limit resource) s)"
| "route_catalog pf (Decisions limit resource) s = answer (reading (policy_decisions limit resource) s)"

fun route_change :: "'g platform \<Rightarrow> catalog_change \<Rightarrow> ('g, 's) api_state_scheme \<Rightarrow> int result \<times> ('g, 's) api_state_scheme" where
  "route_change pf (Create payload) s = answer (create_dataset (pf_parse_create pf) payload s)"
| "route_change pf (Publish_dataset k payload) s = answer (publish_catalog_dataset k payload s)"
| "route_change pf (Patch_dataset k payload) s = answer (patch_catalog_dataset (pf_parse_patch pf) k payload s)"
| "route_change pf (Deprecate_dataset k payload) s = answer (deprecate_catalog_dataset k payload s)"

fun route_access :: "'g platform \<Rightarrow> access_call \<Rightarrow> ('g, 's) api_state_scheme \<Rightarrow> int result \<times> ('g, 's) api_state_scheme" where
  "route_access pf (Decide payload) s = answer (policy_decision_endpoint payload s)"
| "route_access pf (Browse_schema k user purpose) s = answer (browse_schema_endpoint k user purpose s)"
| "route_access pf (Browse_preview k payload) s = answer (browse_preview k payload s)"
| "route_access pf (Llm_search payload) s = answer (llm_search payload s)"
| "route_access pf (Draft_query payload) s = answer (draft_query (pf_parse_draft pf) payload s)"
| "route_access pf (Browse_query payload) s = answer (browse_query (pf_parse_query pf) payload s)"

fun route_ontology :: "'g platform \<Rightarrow> ontology_call \<Rightarrow> ('g, 's) api_state_scheme \<Rightarrow> int result \<times> ('g, 's) api_state_scheme" where
  "route_ontology pf (Ontology_resolve payload) s = answer (reading (resolve_terms_endpoint payload) s)"
| "route_ontology pf (Ontology_concept c) s = answer (reading (concept_detail c) s)"
| "route_ontology pf Ontology_concepts s = answer (reading ontology_concepts s)"
| "route_ontology pf (Ontology_search q) s = answer (reading (ontology_search q) s)"
| "route_ontology pf (Ontology_patches status) s = answer (reading (ontology_patches_endpoint status) s)"
| "route_ontology pf (Propose payload) s = answer (ontology_patch_create payload s)"
| "route_ontology pf (Review patch_id payload) s = answer (ontology_patch_review patch_id payload s)"
| "route_ontology pf (Term_graph term) s = answer (ontology_term_graph pf term s)"

fun route_graph :: "'g platform \<Rightarrow> graph_call \<Rightarrow> ('g, 's) api_state_scheme \<Rightarrow> int result \<times> ('g, 's) api_state_scheme" where
  "route_graph pf (Ingest_concept q) s = answer (ingest_concept pf q s)"
| "route_graph pf (Ingest_node q) s = answer (ingest_graph_node pf q s)"
| "route_graph pf (Ingest_edge q) s = answer (ingest_graph_edge pf q s)"
| "route_graph pf (Graph_node n) s = answer (get_graph_node pf n s)"
| "route_graph pf (Graph_query q) s = answer (graph_query pf q s)"
| "route_graph pf (Semantic_search q) s = answer (semantic_search_endpoint pf q s)"
| "route_graph pf Graph_stats s = answer (graph_stats pf s)"

fun handle :: "'g platform \<Rightarrow> request \<Rightarrow> ('g, 's) api_state_scheme \<Rightarrow> int result \<times> ('g, 's) api_state_scheme" where
  "handle pf (Governance r) s = route_governance pf r s"
| "handle pf (Catalog_read r) s = route_catalog pf r s"
| "handle pf (Catalog_change r) s = route_change pf r s"
| "handle pf (Access_call r) s = route_access pf r s"
| "handle pf (Ontology_call r) s = route_ontology pf r s"
| "handle pf (Graph_call r) s = route_graph pf r s"

definition serve ::
  "'g platform \<Rightarrow> rat \<Rightarrow> pystr \<Rightarrow> pystr \<Rightarrow> pystr dict \<Rightarrow> request \<Rightarrow> ('g, 's) api_state_scheme
   \<Rightarrow> (py_exn + (int \<times> unit) \<times> (pystr \<times> pystr)) \<times> ('g, 's) api_state_scheme" where
  "serve pf latency_ms http_method route headers req =
     record_request_observability (pf_env pf) (pf_sink pf) latency_ms http_method route headers
       (\<lambda>s. map_prod (map_sum id (\<lambda>n. (n, ()))) id (handle pf req s))"

end
