(* ===== verification/Portal.thy ===== *)
theory Portal
  imports Api Catalog_Queries
begin

text \<open>
  What every request to the HTTP API keeps: the catalog, the graph and the ontology change only for
  the requests and the actors that may change them, the invariants of the components hold in every
  state the portal reaches, and the answers for unknown datasets and for graph queries.
\<close>

section \<open>What a request may change\<close>

definition same_portal :: "('g, 's) api_state_scheme \<Rightarrow> ('g, 's) api_state_scheme \<Rightarrow> bool" where
  "same_portal s t \<longleftrightarrow> catalog_data t = catalog_data s \<and> schema_history t = schema_history s
     \<and> concept_index t = concept_index s \<and> ontology_patches t = ontology_patches s
     \<and> request_observations t = request_observations s \<and> export_errors t = export_errors s"

text \<open>The actor in whose name a request asks for a change of the catalog or of the graph.\<close>

fun change_actor :: "'s world_scheme \<Rightarrow> catalog_change \<Rightarrow> pystr" where
  "change_actor w (Create payload) = actor_of payload w"
| "change_actor w (Publish_dataset k payload) = actor_of payload w"
| "change_actor w (Patch_dataset k payload) = actor_of payload w"
| "change_actor w (Deprecate_dataset k payload) = actor_of (text_payload payload) w"

definition catalog_writer :: "'s world_scheme \<Rightarrow> request \<Rightarrow> pystr option" where
  "catalog_writer w req = (case req of Catalog_change r \<Rightarrow> Some (change_actor w r) | _ \<Rightarrow> None)"

definition graph_writer :: "request \<Rightarrow> pystr option" where
  "graph_writer req =
     (case req of
        Graph_call (Ingest_concept q) \<Rightarrow> Some (cq_actor q)
      | Graph_call (Ingest_node q) \<Rightarrow> Some (gq_actor q)
      | Graph_call (Ingest_edge q) \<Rightarrow> Some (eq_actor q)
      | _ \<Rightarrow> None)"

definition patch_request :: "request \<Rightarrow> bool" where
  "patch_request req =
     (case req of Ontology_call (Propose payload) \<Rightarrow> True | Ontology_call (Review i payload) \<Rightarrow> True | _ \<Rightarrow> False)"

text \<open>A store that is opened on the way is the configured one, and empty when it is in memory.\<close>

definition fresh_store :: "'g platform \<Rightarrow> 'g built_store option \<Rightarrow> bool" where
  "fresh_store pf st =
     (case st of
        Some (Memory_backend m) \<Rightarrow> m = empty_store (pf_digest pf) (nat (cfg_embedding_dimension (pf_config pf)))
      | _ \<Rightarrow> True)"

definition opened_store :: "'g platform \<Rightarrow> ('g, 's) api_state_scheme \<Rightarrow> ('g, 's) api_state_scheme \<Rightarrow> bool" where
  "opened_store pf s t \<longleftrightarrow> api_store t = api_store s \<or> api_store s = None \<and> fresh_store pf (api_store t)"

definition allowed_change :: "'g platform \<Rightarrow> request \<Rightarrow> ('g, 's) api_state_scheme \<Rightarrow> ('g, 's) api_state_scheme \<Rightarrow> bool" where
  "allowed_change pf req s t \<longleftrightarrow>
     (catalog_data t = catalog_data s \<and> schema_history t = schema_history s
        \<or> (\<exists>actor. catalog_writer s req = Some actor \<and> is_admin actor))
     \<and> (opened_store pf s t \<or> (\<exists>actor. graph_writer req = Some actor \<and> is_admin actor))
     \<and> (ontology_patches t = ontology_patches s \<or> patch_request req)
     \<and> concept_index t = concept_index s
     \<and> request_observations t = request_observations s \<and> export_errors t = export_errors s"

lemma only_evidence_portal:
  fixes s t :: "('g, 's) api_state_scheme"
  assumes "only_evidence s t"
  shows "same_portal s t" "api_store t = api_store s" "opened_store pf s t"
  using assms by (cases s, cases t, simp add: only_evidence_def same_portal_def opened_store_def)+

lemma allowed_same: "same_portal s t \<Longrightarrow> opened_store pf s t \<Longrightarrow> allowed_change pf req s t"
  by (auto simp: allowed_change_def same_portal_def)

lemma allowed_evidence: "only_evidence s t \<Longrightarrow> allowed_change pf req s t"
  using only_evidence_portal [of s t] by (simp add: allowed_same)

lemma allowed_refl: "allowed_change pf req s s"
  by (simp add: allowed_change_def opened_store_def)

lemma snd_answer [simp]: "snd (answer r) = snd r"
  by (simp add: answer_def)

lemma snd_reading [simp]: "snd (reading f s) = s"
  by (simp add: reading_def)

text \<open>What reads the clock and changes nothing else.\<close>

definition only_clock :: "'s world_scheme \<Rightarrow> 's world_scheme \<Rightarrow> bool" where
  "only_clock w w' \<longleftrightarrow> w' = w\<lparr>clock_tick := clock_tick w'\<rparr>"

lemma only_clock_intros [simp]: "only_clock w w" "only_clock w (snd (now w))" "only_clock w (w\<lparr>clock_tick := n\<rparr>)"
  by (simp_all add: only_clock_def now_def)

lemma only_clock_now_state: "now w = (t, w') \<Longrightarrow> only_clock w w'"
  by (metis only_clock_intros(2) snd_conv)

lemma only_clockE: "only_clock w w' \<Longrightarrow> (\<And>n. w' = w\<lparr>clock_tick := n\<rparr> \<Longrightarrow> P) \<Longrightarrow> P"
  by (auto simp: only_clock_def)

text \<open>Opening the store reads the clock.\<close>

lemma build_store_clock: "only_clock s (snd (build_store digest open_pg b cfg s))"
  by (simp add: build_store_def pg_readiness_def Let_def case_prod_unfold split: option.split)

lemma build_store_fresh:
  assumes "fst (build_store (pf_digest pf) open_pg b (pf_config pf) s) = Inr store"
  shows "fresh_store pf (Some store)"
  using assms by (auto simp: build_store_def fresh_store_def Let_def case_prod_unfold split: if_splits option.splits)

lemma get_store_clock:
  assumes "get_store (build_store (pf_digest pf) open_pg b (pf_config pf)) st s = (r, st', s')"
  shows "only_clock s s'"
    and "case r of Inl e \<Rightarrow> st = None \<and> st' = None
      | Inr store \<Rightarrow> st' = Some store \<and> (st = Some store \<or> st = None \<and> fresh_store pf (Some store))"
  using assms build_store_clock [of s "pf_digest pf" open_pg b "pf_config pf"] build_store_fresh [of pf open_pg b s]
  by (cases st; cases "build_store (pf_digest pf) open_pg b (pf_config pf) s"; auto simp: get_store_def split: sum.splits)+

lemma with_store_cases:
  fixes s :: "('g, 's) api_state_scheme"
  obtains (failed) e n where "with_store pf body s = (Inl e, s\<lparr>clock_tick := n, api_store := None\<rparr>)" "api_store s = None"
    | (opened) store n where "with_store pf body s = body store (s\<lparr>clock_tick := n, api_store := Some store\<rparr>)"
        "api_store s = None \<and> fresh_store pf (Some store) \<or> api_store s = Some store"
proof -
  let ?build = "build_store (pf_digest pf) (pf_open_postgres pf) (pf_bootstrap pf) (pf_config pf)
    :: ('g, 's) api_state_scheme \<Rightarrow> _"
  obtain r st s' where g: "get_store ?build (api_store s) s = (r, st, s')" by (cases "get_store ?build (api_store s) s")
  obtain n where n: "s' = s\<lparr>clock_tick := n\<rparr>" using get_store_clock(1) [OF g] by (rule only_clockE)
  show thesis using get_store_clock(2) [OF g] g n failed opened by (cases r) (auto simp: with_store_def)
qed

lemma same_portal_updates [simp]:
  "same_portal s (s\<lparr>clock_tick := n\<rparr>)" "same_portal s (s\<lparr>clock_tick := n, api_store := st\<rparr>)"
  "same_portal s (s\<lparr>clock_tick := n, api_store := st, clock_tick := m\<rparr>)"
  by (simp_all add: same_portal_def)

lemma same_portal_trans: "same_portal s t \<Longrightarrow> same_portal t u \<Longrightarrow> same_portal s u"
  by (simp add: same_portal_def)

lemma same_portal_now: "same_portal s (snd (now s))" "api_store (snd (now s)) = api_store s"
  by (simp_all add: now_def same_portal_def)

lemma opened_store_refl [simp]:
  "opened_store pf s s" "opened_store pf s (s\<lparr>clock_tick := n\<rparr>)"
  "opened_store pf s (t\<lparr>clock_tick := n\<rparr>) = opened_store pf s t"
  by (simp_all add: opened_store_def)

text \<open>A state whose store is the one that \<open>with_store\<close> found or opened.\<close>

lemma opened_store_found:
  assumes "api_store s = None \<and> fresh_store pf (Some store) \<or> api_store s = Some store"
    and "api_store t = Some store"
  shows "opened_store pf s t"
  using assms by (auto simp: opened_store_def)

lemma reading_store_state:
  fixes s :: "('g, 's) api_state_scheme"
  shows "same_portal s (snd (reading_store pf f s))
    \<and> opened_store pf s (snd (reading_store pf f s))"
  unfolding reading_store_def
  by (rule with_store_cases [of pf "\<lambda>st s. (f st, s)" s])
     (auto simp: opened_store_def intro: opened_store_found)

lemma writing_store_state:
  fixes s :: "('g, 's) api_state_scheme"
  shows "same_portal s (snd (writing_store pf f s))"
  unfolding writing_store_def
  by (rule with_store_cases [of pf "\<lambda>st s. let (r, st) = f st in (r, s\<lparr>api_store := Some st\<rparr>)" s])
     (auto simp: same_portal_def case_prod_unfold Let_def)

lemma store_readiness_state:
  "same_portal s (snd (store_readiness_of pf st s)) \<and> api_store (snd (store_readiness_of pf st s)) = api_store s"
  by (auto simp: store_readiness_of_def memory_readiness_def pg_readiness_def same_portal_def now_def case_prod_unfold
      Let_def split: built_store.split option.split)

lemma probing_store_state:
  fixes s :: "('g, 's) api_state_scheme"
  assumes body: "\<And>st s. snd (body st s) = snd (store_readiness_of pf st s)"
  shows "same_portal s (snd (with_store pf body s))
    \<and> opened_store pf s (snd (with_store pf body s))"
proof (cases rule: with_store_cases [of pf body s])
  case (failed e n)
  then show ?thesis by (simp add: opened_store_def)
next
  case (opened store n)
  let ?s = "s\<lparr>clock_tick := n, api_store := Some store\<rparr>"
  have "same_portal s (snd (store_readiness_of pf store ?s))" "api_store (snd (store_readiness_of pf store ?s)) = Some store"
    using store_readiness_state [of ?s pf store] same_portal_trans [OF same_portal_updates(2) [where s = s and n = n and st = "Some store"]] by auto
  then show ?thesis using opened body by (auto intro: opened_store_found)
qed

text \<open>A body that runs under a decision.\<close>

lemma authorized_same_portal:
  fixes s :: "('g, 's) api_state_scheme"
  assumes "\<And>d t. same_portal t (snd (body d t)) \<and> opened_store pf t (snd (body d t))"
  shows "same_portal s (snd (authorized subject resource action purpose body s))
    \<and> opened_store pf s (snd (authorized subject resource action purpose body s))"
proof -
  note decided = only_evidence_portal [OF only_evidence_evaluate [of s subject resource action purpose]]
  show ?thesis
  proof (cases rule: authorized_cases [of subject resource action purpose s body])
    case denied
    then show ?thesis using decided by simp
  next
    case allowed
    then show ?thesis
      using decided(1,2) assms [of "snd (evaluate subject resource action purpose s)"] same_portal_trans
      by (fastforce simp: opened_store_def)
  qed
qed

section \<open>Every request keeps to its actor's rights\<close>

text \<open>The handlers that only read or record evidence.\<close>

lemma only_evidence_handlers:
  "only_evidence s (snd (policy_decision_endpoint d s))"
  "only_evidence s (snd (browse_schema_endpoint k user purpose s))"
  "only_evidence s (snd (browse_preview k payload s))"
  "only_evidence s (snd (draft_query parse_draft payload s))"
  "only_evidence s (snd (browse_query parse_query payload s))"
  by (auto simp: policy_decision_endpoint_def browse_schema_endpoint_def browse_preview_def draft_query_def
      browse_query_def only_evidence_evaluate only_evidence_schema only_evidence_preview only_evidence_draft
      case_prod_unfold split: sum.split intro: only_evidence_execute)

lemma only_evidence_llm_search:
  fixes s :: "'s ontology_state_scheme"
  shows "only_evidence s (snd (llm_search payload s))"
  by (simp add: llm_search_def Let_def case_prod_unfold only_evidence_evaluate split: sum.split list.split)

lemma only_clock_claims: "only_clock w (snd (validate_oidc_claim_shape claims w))"
  by (simp add: validate_oidc_claim_shape_def Let_def case_prod_unfold split: option.split)

lemma only_clock_context: "only_clock w (snd (resolve_oidc_actor_context env claims roles w))"
  using only_clock_claims [of w claims]
  by (simp add: resolve_oidc_actor_context_def Let_def case_prod_unfold split: sum.split)

lemma only_clock_verify: "only_clock w (snd (verify_oidc_jwks_token env lib token i a j roles w))"
  using only_clock_context [of w env]
  by (simp add: verify_oidc_jwks_token_def Let_def case_prod_unfold split: sum.split py_exn.split)

lemma only_clock_oidc:
  "only_clock w (snd (enterprise_oidc_preview env payload w))"
  "only_clock w (snd (enterprise_oidc_verify env lib payload w))"
proof -
  have preview: "only_clock w (snd (catching f (resolve_oidc_actor_context env claims roles w)))" for f claims roles
    by (simp add: only_clock_context)
  have verify: "only_clock w (snd (catching f (verify_oidc_jwks_token env lib token i a j roles w)))" for f token i a j roles
    by (simp add: only_clock_verify)
  show "only_clock w (snd (enterprise_oidc_preview env payload w))"
    using preview by (simp add: enterprise_oidc_preview_def case_prod_unfold split: sum.split pyval.split)
  show "only_clock w (snd (enterprise_oidc_verify env lib payload w))"
    using verify by (simp add: enterprise_oidc_verify_def case_prod_unfold split: sum.split option.split list.split)
qed

lemma only_clock_plan: "only_clock w (snd (buyer_demo_activation_plan domain ids w))"
  using plan_only_reads_clock [of domain ids w] by auto

lemma only_clock_handlers:
  "only_clock w (snd (health w))"
  "only_clock w (snd (enterprise_demo_plan domain ids w))"
  by (simp_all add: health_def Let_def case_prod_unfold enterprise_demo_plan_def invalid_def only_clock_plan)

lemma only_clock_pack: "only_clock s (snd (build_enterprise_evidence_pack s))"
  using only_clock_plan [of s "''customer intelligence''" None]
  by (simp add: build_enterprise_evidence_pack_def Let_def case_prod_unfold split: sum.split)

text \<open>A change of the catalog, and a write to the graph, under the decision that allows it.\<close>

lemma same_more_portal:
  fixes s t :: "('g, 's) api_state_scheme"
  assumes "catalog_state.more t = catalog_state.more s"
  shows "concept_index t = concept_index s" "ontology_patches t = ontology_patches s"
    "request_observations t = request_observations s" "export_errors t = export_errors s" "api_store t = api_store s"
  using assms by (cases s, cases t, simp)+

lemma authorized_change:
  fixes s :: "('g, 's) api_state_scheme"
  assumes writer: "catalog_writer s req = Some subject"
    and action: "action \<in> {''create'', ''publish'', ''patch'', ''deprecate''}"
    and body: "\<And>d t. catalog_state.more (snd (body d t)) = catalog_state.more t"
  shows "allowed_change pf req s (snd (authorized subject resource action purpose body s))"
proof (cases rule: authorized_cases [of subject resource action purpose s body])
  case denied
  then show ?thesis by (simp add: allowed_evidence only_evidence_evaluate)
next
  case allowed
  have kept: "catalog_state.more (snd (authorized subject resource action purpose body s)) = catalog_state.more s"
    using allowed(2) by (simp add: body frame_simps)
  show ?thesis
    using same_more_portal [OF kept] change_needs_admin [OF action allowed(1)] writer
    by (simp add: allowed_change_def opened_store_def)
qed

lemma catalog_handlers_allowed:
  fixes s :: "('g, 's) api_state_scheme"
  shows "allowed_change pf (Catalog_change (Create payload)) s (snd (create_dataset parse_create payload s))"
    "allowed_change pf (Catalog_change (Publish_dataset k payload)) s (snd (publish_catalog_dataset k payload s))"
    "allowed_change pf (Catalog_change (Patch_dataset k payload)) s (snd (patch_catalog_dataset parse_patch k payload s))"
    "allowed_change pf (Catalog_change (Deprecate_dataset k texts)) s (snd (deprecate_catalog_dataset k texts s))"
  unfolding create_dataset_def publish_catalog_dataset_def patch_catalog_dataset_def deprecate_catalog_dataset_def Let_def
  by (simp_all add: allowed_refl split: sum.split)
     (intro allI impI authorized_change; simp add: catalog_writer_def more_mutations split: sum.split)+

lemma authorized_graph_write:
  fixes s :: "('g, 's) api_state_scheme"
  assumes writer: "graph_writer req = Some subject"
    and body: "\<And>d t. same_portal t (snd (body d t))"
  shows "allowed_change pf req s (snd (authorize_graph_write subject resource body s))"
  unfolding authorize_graph_write_def
proof (cases rule: authorized_cases [of subject resource "''create''" "''graph''" s body])
  case denied
  then show "allowed_change pf req s (snd (authorized subject resource ''create'' ''graph'' body s))"
    by (simp add: allowed_evidence only_evidence_evaluate)
next
  case allowed
  have "same_portal s (snd (authorized subject resource ''create'' ''graph'' body s))"
    using allowed(2) body only_evidence_portal(1) [OF only_evidence_evaluate] same_portal_trans by fastforce
  then show "allowed_change pf req s (snd (authorized subject resource ''create'' ''graph'' body s))"
    using change_needs_admin [OF _ allowed(1)] writer by (simp add: allowed_change_def same_portal_def)
qed

lemma graph_handlers_allowed:
  fixes s :: "('g, 's) api_state_scheme"
  shows "allowed_change pf (Graph_call (Ingest_concept c)) s (snd (ingest_concept pf c s))"
    "allowed_change pf (Graph_call (Ingest_node n)) s (snd (ingest_graph_node pf n s))"
    "allowed_change pf (Graph_call (Ingest_edge e)) s (snd (ingest_graph_edge pf e s))"
  by (auto simp: graph_writer_def ingest_concept_def ingest_graph_node_def ingest_graph_edge_def invalid_def allowed_refl
      intro!: authorized_graph_write writing_store_state)

lemma graph_reads_allowed:
  fixes s :: "('g, 's) api_state_scheme"
  shows "allowed_change pf req s (snd (get_graph_node pf n s))"
    "allowed_change pf req s (snd (ontology_term_graph pf term s))"
    "allowed_change pf req s (snd (graph_query pf q s))"
    "allowed_change pf req s (snd (semantic_search_endpoint pf z s))"
    "allowed_change pf req s (snd (graph_stats pf s))"
    "allowed_change pf req s (snd (healthz pf s))"
proof -
  have allowed: "allowed_change pf req s t" if "same_portal s t \<and> opened_store pf s t" for t
    using that by (simp add: allowed_same)
  have decided: "allowed_change pf req s (snd (authorized subject resource action purpose body s))"
    if "\<And>d t. same_portal t (snd (body d t)) \<and> opened_store pf t (snd (body d t))"
    for subject resource action purpose and body :: "policy_decision \<Rightarrow> ('g, 's) api_state_scheme \<Rightarrow> 'b result \<times> _"
    by (rule allowed [OF authorized_same_portal [OF that]])
  show "allowed_change pf req s (snd (get_graph_node pf n s))" "allowed_change pf req s (snd (ontology_term_graph pf term s))"
    unfolding get_graph_node_def ontology_term_graph_def by (rule allowed [OF reading_store_state])+
  show "allowed_change pf req s (snd (graph_query pf q s))" "allowed_change pf req s (snd (semantic_search_endpoint pf z s))"
    by (simp_all add: graph_query_def semantic_search_endpoint_def invalid_def allowed_refl authorize_graph_read_def
        decided reading_store_state)
  show "allowed_change pf req s (snd (graph_stats pf s))"
    unfolding graph_stats_def by (rule allowed [OF probing_store_state]) (simp add: case_prod_unfold Let_def)
  show "allowed_change pf req s (snd (healthz pf s))"
    using probing_store_state [of "\<lambda>st s. let (probe, s) = store_readiness_of pf st s in
        (Inr (probe, if rd_ready (fst probe) then Some (store_stats_of st) else None), s)" pf s]
    by (auto simp: healthz_def case_prod_unfold Let_def now_def same_portal_def intro!: allowed)
qed

lemma handlers_allowed:
  fixes s :: "('g, 's) api_state_scheme"
  shows "allowed_change pf (Governance g) s (snd (route_governance pf g s))"
    "allowed_change pf (Catalog_read r) s (snd (route_catalog pf r s))"
    "allowed_change pf (Catalog_change c) s (snd (route_change pf c s))"
    "allowed_change pf (Access_call a) s (snd (route_access pf a s))"
    "allowed_change pf (Ontology_call i) s (snd (route_ontology pf i s))"
    "allowed_change pf (Graph_call w) s (snd (route_graph pf w s))"
proof -
  have clock: "allowed_change pf req s t" if "only_clock s t" for req and t :: "('g, 's) api_state_scheme"
    using that by (auto simp: allowed_change_def opened_store_def elim!: only_clockE)
  show "allowed_change pf (Governance g) s (snd (route_governance pf g s))"
    by (cases g) (simp_all add: allowed_refl clock only_clock_handlers only_clock_oidc only_clock_pack graph_reads_allowed)
  show "allowed_change pf (Catalog_read r) s (snd (route_catalog pf r s))"
    by (cases r) (simp_all add: allowed_refl)
  show "allowed_change pf (Catalog_change c) s (snd (route_change pf c s))"
    by (cases c) (simp_all add: catalog_handlers_allowed)
  show "allowed_change pf (Access_call a) s (snd (route_access pf a s))"
    by (cases a) (simp_all add: allowed_evidence only_evidence_handlers only_evidence_llm_search)
  have propose: "allowed_change pf (Ontology_call (Propose p)) s (snd (ontology_patch_create p s))" for p
    by (simp add: allowed_change_def opened_store_def ontology_patch_create_def propose_patch_def patch_request_def uuid4_def now_def Let_def)
  have review: "allowed_change pf (Ontology_call (Review k p)) s (snd (ontology_patch_review k p s))" for k p
    by (auto simp: allowed_change_def opened_store_def ontology_patch_review_def review_patch_def patch_request_def now_def Let_def
        split: option.split)
  show "allowed_change pf (Ontology_call i) s (snd (route_ontology pf i s))"
    by (cases i) (simp_all add: allowed_refl propose review graph_reads_allowed)
  show "allowed_change pf (Graph_call w) s (snd (route_graph pf w s))"
    by (cases w) (simp_all add: graph_handlers_allowed graph_reads_allowed)
qed

lemma handle_allowed: "allowed_change pf req s (snd (handle pf req s))"
  by (cases req) (simp_all add: handlers_allowed)

section \<open>The invariant of the portal\<close>

text \<open>The invariants of the components, together.\<close>

definition backend_ok :: "'g built_store \<Rightarrow> bool" where
  "backend_ok st = (case st of Memory_backend m \<Rightarrow> store_ok m | Postgres_backend _ \<Rightarrow> True)"

definition portal_inv :: "('g, 's) api_state_scheme \<Rightarrow> bool" where
  "portal_inv s \<longleftrightarrow> catalog_inv s \<and> list_all patch_ok (ontology_patches s) \<and> dict_ok (concept_index s)
     \<and> buffers_bounded s \<and> pred_option backend_ok (api_store s)"

lemma on_store_ok:
  assumes "backend_ok st" and "\<And>m. store_ok m \<Longrightarrow> store_ok (snd (f m))"
  shows "backend_ok (snd (on_store f g st))"
  using assms by (cases st) (simp_all add: backend_ok_def on_store_def)

lemma store_writes_ok:
  assumes "backend_ok st"
  shows "backend_ok (snd (store_upsert_node age n kind label props content st))"
    "backend_ok (snd (store_upsert_edge age edge_type a b props st))"
    "backend_ok (snd (store_upsert_concept age r st))"
  unfolding store_upsert_node_def store_upsert_edge_def store_upsert_concept_def
  by (rule on_store_ok [OF assms]; simp add: store_ok_upsert_node store_ok_upsert_edge store_ok_upsert_concept)+

lemma snd_drop_value: "snd (drop_value r) = snd r"
  by (cases r) (simp add: drop_value_def split: sum.split)

lemma run_seed_calls_ok: "backend_ok st \<Longrightarrow> backend_ok (snd (run_seed_calls age cs st))"
proof (induction cs arbitrary: st)
  case (Cons c cs)
  have "backend_ok (snd (run_seed_call age c st))"
    using Cons.prems by (cases c) (simp_all add: snd_drop_value store_writes_ok)
  then show ?case using Cons.IH by (cases "run_seed_call age c st") (auto split: sum.split)
qed simp

lemma seed_store_ok: "backend_ok st \<Longrightarrow> backend_ok (snd (seed_store age s st))"
  using run_seed_calls_ok [of st age "seed_calls s"] by (auto simp: seed_store_def split: sum.split prod.split)

lemma fresh_store_ok: "fresh_store pf st \<Longrightarrow> pred_option backend_ok st"
  by (cases st) (auto simp: fresh_store_def backend_ok_def store_ok_empty split: built_store.splits)

lemma writing_store_ok:
  fixes s :: "('g, 's) api_state_scheme"
  assumes "pred_option backend_ok (api_store s)" and "\<And>st. backend_ok st \<Longrightarrow> backend_ok (snd (f st))"
  shows "pred_option backend_ok (api_store (snd (writing_store pf f s)))"
  unfolding writing_store_def
proof (cases rule: with_store_cases [of pf "\<lambda>st s. let (r, st) = f st in (r, s\<lparr>api_store := Some st\<rparr>)" s])
  case (failed e n)
  then show "pred_option backend_ok (api_store (snd
      (with_store pf (\<lambda>st s. let (r, st) = f st in (r, s\<lparr>api_store := Some st\<rparr>)) s)))" by simp
next
  case (opened store n)
  then have "backend_ok store" using assms(1) fresh_store_ok [of pf "Some store"] by auto
  then show "pred_option backend_ok (api_store (snd
      (with_store pf (\<lambda>st s. let (r, st) = f st in (r, s\<lparr>api_store := Some st\<rparr>)) s)))"
    using opened(1) assms(2) by (simp add: case_prod_unfold Let_def)
qed

text \<open>The invariant depends on the components' parts of the state only.\<close>

lemma catalog_inv_cong:
  "catalog_data t = catalog_data s \<Longrightarrow> schema_history t = schema_history s \<Longrightarrow> catalog_inv t = catalog_inv s"
  by (simp add: catalog_inv_def history_of_def split: option.split)

lemma buffers_bounded_cong:
  "request_observations t = request_observations s \<Longrightarrow> export_errors t = export_errors s
   \<Longrightarrow> buffers_bounded t = buffers_bounded s"
  by (simp add: buffers_bounded_def)

lemma opened_store_ok:
  "opened_store pf s t \<Longrightarrow> pred_option backend_ok (api_store s) \<Longrightarrow> pred_option backend_ok (api_store t)"
  using fresh_store_ok [of pf "api_store t"] by (auto simp: opened_store_def)

text \<open>A request that changes neither the catalog nor the patches nor the graph keeps the invariant; the
  others keep it component by component.\<close>

lemma allowed_change_inv:
  assumes "allowed_change pf req s t" and "portal_inv s"
    and "catalog_writer s req \<noteq> None \<Longrightarrow> catalog_inv t"
    and "graph_writer req \<noteq> None \<Longrightarrow> pred_option backend_ok (api_store t)"
    and "patch_request req \<Longrightarrow> list_all patch_ok (ontology_patches t)"
  shows "portal_inv t"
  using assms catalog_inv_cong [of t s] buffers_bounded_cong [of t s] opened_store_ok [of pf s t]
  by (auto simp: allowed_change_def portal_inv_def)

lemma catalog_inv_evaluate: "catalog_inv (snd (evaluate subject resource action purpose s)) = catalog_inv s"
  by (rule catalog_inv_cong) (simp_all add: frame_simps)

lemma authorized_catalog_inv:
  assumes "catalog_inv s" and "\<And>d t. catalog_inv t \<Longrightarrow> catalog_inv (snd (body d t))"
  shows "catalog_inv (snd (authorized subject resource action purpose body s))"
  by (cases rule: authorized_cases [of subject resource action purpose s body])
     (simp_all add: assms catalog_inv_evaluate)

lemma route_change_inv: "catalog_inv s \<Longrightarrow> catalog_inv (snd (route_change pf c s))"
  by (cases c)
     (auto simp: create_dataset_def publish_catalog_dataset_def patch_catalog_dataset_def deprecate_catalog_dataset_def
       Let_def register_dataset_inv patch_dataset_inv publish_dataset_inv deprecate_dataset_inv
       intro!: authorized_catalog_inv split: sum.split)

lemma route_ontology_patches:
  assumes "list_all patch_ok (ontology_patches s)"
  shows "list_all patch_ok (ontology_patches (snd (ontology_patch_create payload s)))"
    "list_all patch_ok (ontology_patches (snd (ontology_patch_review k payload s)))"
  using patch_op_ok [OF assms, of "patch_op.Propose c g r" for c g r] patch_op_ok [OF assms, of "patch_op.Review i d r c" for i d r c]
    assms
  by (auto simp: ontology_patch_create_def ontology_patch_review_def Let_def)

lemma authorized_write_ok:
  fixes s :: "('g, 's) api_state_scheme"
  assumes "pred_option backend_ok (api_store s)"
    and "\<And>d t. pred_option backend_ok (api_store t) \<Longrightarrow> pred_option backend_ok (api_store (snd (body d t)))"
  shows "pred_option backend_ok (api_store (snd (authorize_graph_write subject resource body s)))"
  unfolding authorize_graph_write_def
  using only_evidence_portal(2) [OF only_evidence_evaluate [of s subject resource "''create''" "''graph''"]] assms
  by (cases rule: authorized_cases [of subject resource "''create''" "''graph''" s body]) simp_all

lemma route_graph_ok:
  fixes s :: "('g, 's) api_state_scheme"
  assumes "pred_option backend_ok (api_store s)" and "graph_writer (Graph_call w) \<noteq> None"
  shows "pred_option backend_ok (api_store (snd (route_graph pf w s)))"
  using assms
  by (cases w)
     (auto simp: graph_writer_def ingest_concept_def ingest_graph_node_def ingest_graph_edge_def invalid_def
       intro!: authorized_write_ok writing_store_ok store_writes_ok)

lemma handle_inv: "portal_inv s \<Longrightarrow> portal_inv (snd (handle pf req s))"
proof (rule allowed_change_inv [OF handle_allowed])
  assume inv: "portal_inv s"
  show "portal_inv s" by (rule inv)
  show "catalog_writer s req \<noteq> None \<Longrightarrow> catalog_inv (snd (handle pf req s))"
    using inv route_change_inv by (cases req) (auto simp: catalog_writer_def portal_inv_def)
  show "graph_writer req \<noteq> None \<Longrightarrow> pred_option backend_ok (api_store (snd (handle pf req s)))"
    using inv route_graph_ok by (cases req) (auto simp: graph_writer_def portal_inv_def)
  show "patch_request req \<Longrightarrow> list_all patch_ok (ontology_patches (snd (handle pf req s)))"
    using inv route_ontology_patches
    by (cases req) (auto simp: patch_request_def portal_inv_def split: ontology_call.splits)
qed

text \<open>The states of a process: the modules' start, the seeding at import, a further seeding at startup,
  and requests in any order.\<close>

definition started_portal :: "'g platform \<Rightarrow> ('g, 's) api_state_scheme \<Rightarrow> ('g, 's) api_state_scheme" where
  "started_portal pf s =
     (let s = load_ontology (started_catalog s)
      in bootstrap_graph_engine pf (s\<lparr>request_observations := [], export_errors := [], api_store := None\<rparr>))"

inductive portal_reachable :: "'g platform \<Rightarrow> ('g, 's) api_state_scheme \<Rightarrow> bool" for pf where
  started: "portal_reachable pf (started_portal pf s)"
| seeded: "portal_reachable pf s \<Longrightarrow> portal_reachable pf (bootstrap_graph_engine pf s)"
| served: "portal_reachable pf s \<Longrightarrow>
    portal_reachable pf (snd (serve pf latency_ms http_method route headers req s))"

lemma same_portal_inv:
  assumes "same_portal s t" "portal_inv s" "pred_option backend_ok (api_store t)"
  shows "portal_inv t"
  using assms catalog_inv_cong [of t s] buffers_bounded_cong [of t s] by (simp add: portal_inv_def same_portal_def)

lemma bootstrap_inv: "portal_inv s \<Longrightarrow> portal_inv (bootstrap_graph_engine pf s)"
  unfolding bootstrap_graph_engine_def
  by (rule same_portal_inv [OF writing_store_state]) (auto simp: portal_inv_def intro: writing_store_ok seed_store_ok)

lemma started_inv: "portal_inv (started_portal pf s)"
proof -
  let ?s = "(load_ontology (started_catalog s))\<lparr>request_observations := [], export_errors := [], api_store := None\<rparr>"
  have "catalog_inv ?s = catalog_inv (started_catalog s)" by (rule catalog_inv_cong) (simp_all add: load_ontology_def)
  then have "portal_inv ?s"
    by (simp add: portal_inv_def catalog_inv_started load_ontology_def dict_ok_build_index buffers_bounded_def)
  then show ?thesis by (simp add: started_portal_def bootstrap_inv)
qed

text \<open>The middleware touches the clock, the identifiers and the buffers.\<close>

lemma request_id_state: "\<exists>n. snd (request_id_from_headers env headers s) = s\<lparr>uuid_tick := n\<rparr>"
proof -
  have "\<exists>n. s = s\<lparr>uuid_tick := n\<rparr>" by (rule exI [of _ "uuid_tick s"]) simp
  then show ?thesis
    by (auto simp: request_id_from_headers_def uuid4_def Let_def split: option.split list.split)
qed

lemma record_observation_frame:
  fixes s :: "('g, 's) api_state_scheme"
  shows "catalog_data (record_request_observation env deliver ob export s) = catalog_data s"
    "schema_history (record_request_observation env deliver ob export s) = schema_history s"
    "ontology_patches (record_request_observation env deliver ob export s) = ontology_patches s"
    "concept_index (record_request_observation env deliver ob export s) = concept_index s"
    "api_store (record_request_observation env deliver ob export s) = api_store s"
  by (simp_all add: record_request_observation_def record_observability_export_error_def now_def Let_def
      split: option.split)

lemma portal_inv_ticks [simp]:
  fixes s :: "('g, 's) api_state_scheme"
  shows "portal_inv (s\<lparr>uuid_tick := n\<rparr>) = portal_inv s" "portal_inv (s\<lparr>clock_tick := n\<rparr>) = portal_inv s"
  using catalog_inv_cong [of "s\<lparr>uuid_tick := n\<rparr>" s] catalog_inv_cong [of "s\<lparr>clock_tick := n\<rparr>" s]
  by (simp_all add: portal_inv_def buffers_bounded_def)

lemma portal_inv_recorded:
  fixes s :: "('g, 's) api_state_scheme"
  assumes "portal_inv s"
  shows "portal_inv (record_request_observation env deliver ob export s)"
  using assms catalog_inv_cong [of "record_request_observation env deliver ob export s" s]
  by (simp add: portal_inv_def record_observation_frame record_observation_bounded)

lemma serve_inv:
  assumes "portal_inv s"
  shows "portal_inv (snd (serve pf latency_ms http_method route headers req s))"
proof -
  obtain i s1 where i: "request_id_from_headers (pf_env pf) headers s = (i, s1)" by fastforce
  obtain r s2 where h: "handle pf req s1 = (r, s2)" by fastforce
  have "portal_inv s1" using request_id_state [of "pf_env pf" headers s] i assms by auto
  then have "portal_inv s2" using handle_inv [of s1 pf req] h by simp
  then show ?thesis
    by (simp add: serve_def record_request_observability_def build_request_observation_def now_def i h Let_def
        portal_inv_recorded split: sum.split)
qed

section \<open>Properties\<close>


text \<open>
  C3.  Whatever requests a started process serves, in whatever order and with whatever outcome, the
  catalog and its histories stay well-formed, every patch is reviewed exactly when it is settled, the
  concept index has each concept once, the in-memory graph satisfies its invariant, and the
  observation buffers stay within 500 and 50 entries.
\<close>

theorem portal_invariant:
  assumes "portal_reachable pf s"
  shows "catalog_inv s \<and> list_all patch_ok (ontology_patches s) \<and> dict_ok (concept_index s)
    \<and> length (request_observations s) \<le> 500 \<and> length (export_errors s) \<le> 50
    \<and> (case api_store s of Some (Memory_backend m) \<Rightarrow> store_ok m | _ \<Rightarrow> True)"
proof -
  from assms have "portal_inv s"
    by (induction rule: portal_reachable.induct) (simp_all add: started_inv bootstrap_inv serve_inv)
  then show ?thesis
    by (auto simp: portal_inv_def buffers_bounded_def backend_ok_def split: option.splits built_store.splits)
qed

text \<open>A process with nothing around it: no environment, no database, no keys.\<close>

definition closed_platform :: "unit platform" where
  "closed_platform =
     \<lparr>pf_env = (\<lambda>_. None),
      pf_oidc = \<lparr>getenv = (\<lambda>_. None), json_loads = (\<lambda>_. Inl (ValueError [])),
        parse_float = (\<lambda>_. Inl (ValueError [])), url_body = (\<lambda>_ _. Inl (RuntimeError []))\<rparr>,
      pf_jwt = \<lparr>get_unverified_header = (\<lambda>_. Inl (ValueError [])), pyjwk_key = (\<lambda>_. Inl (ValueError [])),
        jwt_decode = (\<lambda>_ _ _ _ _. Inl (ValueError []))\<rparr>,
      pf_digest = map of_char,
      pf_open_postgres = (\<lambda>_ _. (\<lparr>ps_digest = map of_char, ps_dimension = 256, ps_graph_name = ''sdp'',
        ps_traversal_max_depth = 6, ps_nodes = [], ps_edges = [], ps_concepts = [], ps_embeddings = [], ps_graph = ()\<rparr>,
        False, None)),
      pf_probe = (\<lambda>_. (False, None)), pf_age = (\<lambda>_ _ _. Inl (RuntimeError [])), pf_distance = (\<lambda>_ _. 0),
      pf_bootstrap = load_bootstrap (\<lambda>_. None),
      pf_config = \<lparr>cfg_cors_allow_origins = [], cfg_cors_allow_methods = [], cfg_cors_allow_headers = [],
        cfg_embedding_dimension = 256, cfg_graph_name = ''sdp'', cfg_semantic_search_default_limit = 10,
        cfg_traversal_max_depth = 6, cfg_graph_backend = ''auto'', cfg_source = ''default''\<rparr>,
      pf_sink = (\<lambda>_ _. None), pf_parse_create = (\<lambda>_. Inl []), pf_parse_patch = (\<lambda>_. Inl []),
      pf_parse_draft = (\<lambda>_. Inl []), pf_parse_query = (\<lambda>_. Inl [])\<rparr>"

definition empty_process :: "unit api_state" where
  "empty_process =
     \<lparr>uuid_source = show_nat, clock_source = int, iso_text = show_int, stamp_text = show_int,
      str_other = (\<lambda>_. []), uuid_tick = 0, clock_tick = 0, configured_store = None,
      policy_decision_log = [], catalog_data = [], audit_log = [], schema_history = [],
      concept_index = [], ontology_patches = [], request_observations = [], export_errors = [], api_store = None\<rparr>"

theorem portal_invariant_witness:
  "case snd (serve closed_platform 0 ''POST'' ''/catalog/datasets'' [] (Catalog_change (Create []))
      (snd (serve closed_platform 0 ''GET'' ''/healthz'' [] (Governance Healthz)
        (started_portal closed_platform empty_process)))) of s \<Rightarrow>
     catalog_inv s \<and> list_all patch_ok (ontology_patches s) \<and> length (request_observations s) \<le> 500"
  using portal_invariant [OF portal_reachable.served [OF portal_reachable.served [OF portal_reachable.started
      [of closed_platform empty_process]]]]
  by simp


text \<open>The labels of a traversal are checked in order: the first that is none decides.\<close>

definition label_error :: "pystr \<Rightarrow> py_exn" where
  "label_error t =
     (if matches_age_identifier t then KeyError [the (find (\<lambda>c. c \<notin> set age_label_chars) (upper t))]
      else ValueError ''invalid relationship type'')"

lemma check_labels_cases:
  "check_labels ts =
     (case find (isl \<circ> relationship_label) ts of None \<Rightarrow> Inr () | Some t \<Rightarrow> Inl (label_error t))"
  by (induction ts) (auto simp: relationship_label_def label_error_def split: option.split)

text \<open>
  The answers of a graph query over the in-memory store, in the order of the checks: 422 when the
  request breaks a constraint of its model, 403 when the policy denies the search, 404 when there is no
  start node, then 400 for the first relationship type that is malformed, or 404 when that one ends with
  a line break, and 200 otherwise.
\<close>

theorem graph_query_status:
  fixes s :: "('g, 's) api_state_scheme"
  shows "case api_store s of
     Some (Memory_backend m) \<Rightarrow>
       fst (handle pf (Graph_call (Graph_query q)) s) = Inr (
         if \<not> traversal_request_valid q then 422
         else if \<not> has_reader_role (tq_actor q) then 403
         else if get_node (tq_start_id q) m = None then 404
         else (case find (isl \<circ> relationship_label) (case tq_edge_types q of None \<Rightarrow> [] | Some ts \<Rightarrow> ts) of
             None \<Rightarrow> 200 | Some t \<Rightarrow> if matches_age_identifier t then 404 else 400))
   | _ \<Rightarrow> True"
proof -
  have read: "fst (reading_store pf f t) = f st" if "api_store t = Some st"
    for t :: "('g, 's) api_state_scheme" and st and f :: "'g built_store \<Rightarrow> 'x result"
    using that by (simp add: reading_store_def with_store_def get_store_def)
  have effect: "pd_effect (fst (evaluate subject resource ''search'' purpose s)) = ''allow'' \<longleftrightarrow> has_reader_role subject"
    for subject resource purpose
    by (simp add: evaluate_effect decision_for_def lower_actions)
  show ?thesis
  proof (cases "api_store s")
    case (Some st)
    show ?thesis
    proof (cases st)
      case (Memory_backend m)
      let ?body = "\<lambda>_ s. catching (value_400 \<circ> key_404)
          (reading_store pf (store_traverse (pf_age pf) (tq_start_id q) (tq_edge_types q) (tq_direction q) (tq_max_depth q)) s)"
      have store: "api_store (snd (evaluate (tq_actor q) (tq_start_id q) ''search'' ''graph'' s)) = Some (Memory_backend m)"
        using only_evidence_portal(2) [OF only_evidence_evaluate] Some Memory_backend by metis
      show ?thesis
        using Some Memory_backend
        by (cases rule: authorized_cases [of "tq_actor q" "tq_start_id q" "''search''" "''graph''" s ?body])
           (auto simp: graph_query_def invalid_def unprocessable_def authorize_graph_read_def answer_def effect read
             store fst_catching store_traverse_def traverse_def get_node_def check_labels_cases http_def value_400_def
             key_404_def label_error_def Let_def split: option.split)
    qed (simp add: Some)
  qed simp
qed

end
