(* ===== verification/Catalog_Progress.thy ===== *)
theory Catalog_Progress
  imports Catalog_Invariant
begin

text \<open>
  Which datasets can come to be published (\<open>src/sdp/catalog.py\<close>).  A publication needs every
  required field, and \<open>patch_dataset\<close> can supply all of them but two: a patch has no owner and no
  distributions.
\<close>

section \<open>Runs of mutations\<close>

primrec run_mutations :: "mutation list \<Rightarrow> 's catalog_state_scheme \<Rightarrow> 's catalog_state_scheme" where
  "run_mutations [] s = s"
| "run_mutations (m # ms) s = run_mutations ms (snd (run_mutation m s))"

definition published_after :: "pystr \<Rightarrow> mutation list \<Rightarrow> 's catalog_state_scheme \<Rightarrow> bool" where
  "published_after k ms s \<longleftrightarrow>
     pred_option (\<lambda>ds. ds_status ds = ''published'') (get_dataset k (run_mutations ms s))"

text \<open>What no mutation of an existing dataset supplies.\<close>

definition anchored :: "dataset \<Rightarrow> bool" where
  "anchored ds \<longleftrightarrow> ds_owner ds \<noteq> [] \<and> ds_distributions ds \<noteq> []"

section \<open>What a mutation leaves\<close>

text \<open>The dataset after a mutation: the same owner and distributions, and published only if it was
  or if it has both.\<close>

definition succeeds_to :: "dataset \<Rightarrow> dataset \<Rightarrow> bool" where
  "succeeds_to old new \<longleftrightarrow> ds_owner new = ds_owner old \<and> ds_distributions new = ds_distributions old
     \<and> (ds_status new = ''published'' \<longrightarrow> ds_status old = ''published'' \<or> anchored old)"

lemma succeeds_to_refl [simp]: "succeeds_to ds ds"
  by (simp add: succeeds_to_def)

lemma succeeds_to_trans: "succeeds_to a b \<Longrightarrow> succeeds_to b c \<Longrightarrow> succeeds_to a c"
  by (auto simp: succeeds_to_def anchored_def)

lemma recompute_scores_kept [simp]:
  "ds_owner (recompute_scores ds) = ds_owner ds" "ds_distributions (recompute_scores ds) = ds_distributions ds"
  "ds_status (recompute_scores ds) = ds_status ds"
  by (simp_all add: recompute_scores_def Let_def)

lemma with_status_kept:
  assumes "with_status st old t = Inr ds"
  shows "ds_owner ds = ds_owner old \<and> ds_distributions ds = ds_distributions old \<and> ds_status ds = st"
  using assms unfolding with_status_def by (fastforce split: sum.splits)

lemma patched_dataset_kept:
  assumes "patched_dataset p old t = Inr ds"
  shows "ds_owner ds = ds_owner old \<and> ds_distributions ds = ds_distributions old \<and> ds_status ds = ds_status old"
  using assms unfolding patched_dataset_def by (fastforce simp: patched_def split: sum.splits if_splits)

lemma get_dataset_simps [simp]:
  "get_dataset k (audit_dataset ds actor action d details s) = get_dataset k s"
  "get_dataset k (store_dataset j ds s) = (if k = j then Some ds else get_dataset k s)"
  "get_dataset k (snd (now s)) = get_dataset k s"
  by (simp_all add: get_dataset_def store_dataset_simps dict_get_set)

lemma get_dataset_now: "now s = (t, w) \<Longrightarrow> get_dataset k w = get_dataset k s"
  using get_dataset_simps(3) [of k s] by simp

lemma missing_metadata_anchored: "missing_metadata ds = [] \<Longrightarrow> anchored ds"
  by (auto simp: missing_metadata_def anchored_def split: if_splits)

lemma run_mutation_succeeds:
  assumes "get_dataset k s = Some old"
  shows "\<exists>new. get_dataset k (snd (run_mutation m s)) = Some new \<and> succeeds_to old new"
proof (cases m)
  case (Register payload actor d)
  then show ?thesis using assms
    by (auto simp: register_dataset_def Let_def snd_commit_dataset case_prod_unfold registered_dataset_fields
        get_dataset_def store_dataset_simps dict_get_set recompute_scores_def split: sum.split)
next
  case (Patch j p actor d)
  then show ?thesis using assms
    by (auto simp: patch_dataset_def get_dataset_or_404_def snd_commit_dataset case_prod_unfold succeeds_to_def Let_def
        dest: patched_dataset_kept split: sum.split option.split)
next
  case (Publish j actor d)
  then show ?thesis using assms
    by (auto simp: publish_dataset_def get_dataset_or_404_def snd_commit_dataset case_prod_unfold succeeds_to_def
        validate_metadata_def Let_def dest: with_status_kept missing_metadata_anchored split: sum.split option.split)
next
  case (Deprecate j actor reason d)
  then show ?thesis using assms
    by (auto simp: deprecate_dataset_def get_dataset_or_404_def snd_commit_dataset case_prod_unfold succeeds_to_def Let_def
        dest: with_status_kept split: sum.split option.split)
qed

lemma run_mutations_succeed:
  "get_dataset k s = Some old \<Longrightarrow>
   \<exists>new. get_dataset k (run_mutations ms s) = Some new \<and> succeeds_to old new"
proof (induction ms arbitrary: s old)
  case (Cons m ms)
  obtain new where "get_dataset k (snd (run_mutation m s)) = Some new" "succeeds_to old new"
    using run_mutation_succeeds [OF Cons.prems] by blast
  then show ?case using Cons.IH [of "snd (run_mutation m s)" new] succeeds_to_trans by fastforce
qed simp

section \<open>The way to publication\<close>

text \<open>A patch that fills every field it can.\<close>

definition full_patch :: dataset_patch_request where
  "full_patch =
     \<lparr>pr_title = Some (Some ''t''), pr_description = Some (Some ''d''), pr_steward = Some (Some ''s''),
      pr_domain = Some (Some ''d''), pr_source_system = Some (Some ''s''), pr_sensitivity = Some (Some ''low''),
      pr_update_frequency = Some (Some ''daily''), pr_quality_score = None, pr_freshness_score = None,
      pr_tags = None, pr_terms = None, pr_related_datasets = None,
      pr_schema = Some (Some [\<lparr>col_name = ''id'', col_datatype = ''varchar'', col_nullable_ratio = 0,
        col_distinct_ratio = 1, col_quality_issues = [], col_pii = False, col_quality_issues_set = False,
        col_pii_set = False\<rparr>]),
      pr_lineage_inputs = None, pr_lineage_outputs = None, pr_mappings = None, pr_profile = None\<rparr>"

lemma versions_bump:
  assumes "catalog_inv s" and "get_dataset k s = Some old"
  shows "\<exists>v. bump_version (ds_version old) = Inr v" and "\<exists>v. bump_version (ds_schema_version old) = Inr v"
proof -
  let ?h = "history_of s k"
  have h: "history_ok ?h" "describes (last ?h) old"
    using catalog_inv_dataset [OF assms(1)] assms(2) by (auto simp: get_dataset_def)
  have ne: "?h \<noteq> []" using h(1) by (simp add: history_ok_def)
  obtain vs where vs: "map sn_schema_version ?h = map version_text vs"
    using history_schema_versions [OF h(1)] by blast
  have "ds_version old = last (map sn_version ?h)" "ds_schema_version old = last (map sn_schema_version ?h)"
    using h(2) ne by (simp_all add: last_map describes_def)
  moreover have "vs \<noteq> []" using vs ne by auto
  ultimately have "ds_version old = version_text (length ?h - 1)" "ds_schema_version old = version_text (last vs)"
    unfolding vs history_versions [OF h(1)] using ne by (simp_all add: last_map)
  then show "\<exists>v. bump_version (ds_version old) = Inr v" "\<exists>v. bump_version (ds_schema_version old) = Inr v"
    by simp_all
qed

lemma full_patch_completes:
  assumes inv: "catalog_inv s" and old: "get_dataset k s = Some old" and anchored: "anchored old"
  shows "\<exists>new. get_dataset k (snd (run_mutation (Patch k full_patch actor d) s)) = Some new
    \<and> missing_metadata new = []"
proof -
  obtain t w where n: "now s = (t, w)" by (cases "now s")
  obtain v sv where b: "bump_version (ds_version old) = Inr v" "bump_version (ds_schema_version old) = Inr sv"
    using versions_bump [OF inv old] by blast
  let ?new = "(patched full_patch old)\<lparr>ds_updated_at := t, ds_schema_version := sv, ds_version := v\<rparr>"
  have "dataset_valid old" using catalog_inv_dataset [OF inv] old by (simp add: get_dataset_def)
  then have "dataset_valid ?new"
    by (simp add: dataset_valid_def patched_def full_patch_def new_value_def column_valid_def in_unit_def)
  then have "patched_dataset full_patch old t = Inr (recompute_scores ?new)"
    using b by (simp add: patched_dataset_def model_validate_def full_patch_def)
  moreover have "missing_metadata ?new = []"
    using anchored by (simp add: missing_metadata_def patched_def full_patch_def new_value_def anchored_def)
  ultimately show ?thesis
    using old n by (simp add: patch_dataset_def get_dataset_or_404_def snd_commit_dataset)
qed

lemma publish_completed:
  assumes inv: "catalog_inv s" and old: "get_dataset k s = Some old" and full: "missing_metadata old = []"
  shows "published_after k [Publish k actor d] s"
proof -
  obtain t w where n: "now s = (t, w)" by (cases "now s")
  obtain ds where ds: "with_status ''published'' old t = Inr ds" using with_status_succeeds [OF inv old] by blast
  show ?thesis
    using old n ds full with_status_kept [OF ds]
    by (simp add: published_after_def publish_dataset_def get_dataset_or_404_def validate_metadata_def Let_def
        snd_commit_dataset)
qed

section \<open>Properties\<close>

text \<open>
  C14.  From every state the mutations reach, a dataset can be brought to publication exactly when it
  is published already or has an owner and a distribution; then two mutations are enough, a patch
  and a publication.  A dataset registered without distributions, which the request allows, never
  becomes published, whatever is done to it.
\<close>

theorem publication_reachable_iff:
  assumes r: "catalog_reachable seeds s" and seeds: "list_all seed_ok seeds"
    and old: "get_dataset k s = Some old"
  shows "((\<exists>ms. published_after k ms s) \<longleftrightarrow>
      ds_status old = ''published'' \<or> ds_owner old \<noteq> [] \<and> ds_distributions old \<noteq> [])
    \<and> ((\<exists>ms. published_after k ms s) \<longleftrightarrow> (\<exists>ms. length ms \<le> 2 \<and> published_after k ms s))"
proof -
  have inv: "catalog_inv s" by (rule catalog_reachable_inv [OF r seeds])
  have only: "ds_status old = ''published'' \<or> anchored old" if "published_after k ms s" for ms
    using that run_mutations_succeed [OF old, of ms] by (auto simp: published_after_def succeeds_to_def)
  have two: "\<exists>ms. length ms \<le> 2 \<and> published_after k ms s" if anch: "anchored old"
  proof -
    let ?s = "snd (run_mutation (Patch k full_patch [] None) s)"
    obtain new where "get_dataset k ?s = Some new" "missing_metadata new = []"
      using full_patch_completes [OF inv old anch] by blast
    then have "published_after k [Publish k [] None] ?s" by (rule publish_completed [OF run_mutation_inv [OF inv]])
    then show ?thesis
      by (intro exI [of _ "[Patch k full_patch [] None, Publish k [] None]"]) (simp add: published_after_def)
  qed
  have "published_after k [] s" if "ds_status old = ''published''"
    using that old by (simp add: published_after_def)
  then show ?thesis
    using only two unfolding anchored_def [symmetric] by (metis le0 list.size(3))
qed

theorem publication_reachable_iff_witness:
  "(\<exists>ms. published_after ''d1'' ms sample_catalog)
   \<and> (let s = load_catalog [sample_dataset\<lparr>ds_distributions := []\<rparr>] empty_portal in
      get_dataset ''d1'' s \<noteq> None \<and> \<not> (\<exists>ms. published_after ''d1'' ms s))"
proof -
  let ?s = "load_catalog [sample_dataset\<lparr>ds_distributions := []\<rparr>] empty_portal"
  have seed: "list_all seed_ok [sample_dataset\<lparr>ds_distributions := []\<rparr>]" by code_simp
  have "map_option (\<lambda>ds. (ds_owner ds, ds_distributions ds \<noteq> [])) (get_dataset ''d1'' sample_catalog)
      = Some (''crm'', True)" by code_simp
  then obtain a where a: "get_dataset ''d1'' sample_catalog = Some a" "ds_owner a \<noteq> []" "ds_distributions a \<noteq> []"
    by auto
  have "map_option (\<lambda>ds. (ds_status ds = ''published'', ds_distributions ds)) (get_dataset ''d1'' ?s)
      = Some (False, [])" by code_simp
  then obtain b where b: "get_dataset ''d1'' ?s = Some b" "ds_status b \<noteq> ''published''" "ds_distributions b = []"
    by auto
  show ?thesis
    using publication_reachable_iff [OF sample_catalog_reachable sample_seed_ok a(1)] a
      publication_reachable_iff [OF catalog_reachable.loaded seed b(1)] b by (simp add: Let_def)
qed

end
