(* ===== verification/Migrate.thy ===== *)
theory Migrate
  imports Graph_Seed
begin

text \<open>
  The migration run (\<open>main\<close> of \<open>migrations/run_migrations.py\<close>): the scripts with the configured
  embedding dimension, the default configuration, the graph seed, one after the other over one
  database, and the agreement of the dimension in the schema with that of the vectors stored.

  The SQL engine is a parameter: \<open>execute\<close> runs one statement on the database.  \<open>files\<close> are the
  scripts found in the directory, a name and a text each.
\<close>

section \<open>The run\<close>

text \<open>The database as the run sees it: what only the scripts touch, the table \<open>config_entries\<close> once it
  exists, and the tables of the graph with its engine's graph.\<close>

record ('d, 'g) migrated_database =
  db_objects :: 'd
  db_config :: "config_entry list option"
  db_graph :: "'g postgres_store"

text \<open>The process: its database, the caches of the configuration and the active graph store.\<close>

record ('d, 'g) migration =
  mg_db :: "('d, 'g) migrated_database"
  mg_cache :: config_cache
  mg_store :: "'g built_store option"

definition config_of_run ::
  "(pystr \<Rightarrow> pyval result) \<Rightarrow> (pystr \<Rightarrow> pystr option) \<Rightarrow> 's world_scheme \<Rightarrow> ('d, 'g) migration
   \<Rightarrow> app_config result \<times> ('d, 'g) migration" where
  "config_of_run json_parse env w m =
     (let (r, c) = get_app_config json_parse env (\<lambda>_. db_config (mg_db m)) w (mg_cache m)
      in (r, m\<lparr>mg_cache := c\<rparr>))"

definition embedding_dimension ::
  "(pystr \<Rightarrow> pyval result) \<Rightarrow> (pystr \<Rightarrow> pystr option) \<Rightarrow> 's world_scheme \<Rightarrow> ('d, 'g) migration
   \<Rightarrow> int \<times> ('d, 'g) migration" where
  "embedding_dimension json_parse env w m =
     (case config_of_run json_parse env w m of
        (Inl _, m) \<Rightarrow> (128, m)
      | (Inr cfg, m) \<Rightarrow> (cfg_embedding_dimension cfg, m))"

type_synonym ('d, 'g) sql_engine =
  "pystr \<Rightarrow> ('d, 'g) migrated_database \<Rightarrow> ('d, 'g) migrated_database result"

definition migrate_schema ::
  "('d, 'g) sql_engine \<Rightarrow> (pystr \<times> pystr) list \<Rightarrow> (pystr \<Rightarrow> pyval result) \<Rightarrow> (pystr \<Rightarrow> pystr option)
   \<Rightarrow> 's world_scheme \<Rightarrow> ('d, 'g) migration \<Rightarrow> unit result \<times> ('d, 'g) migration" where
  "migrate_schema execute files json_parse env w m =
     (let (dimension, m) = embedding_dimension json_parse env w m;
          (r, db) = apply_migrations execute dimension files (mg_db m)
      in (r, m\<lparr>mg_db := db\<rparr>))"

definition migrate_config ::
  "(pystr \<Rightarrow> pystr option) \<Rightarrow> ('d, 'g) migration \<Rightarrow> unit result \<times> ('d, 'g) migration" where
  "migrate_config env m =
     (let namespace = (case env ''SDP_CONFIG_NAMESPACE'' of None \<Rightarrow> ''default'' | Some n \<Rightarrow> n)
      in case db_config (mg_db m) of
           None \<Rightarrow> (Inl (RuntimeError ''relation config_entries does not exist''), m)
         | Some rows \<Rightarrow> (Inr (), m\<lparr>mg_db := (mg_db m)\<lparr>db_config := Some (load_config namespace rows)\<rparr>\<rparr>))"

text \<open>\<open>PostgresGraphStore(dsn)\<close> on the tables of the database.\<close>

definition open_store :: "(pystr \<Rightarrow> nat list) \<Rightarrow> app_config \<Rightarrow> 'g postgres_store \<Rightarrow> 'g postgres_store" where
  "open_store digest cfg p =
     p\<lparr>ps_digest := digest, ps_dimension := nat (cfg_embedding_dimension cfg),
       ps_graph_name := cfg_graph_name cfg, ps_traversal_max_depth := cfg_traversal_max_depth cfg\<rparr>"

definition seed_graph ::
  "(pystr \<Rightarrow> nat list) \<Rightarrow> 'g age_engine \<Rightarrow> (pystr \<Rightarrow> pyval result) \<Rightarrow> (pystr \<Rightarrow> pystr option)
   \<Rightarrow> 's catalog_state_scheme \<Rightarrow> ('d, 'g) migration \<Rightarrow> unit result \<times> ('d, 'g) migration" where
  "seed_graph digest age json_parse env s m =
     (case config_of_run json_parse env s m of
        (Inl e, m) \<Rightarrow> (Inl e, m)
      | (Inr cfg, m) \<Rightarrow>
          (let p = open_store digest cfg (db_graph (mg_db m));
               (r, st) = seed_store age s (Postgres_backend p);
               tables = (case st of Postgres_backend p \<Rightarrow> p | Memory_backend _ \<Rightarrow> p)
           in (map_sum id (\<lambda>_. ()) r,
               m\<lparr>mg_store := set_store (Some st) (mg_store m), mg_db := (mg_db m)\<lparr>db_graph := tables\<rparr>\<rparr>)))"

text \<open>The exit code, or the exception that ends the process.\<close>

definition migrate_main ::
  "('d, 'g) sql_engine \<Rightarrow> (pystr \<times> pystr) list \<Rightarrow> (pystr \<Rightarrow> nat list) \<Rightarrow> 'g age_engine
   \<Rightarrow> (pystr \<Rightarrow> pyval result) \<Rightarrow> (pystr \<Rightarrow> pystr option) \<Rightarrow> 's catalog_state_scheme \<Rightarrow> ('d, 'g) migration
   \<Rightarrow> int result \<times> ('d, 'g) migration" where
  "migrate_main execute files digest age json_parse env s m =
     (if env ''SDP_DATABASE_DSN'' = None \<or> env ''SDP_DATABASE_DSN'' = Some [] then (Inr 2, m)
      else (case migrate_schema execute files json_parse env s m of
          (Inl e, m) \<Rightarrow> (Inl e, m)
        | (Inr _, m) \<Rightarrow>
            (case migrate_config env m of
               (Inl e, m) \<Rightarrow> (Inl e, m)
             | (Inr _, m) \<Rightarrow>
                 (case seed_graph digest age json_parse env s m of
                    (Inl e, m) \<Rightarrow> (Inl e, m)
                  | (Inr _, m) \<Rightarrow> (Inr 0, m)))))"

section \<open>The vectors a seeding stores\<close>

text \<open>Every vector that is new has the dimension of the store.\<close>

definition vectors_fit :: "'g postgres_store \<Rightarrow> 'g postgres_store \<Rightarrow> bool" where
  "vectors_fit p q \<longleftrightarrow> ps_dimension q = ps_dimension p
     \<and> set (ps_embeddings q) \<subseteq> set (ps_embeddings p) \<union> {r. length (eb_embedding r) = ps_dimension p}"

lemma vectors_fit_refl [simp]: "vectors_fit p p"
  by (simp add: vectors_fit_def)

lemma vectors_fit_trans: "vectors_fit p q \<Longrightarrow> vectors_fit q r \<Longrightarrow> vectors_fit p r"
  by (auto simp: vectors_fit_def)

lemma set_insert_on_conflict_update: "set (insert_on_conflict_update key row rows) \<subseteq> insert row (set rows)"
  by (induction rows) auto

lemma pg_write_fits: "vectors_fit p (snd (pg_write age w p))"
proof (cases w)
  case (Write_node n kind label props content)
  then show ?thesis
    using set_insert_on_conflict_update [of eb_node_id]
    by (fastforce simp: pg_upsert_node_def drop_value_def vectors_fit_def vector_literal_def Let_def
        split: sum.split prod.split)
next
  case (Write_edge edge_type a b props)
  then show ?thesis
    by (auto simp: pg_upsert_edge_def drop_value_def vectors_fit_def Let_def split: sum.split prod.split)
qed

lemma pg_writes_fit: "vectors_fit p (snd (write_all (pg_write age) ws p))"
proof (induction ws arbitrary: p)
  case (Cons w ws)
  obtain r q where q: "pg_write age w p = (r, q)" by fastforce
  then have "vectors_fit p q" using pg_write_fits [of p age w] by simp
  then show ?case using q Cons.IH [of q] by (auto intro: vectors_fit_trans split: sum.split)
qed simp

lemma pg_row_fits: "vectors_fit p (pg_row c p)"
  by (cases c) (simp_all add: vectors_fit_def)

lemma run_seed_calls_fit:
  "\<exists>q. snd (run_seed_calls age cs (Postgres_backend p)) = Postgres_backend q \<and> vectors_fit p q"
proof (induction cs arbitrary: p)
  case (Cons c cs)
  obtain r q where q: "write_all (pg_write age) (writes_of False c) (pg_row c p) = (r, q)" by fastforce
  then have fit: "vectors_fit p q"
    using vectors_fit_trans [OF pg_row_fits [of p c] pg_writes_fit [of "pg_row c p" age "writes_of False c"]] by simp
  obtain t where "snd (run_seed_calls age cs (Postgres_backend q)) = Postgres_backend t" "vectors_fit q t"
    using Cons.IH by blast
  then show ?case using q fit by (auto simp: run_seed_call_postgres intro: vectors_fit_trans split: sum.split)
qed simp

lemma seed_store_fits:
  "\<exists>q. snd (seed_store age s (Postgres_backend p)) = Postgres_backend q \<and> vectors_fit p q"
  using run_seed_calls_fit [of age "seed_calls s" p] by (auto simp: seed_store_def split: prod.split sum.split)

section \<open>The configuration before and after it is loaded\<close>

text \<open>A configuration is valid or not by its values alone, whatever source it is read from.\<close>

lemma merged_get:
  "dict_ok kvs \<Longrightarrow> get_or_none (merged_config kvs) k
     = (case dict_get kvs k of None \<Rightarrow> get_or_none default_config k
        | Some v \<Rightarrow> if v = VNone then get_or_none default_config k else v)"
proof -
  assume ok: "dict_ok kvs"
  have "map_of (rev (not_none kvs)) k = map_of (not_none kvs) k"
    using ok by (intro map_of_rev_distinct) (auto simp: not_none_def dict_ok_def intro: distinct_map_filter)
  also have "\<dots> = (case dict_get kvs k of None \<Rightarrow> None | Some v \<Rightarrow> if v = VNone then None else Some v)"
    using ok by (induction kvs) (auto simp: not_none_def dict_get_def dict_ok_def image_iff split: option.splits)
  finally show ?thesis
    by (simp add: merged_config_def get_or_none_def dict_get_update split: option.split)
qed

lemma from_mapping_cong:
  "get_or_none (merged_config a) = get_or_none (merged_config b) \<Longrightarrow>
   from_mapping a source w = Inl e \<Longrightarrow> from_mapping b source' w = Inl e"
  by (simp add: from_mapping_def Let_def split: sum.splits if_splits)

definition table_values :: "(pystr \<Rightarrow> pyval result) \<Rightarrow> pystr \<Rightarrow> config_entry list option \<Rightarrow> pyval dict" where
  "table_values json_parse namespace rows =
     dict_of (map (\<lambda>r. (ce_key r, config_value json_parse (ce_value r)))
       (filter (\<lambda>r. ce_namespace r = namespace) (case rows of None \<Rightarrow> [] | Some rs \<Rightarrow> rs)))"

lemma effective_config_error:
  assumes "has_database b"
  shows "(effective_config json_parse (\<lambda>_. rows) b w = Inl e)
    \<longleftrightarrow> (from_mapping (table_values json_parse (bs_config_namespace b) rows) ''config_entries'' w = Inl e)"
proof -
  have "from_mapping [] ''defaults'' w = Inl e \<longleftrightarrow> from_mapping [] ''config_entries'' w = Inl e"
    using from_mapping_cong by blast
  then show ?thesis
    using assms by (auto simp: effective_config_def load_from_kv_table_def table_values_def has_database_def
        dict_of_def split: option.splits)
qed

lemma default_texts:
  assumes "json_parse ''semantic_graph'' = Inl err1" "json_parse ''auto'' = Inl err2"
  shows "map_option (config_value json_parse) (map_of default_config k) = dict_get default_config k"
  using assms by (simp add: dict_get_def default_config_def config_value_def str_list_def)

lemma table_values_get:
  "distinct (map entry_key rows) \<Longrightarrow> dict_get (table_values json_parse n (Some rows)) k
     = map_option (\<lambda>r. config_value json_parse (ce_value r)) (find (\<lambda>r. entry_key r = (n, k)) rows)"
  by (simp add: table_values_def kv_values_get)

lemma load_config_seeds: "load_config n rows = seed_entries n default_config rows"
  by (simp add: load_config_def seed_entries_def default_config_seed_def)

text \<open>Loading the defaults changes no value the application reads.\<close>

lemma load_config_neutral:
  assumes json: "json_parse ''semantic_graph'' = Inl err1" "json_parse ''auto'' = Inl err2"
    and rows: "distinct (map entry_key rows)"
  shows "get_or_none (merged_config (table_values json_parse n (Some (load_config n rows))))
    = get_or_none (merged_config (table_values json_parse n (Some rows)))"
proof
  fix k
  have ok: "dict_ok (table_values json_parse n r)" for r by (simp add: table_values_def)
  have new: "dict_get (table_values json_parse n (Some (load_config n rows))) k
      = (case dict_get (table_values json_parse n (Some rows)) k of
           Some v \<Rightarrow> Some v | None \<Rightarrow> dict_get default_config k)"
    using rows default_texts [OF json, of k]
    by (auto simp: table_values_get distinct_seed_entries load_config_seeds find_seed_entries option.map_comp o_def
        split: option.split)
  show "get_or_none (merged_config (table_values json_parse n (Some (load_config n rows)))) k
      = get_or_none (merged_config (table_values json_parse n (Some rows))) k"
    by (simp add: merged_get [OF ok] new) (auto simp: get_or_none_def split: option.split)
qed

section \<open>Two readings of the configuration in one run\<close>

definition fresh_cache :: config_cache where
  "fresh_cache = \<lparr>cached_bootstrap = None, cached_config = None\<rparr>"

lemma config_read:
  "config_of_run json_parse env w m = (Inr cfg, m1) \<Longrightarrow>
   cached_config (mg_cache m1) = Some cfg \<and> mg_db m1 = mg_db m"
  by (auto simp: config_of_run_def get_app_config_def get_bootstrap_def Let_def
      split: option.splits sum.splits prod.splits)

lemma config_cached: "cached_config (mg_cache m) = Some cfg \<Longrightarrow> config_of_run json_parse env w m = (Inr cfg, m)"
  by (simp add: config_of_run_def get_app_config_def)

lemma config_fails:
  assumes "mg_cache m = fresh_cache" and "config_of_run json_parse env w m = (Inl e, m1)"
  shows "effective_config json_parse (\<lambda>_. db_config (mg_db m)) (load_bootstrap env) w = Inl e"
    and "mg_cache m1 = fresh_cache\<lparr>cached_bootstrap := Some (load_bootstrap env)\<rparr>" and "mg_db m1 = mg_db m"
  using assms
  by (auto simp: config_of_run_def get_app_config_def get_bootstrap_def fresh_cache_def Let_def split: sum.splits)

lemma config_fails_again:
  assumes "mg_cache m = fresh_cache\<lparr>cached_bootstrap := Some (load_bootstrap env)\<rparr>"
    and "effective_config json_parse (\<lambda>_. db_config (mg_db m)) (load_bootstrap env) w = Inl e"
  shows "fst (config_of_run json_parse env w m) = Inl e"
  using assms by (simp add: config_of_run_def get_app_config_def get_bootstrap_def fresh_cache_def)

text \<open>The scripts create the table of the configuration when it is missing and leave its rows alone.\<close>

definition config_kept :: "('d, 'g) migrated_database \<Rightarrow> ('d, 'g) migrated_database \<Rightarrow> bool" where
  "config_kept db db' \<longleftrightarrow> db_config db' = db_config db \<or> db_config db = None \<and> db_config db' = Some []"

lemma run_statements_keep:
  assumes "\<And>q db db'. execute q db = Inr db' \<Longrightarrow> config_kept db db'"
  shows "run_statements execute qs db = Inr db' \<Longrightarrow> config_kept db db'"
proof (induction qs arbitrary: db)
  case (Cons q qs)
  then obtain db1 where "execute q db = Inr db1" "run_statements execute qs db1 = Inr db'"
    by (auto split: sum.splits)
  then show ?case using Cons.IH [of db1] assms by (fastforce simp: config_kept_def)
qed (simp add: config_kept_def)

lemma apply_migrations_keep:
  assumes "\<And>q db db'. execute q db = Inr db' \<Longrightarrow> config_kept db db'"
    and "apply_migrations execute dimension files db = (Inr u, db')"
  shows "config_kept db db'"
  using assms(2) run_statements_keep [of execute, OF assms(1)]
  by (auto simp: apply_migrations_def split: sum.splits)

lemma kept_values: "config_kept db db' \<Longrightarrow> table_values json_parse n (db_config db') = table_values json_parse n (db_config db)"
  by (auto simp: config_kept_def table_values_def)

lemma namespace_of_run:
  "bs_config_namespace (load_bootstrap env) = (case env ''SDP_CONFIG_NAMESPACE'' of None \<Rightarrow> ''default'' | Some n \<Rightarrow> n)"
  by (simp add: load_bootstrap_def split: option.split)

text \<open>A run that comes to its end took the embedding dimension of the schema from the configuration its
  graph store uses.\<close>

lemma failed_run:
  assumes json: "json_parse ''semantic_graph'' = Inl err1" "json_parse ''auto'' = Inl err2"
    and rows: "pred_option (\<lambda>rs. distinct (map entry_key rs)) (db_config (mg_db m))"
    and fresh: "mg_cache m = fresh_cache" and first: "config_of_run json_parse env s m = (Inl e, m1)"
    and database: "has_database (load_bootstrap env)"
    and kept: "config_kept (mg_db m) db1" and config: "migrate_config env (m1\<lparr>mg_db := db1\<rparr>) = (Inr u, m2)"
  shows "fst (seed_graph digest age json_parse env s m2) = Inl e"
proof -
  let ?n = "bs_config_namespace (load_bootstrap env)"
  obtain rs where rs: "db_config db1 = Some rs" "db_config (mg_db m2) = Some (load_config ?n rs)"
    and cache: "mg_cache m2 = mg_cache m1"
    using config by (auto simp: migrate_config_def namespace_of_run Let_def split: option.splits)
  have distinct: "distinct (map entry_key rs)"
    using kept rows rs(1) by (cases "db_config (mg_db m)") (auto simp: config_kept_def)
  have "from_mapping (table_values json_parse ?n (Some rs)) ''config_entries'' s = Inl e"
    using config_fails(1) [OF fresh first] kept_values [OF kept, of json_parse ?n]
    by (simp add: effective_config_error [OF database] rs(1))
  then have "from_mapping (table_values json_parse ?n (Some (load_config ?n rs))) ''config_entries'' s = Inl e"
    using from_mapping_cong load_config_neutral [OF json distinct, of ?n] by metis
  then have "fst (config_of_run json_parse env s m2) = Inl e"
    using config_fails(2) [OF fresh first] cache
    by (intro config_fails_again) (simp_all add: effective_config_error [OF database] rs(2))
  then show ?thesis by (cases "config_of_run json_parse env s m2") (simp add: seed_graph_def)
qed

section \<open>Properties\<close>


text \<open>A run over an empty database whose engine accepts every statement.\<close>

definition creating_engine :: "(unit, unit) sql_engine" where
  "creating_engine q db =
     Inr (db\<lparr>db_config := Some (case db_config db of None \<Rightarrow> [] | Some rs \<Rightarrow> rs)\<rparr>)"

definition local_env :: "pystr \<Rightarrow> pystr option" where
  "local_env = [''SDP_DATABASE_DSN'' \<mapsto> ''postgresql://db'']"

definition empty_migration :: "(unit, unit) migration" where
  "empty_migration =
     \<lparr>mg_db = \<lparr>db_objects = (), db_config = None, db_graph = sample_tables\<rparr>,
      mg_cache = \<lparr>cached_bootstrap = None, cached_config = None\<rparr>, mg_store = None\<rparr>"

lemma quiet_writes_succeed: "list_all write_allowed ws \<Longrightarrow> \<exists>q. write_all (pg_write quiet_engine) ws p = (Inr (), q)"
proof (induction ws arbitrary: p)
  case (Cons w ws)
  have "\<exists>q. pg_write quiet_engine w p = (Inr (), q)"
    using Cons.prems
    by (cases w) (auto simp: pg_upsert_node_def pg_upsert_edge_def cypher_def quiet_engine_def node_cypher_def
        edge_cypher_def result_declarations_def drop_value_def write_allowed_def Let_def)
  then show ?case using Cons by auto
qed simp

lemma writes_allowed_either: "list_all write_allowed (writes_of a c) = list_all write_allowed (writes_of b c)"
  by (cases c) (simp_all add: Let_def write_allowed_def)

lemma quiet_seed_succeeds:
  "list_all seed_call_allowed cs \<Longrightarrow> fst (run_seed_calls quiet_engine cs (Postgres_backend p)) = Inr ()"
proof (induction cs arbitrary: p)
  case (Cons c cs)
  then have "list_all write_allowed (writes_of False c)"
    using writes_allowed_either [of True c False] by (simp add: seed_call_allowed_def)
  then obtain q where "write_all (pg_write quiet_engine) (writes_of False c) (pg_row c p) = (Inr (), q)"
    using quiet_writes_succeed by blast
  then show ?case using Cons by (simp add: run_seed_call_postgres)
qed simp


end
