(* ===== verification/Evidence_Migration.thy ===== *)
theory Evidence_Migration
  imports Evidence
begin

text \<open>
  The start of the evidence stores (\<open>src/sdp_core/stores.py\<close>): the connection options and, for
  Postgres, the creation of the tables, the migration of tables of an older release and the backfill
  of their rows, in one transaction.  A row is a dictionary in which a missing column is NULL, a
  table is its columns with their NOT NULL constraints and its rows; the times are numbers.  An error
  of the database is a \<open>RuntimeError\<close> here.
\<close>

section \<open>Connections and payloads\<close>

definition payload_to_dict :: "(pystr \<Rightarrow> pyval result) \<Rightarrow> pyval \<Rightarrow> pyval result" where
  "payload_to_dict json_parse payload =
     (case payload of
        VDict d \<Rightarrow> Inr (VDict d)
      | VStr s \<Rightarrow> json_parse s
      | _ \<Rightarrow> Inl (TypeError ''unsupported evidence payload type''))"

definition connect_options :: "pystr \<Rightarrow> pystr option \<Rightarrow> pystr dict" where
  "connect_options dsn sslmode =
     (case sslmode of
        Some mode \<Rightarrow> if mode \<noteq> [] \<and> \<not> contains ''sslmode='' dsn then [(''sslmode'', mode)] else []
      | None \<Rightarrow> [])"

section \<open>Tables and statements\<close>

type_synonym sql_row = "pyval dict"

record sql_table =
  tb_columns :: "bool dict"
  tb_rows :: "sql_row list"

type_synonym database = "sql_table dict"

type_synonym statement = "database \<Rightarrow> database result"

definition column :: "pystr \<Rightarrow> sql_row \<Rightarrow> pyval" where
  "column c row = (case dict_get row c of None \<Rightarrow> VNone | Some v \<Rightarrow> v)"

definition has_column :: "pystr \<Rightarrow> sql_table \<Rightarrow> bool" where
  "has_column c t \<longleftrightarrow> dict_get (tb_columns t) c \<noteq> None"

definition create_table_if_not_exists :: "pystr \<Rightarrow> bool dict \<Rightarrow> statement" where
  "create_table_if_not_exists name columns db =
     Inr (if dict_get db name = None then dict_set name \<lparr>tb_columns = columns, tb_rows = []\<rparr> db else db)"

definition on_table :: "pystr \<Rightarrow> (sql_table \<Rightarrow> sql_table result) \<Rightarrow> statement" where
  "on_table name f db =
     (case dict_get db name of
        None \<Rightarrow> Inl (RuntimeError (''relation does not exist: '' @ name))
      | Some t \<Rightarrow> map_sum id (\<lambda>t. dict_set name t db) (f t))"

definition add_column_if_not_exists :: "pystr \<Rightarrow> sql_table \<Rightarrow> sql_table result" where
  "add_column_if_not_exists c t =
     Inr (if has_column c t then t else t\<lparr>tb_columns := tb_columns t @ [(c, False)]\<rparr>)"

definition need_columns :: "pystr list \<Rightarrow> sql_table \<Rightarrow> (sql_table \<Rightarrow> sql_table result) \<Rightarrow> sql_table result" where
  "need_columns cs t f =
     (case find (\<lambda>c. \<not> has_column c t) cs of
        Some c \<Rightarrow> Inl (RuntimeError (''column does not exist: '' @ c)) | None \<Rightarrow> f t)"

definition update_rows :: "pystr list \<Rightarrow> (sql_row \<Rightarrow> sql_row) \<Rightarrow> sql_table \<Rightarrow> sql_table result" where
  "update_rows cs f t = need_columns cs t (\<lambda>t. Inr (t\<lparr>tb_rows := map f (tb_rows t)\<rparr>))"

definition set_not_null :: "pystr \<Rightarrow> sql_table \<Rightarrow> sql_table result" where
  "set_not_null c t = need_columns [c] t (\<lambda>t.
     if list_ex (\<lambda>row. column c row = VNone) (tb_rows t)
     then Inl (RuntimeError (''column contains null values: '' @ c))
     else Inr (t\<lparr>tb_columns := dict_set c True (tb_columns t)\<rparr>))"

definition drop_not_null :: "pystr \<Rightarrow> sql_table \<Rightarrow> sql_table result" where
  "drop_not_null c t = need_columns [c] t (\<lambda>t. Inr (t\<lparr>tb_columns := dict_set c False (tb_columns t)\<rparr>))"

definition create_index_if_not_exists :: "pystr list \<Rightarrow> sql_table \<Rightarrow> sql_table result" where
  "create_index_if_not_exists cs t = need_columns cs t Inr"

section \<open>The backfills\<close>

text \<open>\<open>v -> k\<close> and \<open>v ->> k\<close> of a JSON value; the text of what is neither text nor null is a parameter.\<close>

definition json_field :: "pyval \<Rightarrow> pystr \<Rightarrow> pyval" where
  "json_field v k =
     (case v of VDict d \<Rightarrow> (case dict_get d k of None \<Rightarrow> VNone | Some w \<Rightarrow> w) | _ \<Rightarrow> VNone)"

definition json_field_text :: "(pyval \<Rightarrow> pystr) \<Rightarrow> pyval \<Rightarrow> pystr \<Rightarrow> pyval" where
  "json_field_text json_text v k =
     (case json_field v k of VNone \<Rightarrow> VNone | VStr s \<Rightarrow> VStr s | w \<Rightarrow> VStr (json_text w))"

fun coalesce :: "pyval list \<Rightarrow> pyval" where
  "coalesce [] = VNone"
| "coalesce (v # vs) = (if v = VNone then coalesce vs else v)"

definition nullif_empty :: "pyval \<Rightarrow> pyval" where
  "nullif_empty v = (if v = VStr [] then VNone else v)"

definition backfill_tenant :: "(pyval \<Rightarrow> pystr) \<Rightarrow> pystr \<Rightarrow> sql_row \<Rightarrow> sql_row" where
  "backfill_tenant json_text field row =
     (let tenant = column ''tenant_id'' row in
      if tenant = VNone \<or> tenant = VStr []
      then dict_set ''tenant_id''
        (coalesce [nullif_empty tenant,
           json_field_text json_text (json_field (column ''payload'' row) field) ''tenant_id'', VStr ''demo'']) row
      else row)"

definition backfill_created_at :: "bool \<Rightarrow> int \<Rightarrow> sql_row \<Rightarrow> sql_row" where
  "backfill_created_at recorded now_time row =
     (if column ''created_at'' row = VNone
      then dict_set ''created_at''
        (coalesce ([column ''created_at'' row] @ (if recorded then [column ''recorded_at'' row] else []) @ [VInt now_time])) row
      else row)"

section \<open>Initialization\<close>

definition policy_decision_columns :: "bool dict" where
  "policy_decision_columns =
     [(''decision_id'', True), (''tenant_id'', True), (''subject'', True), (''resource'', True), (''action'', True),
      (''effect'', True), (''payload'', True), (''created_at'', True)]"

definition audit_event_columns :: "bool dict" where
  "audit_event_columns =
     [(''id'', True), (''tenant_id'', True), (''actor'', True), (''action'', True), (''resource'', True),
      (''result'', True), (''decision_id'', False), (''payload'', True), (''created_at'', True)]"

definition initialize_statements :: "(pyval \<Rightarrow> pystr) \<Rightarrow> int \<Rightarrow> statement list" where
  "initialize_statements json_text now_time =
     [create_table_if_not_exists ''policy_decisions'' policy_decision_columns,
      create_table_if_not_exists ''audit_events'' audit_event_columns,
      on_table ''policy_decisions'' (add_column_if_not_exists ''tenant_id''),
      on_table ''policy_decisions'' (add_column_if_not_exists ''created_at''),
      on_table ''policy_decisions'' (update_rows [''tenant_id'', ''payload''] (backfill_tenant json_text ''obligations'')),
      on_table ''policy_decisions''
        (\<lambda>t. update_rows [''created_at''] (backfill_created_at (has_column ''recorded_at'' t) now_time) t),
      on_table ''policy_decisions''
        (\<lambda>t. if has_column ''recorded_at'' t then drop_not_null ''recorded_at'' t else Inr t),
      on_table ''policy_decisions'' (set_not_null ''tenant_id''),
      on_table ''policy_decisions'' (set_not_null ''created_at''),
      on_table ''audit_events'' (add_column_if_not_exists ''tenant_id''),
      on_table ''audit_events'' (update_rows [''tenant_id'', ''payload''] (backfill_tenant json_text ''details'')),
      on_table ''audit_events'' (set_not_null ''tenant_id''),
      on_table ''policy_decisions'' (create_index_if_not_exists [''tenant_id'', ''resource'', ''created_at'']),
      on_table ''audit_events'' (create_index_if_not_exists [''tenant_id'', ''resource'', ''created_at''])]"

fun execute_all :: "statement list \<Rightarrow> database \<Rightarrow> database result" where
  "execute_all [] db = Inr db"
| "execute_all (f # fs) db = (case f db of Inl e \<Rightarrow> Inl e | Inr db \<Rightarrow> execute_all fs db)"

text \<open>The connection's context commits at its end and rolls back when a statement fails.\<close>

definition transaction :: "statement list \<Rightarrow> database \<Rightarrow> unit result \<times> database" where
  "transaction fs db = (case execute_all fs db of Inl e \<Rightarrow> (Inl e, db) | Inr db' \<Rightarrow> (Inr (), db'))"

definition postgres_initialize :: "(pyval \<Rightarrow> pystr) \<Rightarrow> int \<Rightarrow> database \<Rightarrow> unit result \<times> database" where
  "postgres_initialize json_text now_time = transaction (initialize_statements json_text now_time)"

section \<open>What the statements do when their columns are there\<close>

definition added :: "pystr \<Rightarrow> sql_table \<Rightarrow> sql_table" where
  "added c t = (if has_column c t then t else t\<lparr>tb_columns := tb_columns t @ [(c, False)]\<rparr>)"

definition flagged :: "pystr \<Rightarrow> bool \<Rightarrow> sql_table \<Rightarrow> sql_table" where
  "flagged c b t = t\<lparr>tb_columns := dict_set c b (tb_columns t)\<rparr>"

definition mapped :: "(sql_row \<Rightarrow> sql_row) \<Rightarrow> sql_table \<Rightarrow> sql_table" where
  "mapped f t = t\<lparr>tb_rows := map f (tb_rows t)\<rparr>"

lemma has_column_after [simp]:
  "has_column c (added d t) \<longleftrightarrow> c = d \<or> has_column c t"
  "has_column c (flagged d b t) \<longleftrightarrow> c = d \<or> has_column c t"
  "has_column c (mapped f t) \<longleftrightarrow> has_column c t"
  by (auto simp: has_column_def added_def flagged_def mapped_def dict_get_def dict_set_def update_conv' map_add_Some_iff
      split: option.split)

lemma rows_after [simp]:
  "tb_rows (added c t) = tb_rows t" "tb_rows (flagged c b t) = tb_rows t" "tb_rows (mapped f t) = map f (tb_rows t)"
  by (simp_all add: added_def flagged_def mapped_def)

lemma flag_after [simp]:
  "dict_get (tb_columns (flagged c b t)) d = (if d = c then Some b else dict_get (tb_columns t) d)"
  "tb_columns (mapped f t) = tb_columns t"
  by (simp_all add: flagged_def mapped_def dict_get_set)

lemma statement_results:
  "add_column_if_not_exists c t = Inr (added c t)"
  "list_all (\<lambda>c. has_column c t) cs \<Longrightarrow> update_rows cs f t = Inr (mapped f t)"
  "has_column c t \<Longrightarrow> list_all (\<lambda>row. column c row \<noteq> VNone) (tb_rows t) \<Longrightarrow> set_not_null c t = Inr (flagged c True t)"
  "has_column c t \<Longrightarrow> drop_not_null c t = Inr (flagged c False t)"
  "list_all (\<lambda>c. has_column c t) cs \<Longrightarrow> create_index_if_not_exists cs t = Inr t"
  by (auto simp: add_column_if_not_exists_def added_def update_rows_def mapped_def set_not_null_def drop_not_null_def
      create_index_if_not_exists_def flagged_def need_columns_def find_None_iff list_all_iff list_ex_iff split: option.split)

lemma column_set: "column c (dict_set d v row) = (if c = d then v else column c row)"
  by (simp add: column_def dict_get_set)

lemma set_column_same: "column c row = v \<Longrightarrow> v \<noteq> VNone \<Longrightarrow> dict_set c v row = row"
  by (cases "dict_get row c") (auto simp: column_def dict_set_same)

section \<open>The tables after a start\<close>

definition default_tenant :: "(pyval \<Rightarrow> pystr) \<Rightarrow> pystr \<Rightarrow> sql_row \<Rightarrow> pyval" where
  "default_tenant json_text field row =
     coalesce [json_field_text json_text (json_field (column ''payload'' row) field) ''tenant_id'', VStr ''demo'']"

definition default_time :: "bool \<Rightarrow> int \<Rightarrow> sql_row \<Rightarrow> pyval" where
  "default_time recorded now_time row =
     (if recorded \<and> column ''recorded_at'' row \<noteq> VNone then column ''recorded_at'' row else VInt now_time)"

lemma default_not_null: "default_tenant json_text field row \<noteq> VNone" "default_time recorded now_time row \<noteq> VNone"
  by (simp_all add: default_tenant_def default_time_def)

lemma column_backfill_tenant:
  "column c (backfill_tenant json_text field row) =
     (if c = ''tenant_id'' \<and> column c row \<in> {VNone, VStr []} then default_tenant json_text field row else column c row)"
  by (auto simp: backfill_tenant_def default_tenant_def nullif_empty_def column_set Let_def)

lemma column_backfill_created_at:
  "column c (backfill_created_at recorded now_time row) =
     (if c = ''created_at'' \<and> column c row = VNone then default_time recorded now_time row else column c row)"
  by (auto simp: backfill_created_at_def default_time_def column_set)

lemma backfill_tenant_done:
  assumes "column ''tenant_id'' row \<noteq> VNone"
    and "column ''tenant_id'' row = VStr [] \<Longrightarrow> default_tenant json_text field row = VStr []"
  shows "backfill_tenant json_text field row = row"
  using assms by (auto simp: backfill_tenant_def nullif_empty_def default_tenant_def Let_def intro!: set_column_same)

lemma backfill_created_at_done: "column ''created_at'' row \<noteq> VNone \<Longrightarrow> backfill_created_at recorded now_time row = row"
  by (simp add: backfill_created_at_def)

definition decision_row_after :: "(pyval \<Rightarrow> pystr) \<Rightarrow> bool \<Rightarrow> int \<Rightarrow> sql_row \<Rightarrow> sql_row" where
  "decision_row_after json_text recorded now_time row =
     backfill_created_at recorded now_time (backfill_tenant json_text ''obligations'' row)"

definition decisions_after :: "(pyval \<Rightarrow> pystr) \<Rightarrow> int \<Rightarrow> sql_table \<Rightarrow> sql_table" where
  "decisions_after json_text now_time t =
     (let recorded = has_column ''recorded_at'' t;
          t = mapped (backfill_created_at recorded now_time)
            (mapped (backfill_tenant json_text ''obligations'') (added ''created_at'' (added ''tenant_id'' t)));
          t = (if recorded then flagged ''recorded_at'' False t else t)
      in flagged ''created_at'' True (flagged ''tenant_id'' True t))"

definition events_after :: "(pyval \<Rightarrow> pystr) \<Rightarrow> sql_table \<Rightarrow> sql_table" where
  "events_after json_text t =
     flagged ''tenant_id'' True (mapped (backfill_tenant json_text ''details'') (added ''tenant_id'' t))"

lemma on_table_get [simp]:
  "dict_get db n = Some t \<Longrightarrow> on_table n f db = map_sum id (\<lambda>t. dict_set n t db) (f t)"
  by (simp add: on_table_def)

text \<open>The tables an older release leaves: they have the columns that are not added.\<close>

definition migratable :: "database \<Rightarrow> bool" where
  "migratable db \<longleftrightarrow>
     (case dict_get db ''policy_decisions'' of None \<Rightarrow> True
      | Some t \<Rightarrow> has_column ''payload'' t \<and> has_column ''resource'' t)
     \<and> (case dict_get db ''audit_events'' of None \<Rightarrow> True
      | Some t \<Rightarrow> has_column ''payload'' t \<and> has_column ''resource'' t \<and> has_column ''created_at'' t)"

definition table_or :: "bool dict \<Rightarrow> sql_table option \<Rightarrow> sql_table" where
  "table_or columns found = (case found of None \<Rightarrow> \<lparr>tb_columns = columns, tb_rows = []\<rparr> | Some t \<Rightarrow> t)"

lemma dict_set_twice [simp]: "dict_set k v (dict_set k u d) = dict_set k v d"
  by (simp add: dict_set_def)

text \<open>Statements on one table in a row.\<close>

fun on_rows :: "(sql_table \<Rightarrow> sql_table result) list \<Rightarrow> sql_table \<Rightarrow> sql_table result" where
  "on_rows [] t = Inr t"
| "on_rows (f # fs) t = (case f t of Inl e \<Rightarrow> Inl e | Inr t \<Rightarrow> on_rows fs t)"

lemma execute_all_append:
  "execute_all (fs @ gs) db = (case execute_all fs db of Inl e \<Rightarrow> Inl e | Inr db \<Rightarrow> execute_all gs db)"
  by (induction fs arbitrary: db) (auto split: sum.split)

lemma execute_on_table:
  "dict_get db n = Some t \<Longrightarrow>
   execute_all (map (on_table n) fs) db = map_sum id (\<lambda>t. dict_set n t db) (on_rows fs t)"
proof (induction fs arbitrary: t db)
  case Nil
  then show ?case by (simp add: dict_set_same)
next
  case (Cons f fs)
  then show ?case by (cases "f t") (simp_all add: dict_get_set)
qed

definition decision_statements :: "(pyval \<Rightarrow> pystr) \<Rightarrow> int \<Rightarrow> (sql_table \<Rightarrow> sql_table result) list" where
  "decision_statements json_text now_time =
     [add_column_if_not_exists ''tenant_id'', add_column_if_not_exists ''created_at'',
      update_rows [''tenant_id'', ''payload''] (backfill_tenant json_text ''obligations''),
      \<lambda>t. update_rows [''created_at''] (backfill_created_at (has_column ''recorded_at'' t) now_time) t,
      \<lambda>t. if has_column ''recorded_at'' t then drop_not_null ''recorded_at'' t else Inr t,
      set_not_null ''tenant_id'', set_not_null ''created_at'']"

definition event_statements :: "(pyval \<Rightarrow> pystr) \<Rightarrow> (sql_table \<Rightarrow> sql_table result) list" where
  "event_statements json_text =
     [add_column_if_not_exists ''tenant_id'',
      update_rows [''tenant_id'', ''payload''] (backfill_tenant json_text ''details''),
      set_not_null ''tenant_id'']"

lemma initialize_statements_split:
  "initialize_statements json_text now_time =
     [create_table_if_not_exists ''policy_decisions'' policy_decision_columns,
      create_table_if_not_exists ''audit_events'' audit_event_columns]
     @ map (on_table ''policy_decisions'') (decision_statements json_text now_time)
     @ map (on_table ''audit_events'') (event_statements json_text)
     @ map (on_table ''policy_decisions'') [create_index_if_not_exists [''tenant_id'', ''resource'', ''created_at'']]
     @ map (on_table ''audit_events'') [create_index_if_not_exists [''tenant_id'', ''resource'', ''created_at'']]"
  by (simp add: initialize_statements_def decision_statements_def event_statements_def)

lemma decision_statements_result:
  "has_column ''payload'' t \<Longrightarrow> on_rows (decision_statements json_text now_time) t = Inr (decisions_after json_text now_time t)"
  by (simp add: decision_statements_def decisions_after_def statement_results list_all_iff column_backfill_tenant
      column_backfill_created_at default_not_null Let_def)

lemma event_statements_result:
  "has_column ''payload'' t \<Longrightarrow> on_rows (event_statements json_text) t = Inr (events_after json_text t)"
  by (simp add: event_statements_def events_after_def statement_results list_all_iff column_backfill_tenant default_not_null)

lemma has_column_done:
  "has_column c t \<or> c \<in> {''tenant_id'', ''created_at''} \<Longrightarrow> has_column c (decisions_after json_text now_time t)"
  "has_column c t \<or> c = ''tenant_id'' \<Longrightarrow> has_column c (events_after json_text t)"
  by (auto simp: decisions_after_def events_after_def Let_def)

lemma table_or_columns:
  assumes "migratable db"
  shows "has_column ''payload'' (table_or policy_decision_columns (dict_get db ''policy_decisions''))"
    "has_column ''resource'' (table_or policy_decision_columns (dict_get db ''policy_decisions''))"
    "has_column ''payload'' (table_or audit_event_columns (dict_get db ''audit_events''))"
    "has_column ''resource'' (table_or audit_event_columns (dict_get db ''audit_events''))"
    "has_column ''created_at'' (table_or audit_event_columns (dict_get db ''audit_events''))"
  using assms by (auto simp: migratable_def table_or_def has_column_def policy_decision_columns_def audit_event_columns_def
      dict_get_def split: option.splits)

lemma create_result:
  "execute_all [create_table_if_not_exists ''policy_decisions'' policy_decision_columns,
      create_table_if_not_exists ''audit_events'' audit_event_columns] db
   = Inr (dict_set ''audit_events'' (table_or audit_event_columns (dict_get db ''audit_events''))
       (dict_set ''policy_decisions'' (table_or policy_decision_columns (dict_get db ''policy_decisions'')) db))"
  by (auto simp: create_table_if_not_exists_def table_or_def dict_get_set dict_set_same split: option.split)

text \<open>The state of the database after a start: the two tables, and the others as they were.\<close>

definition after_start :: "(pyval \<Rightarrow> pystr) \<Rightarrow> int \<Rightarrow> database \<Rightarrow> database" where
  "after_start json_text now_time db =
     (let d = table_or policy_decision_columns (dict_get db ''policy_decisions'');
          e = table_or audit_event_columns (dict_get db ''audit_events'')
      in dict_set ''audit_events'' (events_after json_text e)
        (dict_set ''policy_decisions'' (decisions_after json_text now_time d)
          (dict_set ''audit_events'' e (dict_set ''policy_decisions'' d db))))"

lemma initialize_result:
  assumes "migratable db"
  shows "postgres_initialize json_text now_time db = (Inr (), after_start json_text now_time db)"
proof -
  define d where "d = table_or policy_decision_columns (dict_get db ''policy_decisions'')"
  define e where "e = table_or audit_event_columns (dict_get db ''audit_events'')"
  have cols: "has_column ''payload'' d" "has_column ''resource'' d" "has_column ''payload'' e" "has_column ''resource'' e"
    "has_column ''created_at'' e"
    using table_or_columns [OF assms] by (simp_all add: d_def e_def)
  let ?db0 = "dict_set ''audit_events'' e (dict_set ''policy_decisions'' d db)"
  let ?db1 = "dict_set ''policy_decisions'' (decisions_after json_text now_time d) ?db0"
  let ?db2 = "dict_set ''audit_events'' (events_after json_text e) ?db1"
  have create: "execute_all [create_table_if_not_exists ''policy_decisions'' policy_decision_columns,
      create_table_if_not_exists ''audit_events'' audit_event_columns] db = Inr ?db0"
    by (simp only: create_result d_def e_def)
  have one: "execute_all (map (on_table ''policy_decisions'') (decision_statements json_text now_time)) ?db0 = Inr ?db1"
    using cols by (subst execute_on_table [of _ _ d]) (simp_all add: dict_get_set decision_statements_result)
  have two: "execute_all (map (on_table ''audit_events'') (event_statements json_text)) ?db1 = Inr ?db2"
    using cols by (subst execute_on_table [of _ _ e]) (simp_all add: dict_get_set event_statements_result)
  have index: "execute_all (map (on_table n) [create_index_if_not_exists cs]) ?db2 = Inr ?db2"
    if "dict_get ?db2 n = Some t" "list_all (\<lambda>c. has_column c t) cs" for n t cs
    using that by (subst execute_on_table [OF that(1)]) (simp add: statement_results dict_set_same)
  have "execute_all (initialize_statements json_text now_time) db = Inr ?db2"
    unfolding initialize_statements_split execute_all_append create one two sum.case
    by (subst index [of _ "decisions_after json_text now_time d"], simp add: dict_get_set, simp add: has_column_done cols,
        subst sum.case, subst index [of _ "events_after json_text e"], simp add: dict_get_set,
        simp add: has_column_done cols, rule refl)
  then show ?thesis by (simp add: postgres_initialize_def transaction_def after_start_def d_def e_def Let_def)
qed

section \<open>A second start\<close>

lemma nothing_to_do:
  "has_column c t \<Longrightarrow> added c t = t"
  "(\<And>row. row \<in> set (tb_rows t) \<Longrightarrow> f row = row) \<Longrightarrow> mapped f t = t"
  "dict_get (tb_columns t) c = Some b \<Longrightarrow> flagged c b t = t"
  by (simp_all add: added_def mapped_def flagged_def map_idI dict_set_same)

lemma decisions_after_columns:
  "dict_get (tb_columns (decisions_after json_text now_time t)) ''tenant_id'' = Some True"
  "dict_get (tb_columns (decisions_after json_text now_time t)) ''created_at'' = Some True"
  "has_column ''recorded_at'' (decisions_after json_text now_time t) = has_column ''recorded_at'' t"
  "has_column ''recorded_at'' t \<Longrightarrow>
     dict_get (tb_columns (decisions_after json_text now_time t)) ''recorded_at'' = Some False"
  by (simp_all add: decisions_after_def Let_def)

lemma decisions_after_rows:
  "tb_rows (decisions_after json_text now_time t)
     = map (decision_row_after json_text (has_column ''recorded_at'' t) now_time) (tb_rows t)"
  by (simp add: decisions_after_def decision_row_after_def Let_def)

lemma events_after_rows:
  "tb_rows (events_after json_text t) = map (backfill_tenant json_text ''details'') (tb_rows t)"
  by (simp add: events_after_def)

lemma column_decision_row_after:
  "column c (decision_row_after json_text recorded now_time row) =
     (if c = ''tenant_id'' \<and> column c row \<in> {VNone, VStr []} then default_tenant json_text ''obligations'' row
      else if c = ''created_at'' \<and> column c row = VNone then default_time recorded now_time row
      else column c row)"
proof -
  have "default_time recorded now_time (backfill_tenant json_text ''obligations'' row) = default_time recorded now_time row"
    by (simp add: default_time_def column_backfill_tenant)
  then show ?thesis
    by (cases "c = ''tenant_id''"; cases "c = ''created_at''")
       (simp_all add: decision_row_after_def column_backfill_created_at column_backfill_tenant)
qed

lemma default_tenant_cong:
  "column ''payload'' row = column ''payload'' row' \<Longrightarrow> default_tenant json_text field row = default_tenant json_text field row'"
  by (simp add: default_tenant_def)

lemma decisions_after_again:
  "decisions_after json_text later (decisions_after json_text now_time t) = decisions_after json_text now_time t"
  (is "decisions_after json_text later ?t = ?t")
proof -
  have tenant: "backfill_tenant json_text ''obligations'' row = row" if "row \<in> set (tb_rows ?t)" for row
  proof -
    from that obtain old where old: "row = decision_row_after json_text (has_column ''recorded_at'' t) now_time old"
      by (auto simp: decisions_after_rows)
    have "default_tenant json_text ''obligations'' row = default_tenant json_text ''obligations'' old"
      by (rule default_tenant_cong) (simp add: old column_decision_row_after)
    then show ?thesis
      using default_not_null(1)
      by (intro backfill_tenant_done) (auto simp: old column_decision_row_after split: if_splits)
  qed
  have created: "backfill_created_at recorded later row = row" if "row \<in> set (tb_rows ?t)" for row recorded
    using that default_not_null(2) by (intro backfill_created_at_done) (auto simp: decisions_after_rows column_decision_row_after split: if_splits)
  have has: "has_column ''tenant_id'' ?t" "has_column ''created_at'' ?t" by (simp_all add: has_column_done)
  have same: "mapped (backfill_created_at recorded later) (mapped (backfill_tenant json_text ''obligations'')
      (added ''created_at'' (added ''tenant_id'' ?t))) = ?t" for recorded
    using has tenant created by (simp add: nothing_to_do)
  have "decisions_after json_text later ?t = flagged ''created_at'' True (flagged ''tenant_id'' True
      (if has_column ''recorded_at'' ?t then flagged ''recorded_at'' False ?t else ?t))"
    by (simp add: decisions_after_def [of json_text later] same Let_def)
  also have "\<dots> = ?t"
    using decisions_after_columns [where json_text = json_text and now_time = now_time and t = t] by (simp add: nothing_to_do)
  finally show ?thesis .
qed

lemma events_after_again: "events_after json_text (events_after json_text t) = events_after json_text t"
  (is "events_after json_text ?t = ?t")
proof -
  have tenant: "backfill_tenant json_text ''details'' row = row" if "row \<in> set (tb_rows ?t)" for row
  proof -
    from that obtain old where old: "row = backfill_tenant json_text ''details'' old" by (auto simp: events_after_rows)
    have "default_tenant json_text ''details'' row = default_tenant json_text ''details'' old"
      by (rule default_tenant_cong) (simp add: old column_backfill_tenant)
    then show ?thesis
      using default_not_null(1) by (intro backfill_tenant_done) (auto simp: old column_backfill_tenant split: if_splits)
  qed
  have "has_column ''tenant_id'' ?t" by (simp add: has_column_done)
  moreover have "dict_get (tb_columns ?t) ''tenant_id'' = Some True" by (simp add: events_after_def)
  ultimately show ?thesis
    using tenant by (simp add: events_after_def [of json_text ?t] nothing_to_do)
qed

lemma after_start_tables:
  "dict_get (after_start json_text now_time db) ''policy_decisions''
     = Some (decisions_after json_text now_time (table_or policy_decision_columns (dict_get db ''policy_decisions'')))"
  "dict_get (after_start json_text now_time db) ''audit_events''
     = Some (events_after json_text (table_or audit_event_columns (dict_get db ''audit_events'')))"
  "n \<notin> {''policy_decisions'', ''audit_events''} \<Longrightarrow> dict_get (after_start json_text now_time db) n = dict_get db n"
  by (simp_all add: after_start_def dict_get_set Let_def)

lemma after_start_again:
  "after_start json_text later (after_start json_text now_time db) = after_start json_text now_time db"
  (is "after_start json_text later ?db = ?db")
proof -
  note tables = after_start_tables(1,2) [of json_text now_time db]
  have found: "table_or columns (Some t) = t" for columns t by (simp add: table_or_def)
  show ?thesis
    unfolding after_start_def [of json_text later ?db] tables found Let_def decisions_after_again events_after_again
      dict_set_same [OF tables(1)] dict_set_same [OF tables(2)] by (rule refl)
qed

lemma migratable_after_start: "migratable db \<Longrightarrow> migratable (after_start json_text now_time db)"
  using table_or_columns [of db] by (simp add: migratable_def after_start_tables has_column_done)

section \<open>Properties\<close>

text \<open>
  C37.  Starting a Postgres evidence store on a database of an older release succeeds and loses
  nothing.  Every row of both tables stays in its place with its columns unchanged, but for the backfills: a missing
  or empty tenant becomes that of the payload, or \<open>demo\<close>; a missing creation time of a decision
  becomes its recording time, or the time of the start.  Afterwards no row lacks them and the columns
  are declared so; other tables are untouched, and starting again changes nothing.
\<close>

theorem evidence_migration_lossless:
  assumes legacy: "migratable db"
    and d: "d = table_or policy_decision_columns (dict_get db ''policy_decisions'')"
    and e: "e = table_or audit_event_columns (dict_get db ''audit_events'')"
  shows "\<exists>db' d' e'. postgres_initialize json_text now_time db = (Inr (), db')
    \<and> postgres_initialize json_text later db' = (Inr (), db')
    \<and> dict_get db' ''policy_decisions'' = Some d' \<and> dict_get db' ''audit_events'' = Some e'
    \<and> list_all2 (\<lambda>old new. \<forall>c. column c new =
          (if c = ''tenant_id'' \<and> column c old \<in> {VNone, VStr []} then default_tenant json_text ''obligations'' old
           else if c = ''created_at'' \<and> column c old = VNone then default_time (has_column ''recorded_at'' d) now_time old
           else column c old)) (tb_rows d) (tb_rows d')
    \<and> list_all2 (\<lambda>old new. \<forall>c. column c new =
          (if c = ''tenant_id'' \<and> column c old \<in> {VNone, VStr []} then default_tenant json_text ''details'' old
           else column c old)) (tb_rows e) (tb_rows e')
    \<and> dict_get (tb_columns d') ''tenant_id'' = Some True \<and> dict_get (tb_columns d') ''created_at'' = Some True
    \<and> dict_get (tb_columns e') ''tenant_id'' = Some True
    \<and> (\<forall>n. n = ''policy_decisions'' \<or> n = ''audit_events'' \<or> dict_get db' n = dict_get db n)"
proof -
  let ?db = "after_start json_text now_time db"
  let ?d = "decisions_after json_text now_time d" and ?e = "events_after json_text e"
  have "postgres_initialize json_text now_time db = (Inr (), ?db)"
    "postgres_initialize json_text later ?db = (Inr (), ?db)"
    using initialize_result legacy migratable_after_start [OF legacy] by (simp_all add: after_start_again)
  moreover have "dict_get ?db ''policy_decisions'' = Some ?d" "dict_get ?db ''audit_events'' = Some ?e"
    by (simp_all add: after_start_tables d e)
  moreover have "list_all2 (\<lambda>old new. \<forall>c. column c new =
          (if c = ''tenant_id'' \<and> column c old \<in> {VNone, VStr []} then default_tenant json_text ''obligations'' old
           else if c = ''created_at'' \<and> column c old = VNone then default_time (has_column ''recorded_at'' d) now_time old
           else column c old)) (tb_rows d) (tb_rows ?d)"
    by (simp add: decisions_after_rows list_all2_conv_all_nth column_decision_row_after)
  moreover have "list_all2 (\<lambda>old new. \<forall>c. column c new =
          (if c = ''tenant_id'' \<and> column c old \<in> {VNone, VStr []} then default_tenant json_text ''details'' old
           else column c old)) (tb_rows e) (tb_rows ?e)"
    by (simp add: events_after_rows list_all2_conv_all_nth column_backfill_tenant)
  moreover have "dict_get (tb_columns ?e) ''tenant_id'' = Some True" by (simp add: events_after_def)
  ultimately show ?thesis
    using decisions_after_columns(1,2) after_start_tables(3) by blast
qed

text \<open>A database of an older release: two decisions without tenant and creation time, one of a tenant.\<close>

definition legacy_database :: database where
  "legacy_database =
     [(''policy_decisions'',
        \<lparr>tb_columns = [(''decision_id'', True), (''subject'', True), (''resource'', True), (''action'', True),
           (''effect'', True), (''payload'', True), (''recorded_at'', True)],
         tb_rows =
           [[(''decision_id'', VStr ''d1''), (''payload'', VDict [(''obligations'', VDict [(''tenant_id'', VStr ''acme'')])]),
             (''recorded_at'', VInt 5)],
            [(''decision_id'', VStr ''d2''), (''payload'', VDict [(''obligations'', VDict [])]), (''recorded_at'', VInt 6)]]\<rparr>)]"

theorem evidence_migration_lossless_witness:
  "case postgres_initialize (\<lambda>_. []) 9 legacy_database of (r, db) \<Rightarrow>
     r = Inr () \<and> postgres_initialize (\<lambda>_. []) 10 db = (Inr (), db)
     \<and> (case dict_get db ''policy_decisions'' of None \<Rightarrow> False | Some t \<Rightarrow>
          map (column ''tenant_id'') (tb_rows t) = [VStr ''acme'', VStr ''demo'']
          \<and> map (column ''created_at'') (tb_rows t) = [VInt 5, VInt 6])"
proof -
  have legacy: "migratable legacy_database" by code_simp
  let ?db = "after_start (\<lambda>_. []) 9 legacy_database"
  have start: "postgres_initialize (\<lambda>_. []) 9 legacy_database = (Inr (), ?db)" by (rule initialize_result [OF legacy])
  have "postgres_initialize (\<lambda>_. []) 10 ?db = (Inr (), ?db)"
    using evidence_migration_lossless [OF legacy refl refl, of "\<lambda>_. []" 9 10] unfolding start by blast
  moreover have "case dict_get ?db ''policy_decisions'' of None \<Rightarrow> False | Some t \<Rightarrow>
      map (column ''tenant_id'') (tb_rows t) = [VStr ''acme'', VStr ''demo'']
      \<and> map (column ''created_at'') (tb_rows t) = [VInt 5, VInt 6]" by code_simp
  ultimately show ?thesis unfolding start by (simp only: prod.case simp_thms)
qed

text \<open>What the backfill of the audit events leaves out: a tenant under the key \<open>tenant\<close>, which the store
  itself writes for new events.\<close>

lemma backfill_ignores_tenant_key:
  "column ''tenant_id'' (backfill_tenant json_text ''details''
     [(''id'', VStr ''e1''), (''payload'', VDict [(''details'', VDict [(''tenant'', VStr ''acme'')])])]) = VStr ''demo''"
  "ev_details e = [(''tenant'', VStr ''acme'')] \<Longrightarrow> audit_tenant_id w e = ''acme''"
  by (simp_all add: backfill_tenant_def column_def dict_get_def dict_set_def json_field_def json_field_text_def
      nullif_empty_def audit_tenant_id_def get_truthy_def truthy_def py_str_def)

end
