(* ===== verification/Demo_Smoke.thy ===== *)
theory Demo_Smoke
  imports Governance Connectors
begin

text \<open>
  The smoke run of the demo (\<open>src/sdp/demo_smoke.py\<close>): the summary over the manifests, the evidence
  pack and four connector probes, its gate, and the exit code; and what it finds in a portal that
  has just started.
\<close>

section \<open>The summary\<close>

record smoke_summary =
  sk_product :: pystr
  sk_valuation_target_krw :: int
  sk_demo_activation_days :: int
  sk_primary_kpis :: nat
  sk_guardrail_kpis :: nat
  sk_demo_seed_datasets :: nat
  sk_metadata_validation_pass_rate :: rat
  sk_shacl_validation_pass_rate :: rat
  sk_steward_review_queue_count :: nat
  sk_steward_buyer_handoff_ready :: bool
  sk_ontology_mapping_coverage :: rat
  sk_enterprise_controls :: nat
  sk_implemented_enterprise_controls :: int
  sk_connector_probe_status :: pystr
  sk_connector_probe_dataset :: pystr
  sk_connector_probe_domain :: "pyval option"
  sk_rdf_connector_probe_status :: pystr
  sk_rdf_connector_probe_dataset :: pystr
  sk_file_lake_connector_probe_status :: pystr
  sk_file_lake_connector_probe_dataset :: pystr
  sk_rest_connector_probe_status :: pystr
  sk_rest_connector_adapter_status :: pystr
  sk_production_current_stage :: pystr
  sk_production_demo_release_ready :: bool
  sk_production_paid_pilot_ready :: bool
  sk_production_paid_pilot_blockers :: nat
  sk_ready :: bool

definition smoke_probes ::
  "process_env \<Rightarrow> 's catalog_state_scheme \<Rightarrow> connector_probe_result list result" where
  "smoke_probes env s =
     collect_results (\<lambda>(c, k). connector_probe env c k s)
       [(''sql_connector'', ''crm-customer-master''), (''rdf_connector'', ''semantic-glossary''),
        (''file_lake_connector'', ''crm-event''), (''rest_connector'', ''marketing-campaign'')]"

definition smoke_ready ::
  "activation_plan \<Rightarrow> evidence_pack \<Rightarrow> shacl_summary \<Rightarrow> steward_summary \<Rightarrow> connector_probe_result list \<Rightarrow> bool" where
  "smoke_ready demo_plan evidence shacl steward probes \<longleftrightarrow>
     er_valuation_target_krw enterprise_readiness_manifest = 2000000000
     \<and> bp_activation_days demo_plan \<le> 10
     \<and> 3 \<le> length (bp_demo_datasets demo_plan)
     \<and> 95/100 \<le> ep_metadata_validation_pass_rate evidence
     \<and> 95/100 \<le> sv_validation_pass_rate shacl
     \<and> sw_buyer_handoff_ready steward
     \<and> 7/10 \<le> ep_ontology_mapping_coverage evidence
     \<and> 3 \<le> length (kf_primary_kpis enterprise_kpi_framework)
     \<and> 2 \<le> em_implemented_controls enterprise_controls_manifest
     \<and> cp_demo_context (probes ! 0) \<noteq> None
     \<and> cp_status (probes ! 0) = ''ready_for_demo''
     \<and> cp_status (probes ! 1) = ''ready_for_demo''
     \<and> cp_status (probes ! 2) = ''ready_for_demo''
     \<and> cp_adapter_status (probes ! 3) = ''implemented''"

definition summary_of ::
  "activation_plan \<Rightarrow> evidence_pack \<Rightarrow> shacl_summary \<Rightarrow> steward_summary \<Rightarrow> connector_probe_result list \<Rightarrow> smoke_summary" where
  "summary_of demo_plan evidence shacl steward probes =
     (let readiness = enterprise_readiness_manifest; controls = enterprise_controls_manifest;
          kpis = enterprise_kpi_framework; production = enterprise_production_readiness_manifest
      in \<lparr>sk_product = er_product readiness, sk_valuation_target_krw = er_valuation_target_krw readiness,
          sk_demo_activation_days = bp_activation_days demo_plan,
          sk_primary_kpis = length (kf_primary_kpis kpis), sk_guardrail_kpis = length (kf_guardrail_kpis kpis),
          sk_demo_seed_datasets = length (bp_demo_datasets demo_plan),
          sk_metadata_validation_pass_rate = ep_metadata_validation_pass_rate evidence,
          sk_shacl_validation_pass_rate = sv_validation_pass_rate shacl,
          sk_steward_review_queue_count = sw_review_queue_count steward,
          sk_steward_buyer_handoff_ready = sw_buyer_handoff_ready steward,
          sk_ontology_mapping_coverage = ep_ontology_mapping_coverage evidence,
          sk_enterprise_controls = length (em_controls controls),
          sk_implemented_enterprise_controls = em_implemented_controls controls,
          sk_connector_probe_status = cp_status (probes ! 0), sk_connector_probe_dataset = cp_dataset_id (probes ! 0),
          sk_connector_probe_domain = (case cp_demo_context (probes ! 0) of None \<Rightarrow> None | Some c \<Rightarrow> dict_get c ''domain_id''),
          sk_rdf_connector_probe_status = cp_status (probes ! 1), sk_rdf_connector_probe_dataset = cp_dataset_id (probes ! 1),
          sk_file_lake_connector_probe_status = cp_status (probes ! 2),
          sk_file_lake_connector_probe_dataset = cp_dataset_id (probes ! 2),
          sk_rest_connector_probe_status = cp_status (probes ! 3), sk_rest_connector_adapter_status = cp_adapter_status (probes ! 3),
          sk_production_current_stage = pm_current_stage production,
          sk_production_demo_release_ready = pm_demo_release_ready production,
          sk_production_paid_pilot_ready = pm_paid_pilot_ready production,
          sk_production_paid_pilot_blockers = length (pm_paid_pilot_blockers production),
          sk_ready = smoke_ready demo_plan evidence shacl steward probes\<rparr>)"

definition smoke_summary_of ::
  "process_env \<Rightarrow> 's ontology_state_scheme \<Rightarrow> smoke_summary result \<times> 's ontology_state_scheme" where
  "smoke_summary_of env s =
     (case buyer_demo_activation_plan ''customer intelligence'' None s of
        (Inl e, s) \<Rightarrow> (Inl e, s)
      | (Inr demo_plan, s) \<Rightarrow>
          (case build_enterprise_evidence_pack s of
             (Inl e, s) \<Rightarrow> (Inl e, s)
           | (Inr evidence, s) \<Rightarrow>
               (case enterprise_shacl_validation_summary s of
                  Inl e \<Rightarrow> (Inl e, s)
                | Inr shacl \<Rightarrow>
                    (case build_steward_review_summary s of
                       Inl e \<Rightarrow> (Inl e, s)
                     | Inr steward \<Rightarrow>
                         (map_sum id (summary_of demo_plan evidence shacl steward) (smoke_probes env s), s)))))"

text \<open>The exit code: 0 when the gate holds.\<close>

definition smoke_main :: "process_env \<Rightarrow> 's ontology_state_scheme \<Rightarrow> int result \<times> 's ontology_state_scheme" where
  "smoke_main env s = map_prod (map_sum id (\<lambda>sm. if sk_ready sm then 0 else 1)) id (smoke_summary_of env s)"

section \<open>A portal that has just started\<close>

lemma catalog_data_load:
  assumes "distinct (map ds_id seeds)"
  shows "catalog_data (load_catalog seeds s) = map (\<lambda>ds. (ds_id ds, recompute_scores ds)) seeds"
proof -
  have "catalog_data (fold record_schema_snapshot dss t) = catalog_data t" for dss and t :: "'a catalog_state_scheme"
    by simp
  moreover have "dict_of (map (\<lambda>ds. (ds_id ds, ds)) seeds) = map (\<lambda>ds. (ds_id ds, ds)) seeds"
    using assms unfolding dict_of_def by (subst dict_update_disjoint) (simp_all add: o_def)
  ultimately show ?thesis by (simp add: load_catalog_def initialize_schema_history_def o_def Let_def)
qed

definition demo_seeds :: "'s catalog_state_scheme \<Rightarrow> dataset list" where
  "demo_seeds s = fst (customer_intelligence_datasets s)"

lemma demo_seed_ids: "map ds_id (demo_seeds s) = dd_dataset_ids customer_intelligence_domain"
  by (simp add: demo_seeds_def customer_intelligence_datasets_def case_prod_unfold Let_def demo_dataset_ids
      customer_intelligence_domain_def)

lemma started_catalog_data:
  "catalog_data (started_catalog s) = map (\<lambda>ds. (ds_id ds, recompute_scores ds)) (demo_seeds s)"
proof -
  have "distinct (map ds_id (demo_seeds s))" by (simp add: demo_seed_ids customer_intelligence_domain_def)
  then show ?thesis
    by (simp add: started_catalog_def buyer_demo_datasets_def case_prod_unfold Let_def catalog_data_load demo_seeds_def)
qed

definition as_started :: "dataset list \<Rightarrow> 's ontology_state_scheme \<Rightarrow> bool" where
  "as_started seeds s \<longleftrightarrow> catalog_inv s \<and> ontology_patches s = []
     \<and> catalog_data s = map (\<lambda>ds. (ds_id ds, recompute_scores ds)) seeds"

lemma as_started_start: "as_started (demo_seeds s) (load_ontology (started_catalog s))"
proof -
  have "catalog_inv (load_ontology (started_catalog s)) = catalog_inv (started_catalog s)"
    by (simp add: catalog_inv_def history_of_def load_ontology_def split: option.split)
  then show ?thesis by (simp add: as_started_def catalog_inv_started load_ontology_def started_catalog_data)
qed

lemma as_started_clock [simp]: "as_started seeds (s\<lparr>clock_tick := n\<rparr>) = as_started seeds s"
  by (simp add: as_started_def)

lemma recomputed_conforms: "conforms (recompute_scores ds) = conforms ds"
  by (simp add: conforms_def recompute_scores_def missing_metadata_def approved_mappings_def Let_def)

lemma demo_seeds_conform: "list_all conforms (demo_seeds s)"
  using customer_intelligence_ok [of s]
  by (auto simp: demo_seeds_def list_all_iff demo_dataset_ok_def conforms_def approved_mappings_Nil)

lemma started_datasets:
  assumes "as_started (demo_seeds s0) s"
  shows "list_datasets s \<noteq> []" "list_all conforms (list_datasets s)"
proof -
  have ds: "list_datasets s = map recompute_scores (demo_seeds s0)"
    using assms by (simp add: as_started_def list_datasets_def dict_values_def o_def)
  show "list_all conforms (list_datasets s)"
    using demo_seeds_conform [of s0] by (simp add: ds list_all_iff recomputed_conforms)
  have "map ds_id (demo_seeds s0) \<noteq> []" by (simp add: demo_seed_ids customer_intelligence_domain_def)
  then show "list_datasets s \<noteq> []" by (simp add: ds)
qed

definition mapping_counts :: "dataset \<Rightarrow> nat \<times> nat" where
  "mapping_counts ds =
     (length (filter (\<lambda>m. map_status m = status_APPROVED) (ds_mappings ds)), length (ds_mappings ds))"

lemma demo_mapping_counts:
  "mapping_counts (fst (demo_customer_master a s)) = (2, 2)" "mapping_counts (fst (demo_crm_event a s)) = (1, 2)"
  "mapping_counts (fst (demo_sales_order a s)) = (2, 2)" "mapping_counts (fst (demo_semantic_glossary a s)) = (4, 4)"
  "mapping_counts (fst (demo_marketing_campaign a s)) = (2, 2)"
  by (simp_all add: mapping_counts_def demo_dataset_defs status_APPROVED_def status_PROPOSED_def)

lemma started_coverage:
  assumes "as_started (demo_seeds s0) s"
  shows "7/10 \<le> ontology_mapping_coverage s"
proof -
  have ds: "map ds_mappings (list_datasets s) = map ds_mappings (demo_seeds s0)"
    using assms by (simp add: as_started_def list_datasets_def dict_values_def o_def recompute_scores_def Let_def)
  let ?mappings = "concat (map ds_mappings (demo_seeds s0))"
  have counts: "length (filter (\<lambda>m. map_status m = status_APPROVED) ?mappings) = 11" "length ?mappings = 12"
    by (simp_all add: demo_seeds_def customer_intelligence_datasets_def case_prod_unfold Let_def
        demo_mapping_counts [unfolded mapping_counts_def prod.inject])
  have "7/10 \<le> ratio 11 12" by code_simp
  then show ?thesis by (simp add: ontology_mapping_coverage_def ds counts Let_def)
qed

lemma started_get:
  assumes "as_started (demo_seeds s0) s" and "ds \<in> set (demo_seeds s0)"
  shows "get_dataset (ds_id ds) s = Some (recompute_scores ds)"
  using assms by (auto simp: as_started_def catalog_inv_def get_dataset_def intro!: dict_get_is_Some_in)

text \<open>The sources the probes of the smoke run read.\<close>

lemma demo_source_systems:
  "startswith (ds_source_system (fst (demo_customer_master a s))) ''postgresql://''"
  "startswith (ds_source_system (fst (demo_semantic_glossary a s))) ''sparql://''"
  "startswith (ds_source_system (fst (demo_crm_event a s))) ''s3://''"
  "startswith (ds_source_system (fst (demo_marketing_campaign a s))) ''https://''"
  by (simp_all add: demo_dataset_defs startswith_def)

lemma demo_seed_sources:
  "\<exists>ds \<in> set (demo_seeds s). ds_id ds = ''crm-customer-master'' \<and> startswith (ds_source_system ds) ''postgresql://''"
  "\<exists>ds \<in> set (demo_seeds s). ds_id ds = ''semantic-glossary'' \<and> startswith (ds_source_system ds) ''sparql://''"
  "\<exists>ds \<in> set (demo_seeds s). ds_id ds = ''crm-event'' \<and> startswith (ds_source_system ds) ''s3://''"
  "\<exists>ds \<in> set (demo_seeds s). ds_id ds = ''marketing-campaign'' \<and> startswith (ds_source_system ds) ''https://''"
  by (simp_all add: demo_seeds_def customer_intelligence_datasets_def case_prod_unfold Let_def demo_dataset_ids
      demo_source_systems)

lemma started_backed:
  assumes started: "as_started (demo_seeds s0) s" and ds: "ds \<in> set (demo_seeds s0)"
    and source: "startswith (ds_source_system ds) scheme" and "scheme \<in> set schemes"
  shows "backed_dataset schemes message (ds_id ds) s = Inr (recompute_scores ds)"
  using assms(3,4) started_get [OF started ds]
  by (auto simp: backed_dataset_def list_ex_iff recompute_scores_def Let_def)

lemma control_evidence_total:
  "control \<noteq> ''credential_vault'' \<Longrightarrow> \<exists>e. control_evidence env c k control = Inr e"
  by (simp add: control_evidence_def Let_def)

text \<open>A probe of a backed dataset: an answer with its adapter implemented, ready when no credential is
  required, or the exception of the credential.\<close>

lemma probe_backed:
  assumes connector: "dict_get connectors_by_id c = Some capability" "dict_get source_connectors c = Some adapter"
    and ds: "get_dataset k s = Some ds" "so_inspect_schema adapter k s = Inr i"
  shows "case connector_probe env c k s of
     Inl e \<Rightarrow> ''credential_vault'' \<in> set (cc_required_controls capability) \<and> connector_secret_status env c k = Inl e
   | Inr p \<Rightarrow> cp_adapter_status p = ''implemented'' \<and> cp_demo_context p = buyer_demo_context_for_dataset (ds_id ds)
       \<and> (cp_status p = ''ready_for_demo'' \<or> ''credential_vault'' \<in> set (cc_required_controls capability))"
proof (cases "collect_results (control_evidence env c k) (cc_required_controls capability)")
  case (Inl e)
  obtain control where "control \<in> set (cc_required_controls capability)" "control_evidence env c k control = Inl e"
    using collect_results_Inl [OF Inl] by blast
  then have "''credential_vault'' \<in> set (cc_required_controls capability)" "connector_secret_status env c k = Inl e"
    using control_evidence_total [of control env c k]
    by (auto simp: control_evidence_def Let_def split: if_split_asm sum.splits)
  then show ?thesis using Inl connector ds by (simp add: connector_probe_def)
next
  case (Inr evidence)
  have "capability \<in> set connector_registry_manifest" using connectors_by_id_registered [OF connector(1)] by simp
  from all_controls_satisfied [OF this Inr] show ?thesis
    using Inr connector ds by (auto simp: connector_probe_def probe_result_def Let_def)
qed

lemma connectors_found:
  "map_option cc_required_controls (dict_get connectors_by_id ''sql_connector'')
     = Some [''policy_before_query'', ''row_limit'', ''timeout_ms'', ''audit_event'', ''pii_masking'']"
  "map_option cc_required_controls (dict_get connectors_by_id ''rdf_connector'')
     = Some [''ontology_version_pin'', ''policy_before_query'', ''audit_event'']"
  "map_option cc_required_controls (dict_get connectors_by_id ''file_lake_connector'')
     = Some [''sample_budget'', ''pii_profile'', ''lineage_capture'', ''audit_event'']"
  "map_option cc_required_controls (dict_get connectors_by_id ''rest_connector'')
     = Some [''credential_vault'', ''purpose_binding'', ''audit_event'']"
  by code_simp+

lemma plain_probe_ready:
  assumes "map_option cc_required_controls (dict_get connectors_by_id c) = Some controls" "''credential_vault'' \<notin> set controls"
    and "dict_get source_connectors c = Some adapter" "get_dataset k s = Some ds" "so_inspect_schema adapter k s = Inr i"
  shows "\<exists>p. connector_probe env c k s = Inr p \<and> cp_status p = ''ready_for_demo''
    \<and> cp_demo_context p = buyer_demo_context_for_dataset (ds_id ds)"
  using assms probe_backed [OF _ assms(3-5), of _ env] by (auto split: sum.splits)

lemma demo_context: "buyer_demo_context_for_dataset ''crm-customer-master'' \<noteq> None"
  by code_simp

lemma started_probes:
  assumes started: "as_started (demo_seeds s0) s"
  shows "case smoke_probes env s of
     Inl e \<Rightarrow> connector_secret_status env ''rest_connector'' ''marketing-campaign'' = Inl e
   | Inr probes \<Rightarrow> cp_demo_context (probes ! 0) \<noteq> None \<and> cp_status (probes ! 0) = ''ready_for_demo''
       \<and> cp_status (probes ! 1) = ''ready_for_demo'' \<and> cp_status (probes ! 2) = ''ready_for_demo''
       \<and> cp_adapter_status (probes ! 3) = ''implemented''"
proof -
  note backed = started_backed [OF started] and get = started_get [OF started]
  obtain a where a: "a \<in> set (demo_seeds s0)" "ds_id a = ''crm-customer-master''" "startswith (ds_source_system a) ''postgresql://''"
    using demo_seed_sources(1) by blast
  obtain b where b: "b \<in> set (demo_seeds s0)" "ds_id b = ''semantic-glossary''" "startswith (ds_source_system b) ''sparql://''"
    using demo_seed_sources(2) by blast
  obtain c where c: "c \<in> set (demo_seeds s0)" "ds_id c = ''crm-event''" "startswith (ds_source_system c) ''s3://''"
    using demo_seed_sources(3) by blast
  obtain d where d: "d \<in> set (demo_seeds s0)" "ds_id d = ''marketing-campaign''" "startswith (ds_source_system d) ''https://''"
    using demo_seed_sources(4) by blast
  have adapters: "dict_get source_connectors ''sql_connector'' = Some
      \<lparr>so_connector_id = ''sql_connector'', so_source_type = ''warehouse_or_rdbms'',
        so_inspect_schema = sql_inspect_schema, so_preview = sql_preview\<rparr>"
    "dict_get source_connectors ''rdf_connector'' = Some
      \<lparr>so_connector_id = ''rdf_connector'', so_source_type = ''semantic_store'',
        so_inspect_schema = rdf_inspect_schema, so_preview = rdf_preview\<rparr>"
    "dict_get source_connectors ''file_lake_connector'' = Some
      \<lparr>so_connector_id = ''file_lake_connector'', so_source_type = ''object_storage_or_lakehouse'',
        so_inspect_schema = lake_inspect_schema, so_preview = lake_preview\<rparr>"
    "dict_get source_connectors ''rest_connector'' = Some
      \<lparr>so_connector_id = ''rest_connector'', so_source_type = ''governed_api'',
        so_inspect_schema = rest_inspect_schema, so_preview = rest_preview\<rparr>"
    by (simp_all add: source_connectors_def dict_get_def)
  obtain p where p: "connector_probe env ''sql_connector'' ''crm-customer-master'' s = Inr p" "cp_status p = ''ready_for_demo''"
    "cp_demo_context p \<noteq> None"
    using plain_probe_ready [OF connectors_found(1) _ adapters(1) get [OF a(1)], of _ env] backed [OF a(1,3)] demo_context
    by (auto simp: a(2) sql_inspect_schema_def)
  obtain q where q: "connector_probe env ''rdf_connector'' ''semantic-glossary'' s = Inr q" "cp_status q = ''ready_for_demo''"
    using plain_probe_ready [OF connectors_found(2) _ adapters(2) get [OF b(1)], of _ env] backed [OF b(1,3)]
    by (auto simp: b(2) rdf_inspect_schema_def)
  obtain r where r: "connector_probe env ''file_lake_connector'' ''crm-event'' s = Inr r" "cp_status r = ''ready_for_demo''"
    using plain_probe_ready [OF connectors_found(3) _ adapters(3) get [OF c(1)], of _ env] backed [OF c(1,3)]
    by (auto simp: c(2) lake_inspect_schema_def)
  have rest: "case connector_probe env ''rest_connector'' ''marketing-campaign'' s of
      Inl e \<Rightarrow> connector_secret_status env ''rest_connector'' ''marketing-campaign'' = Inl e
    | Inr p \<Rightarrow> cp_adapter_status p = ''implemented''"
  proof -
    obtain capability where "dict_get connectors_by_id ''rest_connector'' = Some capability"
      using connectors_found(4) by auto
    from probe_backed [OF this adapters(4) get [OF d(1)], of _ env] backed [OF d(1,3)] show ?thesis
      by (auto simp: d(2) rest_inspect_schema_def split: sum.splits)
  qed
  show ?thesis
    using rest p q r by (auto simp: smoke_probes_def split: sum.splits)
qed

lemma started_steward:
  assumes "as_started (demo_seeds s0) s"
  shows "\<exists>sm. build_steward_review_summary s = Inr sm \<and> sw_buyer_handoff_ready sm"
proof -
  have inv: "catalog_inv s" and patches: "ontology_patches s = []" using assms by (simp_all add: as_started_def)
  note ds = started_datasets [OF assms]
  have "review_items_of (map report_of (list_datasets s)) = []"
    using ds(2) by (auto simp: review_items_of_def filter_map o_def report_conforms list_all_iff filter_empty_conv)
  then show ?thesis
    using all_conform_rates [OF ds]
    by (simp add: build_steward_review_summary_def summary_of_catalog [OF inv] list_patches_def patches Let_def)
qed

lemma default_plan_days:
  "fst (buyer_demo_activation_plan ''customer intelligence'' None s) = Inr plan \<Longrightarrow>
   bp_activation_days plan \<le> 10 \<and> length (bp_demo_datasets plan) = 5"
proof -
  assume plan: "fst (buyer_demo_activation_plan ''customer intelligence'' None s) = Inr plan"
  have "bp_activation_days (plan_of priority domain connectors summaries) \<le> 10" for priority domain connectors summaries
    by (simp add: plan_of_def)
  then have "bp_activation_days plan \<le> 10"
    using plan by (auto simp: buyer_demo_activation_plan_def Let_def case_prod_unfold split: if_splits option.splits sum.splits)
  moreover have "length (bp_demo_datasets plan) = length (dd_dataset_ids customer_intelligence_domain)"
    using plan default_plan [of s] by (metis length_map sum.inject(2))
  ultimately show ?thesis by (simp add: customer_intelligence_domain_def)
qed

lemma started_plan:
  assumes "as_started (demo_seeds s0) s"
  shows "\<exists>plan n. buyer_demo_activation_plan ''customer intelligence'' None s = (Inr plan, s\<lparr>clock_tick := n\<rparr>)
    \<and> bp_activation_days plan \<le> 10 \<and> length (bp_demo_datasets plan) = 5"
  using default_plan [of s] default_plan_days [of s] plan_only_reads_clock [of "''customer intelligence''" None s]
  by (metis prod.collapse)

lemma started_pack:
  assumes "as_started (demo_seeds s0) s"
  shows "\<exists>pack n. build_enterprise_evidence_pack s = (Inr pack, s\<lparr>clock_tick := n\<rparr>)
    \<and> ep_metadata_validation_pass_rate pack = 1 \<and> 7/10 \<le> ep_ontology_mapping_coverage pack"
proof -
  obtain plan n where plan: "buyer_demo_activation_plan ''customer intelligence'' None s = (Inr plan, s\<lparr>clock_tick := n\<rparr>)"
    using started_plan [OF assms] by blast
  let ?s = "s\<lparr>clock_tick := n\<rparr>"
  have started: "as_started (demo_seeds s0) ?s" using assms by simp
  obtain sm where sm: "build_steward_review_summary ?s = Inr sm" using started_steward [OF started] by blast
  have inv: "catalog_inv ?s" using started by (simp add: as_started_def)
  have "metadata_validation_pass_rate ?s = 1" by (rule all_conform_rates [OF started_datasets [OF started]])
  then show ?thesis
    using started_coverage [OF started]
    by (simp add: build_enterprise_evidence_pack_def plan summary_of_catalog [OF inv] sm Let_def) blast
qed

text \<open>
  The demo is ready as it ships: in a portal that has just started, the smoke run passes its gate and
  exits with 0, over five demo datasets, and leaves the portal as it was but for the clock; only
  a misconfigured connector vault makes it raise.
\<close>

theorem demo_starts_ready:
  "case smoke_summary_of env (load_ontology (started_catalog s)) of
     (Inl e, _) \<Rightarrow> connector_secret_status env ''rest_connector'' ''marketing-campaign'' = Inl e
   | (Inr sm, s') \<Rightarrow> sk_ready sm \<and> sk_demo_seed_datasets sm = 5
       \<and> (\<exists>n. s' = (load_ontology (started_catalog s))\<lparr>clock_tick := n\<rparr>)
       \<and> smoke_main env (load_ontology (started_catalog s)) = (Inr 0, s')"
proof -
  let ?s = "load_ontology (started_catalog s)"
  note started = as_started_start [of s]
  obtain plan m where plan: "buyer_demo_activation_plan ''customer intelligence'' None ?s = (Inr plan, ?s\<lparr>clock_tick := m\<rparr>)"
    "bp_activation_days plan \<le> 10" "length (bp_demo_datasets plan) = 5"
    using started_plan [OF started] by blast
  have started': "as_started (demo_seeds s) (?s\<lparr>clock_tick := m\<rparr>)" using started by simp
  obtain pack n where pack: "build_enterprise_evidence_pack (?s\<lparr>clock_tick := m\<rparr>) = (Inr pack, ?s\<lparr>clock_tick := n\<rparr>)"
    "ep_metadata_validation_pass_rate pack = 1" "7/10 \<le> ep_ontology_mapping_coverage pack"
    using started_pack [OF started'] by auto
  let ?t = "?s\<lparr>clock_tick := n\<rparr>"
  have t: "as_started (demo_seeds s) ?t" using started by simp
  obtain sm where sm: "build_steward_review_summary ?t = Inr sm" "sw_buyer_handoff_ready sm"
    using started_steward [OF t] by blast
  have inv: "catalog_inv ?t" using t by (simp add: as_started_def)
  obtain shacl where shacl: "enterprise_shacl_validation_summary ?t = Inr shacl" "sv_validation_pass_rate shacl = 1"
    using summary_of_catalog [OF inv] all_conform_rates(2) [OF started_datasets [OF t]] by simp
  have manifests: "er_valuation_target_krw enterprise_readiness_manifest = 2000000000"
    "3 \<le> length (kf_primary_kpis enterprise_kpi_framework)"
    "2 \<le> em_implemented_controls enterprise_controls_manifest"
    by code_simp+
  have run: "smoke_summary_of env ?s = (map_sum id (summary_of plan pack shacl sm) (smoke_probes env ?t), ?t)"
    by (simp add: smoke_summary_of_def plan(1) pack(1) shacl(1) sm(1))
  show ?thesis
  proof (cases "smoke_probes env ?t")
    case (Inl e)
    then show ?thesis using started_probes [OF t, of env] by (simp add: run)
  next
    case (Inr probes)
    then have "smoke_ready plan pack shacl sm probes"
      using started_probes [OF t, of env] plan(2,3) pack(2,3) shacl(2) sm(2) manifests
      unfolding smoke_ready_def by simp
    then show ?thesis
      using Inr plan(3) by (auto simp: run smoke_main_def summary_of_def Let_def)
  qed
qed

end
