(* ===== verification/Spec2Isabelle.thy ===== *)
theory Spec2Isabelle
  imports Portal Catalog_Progress Migrate Evidence_Migration Demo_Smoke
begin

text \<open>
  A model of the semantic data portal: the service that lets a company's people find, describe,
  preview and query its datasets, under a policy that records and audits every decision.  Every
  definition is translated from the Python under \<open>src/src/sdp\<close>, \<open>src/src/sdp_core\<close> and
  \<open>src/migrations\<close>; paths below are relative to \<open>src/\<close>.

  The program and its parts.

  A request reaches the HTTP API (\<open>src/sdp/api.py\<close>), which looks the subject up
  (\<open>authz.py\<close>), reads or changes the catalog (\<open>catalog.py\<close>), asks the policy (\<open>policy.py\<close>) before
  rows are previewed (\<open>browse.py\<close>) or SQL is drafted and executed (\<open>orchestrator.py\<close>), and keeps
  the business ontology (\<open>ontology.py\<close>) and the graph (\<open>graph_store.py\<close>).  Every decision and every
  audit event goes to the evidence stores (\<open>sdp_core/stores.py\<close>).  A middleware observes each
  request (\<open>observability.py\<close>).  The rest describes the portal: manifests, readiness, connectors,
  the evidence pack, the demo.

  The theories, in the order they build on each other.

  \<^item> \<open>Prelude\<close>: Python text and its methods, dynamically typed values (\<open>pyval\<close>), exceptions and
    results (\<open>error + 'a\<close>), dictionaries in insertion order, slices, stable sorts, and the world
    record: a stream of uuids and a clock, both read by position.
  \<^item> \<open>Contracts\<close> (\<open>sdp_core/contracts.py\<close>): the data model, a record per pydantic class, its field
    constraints, and the scores of a dataset.
  \<^item> \<open>Evidence\<close> (\<open>sdp_core/stores.py\<close>, \<open>sdp/evidence.py\<close>): decisions and audit events kept in the
    process, in SQLite or in Postgres; a table is the list of its rows.  \<open>Evidence_Migration\<close>: what
    the start of the Postgres store does to tables an earlier version left behind.
  \<^item> \<open>Authz\<close> (\<open>sdp/authz.py\<close>): the built-in subjects, the tenant check, OIDC claims, the role map and
    the checks around a signed token.
  \<^item> \<open>Catalog\<close>, \<open>Catalog_Invariant\<close>, \<open>Catalog_Progress\<close>, \<open>Catalog_Queries\<close>
    (\<open>sdp/catalog.py\<close>): datasets, schema history and the audit log with the operations that change
    them; what these keep; which datasets can come to be published; what search, facets, diffs and
    join suggestions return.
  \<^item> \<open>Policy\<close> (\<open>sdp/policy.py\<close>), \<open>Browse\<close> (\<open>sdp/browse.py\<close>), \<open>Orchestrator\<close>
    (\<open>sdp/orchestrator.py\<close>), \<open>Ontology\<close> (\<open>sdp/ontology.py\<close>): the access decision, the masked
    preview, the SQL guard with drafts and execution, the concepts with their patches.
  \<^item> \<open>Embeddings\<close> (\<open>sdp/embeddings.py\<close>), \<open>GraphStore\<close> and \<open>Graph_Traversal\<close> (the in-memory store of
    \<open>sdp/graph_store.py\<close> and its traversal), \<open>Graph_Postgres\<close> (the Postgres store and the choice
    between the two), \<open>Graph_Seed\<close> (the store whichever backend is active, and \<open>sdp/seed.py\<close>).
  \<^item> \<open>Demo_Seed\<close> (\<open>sdp_core/demo_seed.py\<close>), \<open>Manifests\<close> (\<open>enterprise.py\<close>, \<open>production.py\<close>,
    \<open>kpis.py\<close>, \<open>rbac.py\<close>), \<open>Readiness\<close> (\<open>readiness.py\<close>): what ships with the portal and what it says
    of itself, as literals and the functions over them.
  \<^item> \<open>Connectors\<close> (\<open>sdp/connectors.py\<close>, \<open>sdp/credentials.py\<close>), \<open>Config\<close> (\<open>sdp/config.py\<close> and the
    scripts of \<open>migrations/run_migrations.py\<close>), \<open>Migrate\<close> (the run of the migrations: scripts,
    configuration and graph seed over one database), \<open>Governance\<close> (\<open>semantic_validation.py\<close>, \<open>steward_review.py\<close>,
    \<open>enterprise_evidence.py\<close>), \<open>Observability\<close> (\<open>observability.py\<close>).
  \<^item> \<open>Api_Catalog\<close>, \<open>Api_Graph\<close>, \<open>Api\<close> (\<open>sdp/api.py\<close>, \<open>sdp/graph_models.py\<close>): every endpoint with
    its checks and its exception clauses, the datatype of requests, the dispatch and the middleware.
    \<open>Portal\<close>: what holds of every request and of every state the portal reaches.
  \<^item> \<open>Design_Tokens\<close> (\<open>sdp/design_tokens.py\<close>), \<open>Console\<close> (\<open>sdp/console.py\<close>): the style tokens and
    their expansion, the page of the operator console and the token block put into it.
    \<open>Demo_Smoke\<close> (\<open>sdp/demo_smoke.py\<close>): the smoke run of the demo and its gate.

  State.  The module-level variables of the program are the fields of records that extend each
  other: the world, then \<open>evidence_state\<close> (the evidence stores), \<open>catalog_state\<close> (datasets and
  schema history), \<open>ontology_state\<close> (concept index and patches), \<open>portal_state\<close> (the ring buffers
  of observations and export errors) and \<open>api_state\<close> (the active graph store, absent until it is
  first used).  An operation of a component is a function on the scheme of its own record, so the
  components above it call it unchanged.  An operation that can raise returns a result beside the
  state, and the state it returns with an exception is what the code leaves behind.

  Contracts.  Four locales state what a component relies on, and each is interpreted on the model
  of the code that provides it: \<open>keyed_table\<close> (a row put under a key is found under it, others are
  left alone) on the tables of decisions, events, nodes, edges, embeddings and concepts;
  \<open>governed_source\<close> (rows only after an allow decision that was audited) on the four connectors;
  \<open>graph_backend\<close> (a write refines the abstract graph, a refused one changes nothing) on the
  in-memory and the Postgres store; \<open>backend_pair\<close> on the two together.

  What is shown.

  \<^item> Access: \<open>evaluate\<close> allows exactly what the guards of the policy allow, and records what it
    decided; no preview shows a PII value; a query runs only if the guard and the policy accept it;
    connectors are governed like the browser; a verified token grants group roles only; a probe
    never reveals a secret.
  \<^item> Invariants by induction over the operations: schema versions without gaps, the audit log,
    patches that settle once; and over every request of the API: the catalog changes only for an
    administrator, the graph likewise, the buffers stay bounded, the catalog and the ontology stay
    well formed.
  \<^item> Functional behaviour against a declarative specification: search is the best matches in order,
    schema diff partitions the columns, term resolution is ranked, traversal returns exactly the
    nodes within reach of the given depth, the concept graph is canonical.
  \<^item> Refinement and equivalence: a configured store lists the decisions that
    the process's own log would list, the two graph backends
    agree, the migration of the evidence tables loses no row, the published RBAC matrix says
    what the policy does; a migration run gives its vectors the dimension of its schema.
  \<^item> Errors: a mutation that raises leaves the catalog alone, an unknown dataset and a failing graph
    query have the status the API documents.
  \<^item> Progress: a dataset can be brought to publication exactly when it is published or has an owner
    and a distribution, the two required fields a patch cannot supply.
  \<^item> Termination and bounds: the expansion of a design token ends, drafts stay within their limits,
    the buffer keeps the latest observations.

  Bounds.  Loops over data are recursions on lists.  The queue of the traversal empties because each
  step either drops an entry or discovers a node not seen before: their number is the measure of its
  termination proof.  The expansion of token references has the code's own cap of one hundred
  replacements; \<open>Design_Tokens\<close> shows what each outcome means for any table, and that no token shipped
  meets the cap.  The ring buffers hold 500
  observations and 50 export errors, the sizes in the code.  Python's unbounded integers are \<open>int\<close> or
  \<open>nat\<close>; scores and ratios are rationals and the embedding's components reals, so the rounding of
  floats is not modelled.

  Parameters.  What is not part of the repository is an argument of the definitions that use it: the
  process environment, the JWT library, the digest behind the embeddings, the graph engine of
  Postgres and its vector distance, the SQL engine that runs the migration scripts, the log sink,
  pydantic's parsing of a JSON body, uuids and the clock.  Theorems hold for every value of these unless a hypothesis names the documented behaviour
  they rest on.

  Not modelled.  What the console's script does in the browser; the package modules \<open>__init__\<close> and
  \<open>domain.py\<close>, which only re-export names.  FastAPI's routing and CORS headers, psycopg's and sqlite3's
  own behaviour below the level of tables, the listing of script files and the printing of the
  command line tools are input and output.  \<open>override_app_config\<close> is a helper of the tests.  The
  fuzz target and the tests are not part of the program.
\<close>

end
